(* ===== verification/Prelude.thy ===== *)
theory Prelude
  imports Main "HOL-Library.AList" "HOL-Library.List_Lexorder" "HOL-Library.Sublist"
begin

text \<open>
  Shared vocabulary of the development: Python text as lists of code points with the string
  methods the program calls, Python dictionaries as association lists in insertion order,
  clock values, and the generic list lemmas the components use.

  Text is exact for every code point in the operations that do not look at character classes
  (concatenation, length, equality, order, splitting and joining). The character classes follow
  Python exactly for whitespace; for decimal digits and letter case they follow Python up to
  code point 255 and leave later code points alone.
\<close>

named_theorems frame_simps "what an operation leaves unchanged"
named_theorems perm_simps "evaluation of the permission predicates"

section \<open>Text\<close>

type_synonym pystr = "nat list"

definition lit :: "string \<Rightarrow> pystr" where
  "lit s = map of_char s"

lemma lit_inject [simp]: "lit s = lit t \<longleftrightarrow> s = t"
  by (simp add: lit_def inj_map_eq_map [OF inj_of_char])

lemma lit_eq_Nil [simp]: "lit s = [] \<longleftrightarrow> s = []" "[] = lit s \<longleftrightarrow> s = []"
  by (auto simp: lit_def)

lemma length_lit [simp]: "length (lit s) = length s"
  by (simp add: lit_def)

lemma lit_Nil [simp]: "lit [] = []"
  by (simp add: lit_def)

definition py_isspace :: "nat \<Rightarrow> bool" where
  "py_isspace c \<longleftrightarrow> (9 \<le> c \<and> c \<le> 13) \<or> (28 \<le> c \<and> c \<le> 32) \<or> c = 133 \<or> c = 160 \<or> c = 5760
     \<or> (8192 \<le> c \<and> c \<le> 8202) \<or> c = 8232 \<or> c = 8233 \<or> c = 8239 \<or> c = 8287 \<or> c = 12288"

definition py_lstrip :: "pystr \<Rightarrow> pystr" where
  "py_lstrip s = dropWhile py_isspace s"

definition py_strip :: "pystr \<Rightarrow> pystr" where
  "py_strip s = rev (dropWhile py_isspace (rev (dropWhile py_isspace s)))"

definition is_dec :: "nat \<Rightarrow> bool" where
  "is_dec c \<longleftrightarrow> 48 \<le> c \<and> c \<le> 57"

definition char_isdigit :: "nat \<Rightarrow> bool" where
  "char_isdigit c \<longleftrightarrow> is_dec c \<or> c = 178 \<or> c = 179 \<or> c = 185"

definition py_isdigit :: "pystr \<Rightarrow> bool" where
  "py_isdigit s \<longleftrightarrow> s \<noteq> [] \<and> list_all char_isdigit s"

definition char_lower :: "nat \<Rightarrow> nat" where
  "char_lower c = (if (65 \<le> c \<and> c \<le> 90) \<or> (192 \<le> c \<and> c \<le> 222 \<and> c \<noteq> 215) then c + 32 else c)"

definition py_lower :: "pystr \<Rightarrow> pystr" where
  "py_lower s = map char_lower s"

definition char_upper :: "nat \<Rightarrow> pystr" where
  "char_upper c =
     (if (97 \<le> c \<and> c \<le> 122) \<or> (224 \<le> c \<and> c \<le> 254 \<and> c \<noteq> 247) then [c - 32]
      else if c = 181 then [924] else if c = 223 then [83, 83] else if c = 255 then [376] else [c])"

definition py_upper :: "pystr \<Rightarrow> pystr" where
  "py_upper s = concat (map char_upper s)"

definition char_casefold :: "nat \<Rightarrow> pystr" where
  "char_casefold c = (if c = 223 then [115, 115] else if c = 181 then [956] else [char_lower c])"

definition py_casefold :: "pystr \<Rightarrow> pystr" where
  "py_casefold s = concat (map char_casefold s)"

definition startswith :: "pystr \<Rightarrow> pystr \<Rightarrow> bool" where
  "startswith s p \<longleftrightarrow> take (length p) s = p"

definition endswith :: "pystr \<Rightarrow> pystr \<Rightarrow> bool" where
  "endswith s p \<longleftrightarrow> length p \<le> length s \<and> drop (length s - length p) s = p"

subsection \<open>Splitting and joining\<close>

fun split_on :: "'a \<Rightarrow> 'a list \<Rightarrow> 'a list list" where
  "split_on c [] = [[]]"
| "split_on c (x # xs) =
     (if x = c then [] # split_on c xs
      else (case split_on c xs of [] \<Rightarrow> [[x]] | w # ws \<Rightarrow> (x # w) # ws))"

fun join_with :: "'a list \<Rightarrow> 'a list list \<Rightarrow> 'a list" where
  "join_with sep [] = []"
| "join_with sep [w] = w"
| "join_with sep (w # ws) = w @ sep @ join_with sep ws"

fun split_words_aux :: "pystr \<Rightarrow> pystr \<Rightarrow> pystr list" where
  "split_words_aux w [] = (if w = [] then [] else [rev w])"
| "split_words_aux w (c # cs) =
     (if py_isspace c then (if w = [] then split_words_aux [] cs else rev w # split_words_aux [] cs)
      else split_words_aux (c # w) cs)"

definition py_split_words :: "pystr \<Rightarrow> pystr list" where
  "py_split_words s = split_words_aux [] s"

lemma split_on_not_Nil [simp]: "split_on c xs \<noteq> []"
  by (cases xs) (auto split: list.splits)

lemma split_on_no_sep: "c \<notin> set w \<Longrightarrow> split_on c w = [w]"
  by (induction w) auto

lemma split_on_append_sep: "c \<notin> set w \<Longrightarrow> split_on c (w @ c # xs) = w # split_on c xs"
  by (induction w) auto

lemma split_join:
  "ws \<noteq> [] \<Longrightarrow> \<forall>w \<in> set ws. c \<notin> set w \<Longrightarrow> split_on c (join_with [c] ws) = ws"
  by (induction "[c]" ws rule: join_with.induct) (auto simp: split_on_no_sep split_on_append_sep)

lemma join_with_Nil_iff: "\<forall>w \<in> set ws. w \<noteq> [] \<Longrightarrow> join_with sep ws = [] \<longleftrightarrow> ws = []"
  by (cases ws; cases "tl ws") auto

lemma join_with_inject:
  assumes "\<forall>w \<in> set vs. c \<notin> set w \<and> w \<noteq> []" and "\<forall>w \<in> set ws. c \<notin> set w \<and> w \<noteq> []"
    and "join_with [c] vs = join_with [c] ws"
  shows "vs = ws"
proof (cases "vs = [] \<or> ws = []")
  case True
  then show ?thesis using assms join_with_Nil_iff by metis
next
  case False
  then show ?thesis using assms split_join by metis
qed

lemma py_strip_Nil [simp]: "py_strip [] = []"
  by (simp add: py_strip_def)

subsection \<open>Decimal numbers\<close>

fun nat_digits :: "nat \<Rightarrow> pystr" where
  "nat_digits n = (if n < 10 then [48 + n] else nat_digits (n div 10) @ [48 + n mod 10])"

declare nat_digits.simps [simp del]

definition str_int :: "int \<Rightarrow> pystr" where
  "str_int i = (if i < 0 then 45 # nat_digits (nat (- i)) else nat_digits (nat i))"

fun int_body :: "nat \<Rightarrow> pystr \<Rightarrow> nat option" where
  "int_body acc [] = Some acc"
| "int_body acc (c # cs) =
     (if is_dec c then int_body (acc * 10 + (c - 48)) cs
      else if c = 95 then
        (case cs of [] \<Rightarrow> None
         | d # ds \<Rightarrow> if is_dec d then int_body (acc * 10 + (d - 48)) ds else None)
      else None)"

definition int_digits :: "pystr \<Rightarrow> nat option" where
  "int_digits s = (case s of [] \<Rightarrow> None | c # cs \<Rightarrow> if is_dec c then int_body (c - 48) cs else None)"

definition py_int :: "pystr \<Rightarrow> int option" where
  "py_int s =
     (case py_strip s of
        [] \<Rightarrow> None
      | c # cs \<Rightarrow>
          if c = 45 then map_option (\<lambda>n. - int n) (int_digits cs)
          else if c = 43 then map_option int (int_digits cs)
          else map_option int (int_digits (c # cs)))"

lemma nat_digits_not_Nil [simp]: "nat_digits n \<noteq> []"
  by (subst nat_digits.simps) simp

lemma nat_digits_dec: "c \<in> set (nat_digits n) \<Longrightarrow> is_dec c"
proof (induction n rule: nat_digits.induct)
  case (1 n)
  have "n mod 10 < 10" by simp
  then have m: "is_dec (48 + n mod 10)" unfolding is_dec_def by linarith
  show ?case
    using 1 m by (cases "n < 10") (auto simp: is_dec_def nat_digits.simps [of n])
qed

lemma int_body_append:
  "\<forall>c \<in> set ds. is_dec c \<Longrightarrow> int_body acc (ds @ es) =
     int_body (foldl (\<lambda>a c. a * 10 + (c - 48)) acc ds) es"
  by (induction ds arbitrary: acc) auto

lemma foldl_nat_digits:
  "foldl (\<lambda>a c. a * 10 + (c - 48)) 0 (nat_digits n) = n"
proof (induction n rule: nat_digits.induct)
  case (1 n)
  show ?case
  proof (cases "n < 10")
    case True
    then show ?thesis by (simp add: nat_digits.simps [of n])
  next
    case False
    with 1 have "foldl (\<lambda>a c. a * 10 + (c - 48)) 0 (nat_digits (n div 10)) = n div 10" by simp
    with False show ?thesis by (simp add: nat_digits.simps [of n])
  qed
qed

lemma int_digits_nat_digits: "int_digits (nat_digits n) = Some n"
proof -
  obtain d ds where eq: "nat_digits n = d # ds" by (cases "nat_digits n") auto
  have dec: "\<forall>c \<in> set (d # ds). is_dec c" using nat_digits_dec [of _ n] eq by auto
  have "foldl (\<lambda>a c. a * 10 + (c - 48)) (d - 48) ds = n"
    using foldl_nat_digits [of n] by (simp add: eq)
  then show ?thesis
    using dec int_body_append [of ds "d - 48" "[]"] by (simp add: int_digits_def eq)
qed

lemma not_space_dec: "is_dec c \<Longrightarrow> \<not> py_isspace c"
  by (auto simp: is_dec_def py_isspace_def)

lemma dropWhile_none: "\<forall>c \<in> set s. \<not> P c \<Longrightarrow> dropWhile P s = s"
  by (cases s) auto

lemma py_strip_none: "\<forall>c \<in> set s. \<not> py_isspace c \<Longrightarrow> py_strip s = s"
  by (simp add: py_strip_def dropWhile_none)

lemma str_int_no_space: "c \<in> set (str_int i) \<Longrightarrow> \<not> py_isspace c"
  using nat_digits_dec not_space_dec
  by (fastforce simp: str_int_def py_isspace_def split: if_splits)

lemma py_int_str_int: "py_int (str_int i) = Some i"
proof -
  have s: "py_strip (str_int i) = str_int i"
    using str_int_no_space by (auto intro: py_strip_none)
  show ?thesis
  proof (cases "i < 0")
    case True
    then show ?thesis by (simp add: py_int_def s) (simp add: str_int_def int_digits_nat_digits)
  next
    case False
    obtain d ds where eq: "nat_digits (nat i) = d # ds" by (cases "nat_digits (nat i)") auto
    have "is_dec d" using nat_digits_dec [of d "nat i"] eq by simp
    then have "d \<noteq> 45" "d \<noteq> 43" by (auto simp: is_dec_def)
    moreover have "int_digits (d # ds) = Some (nat i)"
      using int_digits_nat_digits [of "nat i"] by (simp add: eq)
    ultimately show ?thesis using False by (simp add: py_int_def s) (simp add: str_int_def eq)
  qed
qed

text \<open>Evaluating a decimal literal: rewrite it to \<open>str_int\<close> of its value.\<close>

lemma py_int_lit: "lit t = str_int i \<Longrightarrow> py_int (lit t) = Some i"
  by (simp add: py_int_str_int)

lemmas digit_eval = str_int_def lit_def nat_digits.simps

lemma str_int_inject [simp]: "str_int i = str_int j \<longleftrightarrow> i = j"
  using py_int_str_int by (metis option.inject)

lemma str_int_not_Nil [simp]: "str_int i \<noteq> []"
  by (simp add: str_int_def)

lemma str_int_chars: "c \<in> set (str_int i) \<Longrightarrow> is_dec c \<or> c = 45"
  using nat_digits_dec by (auto simp: str_int_def split: if_splits)

section \<open>Python truth values, dictionaries and clock values\<close>

text \<open>\<open>x or d\<close> of Python where \<open>x\<close> may be None or empty (text) or None or zero (integers).\<close>

definition text_or :: "pystr option \<Rightarrow> pystr \<Rightarrow> pystr" where
  "text_or x d = (case x of None \<Rightarrow> d | Some s \<Rightarrow> if s = [] then d else s)"

definition int_or :: "int option \<Rightarrow> int \<Rightarrow> int" where
  "int_or x d = (case x of None \<Rightarrow> d | Some i \<Rightarrow> if i = 0 then d else i)"

text \<open>
  Dates and times are microseconds since the Unix epoch in UTC; durations are microseconds.
  A time of day is microseconds since midnight.
\<close>

type_synonym datetime = int

definition second :: int where "second = 1000000"

definition seconds :: "int \<Rightarrow> int" where "seconds n = n * 1000000"

definition day_us :: int where "day_us = 86400000000"

definition days :: "int \<Rightarrow> int" where "days n = n * 86400000000"

text \<open>The first row a query selects, \<open>.first()\<close>.\<close>

definition first_row :: "('a \<Rightarrow> bool) \<Rightarrow> 'a list \<Rightarrow> 'a option" where
  "first_row P xs = List.find P xs"

lemma first_row_Some: "first_row P xs = Some x \<Longrightarrow> x \<in> set xs \<and> P x"
  by (auto simp: first_row_def find_Some_iff)

lemma first_row_None: "first_row P xs = None \<longleftrightarrow> (\<forall>x \<in> set xs. \<not> P x)"
  by (auto simp: first_row_def find_None_iff)

text \<open>An update of the rows a query selects, \<open>.filter(...).update(...)\<close>.\<close>

definition update_rows :: "('a \<Rightarrow> bool) \<Rightarrow> ('a \<Rightarrow> 'a) \<Rightarrow> 'a list \<Rightarrow> 'a list" where
  "update_rows P f xs = map (\<lambda>x. if P x then f x else x) xs"

lemma length_update_rows [simp]: "length (update_rows P f xs) = length xs"
  by (simp add: update_rows_def)

lemma set_update_rows: "set (update_rows P f xs) = {if P x then f x else x | x. x \<in> set xs}"
  by (auto simp: update_rows_def)

lemma map_update_rows_same: "(\<And>x. P x \<Longrightarrow> g (f x) = g x) \<Longrightarrow> map g (update_rows P f xs) = map g xs"
  by (auto simp: update_rows_def)

lemma update_rows_related:
  assumes "a \<in> set xs" and "P a \<Longrightarrow> R a (f a)" and "\<not> P a \<Longrightarrow> R a a"
  shows "\<exists>b \<in> set (update_rows P f xs). R a b"
proof (cases "P a")
  case True
  then have "f a \<in> set (update_rows P f xs)" using assms(1) by (force simp: update_rows_def)
  then show ?thesis using assms(2) True by blast
next
  case False
  then have "a \<in> set (update_rows P f xs)" using assms(1) by (force simp: update_rows_def)
  then show ?thesis using assms(3) False by blast
qed

lemma filter_update_rows_other:
  "(\<And>x. P x \<Longrightarrow> \<not> Q x \<and> \<not> Q (f x)) \<Longrightarrow> filter Q (update_rows P f xs) = filter Q xs"
  by (induction xs) (auto simp: update_rows_def)

lemma update_rows_no_match: "(\<And>x. x \<in> set xs \<Longrightarrow> \<not> P x) \<Longrightarrow> update_rows P f xs = xs"
  by (induction xs) (auto simp: update_rows_def)

lemma first_row_Nil [simp]: "first_row P [] = None"
  by (simp add: first_row_def)

lemma first_row_Cons [simp]: "first_row P (x # xs) = (if P x then Some x else first_row P xs)"
  by (simp add: first_row_def)

lemma first_row_append:
  "first_row P (xs @ ys) = (case first_row P xs of None \<Rightarrow> first_row P ys | Some x \<Rightarrow> Some x)"
  by (induction xs) auto

lemma first_row_update_rows:
  "(\<And>x. P x \<Longrightarrow> P (f x)) \<Longrightarrow> first_row P (update_rows P f xs) = map_option f (first_row P xs)"
  by (induction xs) (auto simp: update_rows_def)

lemma first_row_update_rows_other:
  "(\<And>x. Q x \<Longrightarrow> \<not> P x \<and> \<not> P (f x)) \<Longrightarrow> first_row P (update_rows Q f xs) = first_row P xs"
  by (induction xs) (auto simp: update_rows_def)

lemma dom_map_of_AList_update: "set (map fst (AList.update k v xs)) = insert k (set (map fst xs))"
  by (induction xs) auto

end
