(* ===== verification/Models.thy ===== *)
theory Models
  imports Prelude
begin

text \<open>
  The application database of \<open>monitor/models.py\<close>: one record per model, the tables as lists of
  rows in primary-key order, and the whole database as one record. Foreign keys are primary
  keys; a nullable column is an option. \<open>crypto.py\<close> is here too, over the two operations of
  the external Fernet cipher, and the model methods that use it.
\<close>

section \<open>Choices\<close>

text \<open>
  The role choices of \<open>UserInstanceAccess\<close> with the effective role \<open>administrator\<close> that
  \<open>instance_role\<close> adds. Roles are ordered by what they permit.
\<close>

datatype role = Readonly | Operator | Administrator

fun role_rank :: "role \<Rightarrow> nat" where
  "role_rank Readonly = 0"
| "role_rank Operator = 1"
| "role_rank Administrator = 2"

lemma role_rank_inject: "role_rank r = role_rank s \<longleftrightarrow> r = s"
  by (cases r; cases s) auto

instantiation role :: linorder
begin

definition less_eq_role :: "role \<Rightarrow> role \<Rightarrow> bool" where
  "less_eq_role r s \<longleftrightarrow> role_rank r \<le> role_rank s"

definition less_role :: "role \<Rightarrow> role \<Rightarrow> bool" where
  "less_role r s \<longleftrightarrow> role_rank r < role_rank s"

instance
  by standard (auto simp: less_eq_role_def less_role_def role_rank_inject)

end

text \<open>The text of a role as the forms post it.\<close>

definition parse_role :: "pystr \<Rightarrow> role option" where
  "parse_role s = (if s = lit ''readonly'' then Some Readonly
     else if s = lit ''operator'' then Some Operator else None)"

datatype exec_status = Pending | Committed | Discarded | Failed_status

datatype audit_action =
    Kill_session | Kill_chain | Bulk_kill | Kill_replication_slot | Drop_replication_slot
  | Add_instance | Remove_instance | Rename_instance | Update_slot_permissions | Run_query

datatype audit_result = Success | Failed

datatype clear_reason = No_reason | Auto_clear | Manual_kill

section \<open>Rows\<close>

text \<open>An account of Django's user model: the fields the program reads.\<close>

record user =
  user_pk :: int
  user_username :: pystr
  user_email :: pystr
  user_is_active :: bool
  user_is_staff :: bool
  user_is_superuser :: bool

record rds_instance =
  inst_pk :: int
  inst_name :: pystr
  inst_connection_group :: pystr
  inst_engine :: pystr
  inst_db_identifier :: pystr
  inst_region :: pystr
  inst_host :: pystr
  inst_port :: int
  inst_db_name :: pystr
  inst_username :: pystr
  inst_lock_control_enabled :: bool
  inst_control_username :: pystr
  inst_owner_teams_webhook_url :: pystr
  inst_exclude_from_global_notifications :: bool
  inst_password_encrypted :: pystr
  inst_control_password_encrypted :: pystr
  inst_query_runner_enabled :: bool
  inst_query_runner_username :: pystr
  inst_query_runner_password_encrypted :: pystr
  inst_ssl_required :: bool
  inst_is_active :: bool
  inst_added_by :: "int option"

definition inst_str :: "rds_instance \<Rightarrow> pystr" where
  "inst_str i = inst_name i @ lit '' ('' @ inst_db_identifier i @ lit '')''"

record query_runner_grant =
  qg_pk :: int
  qg_user :: int
  qg_instance :: int
  qg_granted_by :: "int option"

record query_runner_execution =
  ex_pk :: int
  ex_instance :: int
  ex_user :: "int option"
  ex_sql :: pystr
  ex_status :: exec_status
  ex_rows_affected :: "int option"
  ex_error :: pystr
  ex_resolved_at :: "datetime option"

record user_instance_access =
  ua_user :: int
  ua_instance :: int
  ua_role :: role
  ua_can_manage_notifications :: bool

record user_instance_access_scope =
  us_user :: int
  us_can_manage_global_notifications :: bool

record audit_log =
  au_instance :: "int option"
  au_instance_name :: pystr
  au_action :: audit_action
  au_target_pid :: "int option"
  au_target_query :: pystr
  au_performed_by :: "int option"
  au_result :: audit_result
  au_detail :: pystr

record lock_alert =
  la_pk :: int
  la_instance :: int
  la_alert_key :: pystr
  la_blocked_pid :: int
  la_blocking_pid :: int
  la_blocked_user :: pystr
  la_blocking_user :: pystr
  la_blocked_query :: pystr
  la_blocking_query :: pystr
  la_waiting_seconds :: int
  la_first_seen_at :: datetime
  la_last_seen_at :: datetime
  la_alerted_at :: "datetime option"
  la_resolved_at :: "datetime option"
  la_clear_reason :: clear_reason
  la_cleared_by :: pystr

record lock_notification_state =
  st_instance :: int
  st_last_fingerprint :: pystr
  st_last_active_keys :: "pystr list"
  st_last_sent_at :: "datetime option"
  st_storm_active :: bool

record notification_settings =
  ns_channel_webhook_url :: pystr
  ns_threshold_seconds :: int
  ns_interval_seconds :: int
  ns_lock_storm_threshold :: int
  ns_notification_schedule_enabled :: bool
  ns_notification_start_time :: int
  ns_notification_end_time :: int
  ns_manual_query_alert_enabled :: bool
  ns_manual_query_threshold_seconds :: int
  ns_manual_query_excluded_users :: pystr
  ns_weekly_report_enabled :: bool
  ns_weekly_report_day :: int
  ns_weekly_report_hour :: int
  ns_report_base_url :: pystr
  ns_report_retention_days :: int
  ns_resolved_alert_retention_days :: int
  ns_last_cleanup_at :: "datetime option"
  ns_last_weekly_report_at :: "datetime option"

definition default_settings :: notification_settings where
  "default_settings = \<lparr>
     ns_channel_webhook_url = [], ns_threshold_seconds = 120, ns_interval_seconds = 30,
     ns_lock_storm_threshold = 100, ns_notification_schedule_enabled = False,
     ns_notification_start_time = seconds (9 * 3600), ns_notification_end_time = seconds (21 * 3600),
     ns_manual_query_alert_enabled = False, ns_manual_query_threshold_seconds = 60,
     ns_manual_query_excluded_users = lit ''applms,applos'',
     ns_weekly_report_enabled = False, ns_weekly_report_day = 0, ns_weekly_report_hour = 9,
     ns_report_base_url = [], ns_report_retention_days = 7,
     ns_resolved_alert_retention_days = 30, ns_last_cleanup_at = None,
     ns_last_weekly_report_at = None \<rparr>"

record dashboard_link =
  dl_pk :: int
  dl_name :: pystr
  dl_url :: pystr
  dl_description :: pystr
  dl_category :: pystr
  dl_sort_order :: int
  dl_is_active :: bool
  dl_created_by :: "int option"

record replication_slot_access =
  sa_user :: int
  sa_can_drop :: bool
  sa_can_terminate :: bool

record user_mfa =
  mfa_user :: int
  mfa_secret_encrypted :: pystr
  mfa_backup_codes :: "pystr list"
  mfa_pending_backup_codes_encrypted :: pystr
  mfa_enabled :: bool
  mfa_confirmed_at :: "datetime option"

record long_query_alert =
  lq_pk :: int
  lq_instance :: int
  lq_alert_key :: pystr
  lq_pid :: int
  lq_username :: pystr
  lq_application_name :: pystr
  lq_client_addr :: pystr
  lq_query :: pystr
  lq_query_start :: "datetime option"
  lq_duration_seconds :: int
  lq_first_seen_at :: datetime
  lq_last_seen_at :: datetime
  lq_alerted_at :: "datetime option"
  lq_resolved_at :: "datetime option"

record lock_report =
  lr_pk :: int
  lr_file_name :: pystr
  lr_csv_content :: pystr
  lr_expires_at :: datetime

record monitor_lease =
  ml_owner_id :: pystr
  ml_lease_until :: "datetime option"

section \<open>The application database\<close>

text \<open>
  One sequence numbers the rows of every table (the program relies on keys being fresh within
  a table only). The singleton rows \<open>NotificationSettings(pk=1)\<close> and \<open>MonitorLease(pk=1)\<close>
  are options.
\<close>

record app_db =
  users :: "user list"
  instances :: "rds_instance list"
  query_runner_grants :: "query_runner_grant list"
  query_runner_executions :: "query_runner_execution list"
  access_grants :: "user_instance_access list"
  access_scopes :: "user_instance_access_scope list"
  audit_logs :: "audit_log list"
  lock_alerts :: "lock_alert list"
  notification_states :: "lock_notification_state list"
  settings_row :: "notification_settings option"
  dashboard_links :: "dashboard_link list"
  slot_access :: "replication_slot_access list"
  mfa_profiles :: "user_mfa list"
  long_query_alerts :: "long_query_alert list"
  lock_reports :: "lock_report list"
  lease_row :: "monitor_lease option"
  next_pk :: int

definition empty_db :: app_db where
  "empty_db = \<lparr>users = [], instances = [], query_runner_grants = [], query_runner_executions = [],
     access_grants = [], access_scopes = [], audit_logs = [], lock_alerts = [],
     notification_states = [], settings_row = None, dashboard_links = [], slot_access = [],
     mfa_profiles = [], long_query_alerts = [], lock_reports = [], lease_row = None, next_pk = 1\<rparr>"

text \<open>\<open>NotificationSettings.load()\<close>: the singleton, created with the defaults on first use.\<close>

definition load_settings :: "app_db \<Rightarrow> notification_settings" where
  "load_settings d = (case settings_row d of None \<Rightarrow> default_settings | Some c \<Rightarrow> c)"

definition save_settings :: "notification_settings \<Rightarrow> app_db \<Rightarrow> app_db" where
  "save_settings c d = d\<lparr>settings_row := Some c\<rparr>"

lemma load_save_settings [simp]: "load_settings (save_settings c d) = c"
  by (simp add: load_settings_def save_settings_def)

definition find_instance :: "app_db \<Rightarrow> int \<Rightarrow> rds_instance option" where
  "find_instance d pk = first_row (\<lambda>i. inst_pk i = pk) (instances d)"

definition save_instance :: "rds_instance \<Rightarrow> app_db \<Rightarrow> app_db" where
  "save_instance i d = d\<lparr>instances := update_rows (\<lambda>j. inst_pk j = inst_pk i) (\<lambda>_. i) (instances d)\<rparr>"

definition active_instances :: "app_db \<Rightarrow> rds_instance list" where
  "active_instances d = filter inst_is_active (instances d)"

text \<open>
  Deleting a registration: the rows that reference it with \<open>CASCADE\<close> go with it and the audit
  rows, which reference it with \<open>SET_NULL\<close>, stay without it.
\<close>

definition delete_instances :: "int set \<Rightarrow> app_db \<Rightarrow> app_db" where
  "delete_instances pks d = d\<lparr>
     instances := filter (\<lambda>i. inst_pk i \<notin> pks) (instances d),
     query_runner_grants := filter (\<lambda>g. qg_instance g \<notin> pks) (query_runner_grants d),
     query_runner_executions := filter (\<lambda>e. ex_instance e \<notin> pks) (query_runner_executions d),
     access_grants := filter (\<lambda>g. ua_instance g \<notin> pks) (access_grants d),
     lock_alerts := filter (\<lambda>a. la_instance a \<notin> pks) (lock_alerts d),
     notification_states := filter (\<lambda>s. st_instance s \<notin> pks) (notification_states d),
     long_query_alerts := filter (\<lambda>a. lq_instance a \<notin> pks) (long_query_alerts d),
     audit_logs := update_rows (\<lambda>l. \<exists>pk \<in> pks. au_instance l = Some pk)
       (\<lambda>l. l\<lparr>au_instance := None\<rparr>) (audit_logs d)\<rparr>"

section \<open>Stored secrets\<close>

text \<open>
  The cipher of the \<open>cryptography\<close> package is a parameter: \<open>fernet_encrypt\<close> of a text, and
  \<open>fernet_decrypt\<close>, which fails on anything it did not produce under the configured key.
\<close>

record fernet =
  fernet_encrypt :: "pystr \<Rightarrow> pystr"
  fernet_decrypt :: "pystr \<Rightarrow> pystr option"

definition encrypt_password :: "fernet \<Rightarrow> pystr \<Rightarrow> pystr" where
  "encrypt_password k plaintext = (if plaintext = [] then [] else fernet_encrypt k plaintext)"

definition decrypt_password :: "fernet \<Rightarrow> pystr \<Rightarrow> pystr option" where
  "decrypt_password k ciphertext = (if ciphertext = [] then Some [] else fernet_decrypt k ciphertext)"

definition set_password :: "fernet \<Rightarrow> pystr \<Rightarrow> rds_instance \<Rightarrow> rds_instance" where
  "set_password k raw i = i\<lparr>inst_password_encrypted := encrypt_password k raw\<rparr>"

definition get_password :: "fernet \<Rightarrow> rds_instance \<Rightarrow> pystr option" where
  "get_password k i = decrypt_password k (inst_password_encrypted i)"

definition set_control_password :: "fernet \<Rightarrow> pystr \<Rightarrow> rds_instance \<Rightarrow> rds_instance" where
  "set_control_password k raw i = i\<lparr>inst_control_password_encrypted := encrypt_password k raw\<rparr>"

definition get_control_password :: "fernet \<Rightarrow> rds_instance \<Rightarrow> pystr option" where
  "get_control_password k i = decrypt_password k (inst_control_password_encrypted i)"

definition set_query_runner_password :: "fernet \<Rightarrow> pystr \<Rightarrow> rds_instance \<Rightarrow> rds_instance" where
  "set_query_runner_password k raw i =
     i\<lparr>inst_query_runner_password_encrypted := encrypt_password k raw\<rparr>"

definition get_query_runner_password :: "fernet \<Rightarrow> rds_instance \<Rightarrow> pystr option" where
  "get_query_runner_password k i = decrypt_password k (inst_query_runner_password_encrypted i)"

definition set_secret :: "fernet \<Rightarrow> pystr \<Rightarrow> user_mfa \<Rightarrow> user_mfa" where
  "set_secret k secret p = p\<lparr>mfa_secret_encrypted := encrypt_password k secret\<rparr>"

definition get_secret :: "fernet \<Rightarrow> user_mfa \<Rightarrow> pystr option" where
  "get_secret k p = decrypt_password k (mfa_secret_encrypted p)"

definition set_pending_backup_codes :: "fernet \<Rightarrow> pystr list \<Rightarrow> user_mfa \<Rightarrow> user_mfa" where
  "set_pending_backup_codes k codes p =
     p\<lparr>mfa_pending_backup_codes_encrypted := encrypt_password k (join_with [10] codes)\<rparr>"

text \<open>
  \<open>splitlines()\<close> on the newline-joined codes: splitting at the newline, where a trailing empty
  piece does not count as a line. The codes hold no other line boundary.
\<close>

definition split_lines :: "pystr \<Rightarrow> pystr list" where
  "split_lines s = (let ls = split_on 10 s in if last ls = [] then butlast ls else ls)"

definition get_pending_backup_codes :: "fernet \<Rightarrow> user_mfa \<Rightarrow> pystr list option" where
  "get_pending_backup_codes k p =
     (if mfa_pending_backup_codes_encrypted p = [] then Some []
      else map_option split_lines (decrypt_password k (mfa_pending_backup_codes_encrypted p)))"

text \<open>What the program relies on from the cipher: its own output decrypts, and is never empty.\<close>

definition fernet_ok :: "fernet \<Rightarrow> bool" where
  "fernet_ok k \<longleftrightarrow> (\<forall>s. fernet_decrypt k (fernet_encrypt k s) = Some s \<and> fernet_encrypt k s \<noteq> [])"

lemma decrypt_encrypt: "fernet_ok k \<Longrightarrow> decrypt_password k (encrypt_password k s) = Some s"
  by (simp add: fernet_ok_def decrypt_password_def encrypt_password_def)

lemma encrypt_empty_iff: "fernet_ok k \<Longrightarrow> encrypt_password k s = [] \<longleftrightarrow> s = []"
  by (simp add: fernet_ok_def encrypt_password_def)

lemma split_lines_join:
  assumes "\<forall>c \<in> set codes. c \<noteq> [] \<and> 10 \<notin> set c" and "codes \<noteq> []"
  shows "split_lines (join_with [10] codes) = codes"
proof -
  have "split_on 10 (join_with [10] codes) = codes" using assms by (intro split_join) auto
  moreover have "last codes \<noteq> []" using assms by auto
  ultimately show ?thesis by (simp add: split_lines_def)
qed

end
