(* ===== verification/Permissions.thy ===== *)
theory Permissions
  imports Models
begin

text \<open>
  \<open>monitor/permissions.py\<close>: who may view, operate and configure what. A request's user is an
  option (\<open>None\<close> is Django's anonymous user). The predicates read the grant, scope and slot
  tables of the application database.
\<close>

section \<open>The predicates\<close>

definition authenticated_active :: "user option \<Rightarrow> bool" where
  "authenticated_active w = (case w of None \<Rightarrow> False | Some u \<Rightarrow> user_is_active u)"

definition has_scope :: "app_db \<Rightarrow> user \<Rightarrow> bool" where
  "has_scope d u \<longleftrightarrow> (\<exists>s \<in> set (access_scopes d). us_user s = user_pk u)"

definition has_grants :: "app_db \<Rightarrow> user \<Rightarrow> bool" where
  "has_grants d u \<longleftrightarrow> (\<exists>g \<in> set (access_grants d). ua_user g = user_pk u)"

definition grant_of :: "app_db \<Rightarrow> user \<Rightarrow> rds_instance \<Rightarrow> user_instance_access option" where
  "grant_of d u i = first_row (\<lambda>g. ua_user g = user_pk u \<and> ua_instance g = inst_pk i) (access_grants d)"

definition instance_role :: "app_db \<Rightarrow> user option \<Rightarrow> rds_instance \<Rightarrow> role option" where
  "instance_role d w i =
     (case w of
        None \<Rightarrow> None
      | Some u \<Rightarrow>
          if \<not> user_is_active u then None
          else if user_is_superuser u then Some Administrator
          else (case grant_of d u i of
                  Some g \<Rightarrow> Some (ua_role g)
                | None \<Rightarrow>
                    if has_scope d u \<or> has_grants d u then None
                    else Some (if user_is_staff u then Operator else Readonly)))"

definition can_view_instance :: "app_db \<Rightarrow> user option \<Rightarrow> rds_instance \<Rightarrow> bool" where
  "can_view_instance d w i \<longleftrightarrow> instance_role d w i \<noteq> None"

definition can_operate_instance :: "app_db \<Rightarrow> user option \<Rightarrow> rds_instance \<Rightarrow> bool" where
  "can_operate_instance d w i \<longleftrightarrow> instance_role d w i \<in> {Some Administrator, Some Operator}"

definition can_manage_instance_notifications :: "app_db \<Rightarrow> user option \<Rightarrow> rds_instance \<Rightarrow> bool" where
  "can_manage_instance_notifications d w i =
     (case w of
        None \<Rightarrow> False
      | Some u \<Rightarrow>
          if \<not> user_is_active u then False
          else if user_is_superuser u then True
          else if \<not> (has_scope d u \<or> has_grants d u) then user_is_staff u
          else (\<exists>g \<in> set (access_grants d). ua_user g = user_pk u \<and> ua_instance g = inst_pk i
                  \<and> ua_role g = Operator \<and> ua_can_manage_notifications g))"

definition can_manage_global_notifications :: "app_db \<Rightarrow> user option \<Rightarrow> bool" where
  "can_manage_global_notifications d w =
     (case w of
        None \<Rightarrow> False
      | Some u \<Rightarrow>
          if \<not> (user_is_active u \<and> user_is_staff u) then False
          else if user_is_superuser u then True
          else (case first_row (\<lambda>s. us_user s = user_pk u) (access_scopes d) of
                  None \<Rightarrow> True
                | Some s \<Rightarrow> us_can_manage_global_notifications s))"

definition accessible_instances :: "app_db \<Rightarrow> user \<Rightarrow> rds_instance list" where
  "accessible_instances d u =
     (if user_is_superuser u \<or> \<not> (has_scope d u \<or> has_grants d u) then active_instances d
      else filter (\<lambda>i. \<exists>g \<in> set (access_grants d). ua_instance g = inst_pk i \<and> ua_user g = user_pk u)
             (active_instances d))"

definition can_run_queries :: "app_db \<Rightarrow> user option \<Rightarrow> rds_instance \<Rightarrow> bool" where
  "can_run_queries d w i =
     (case w of
        None \<Rightarrow> False
      | Some u \<Rightarrow>
          if \<not> user_is_active u then False
          else if \<not> inst_query_runner_enabled i then False
          else if user_is_superuser u then True
          else (\<exists>g \<in> set (query_runner_grants d). qg_user g = user_pk u \<and> qg_instance g = inst_pk i))"

definition can_manage_replication_slot :: "app_db \<Rightarrow> user option \<Rightarrow> pystr \<Rightarrow> bool" where
  "can_manage_replication_slot d w action =
     (if action \<notin> {lit ''drop'', lit ''terminate''} then False
      else case w of
        None \<Rightarrow> False
      | Some u \<Rightarrow>
          if \<not> (user_is_active u \<and> user_is_staff u) then False
          else if user_is_superuser u then True
          else (case first_row (\<lambda>s. sa_user s = user_pk u) (slot_access d) of
                  None \<Rightarrow> False
                | Some s \<Rightarrow> if action = lit ''drop'' then sa_can_drop s else sa_can_terminate s))"

text \<open>The REST registry's permission class, by HTTP method.\<close>

definition safe_methods :: "pystr set" where
  "safe_methods = {lit ''GET'', lit ''HEAD'', lit ''OPTIONS''}"

definition is_staff_or_read_only :: "pystr \<Rightarrow> user option \<Rightarrow> bool" where
  "is_staff_or_read_only method w =
     (if method = lit ''DELETE'' then
        (case w of None \<Rightarrow> False
         | Some u \<Rightarrow> user_is_active u \<and> user_is_staff u \<and> user_is_superuser u)
      else if method \<in> safe_methods then w \<noteq> None
      else (case w of None \<Rightarrow> False | Some u \<Rightarrow> user_is_staff u))"

section \<open>How the predicates relate\<close>

lemmas role_defs = can_view_instance_def can_operate_instance_def instance_role_def

lemma instance_role_anonymous [perm_simps]: "instance_role d None i = None"
  by (simp add: instance_role_def)

lemma instance_role_inactive [perm_simps]: "\<not> user_is_active u \<Longrightarrow> instance_role d (Some u) i = None"
  by (simp add: instance_role_def)

lemma instance_role_superuser [perm_simps]:
  "user_is_active u \<Longrightarrow> user_is_superuser u \<Longrightarrow> instance_role d (Some u) i = Some Administrator"
  by (simp add: instance_role_def)

lemma operate_role_ge: "can_operate_instance d w i \<longleftrightarrow> (\<exists>r \<ge> Operator. instance_role d w i = Some r)"
proof -
  have "Operator \<le> r \<longleftrightarrow> r = Operator \<or> r = Administrator" for r
    by (cases r) (auto simp: less_eq_role_def)
  then show ?thesis by (auto simp: can_operate_instance_def)
qed

lemma can_operate_view: "can_operate_instance d w i \<Longrightarrow> can_view_instance d w i"
  by (auto simp: can_operate_instance_def can_view_instance_def)

lemma grant_of_Some_iff:
  "grant_of d u i \<noteq> None \<longleftrightarrow>
     (\<exists>g \<in> set (access_grants d). ua_user g = user_pk u \<and> ua_instance g = inst_pk i)"
  by (auto simp: grant_of_def first_row_None)

lemma grant_of_SomeD:
  "grant_of d u i = Some g \<Longrightarrow> g \<in> set (access_grants d) \<and> ua_user g = user_pk u \<and> ua_instance g = inst_pk i"
  by (auto simp: grant_of_def dest: first_row_Some)

lemma grant_of_has_grants: "grant_of d u i = Some g \<Longrightarrow> has_grants d u"
  by (auto dest!: grant_of_SomeD simp: has_grants_def)

lemma view_iff:
  assumes "user_is_active u"
  shows "can_view_instance d (Some u) i \<longleftrightarrow>
     user_is_superuser u \<or> \<not> (has_scope d u \<or> has_grants d u) \<or> grant_of d u i \<noteq> None"
  using assms by (auto simp: role_defs split: option.splits)

text \<open>
  The list an account is shown and the per-instance check agree: an active registration is
  listed for an active account exactly when the account may view it.
\<close>

lemma accessible_iff_view:
  assumes "user_is_active u" and "i \<in> set (active_instances d)"
  shows "i \<in> set (accessible_instances d u) \<longleftrightarrow> can_view_instance d (Some u) i"
proof -
  have "grant_of d u i \<noteq> None \<longleftrightarrow>
      (\<exists>g \<in> set (access_grants d). ua_instance g = inst_pk i \<and> ua_user g = user_pk u)"
    by (subst grant_of_Some_iff) blast
  then show ?thesis using assms by (auto simp: view_iff accessible_instances_def)
qed

text \<open>Each account has a scope row once it has a grant: what the forms establish.\<close>

definition grants_scoped :: "app_db \<Rightarrow> bool" where
  "grants_scoped d \<longleftrightarrow> (\<forall>g \<in> set (access_grants d). \<exists>s \<in> set (access_scopes d). us_user s = ua_user g)"

lemma grants_scopedD: "grants_scoped d \<Longrightarrow> has_grants d u \<Longrightarrow> has_scope d u"
  unfolding grants_scoped_def has_grants_def has_scope_def by fastforce

lemma first_row_filter:
  "(\<And>x. P x \<Longrightarrow> Q x) \<Longrightarrow> first_row P (filter Q xs) = first_row P xs"
  by (induction xs) (auto simp: first_row_def)

lemma delete_instances_keeps_role:
  assumes "grants_scoped d" and "inst_pk i \<notin> pks"
  shows "instance_role (delete_instances pks d) (Some u) i = instance_role d (Some u) i"
proof -
  let ?d = "delete_instances pks d"
  have g: "grant_of ?d u i = grant_of d u i"
    unfolding grant_of_def delete_instances_def
    using assms(2) by (auto intro!: first_row_filter)
  have s: "has_scope ?d u = has_scope d u" by (simp add: has_scope_def delete_instances_def)
  have "has_grants ?d u \<Longrightarrow> has_grants d u" by (auto simp: has_grants_def delete_instances_def)
  then have "has_scope ?d u \<or> has_grants ?d u \<longleftrightarrow> has_scope d u \<or> has_grants d u"
    using grants_scopedD [OF assms(1)] s by blast
  then show ?thesis by (simp add: instance_role_def g)
qed

end
