(* ===== verification/Alert_Tables.thy ===== *)
theory Alert_Tables
  imports Models
begin

text \<open>
  The monitor keeps two incident tables with the same life cycle: \<open>LockAlert\<close> and
  \<open>LongQueryAlert\<close>. A row is opened when its key is first observed, refreshed while the key is
  observed, and closed when it is not; the database constraint \<open>unique_active_..._alert\<close> allows one
  open row per registration and key. This theory states that interface as a locale and proves
  the table laws once; the monitor interprets it on both tables.
\<close>

section \<open>Table operations\<close>

text \<open>
  \<open>get_or_create(instance, alert_key, resolved_at=None)\<close> followed by the save of the refreshed
  row: the open row with the key is refreshed, otherwise a new row is appended.
\<close>

definition upsert_row ::
  "('a \<Rightarrow> int) \<Rightarrow> ('a \<Rightarrow> 'k) \<Rightarrow> ('a \<Rightarrow> bool) \<Rightarrow> 'k \<Rightarrow> 'a \<Rightarrow> ('a \<Rightarrow> 'a) \<Rightarrow> 'a list \<Rightarrow> 'a list" where
  "upsert_row pk ident live k new refresh xs =
     (case first_row (\<lambda>x. live x \<and> ident x = k) xs of
        None \<Rightarrow> xs @ [new]
      | Some x \<Rightarrow> update_rows (\<lambda>y. pk y = pk x) (\<lambda>_. refresh x) xs)"

text \<open>Primary keys and open keys are unique, and all primary keys were drawn from the sequence.\<close>

definition wf_table :: "('a \<Rightarrow> int) \<Rightarrow> ('a \<Rightarrow> 'k) \<Rightarrow> ('a \<Rightarrow> bool) \<Rightarrow> int \<Rightarrow> 'a list \<Rightarrow> bool" where
  "wf_table pk ident live n xs \<longleftrightarrow> distinct (map pk xs) \<and> distinct (map ident (filter live xs))
     \<and> (\<forall>x \<in> set xs. pk x < n)"

definition open_keys :: "('a \<Rightarrow> 'k) \<Rightarrow> ('a \<Rightarrow> bool) \<Rightarrow> 'a list \<Rightarrow> 'k set" where
  "open_keys ident live xs = ident ` {x \<in> set xs. live x}"

lemma wf_table_mono: "wf_table pk ident live n xs \<Longrightarrow> n \<le> m \<Longrightarrow> wf_table pk ident live m xs"
  by (auto simp: wf_table_def)

lemma wf_table_Nil [simp]: "wf_table pk ident live n []"
  by (simp add: wf_table_def)

lemma wf_table_open_inj:
  assumes "wf_table pk ident live n xs" "x \<in> set xs" "y \<in> set xs" "live x" "live y" "ident x = ident y"
  shows "x = y"
  using assms by (auto simp: wf_table_def distinct_map dest!: inj_onD)

lemma wf_table_pk_inj:
  "wf_table pk ident live n xs \<Longrightarrow> x \<in> set xs \<Longrightarrow> y \<in> set xs \<Longrightarrow> pk x = pk y \<Longrightarrow> x = y"
  by (auto simp: wf_table_def distinct_map dest!: inj_onD)

text \<open>A table stays well formed under an update that keeps keys and opens nothing.\<close>

lemma wf_table_update_rows:
  assumes "wf_table pk ident live n xs"
    and "\<And>x. x \<in> set xs \<Longrightarrow> P x \<Longrightarrow> pk (f x) = pk x \<and> ident (f x) = ident x \<and> (live (f x) \<longrightarrow> live x)"
  shows "wf_table pk ident live n (update_rows P f xs)"
proof -
  let ?u = "\<lambda>x. if P x then f x else x"
  have keep: "pk (?u x) = pk x" "ident (?u x) = ident x" "live (?u x) \<Longrightarrow> live x" if "x \<in> set xs" for x
    using assms(2) [OF that] by (auto split: if_splits)
  have "map pk (update_rows P f xs) = map pk xs" using keep(1) by (simp add: update_rows_def)
  moreover have "map ident (filter live (update_rows P f xs)) =
      map ident (filter (\<lambda>x. live (?u x)) (filter live xs))"
  proof -
    have "filter (\<lambda>x. live (?u x)) (filter live xs) = filter (\<lambda>x. live (?u x)) xs"
      using keep(3) by (auto intro: filter_cong simp del: if_split)
    then show ?thesis
      using keep(2) by (simp add: update_rows_def filter_map o_def cong: if_cong del: if_image_distrib)
  qed
  moreover have "\<forall>x \<in> set (update_rows P f xs). pk x < n"
    using assms(1) keep(1) by (fastforce simp: wf_table_def update_rows_def)
  moreover have "distinct (map ident (filter (\<lambda>x. live (?u x)) (filter live xs)))"
    by (rule distinct_map_filter) (use assms(1) in \<open>simp add: wf_table_def\<close>)
  ultimately show ?thesis using assms(1) unfolding wf_table_def by (metis (no_types, lifting))
qed

lemma wf_table_append:
  assumes "wf_table pk ident live n xs" and "pk new = n" and "ident new \<notin> open_keys ident live xs"
  shows "wf_table pk ident live (n + 1) (xs @ [new])"
  using assms by (auto simp: wf_table_def open_keys_def)

lemma wf_table_filter: "wf_table pk ident live n xs \<Longrightarrow> wf_table pk ident live n (filter Q xs)"
  by (auto simp: wf_table_def distinct_map intro: inj_on_subset)

section \<open>The life cycle of an incident\<close>

locale alert_table =
  fixes pk :: "'a \<Rightarrow> int"
    and ident :: "'a \<Rightarrow> int \<times> pystr"
    and live :: "'a \<Rightarrow> bool"
    and opened :: "int \<Rightarrow> int \<times> pystr \<Rightarrow> 'r \<Rightarrow> datetime \<Rightarrow> 'a"
    and refresh :: "'r \<Rightarrow> datetime \<Rightarrow> 'a \<Rightarrow> 'a"
    and close :: "datetime \<Rightarrow> 'a \<Rightarrow> 'a"
  assumes pk_opened: "pk (opened n k r t) = n"
    and ident_opened: "ident (opened n k r t) = k"
    and live_opened: "live (opened n k r t)"
    and pk_refresh: "pk (refresh r t x) = pk x"
    and ident_refresh: "ident (refresh r t x) = ident x"
    and live_refresh: "live (refresh r t x) = live x"
    and pk_close: "pk (close t x) = pk x"
    and ident_close: "ident (close t x) = ident x"
    and closed: "\<not> live (close t x)"
begin

lemmas laws = pk_opened ident_opened live_opened pk_refresh ident_refresh live_refresh
  pk_close ident_close closed

lemma upsert_wf:
  assumes "wf_table pk ident live n xs"
  shows "wf_table pk ident live (n + 1) (upsert_row pk ident live k (opened n k r t) (refresh r t) xs)"
proof (cases "first_row (\<lambda>x. live x \<and> ident x = k) xs")
  case None
  then have "k \<notin> open_keys ident live xs" by (auto simp: first_row_None open_keys_def)
  then show ?thesis using assms None
    by (simp add: upsert_row_def wf_table_append laws)
next
  case (Some x)
  then have x: "x \<in> set xs" "live x" by (auto dest: first_row_Some)
  have "wf_table pk ident live n (update_rows (\<lambda>y. pk y = pk x) (\<lambda>_. refresh r t x) xs)"
    using assms x by (intro wf_table_update_rows) (auto simp: laws dest: wf_table_pk_inj)
  then show ?thesis using Some by (auto simp: upsert_row_def intro: wf_table_mono)
qed

lemma upsert_open_keys:
  assumes "wf_table pk ident live n xs"
  shows "open_keys ident live (upsert_row pk ident live k (opened n k r t) (refresh r t) xs) =
     insert k (open_keys ident live xs)"
proof (cases "first_row (\<lambda>x. live x \<and> ident x = k) xs")
  case None
  have "{x \<in> set (xs @ [opened n k r t]). live x} = insert (opened n k r t) {x \<in> set xs. live x}"
    by (auto simp: laws)
  then show ?thesis using None by (simp add: upsert_row_def open_keys_def laws)
next
  case (Some x)
  then have x: "x \<in> set xs" "live x" "ident x = k" by (auto dest: first_row_Some)
  let ?ys = "update_rows (\<lambda>y. pk y = pk x) (\<lambda>_. refresh r t x) xs"
  have "set ?ys = insert (refresh r t x) (set xs - {x})"
    using x wf_table_pk_inj [OF assms] by (auto simp: set_update_rows)
  then have "{y \<in> set ?ys. live y} = insert (refresh r t x) ({y \<in> set xs. live y} - {x})"
    using x by (auto simp: laws)
  then have "open_keys ident live ?ys = insert k (ident ` ({y \<in> set xs. live y} - {x}))"
    using x by (simp add: open_keys_def laws)
  also have "\<dots> = insert k (open_keys ident live xs)" using x by (auto simp: open_keys_def)
  finally show ?thesis using Some by (simp add: upsert_row_def)
qed

lemma close_wf:
  "wf_table pk ident live n xs \<Longrightarrow> wf_table pk ident live n (update_rows P (close t) xs)"
  by (intro wf_table_update_rows) (auto simp: laws)

lemma close_open_keys:
  "open_keys ident live (update_rows P (close t) xs) = ident ` {x \<in> set xs. live x \<and> \<not> P x}"
proof -
  have "{x \<in> set (update_rows P (close t) xs). live x} = {x \<in> set xs. live x \<and> \<not> P x}"
    using closed by (auto simp: update_rows_def)
  then show ?thesis by (simp add: open_keys_def)
qed

end

end
