(* ===== verification/Delivery.thy ===== *)
theory Delivery
  imports Models
begin

text \<open>
  The delivery side of \<open>monitor/notifications.py\<close>: the notification window, the choice of
  webhooks and the two real-time notifiers. One call of \<open>_post_webhook\<close> is a parameter
  \<open>post url payload\<close>, whose outcome says whether the endpoint accepted the card, answered with
  another status, or the call raised. Each notifier returns whether anything was delivered and
  the calls it made, in order.
\<close>

section \<open>The notification window\<close>

text \<open>Asia/Kolkata is five and a half hours ahead of UTC all year.\<close>

definition ist_offset :: int where "ist_offset = 19800000000"

definition local_time :: "datetime \<Rightarrow> int" where
  "local_time t = (t + ist_offset) mod day_us"

definition lock_notifications_open :: "notification_settings \<Rightarrow> datetime \<Rightarrow> bool" where
  "lock_notifications_open config now =
     (if \<not> ns_notification_schedule_enabled config then True
      else let lt = local_time now; s = ns_notification_start_time config;
               e = ns_notification_end_time config
           in if s = e then True
              else if s < e then s \<le> lt \<and> lt < e
              else lt \<ge> s \<or> lt < e)"

text \<open>
  The window is the half-open arc of the clock from start to end: a time lies in it exactly when
  its distance past the start, around the clock, is less than the window's length.
\<close>

lemma window_arc:
  assumes "0 \<le> s" "s < day_us" "0 \<le> e" "e < day_us" "0 \<le> t" "t < day_us" "s \<noteq> e"
  shows "(if s < e then s \<le> t \<and> t < e else t \<ge> s \<or> t < e) \<longleftrightarrow>
     (t - s) mod day_us < (e - s) mod day_us"
proof -
  have m: "(x - s) mod day_us = (if x < s then x - s + day_us else x - s)"
    if "0 \<le> x" "x < day_us" for x
  proof (cases "x < s")
    case True
    have "(x - s) mod day_us = (x - s + day_us) mod day_us" by simp
    also have "\<dots> = x - s + day_us" using that assms(1,2) True by (intro mod_pos_pos_trivial) auto
    finally show ?thesis using True by simp
  next
    case False
    then show ?thesis using that assms(1) by (simp add: mod_pos_pos_trivial)
  qed
  show ?thesis using assms m [of t] m [of e] by auto
qed

section \<open>Payloads\<close>

datatype lock_event = Initial | Update | Cleared | Storm

record lock_card =
  lc_event :: lock_event
  lc_instance :: rds_instance
  lc_alerts :: "lock_alert list"
  lc_previous_active_keys :: "pystr list"
  lc_cleared_keys :: "pystr list"
  lc_sent_at :: datetime
  lc_cleared_alerts :: "lock_alert list"

record weekly_payload =
  wp_scope :: pystr
  wp_file_name :: pystr
  wp_csv_content :: pystr
  wp_report_url :: pystr
  wp_report_rows :: nat

datatype payload =
    Lock_summary lock_card
  | Long_query rds_instance "long_query_alert list" datetime
  | Weekly_report weekly_payload
  | Test_notification pystr

datatype post_result = Accepted | Rejected | Post_raised

type_synonym posts = "(pystr \<times> payload) list"

section \<open>Destinations\<close>

text \<open>\<open>list(dict.fromkeys(xs))\<close>: the distinct elements at their first positions.\<close>

definition dict_fromkeys :: "'a list \<Rightarrow> 'a list" where
  "dict_fromkeys xs = rev (remdups (rev xs))"

lemma set_dict_fromkeys [simp]: "set (dict_fromkeys xs) = set xs"
  by (simp add: dict_fromkeys_def)

lemma distinct_dict_fromkeys [simp]: "distinct (dict_fromkeys xs)"
  by (simp add: dict_fromkeys_def)

definition webhook_urls :: "notification_settings \<Rightarrow> rds_instance \<Rightarrow> pystr list" where
  "webhook_urls config i =
     dict_fromkeys (filter (\<lambda>w. w \<noteq> [])
       [if inst_exclude_from_global_notifications i then [] else ns_channel_webhook_url config,
        inst_owner_teams_webhook_url i])"

text \<open>The loop over the destinations: every one is tried, failures are logged and skipped.\<close>

definition deliver :: "(pystr \<Rightarrow> payload \<Rightarrow> post_result) \<Rightarrow> pystr list \<Rightarrow> payload \<Rightarrow> bool \<times> posts" where
  "deliver post urls p = (\<exists>w \<in> set urls. post w p = Accepted, map (\<lambda>w. (w, p)) urls)"

definition notify_lock_summary ::
  "(pystr \<Rightarrow> payload \<Rightarrow> post_result) \<Rightarrow> notification_settings \<Rightarrow> rds_instance \<Rightarrow> lock_alert list \<Rightarrow>
   lock_event \<Rightarrow> pystr list \<Rightarrow> pystr list \<Rightarrow> datetime \<Rightarrow> lock_alert list \<Rightarrow> bool \<times> posts" where
  "notify_lock_summary post config i alerts ev prev cleared_keys sent_at cleared_alerts =
     deliver post (webhook_urls config i)
       (Lock_summary \<lparr>lc_event = ev, lc_instance = i, lc_alerts = alerts,
          lc_previous_active_keys = prev, lc_cleared_keys = cleared_keys, lc_sent_at = sent_at,
          lc_cleared_alerts = cleared_alerts\<rparr>)"

definition notify_long_query ::
  "(pystr \<Rightarrow> payload \<Rightarrow> post_result) \<Rightarrow> notification_settings \<Rightarrow> rds_instance \<Rightarrow>
   long_query_alert list \<Rightarrow> datetime \<Rightarrow> bool \<times> posts" where
  "notify_long_query post config i alerts sent_at =
     (if alerts = [] then (False, [])
      else deliver post (webhook_urls config i) (Long_query i alerts sent_at))"

lemma webhook_urls_distinct: "distinct (webhook_urls config i)"
  by (simp add: webhook_urls_def)

lemma webhook_urls_nonempty: "w \<in> set (webhook_urls config i) \<Longrightarrow> w \<noteq> []"
  by (auto simp: webhook_urls_def split: if_splits)

lemma webhook_urls_excluded:
  "inst_exclude_from_global_notifications i \<Longrightarrow>
   set (webhook_urls config i) \<subseteq> {inst_owner_teams_webhook_url i}"
  by (auto simp: webhook_urls_def)

lemma deliver_posts: "deliver post urls p = (ok, ps) \<Longrightarrow> ps = map (\<lambda>w. (w, p)) urls"
  by (simp add: deliver_def)

lemma deliver_ok_iff: "fst (deliver post urls p) \<longleftrightarrow> (\<exists>w \<in> set urls. post w p = Accepted)"
  by (simp add: deliver_def)

lemma deliver_ok_posted: "fst (deliver post urls p) \<Longrightarrow> snd (deliver post urls p) \<noteq> []"
  by (auto simp: deliver_def)

lemma notify_lock_summary_targets:
  "(w, p) \<in> set (snd (notify_lock_summary post config i al ev prev cl t cal)) \<Longrightarrow>
   w \<in> set (webhook_urls config i)"
  by (auto simp: notify_lock_summary_def deliver_def)

lemma notify_long_query_targets:
  "(w, p) \<in> set (snd (notify_long_query post config i al t)) \<Longrightarrow> w \<in> set (webhook_urls config i)"
  by (auto simp: notify_long_query_def deliver_def split: if_splits)

end
