(* ===== verification/Monitor.thy ===== *)
theory Monitor
  imports Alert_Tables Delivery "HOL-Library.Product_Lexorder"
begin

text \<open>
  One monitor check of one registration, \<open>management/commands/monitor_locks.py\<close>: the observed
  lock rows are collapsed to one per PID pair, the open incidents are refreshed, opened and
  closed accordingly, long queries are tracked, and at most one summary card is sent.
  \<open>process_instance\<close> is split at the program's own steps. The hash of \<open>hashlib.sha256\<close> and the
  webhook call are parameters; an exception is a value, and what was committed before it stays.
\<close>

section \<open>Observed rows\<close>

record blocking_row =
  br_blocked_pid :: "int option"
  br_blocking_pid :: "int option"
  br_blocked_user :: "pystr option"
  br_blocking_user :: "pystr option"
  br_blocked_query :: "pystr option"
  br_blocking_query :: "pystr option"
  br_waiting_seconds :: "int option"

text \<open>A driver timestamp comes with the text \<open>str()\<close> gives for it.\<close>

record activity_row =
  ar_pid :: "int option"
  ar_usename :: "pystr option"
  ar_application_name :: "pystr option"
  ar_client_addr :: "pystr option"
  ar_state :: "pystr option"
  ar_query :: "pystr option"
  ar_query_start :: "(datetime \<times> pystr) option"
  ar_duration_seconds :: "int option"

datatype monitor_exc = Connection_error pystr | Integrity_error | Other_error

text \<open>An optional number inside an f-string or under \<open>str()\<close>.\<close>

definition fmt_opt :: "int option \<Rightarrow> pystr" where
  "fmt_opt x = (case x of None \<Rightarrow> lit ''None'' | Some i \<Rightarrow> str_int i)"

definition lock_key :: "blocking_row \<Rightarrow> pystr" where
  "lock_key row = fmt_opt (br_blocked_pid row) @ 58 # fmt_opt (br_blocking_pid row)"

definition lock_fingerprint :: "(pystr \<Rightarrow> pystr) \<Rightarrow> blocking_row \<Rightarrow> pystr" where
  "lock_fingerprint sha256 row = sha256 (join_with [0]
     [fmt_opt (br_blocked_pid row), fmt_opt (br_blocking_pid row),
      text_or (br_blocked_user row) [], text_or (br_blocking_user row) [],
      text_or (br_blocked_query row) [], text_or (br_blocking_query row) []])"

definition summary_fingerprint :: "(pystr \<Rightarrow> pystr) \<Rightarrow> lock_alert list \<Rightarrow> pystr" where
  "summary_fingerprint sha256 alerts = sha256 (join_with [0] (sort (map la_alert_key alerts)))"

definition long_query_key :: "(pystr \<Rightarrow> pystr) \<Rightarrow> activity_row \<Rightarrow> pystr" where
  "long_query_key sha256 row = fmt_opt (ar_pid row) @ 58 # sha256 (join_with [0]
     [fmt_opt (ar_pid row), text_or (ar_usename row) [],
      text_or (map_option snd (ar_query_start row)) [], text_or (ar_query row) []])"

section \<open>Long queries\<close>

definition excluded_users :: "notification_settings \<Rightarrow> pystr set" where
  "excluded_users config =
     set (map (\<lambda>w. py_casefold (py_strip w))
       (filter (\<lambda>w. py_strip w \<noteq> []) (split_on 44 (ns_manual_query_excluded_users config))))"

definition long_query_candidate :: "notification_settings \<Rightarrow> activity_row \<Rightarrow> bool" where
  "long_query_candidate config row =
     (let name = py_strip (text_or (ar_usename row) []);
          app = py_strip (text_or (ar_application_name row) [])
      in if ar_state row \<noteq> Some (lit ''active'') \<or> name = [] \<or> py_casefold name \<in> excluded_users config
         then False
         else if py_casefold app = lit ''healthgrid-control'' then False
         else if int_or (ar_duration_seconds row) 0 < ns_manual_query_threshold_seconds config then False
         else True)"

definition long_query_candidates ::
  "(pystr \<Rightarrow> pystr) \<Rightarrow> notification_settings \<Rightarrow> activity_row list \<Rightarrow> (pystr \<times> activity_row) list" where
  "long_query_candidates sha256 config activity =
     foldl (\<lambda>acc row. if long_query_candidate config row
                       then AList.update (long_query_key sha256 row) row acc else acc) [] activity"

definition lq_live :: "long_query_alert \<Rightarrow> bool" where
  "lq_live a \<longleftrightarrow> lq_resolved_at a = None"

definition lq_ident :: "long_query_alert \<Rightarrow> int \<times> pystr" where
  "lq_ident a = (lq_instance a, lq_alert_key a)"

definition open_long_query :: "int \<Rightarrow> int \<times> pystr \<Rightarrow> activity_row \<Rightarrow> datetime \<Rightarrow> long_query_alert" where
  "open_long_query n k row now = \<lparr>lq_pk = n, lq_instance = fst k, lq_alert_key = snd k,
     lq_pid = (case ar_pid row of None \<Rightarrow> 0 | Some p \<Rightarrow> p),
     lq_username = text_or (ar_usename row) [],
     lq_application_name = text_or (ar_application_name row) [],
     lq_client_addr = text_or (ar_client_addr row) [],
     lq_query = text_or (ar_query row) [],
     lq_query_start = map_option fst (ar_query_start row),
     lq_duration_seconds = max 0 (int_or (ar_duration_seconds row) 0),
     lq_first_seen_at = now, lq_last_seen_at = now, lq_alerted_at = None, lq_resolved_at = None\<rparr>"

definition refresh_long_query :: "activity_row \<Rightarrow> datetime \<Rightarrow> long_query_alert \<Rightarrow> long_query_alert" where
  "refresh_long_query row now a = a\<lparr>lq_last_seen_at := now,
     lq_duration_seconds := max 0 (int_or (ar_duration_seconds row) (lq_duration_seconds a))\<rparr>"

definition close_long_query :: "datetime \<Rightarrow> long_query_alert \<Rightarrow> long_query_alert" where
  "close_long_query now a = a\<lparr>lq_resolved_at := Some now\<rparr>"

text \<open>
  Each candidate is one transaction. A candidate without a PID cannot be stored: the insert
  violates the column's NOT NULL constraint and the exception ends the pass.
\<close>

fun track_long_queries ::
  "int \<Rightarrow> datetime \<Rightarrow> (pystr \<times> activity_row) list \<Rightarrow> app_db \<Rightarrow> monitor_exc option \<times> app_db" where
  "track_long_queries i now [] d = (None, d)"
| "track_long_queries i now ((key, row) # cs) d =
     (if ar_pid row = None \<and> first_row (\<lambda>a. lq_live a \<and> lq_ident a = (i, key)) (long_query_alerts d) = None
      then (Some Integrity_error, d)
      else track_long_queries i now cs
        (d\<lparr>long_query_alerts := upsert_row lq_pk lq_ident lq_live (i, key)
              (open_long_query (next_pk d) (i, key) row now) (refresh_long_query row now)
              (long_query_alerts d),
           next_pk := next_pk d + 1\<rparr>))"

text \<open>
  \<open>new_alerts\<close>: for each candidate in turn, its open row when it has not been announced yet.
\<close>

definition unannounced :: "int \<Rightarrow> pystr list \<Rightarrow> app_db \<Rightarrow> long_query_alert list" where
  "unannounced i keys d = concat (map (\<lambda>key.
     case first_row (\<lambda>a. lq_live a \<and> lq_ident a = (i, key)) (long_query_alerts d) of
       None \<Rightarrow> [] | Some a \<Rightarrow> if lq_alerted_at a = None then [a] else []) keys)"

definition process_long_queries ::
  "(pystr \<Rightarrow> pystr) \<Rightarrow> (pystr \<Rightarrow> payload \<Rightarrow> post_result) \<Rightarrow> rds_instance \<Rightarrow> activity_row list \<Rightarrow>
   notification_settings \<Rightarrow> datetime \<Rightarrow> app_db \<Rightarrow> monitor_exc option \<times> app_db \<times> posts" where
  "process_long_queries sha256 post inst activity config now d =
     (let i = inst_pk inst in
      if \<not> ns_manual_query_alert_enabled config then
        (None, d\<lparr>long_query_alerts := update_rows (\<lambda>a. lq_instance a = i \<and> lq_live a)
                   (close_long_query now) (long_query_alerts d)\<rparr>, [])
      else
        let candidates = long_query_candidates sha256 config activity in
        case track_long_queries i now candidates d of
          (Some e, d1) \<Rightarrow> (Some e, d1, [])
        | (None, d1) \<Rightarrow>
            let seen = set (map fst candidates);
                new_alerts = unannounced i (map fst candidates) d1;
                d2 = d1\<lparr>long_query_alerts :=
                  update_rows (\<lambda>a. lq_instance a = i \<and> lq_live a \<and> lq_alert_key a \<notin> seen)
                    (close_long_query now) (long_query_alerts d1)\<rparr>
            in if new_alerts \<noteq> [] \<and> lock_notifications_open config now then
                 let (ok, ps) = notify_long_query post (load_settings d2) inst new_alerts now in
                 if ok then
                   (None, d2\<lparr>long_query_alerts :=
                      update_rows (\<lambda>a. lq_pk a \<in> set (map lq_pk new_alerts))
                        (\<lambda>a. a\<lparr>lq_alerted_at := Some now\<rparr>) (long_query_alerts d2)\<rparr>, ps)
                 else (None, d2, ps)
               else (None, d2, []))"

section \<open>Lock incidents\<close>

definition la_live :: "lock_alert \<Rightarrow> bool" where
  "la_live a \<longleftrightarrow> la_resolved_at a = None"

definition la_ident :: "lock_alert \<Rightarrow> int \<times> pystr" where
  "la_ident a = (la_instance a, la_alert_key a)"

definition mark_alerted :: "int \<Rightarrow> datetime \<Rightarrow> lock_alert \<Rightarrow> lock_alert" where
  "mark_alerted threshold now a =
     (if la_waiting_seconds a \<ge> threshold \<and> la_alerted_at a = None
      then a\<lparr>la_alerted_at := Some now\<rparr> else a)"

definition open_lock_alert ::
  "int \<Rightarrow> int \<times> pystr \<Rightarrow> blocking_row \<times> int \<Rightarrow> datetime \<Rightarrow> lock_alert" where
  "open_lock_alert n k rt now = (let row = fst rt in mark_alerted (snd rt) now
     \<lparr>la_pk = n, la_instance = fst k, la_alert_key = snd k,
      la_blocked_pid = (case br_blocked_pid row of None \<Rightarrow> 0 | Some p \<Rightarrow> p),
      la_blocking_pid = (case br_blocking_pid row of None \<Rightarrow> 0 | Some p \<Rightarrow> p),
      la_blocked_user = text_or (br_blocked_user row) [],
      la_blocking_user = text_or (br_blocking_user row) [],
      la_blocked_query = text_or (br_blocked_query row) [],
      la_blocking_query = text_or (br_blocking_query row) [],
      la_waiting_seconds = max 0 (int_or (br_waiting_seconds row) 0),
      la_first_seen_at = now, la_last_seen_at = now, la_alerted_at = None, la_resolved_at = None,
      la_clear_reason = No_reason, la_cleared_by = []\<rparr>)"

definition refresh_lock_alert :: "blocking_row \<times> int \<Rightarrow> datetime \<Rightarrow> lock_alert \<Rightarrow> lock_alert" where
  "refresh_lock_alert rt now a = (let row = fst rt in mark_alerted (snd rt) now
     (a\<lparr>la_last_seen_at := now,
        la_blocked_user := text_or (br_blocked_user row) (la_blocked_user a),
        la_blocking_user := text_or (br_blocking_user row) (la_blocking_user a),
        la_blocked_query := text_or (br_blocked_query row) (la_blocked_query a),
        la_blocking_query := text_or (br_blocking_query row) (la_blocking_query a),
        la_waiting_seconds := max 0 (int_or (br_waiting_seconds row) (la_waiting_seconds a))\<rparr>))"

text \<open>
  \<open>_upsert_lock_alerts\<close>: the whole snapshot is one transaction, so an exception leaves the
  database as it was. Opening a row needs both PIDs (NOT NULL columns).
\<close>

fun upsert_lock_alerts ::
  "int \<Rightarrow> int \<Rightarrow> datetime \<Rightarrow> (pystr \<times> blocking_row) list \<Rightarrow> app_db \<Rightarrow> monitor_exc + app_db" where
  "upsert_lock_alerts i threshold now [] d = Inr d"
| "upsert_lock_alerts i threshold now ((key, row) # rest) d =
     (if (br_blocked_pid row = None \<or> br_blocking_pid row = None)
         \<and> first_row (\<lambda>a. la_live a \<and> la_ident a = (i, key)) (lock_alerts d) = None
      then Inl Integrity_error
      else upsert_lock_alerts i threshold now rest
        (d\<lparr>lock_alerts := upsert_row la_pk la_ident la_live (i, key)
              (open_lock_alert (next_pk d) (i, key) (row, threshold) now)
              (refresh_lock_alert (row, threshold) now) (lock_alerts d),
           next_pk := next_pk d + 1\<rparr>))"

text \<open>PostgreSQL can return several rows for one pair: the longest waiting one is kept.\<close>

definition collapse_step ::
  "(pystr \<times> blocking_row) list \<Rightarrow> blocking_row \<Rightarrow> (pystr \<times> blocking_row) list" where
  "collapse_step acc row =
     (case map_of acc (lock_key row) of
        None \<Rightarrow> AList.update (lock_key row) row acc
      | Some current \<Rightarrow>
          if int_or (br_waiting_seconds row) 0 > int_or (br_waiting_seconds current) 0
          then AList.update (lock_key row) row acc else acc)"

definition collapse_blocking :: "blocking_row list \<Rightarrow> (pystr \<times> blocking_row) list" where
  "collapse_blocking blocking = foldl collapse_step [] blocking"

text \<open>An open incident that was not observed is closed; a manual kill keeps its attribution.\<close>

definition close_lock_alert :: "datetime \<Rightarrow> lock_alert \<Rightarrow> lock_alert" where
  "close_lock_alert now a = a\<lparr>la_resolved_at := Some now,
     la_clear_reason := (if la_clear_reason a = No_reason then Auto_clear else la_clear_reason a)\<rparr>"

definition clear_missing ::
  "int \<Rightarrow> pystr set \<Rightarrow> datetime \<Rightarrow> app_db \<Rightarrow> lock_alert list \<times> app_db" where
  "clear_missing i seen now d =
     (let gone = (\<lambda>a. la_instance a = i \<and> la_live a \<and> la_alert_key a \<notin> seen) in
      (map (close_lock_alert now) (filter (\<lambda>a. gone a \<and> la_alerted_at a \<noteq> None) (lock_alerts d)),
       d\<lparr>lock_alerts := update_rows gone (close_lock_alert now) (lock_alerts d)\<rparr>))"

definition by_pids :: "lock_alert list \<Rightarrow> lock_alert list" where
  "by_pids = sort_key (\<lambda>a. (la_blocked_pid a, la_blocking_pid a))"

definition all_active_alerts :: "int \<Rightarrow> app_db \<Rightarrow> lock_alert list" where
  "all_active_alerts i d = by_pids (filter (\<lambda>a. la_instance a = i \<and> la_live a) (lock_alerts d))"

definition eligible_alerts :: "int \<Rightarrow> app_db \<Rightarrow> lock_alert list" where
  "eligible_alerts i d =
     by_pids (filter (\<lambda>a. la_instance a = i \<and> la_live a \<and> la_alerted_at a \<noteq> None) (lock_alerts d))"

section \<open>The summary card\<close>

definition new_notification_state :: "int \<Rightarrow> lock_notification_state" where
  "new_notification_state i = \<lparr>st_instance = i, st_last_fingerprint = [], st_last_active_keys = [],
     st_last_sent_at = None, st_storm_active = False\<rparr>"

definition notification_state :: "int \<Rightarrow> app_db \<Rightarrow> lock_notification_state" where
  "notification_state i d =
     (case first_row (\<lambda>s. st_instance s = i) (notification_states d) of
        None \<Rightarrow> new_notification_state i | Some s \<Rightarrow> s)"

definition save_notification_state :: "lock_notification_state \<Rightarrow> app_db \<Rightarrow> app_db" where
  "save_notification_state s d =
     (case first_row (\<lambda>x. st_instance x = st_instance s) (notification_states d) of
        None \<Rightarrow> d\<lparr>notification_states := notification_states d @ [s]\<rparr>
      | Some _ \<Rightarrow> d\<lparr>notification_states :=
          update_rows (\<lambda>x. st_instance x = st_instance s) (\<lambda>_. s) (notification_states d)\<rparr>)"

definition summary_event :: "pystr list \<Rightarrow> pystr list \<Rightarrow> lock_event" where
  "summary_event previous_keys current_keys =
     (if previous_keys = [] \<and> current_keys \<noteq> [] then Initial
      else if previous_keys \<noteq> [] \<and> current_keys = [] then Cleared
      else Update)"

text \<open>The ordinary card, once no storm rule applies.\<close>

definition ordinary_summary ::
  "(pystr \<Rightarrow> pystr) \<Rightarrow> (pystr \<Rightarrow> payload \<Rightarrow> post_result) \<Rightarrow> notification_settings \<Rightarrow> rds_instance \<Rightarrow>
   datetime \<Rightarrow> lock_alert list \<Rightarrow> lock_alert list \<Rightarrow> lock_notification_state \<Rightarrow>
   lock_notification_state \<times> posts" where
  "ordinary_summary sha256 post config inst now eligible cleared_alerts state =
     (let current_keys = sort (map la_alert_key eligible);
          previous_keys = sort (st_last_active_keys state);
          cleared_keys = sort (remdups (filter (\<lambda>k. k \<notin> set current_keys) previous_keys));
          current_fingerprint = summary_fingerprint sha256 eligible
      in if current_fingerprint = st_last_fingerprint state then (state, [])
         else if previous_keys = [] \<and> current_keys = [] then
           (state\<lparr>st_last_fingerprint := current_fingerprint, st_last_active_keys := []\<rparr>, [])
         else
           let (ok, ps) = notify_lock_summary post config inst eligible
                 (summary_event previous_keys current_keys) previous_keys cleared_keys now cleared_alerts
           in if ok then (state\<lparr>st_last_fingerprint := current_fingerprint,
                            st_last_active_keys := current_keys, st_last_sent_at := Some now\<rparr>, ps)
              else (state, ps))"

definition summary_step ::
  "(pystr \<Rightarrow> pystr) \<Rightarrow> (pystr \<Rightarrow> payload \<Rightarrow> post_result) \<Rightarrow> notification_settings \<Rightarrow> rds_instance \<Rightarrow>
   datetime \<Rightarrow> lock_alert list \<Rightarrow> lock_alert list \<Rightarrow> lock_alert list \<Rightarrow> lock_notification_state \<Rightarrow>
   lock_notification_state \<times> posts" where
  "summary_step sha256 post config inst now all_active eligible cleared_alerts state =
     (let current_keys = sort (map la_alert_key eligible);
          previous_keys = sort (st_last_active_keys state);
          storm_threshold = ns_lock_storm_threshold config
      in if \<not> lock_notifications_open config now then
           (state\<lparr>st_last_fingerprint := [], st_last_active_keys := current_keys\<rparr>, [])
         else if all_active = [] then
           ordinary_summary sha256 post config inst now eligible cleared_alerts
             (if st_storm_active state then state\<lparr>st_storm_active := False\<rparr> else state)
         else if storm_threshold \<noteq> 0 \<and> int (length all_active) \<ge> storm_threshold then
           (if st_storm_active state then (state, [])
            else
              let (ok, ps) = notify_lock_summary post config inst all_active Storm previous_keys [] now []
              in if ok then
                   (state\<lparr>st_storm_active := True,
                      st_last_fingerprint := summary_fingerprint sha256 all_active,
                      st_last_active_keys := sort (map la_alert_key all_active),
                      st_last_sent_at := Some now\<rparr>, ps)
                 else (state, ps))
         else if st_storm_active state then (state, [])
         else ordinary_summary sha256 post config inst now eligible cleared_alerts state)"

section \<open>One check\<close>

definition process_instance ::
  "(pystr \<Rightarrow> pystr) \<Rightarrow> (pystr \<Rightarrow> payload \<Rightarrow> post_result) \<Rightarrow>
   (rds_instance \<Rightarrow> monitor_exc + activity_row list \<times> blocking_row list) \<Rightarrow>
   rds_instance \<Rightarrow> datetime \<Rightarrow> app_db \<Rightarrow> monitor_exc option \<times> app_db \<times> posts" where
  "process_instance sha256 post fetch_activity inst now d0 =
     (case fetch_activity inst of
        Inl e \<Rightarrow> (Some e, d0, [])
      | Inr (activity, blocking) \<Rightarrow>
          let i = inst_pk inst; config = load_settings d0; d = save_settings config d0;
              unique_blocking = collapse_blocking blocking
          in case upsert_lock_alerts i (ns_threshold_seconds config) now unique_blocking d of
               Inl e \<Rightarrow> (Some e, d, [])
             | Inr d1 \<Rightarrow>
                 let (cleared_alerts, d2) = clear_missing i (set (map fst unique_blocking)) now d1;
                     eligible = eligible_alerts i d2
                 in case process_long_queries sha256 post inst activity config now d2 of
                      (Some e, d3, ps) \<Rightarrow> (Some e, d3, ps)
                    | (None, d3, ps) \<Rightarrow>
                        let (state, ps') = summary_step sha256 post config inst now
                              (all_active_alerts i d3) eligible cleared_alerts (notification_state i d3)
                        in (None, save_notification_state state d3, ps @ ps'))"

end
