(* ===== verification/Monitor_Props.thy ===== *)
theory Monitor_Props
  imports Monitor
begin

text \<open>
  What one monitor check guarantees: the incident tables keep their uniqueness constraints, the
  open incidents are exactly the observed PID pairs, first sightings and announcements are
  never rewritten, and a card is sent only when the rules of the summary allow it.
\<close>

interpretation locks: alert_table la_pk la_ident la_live open_lock_alert refresh_lock_alert close_lock_alert
  by unfold_locales
    (auto simp: open_lock_alert_def refresh_lock_alert_def close_lock_alert_def mark_alerted_def
       la_ident_def la_live_def Let_def)

interpretation long_queries: alert_table lq_pk lq_ident lq_live open_long_query refresh_long_query close_long_query
  by unfold_locales
    (auto simp: open_long_query_def refresh_long_query_def close_long_query_def lq_ident_def lq_live_def)

section \<open>Collapsing the observed rows\<close>

lemma fmt_opt_chars: "c \<in> set (fmt_opt x) \<Longrightarrow> c \<noteq> 58 \<and> c \<noteq> 0"
  using str_int_chars by (fastforce simp: fmt_opt_def lit_def is_dec_def split: option.splits)

lemma fmt_opt_inject [simp]: "fmt_opt x = fmt_opt y \<longleftrightarrow> x = y"
proof -
  have "lit ''None'' \<noteq> str_int i" for i
  proof
    assume "lit ''None'' = str_int i"
    moreover have "78 \<in> set (lit ''None'')" by (simp add: lit_def)
    ultimately have "78 \<in> set (str_int i)" by (simp only:)
    then show False using str_int_chars [of 78 i] by (auto simp: is_dec_def)
  qed
  then show ?thesis by (auto simp: fmt_opt_def split: option.splits dest: sym)
qed

lemma append_sep_inject: "c \<notin> set v \<Longrightarrow> c \<notin> set w \<Longrightarrow> v @ c # x = w @ c # y \<longleftrightarrow> v = w \<and> x = y"
proof (induction v arbitrary: w)
  case Nil
  then show ?case by (cases w) auto
next
  case (Cons a v)
  then show ?case by (cases w) auto
qed

lemma lock_key_inject:
  "lock_key r = lock_key s \<longleftrightarrow>
     br_blocked_pid r = br_blocked_pid s \<and> br_blocking_pid r = br_blocking_pid s"
proof -
  have "58 \<notin> set (fmt_opt x)" for x using fmt_opt_chars by blast
  then show ?thesis by (simp add: lock_key_def append_sep_inject)
qed

lemma lock_key_chars: "0 \<notin> set (lock_key r)" "lock_key r \<noteq> []"
  using fmt_opt_chars by (auto simp: lock_key_def)

lemma map_of_AList_update: "map_of (AList.update k v xs) = (map_of xs)(k \<mapsto> v)"
  by (simp add: AList.update_conv')

text \<open>
  The collapsed dictionary, characterised: its keys are the pairs observed, and each pair keeps
  one of its rows with the longest wait.
\<close>

abbreviation wait_of :: "blocking_row \<Rightarrow> int" where
  "wait_of r \<equiv> int_or (br_waiting_seconds r) 0"

definition longest_of :: "blocking_row list \<Rightarrow> pystr \<Rightarrow> blocking_row \<Rightarrow> bool" where
  "longest_of rows k r \<longleftrightarrow> r \<in> set rows \<and> lock_key r = k
     \<and> (\<forall>s \<in> set rows. lock_key s = k \<longrightarrow> wait_of s \<le> wait_of r)"

lemma collapse_step_map_of:
  "map_of (collapse_step acc row) k =
     (if k = lock_key row then
        Some (case map_of acc k of None \<Rightarrow> row | Some c \<Rightarrow> if wait_of row > wait_of c then row else c)
      else map_of acc k)"
  by (auto simp: collapse_step_def map_of_AList_update split: option.splits)

lemma collapse_step_distinct: "distinct (map fst acc) \<Longrightarrow> distinct (map fst (collapse_step acc row))"
  by (auto simp: collapse_step_def distinct_update split: option.splits)

lemma collapse_blocking_distinct: "distinct (map fst (collapse_blocking rows))"
proof -
  have "distinct (map fst acc) \<Longrightarrow> distinct (map fst (foldl collapse_step acc rows))" for acc
    by (induction rows arbitrary: acc) (auto simp: collapse_step_distinct)
  then show ?thesis by (simp add: collapse_blocking_def)
qed

lemma collapse_blocking_map_of:
  "case map_of (collapse_blocking rows) k of
     None \<Rightarrow> k \<notin> lock_key ` set rows
   | Some r \<Rightarrow> longest_of rows k r"
proof (induction rows rule: rev_induct)
  case Nil
  then show ?case by (simp add: collapse_blocking_def)
next
  case (snoc row rows)
  have eq: "collapse_blocking (rows @ [row]) = collapse_step (collapse_blocking rows) row"
    by (simp add: collapse_blocking_def)
  show ?case
  proof (cases "k = lock_key row")
    case False
    with snoc show ?thesis
      by (auto simp: eq collapse_step_map_of longest_of_def split: option.splits)
  next
    case True
    show ?thesis
    proof (cases "map_of (collapse_blocking rows) k")
      case None
      then have "k \<notin> lock_key ` set rows" using snoc by simp
      then have "lock_key s \<noteq> k" if "s \<in> set rows" for s using that by (metis imageI)
      then show ?thesis using True None by (auto simp: eq collapse_step_map_of longest_of_def)
    next
      case (Some c)
      then have "longest_of rows k c" using snoc by simp
      then show ?thesis using True Some by (fastforce simp: eq collapse_step_map_of longest_of_def)
    qed
  qed
qed

lemma collapse_blocking_keys: "set (map fst (collapse_blocking rows)) = lock_key ` set rows"
proof -
  have "k \<in> fst ` set (collapse_blocking rows) \<longleftrightarrow> k \<in> lock_key ` set rows" for k
    using collapse_blocking_map_of [where rows = rows and k = k]
    by (cases "map_of (collapse_blocking rows) k")
       (auto simp: map_of_eq_None_iff longest_of_def dest!: map_of_SomeD intro: rev_image_eqI)
  then show ?thesis by auto
qed

lemma collapse_blocking_row:
  assumes "(k, r) \<in> set (collapse_blocking rows)"
  shows "longest_of rows k r"
  using collapse_blocking_map_of [where rows = rows and k = k] map_of_is_SomeI [OF collapse_blocking_distinct assms]
  by simp

section \<open>The incident tables\<close>

definition monitor_ok :: "app_db \<Rightarrow> bool" where
  "monitor_ok d \<longleftrightarrow> wf_table la_pk la_ident la_live (next_pk d) (lock_alerts d)
     \<and> wf_table lq_pk lq_ident lq_live (next_pk d) (long_query_alerts d)
     \<and> distinct (map st_instance (notification_states d))"

definition open_locks :: "int \<Rightarrow> app_db \<Rightarrow> pystr set" where
  "open_locks i d = la_alert_key ` {a \<in> set (lock_alerts d). la_instance a = i \<and> la_live a}"

lemma open_locks_open_keys: "k \<in> open_locks i d \<longleftrightarrow> (i, k) \<in> open_keys la_ident la_live (lock_alerts d)"
  by (force simp: open_locks_def open_keys_def la_ident_def)

lemma upsert_lock_alerts_frame:
  "upsert_lock_alerts i th now kvs d = Inr d' \<Longrightarrow>
     d' = d\<lparr>lock_alerts := lock_alerts d', next_pk := next_pk d'\<rparr>"
proof (induction kvs arbitrary: d)
  case Nil
  then show ?case by simp
next
  case (Cons kv kvs)
  obtain k r where kv: "kv = (k, r)" by (cases kv)
  let ?d = "d\<lparr>lock_alerts := upsert_row la_pk la_ident la_live (i, k)
      (open_lock_alert (next_pk d) (i, k) (r, th) now) (refresh_lock_alert (r, th) now) (lock_alerts d),
      next_pk := next_pk d + 1\<rparr>"
  have "upsert_lock_alerts i th now kvs ?d = Inr d'"
    using Cons.prems by (auto simp: kv split: if_splits)
  then have "d' = ?d\<lparr>lock_alerts := lock_alerts d', next_pk := next_pk d'\<rparr>" by (rule Cons.IH)
  then show ?case by simp
qed

lemma upsert_lock_alerts_wf:
  assumes "upsert_lock_alerts i th now kvs d = Inr d'"
    and "wf_table la_pk la_ident la_live (next_pk d) (lock_alerts d)"
  shows "wf_table la_pk la_ident la_live (next_pk d') (lock_alerts d')
     \<and> next_pk d \<le> next_pk d'
     \<and> open_keys la_ident la_live (lock_alerts d') =
         open_keys la_ident la_live (lock_alerts d) \<union> Pair i ` set (map fst kvs)"
  using assms
proof (induction kvs arbitrary: d)
  case Nil
  then show ?case by simp
next
  case (Cons kv kvs)
  obtain k r where kv: "kv = (k, r)" by (cases kv)
  let ?d = "d\<lparr>lock_alerts := upsert_row la_pk la_ident la_live (i, k)
      (open_lock_alert (next_pk d) (i, k) (r, th) now) (refresh_lock_alert (r, th) now) (lock_alerts d),
      next_pk := next_pk d + 1\<rparr>"
  have step: "upsert_lock_alerts i th now kvs ?d = Inr d'"
    using Cons.prems(1) by (auto simp: kv split: if_splits)
  have "wf_table la_pk la_ident la_live (next_pk ?d) (lock_alerts ?d)"
    using locks.upsert_wf [OF Cons.prems(2)] by simp
  note IH = Cons.IH [OF step this]
  then show ?case using locks.upsert_open_keys [OF Cons.prems(2)] by (auto simp: kv)
qed

lemma clear_missing_frame:
  "clear_missing i seen now d = (cl, d') \<Longrightarrow> d' = d\<lparr>lock_alerts := lock_alerts d'\<rparr>"
  by (auto simp: clear_missing_def Let_def)

lemma clear_missing_wf:
  assumes "clear_missing i seen now d = (cl, d')"
    and "wf_table la_pk la_ident la_live (next_pk d) (lock_alerts d)"
  shows "wf_table la_pk la_ident la_live (next_pk d') (lock_alerts d')"
  using assms locks.close_wf by (auto simp: clear_missing_def Let_def)

lemma clear_missing_open_locks:
  assumes "clear_missing i seen now d = (cl, d')"
  shows "open_locks i d' = open_locks i d \<inter> seen" "j \<noteq> i \<Longrightarrow> open_locks j d' = open_locks j d"
proof -
  let ?gone = "\<lambda>a. la_instance a = i \<and> la_live a \<and> la_alert_key a \<notin> seen"
  have "lock_alerts d' = update_rows ?gone (close_lock_alert now) (lock_alerts d)"
    using assms by (auto simp: clear_missing_def Let_def)
  then have keys: "open_keys la_ident la_live (lock_alerts d') =
      la_ident ` {x \<in> set (lock_alerts d). la_live x \<and> \<not> ?gone x}"
    using locks.close_open_keys [of ?gone now "lock_alerts d"] by simp
  have mem: "k \<in> open_locks j d' \<longleftrightarrow>
      (\<exists>x \<in> set (lock_alerts d). la_live x \<and> \<not> ?gone x \<and> la_instance x = j \<and> la_alert_key x = k)" for j k
    unfolding open_locks_open_keys keys by (auto simp: la_ident_def)
  show "open_locks i d' = open_locks i d \<inter> seen"
    using mem by (auto simp: open_locks_def [of _ d])
  show "j \<noteq> i \<Longrightarrow> open_locks j d' = open_locks j d"
    using mem by (auto simp: open_locks_def [of _ d])
qed

lemma track_long_queries_frame:
  "track_long_queries i now cs d = (e, d') \<Longrightarrow>
     d' = d\<lparr>long_query_alerts := long_query_alerts d', next_pk := next_pk d'\<rparr> \<and> next_pk d \<le> next_pk d'"
proof (induction cs arbitrary: d)
  case Nil
  then show ?case by simp
next
  case (Cons c cs)
  obtain k r where c: "c = (k, r)" by (cases c)
  show ?case
  proof (cases "ar_pid r = None \<and> first_row (\<lambda>a. lq_live a \<and> lq_ident a = (i, k)) (long_query_alerts d) = None")
    case True
    then show ?thesis using Cons.prems by (simp add: c)
  next
    case False
    let ?d = "d\<lparr>long_query_alerts := upsert_row lq_pk lq_ident lq_live (i, k)
        (open_long_query (next_pk d) (i, k) r now) (refresh_long_query r now) (long_query_alerts d),
        next_pk := next_pk d + 1\<rparr>"
    have "track_long_queries i now cs ?d = (e, d')" using Cons.prems False unfolding c by (simp only: track_long_queries.simps if_False)
    note IH = Cons.IH [OF this]
    then have "d' = ?d\<lparr>long_query_alerts := long_query_alerts d', next_pk := next_pk d'\<rparr>" by blast
    then show ?thesis using IH by simp
  qed
qed

lemma track_long_queries_wf:
  assumes "track_long_queries i now cs d = (e, d')"
    and "wf_table lq_pk lq_ident lq_live (next_pk d) (long_query_alerts d)"
  shows "wf_table lq_pk lq_ident lq_live (next_pk d') (long_query_alerts d')"
  using assms
proof (induction cs arbitrary: d)
  case Nil
  then show ?case by simp
next
  case (Cons c cs)
  obtain k r where c: "c = (k, r)" by (cases c)
  show ?case
  proof (cases "ar_pid r = None \<and> first_row (\<lambda>a. lq_live a \<and> lq_ident a = (i, k)) (long_query_alerts d) = None")
    case True
    then show ?thesis using Cons.prems by (simp add: c)
  next
    case False
    let ?d = "d\<lparr>long_query_alerts := upsert_row lq_pk lq_ident lq_live (i, k)
        (open_long_query (next_pk d) (i, k) r now) (refresh_long_query r now) (long_query_alerts d),
        next_pk := next_pk d + 1\<rparr>"
    have "track_long_queries i now cs ?d = (e, d')" using Cons.prems(1) False unfolding c by (simp only: track_long_queries.simps if_False)
    moreover have "wf_table lq_pk lq_ident lq_live (next_pk ?d) (long_query_alerts ?d)"
      using long_queries.upsert_wf [OF Cons.prems(2)] by simp
    ultimately show ?thesis by (rule Cons.IH)
  qed
qed

lemma process_long_queries_frame:
  assumes "process_long_queries sha post inst act config now d = (e, d', ps)"
  shows "d' = d\<lparr>long_query_alerts := long_query_alerts d', next_pk := next_pk d'\<rparr> \<and> next_pk d \<le> next_pk d'"
proof (cases "ns_manual_query_alert_enabled config")
  case False
  then show ?thesis using assms by (auto simp: process_long_queries_def Let_def)
next
  case True
  obtain e1 d1 where t: "track_long_queries (inst_pk inst) now (long_query_candidates sha config act) d = (e1, d1)"
    by (cases "track_long_queries (inst_pk inst) now (long_query_candidates sha config act) d")
  note frame = track_long_queries_frame [OF t]
  have d': "d' = d1\<lparr>long_query_alerts := long_query_alerts d'\<rparr>"
    using assms True t by (auto simp: process_long_queries_def Let_def split: option.splits if_splits prod.splits)
  obtain y n where d1: "d1 = d\<lparr>long_query_alerts := y, next_pk := n\<rparr>" "next_pk d \<le> n"
    using frame by (metis)
  have "d' = d\<lparr>long_query_alerts := long_query_alerts d', next_pk := n\<rparr>"
    by (subst d', subst d1(1)) simp
  moreover from this have "next_pk d' = n" by (metis app_db.select_convs(17) app_db.surjective app_db.update_convs(17))
  ultimately show ?thesis using d1(2) by simp
qed

lemma process_long_queries_others:
  assumes "process_long_queries sha post inst act config now d = (e, d', ps)"
  shows "lock_alerts d' = lock_alerts d" "notification_states d' = notification_states d"
    "settings_row d' = settings_row d"
  by (subst conjunct1 [OF process_long_queries_frame [OF assms]], simp)+

lemma process_long_queries_wf:
  assumes p: "process_long_queries sha post inst act config now d = (e, d', ps)"
    and wf: "wf_table lq_pk lq_ident lq_live (next_pk d) (long_query_alerts d)"
  shows "wf_table lq_pk lq_ident lq_live (next_pk d') (long_query_alerts d')"
proof (cases "ns_manual_query_alert_enabled config")
  case False
  then show ?thesis using p wf long_queries.close_wf by (auto simp: process_long_queries_def Let_def)
next
  case True
  let ?cs = "long_query_candidates sha config act"
  obtain e1 d1 where t: "track_long_queries (inst_pk inst) now ?cs d = (e1, d1)"
    by (cases "track_long_queries (inst_pk inst) now ?cs d")
  have wf1: "wf_table lq_pk lq_ident lq_live (next_pk d1) (long_query_alerts d1)"
    using track_long_queries_wf [OF t wf] .
  let ?P = "\<lambda>a. lq_instance a = inst_pk inst \<and> lq_live a \<and> lq_alert_key a \<notin> set (map fst ?cs)"
  note wf2 = long_queries.close_wf [OF wf1, of ?P now]
  have "wf_table lq_pk lq_ident lq_live (next_pk d1)
      (update_rows Q (\<lambda>a. a\<lparr>lq_alerted_at := Some now\<rparr>)
         (update_rows ?P (close_long_query now) (long_query_alerts d1)))" for Q
    by (rule wf_table_update_rows [OF wf2]) (auto simp: lq_ident_def lq_live_def)
  then show ?thesis using p True t wf1 wf2
    by (auto simp: process_long_queries_def Let_def split: option.splits if_splits prod.splits)
qed

lemma save_notification_state_frame:
  "save_notification_state st d = d\<lparr>notification_states := notification_states (save_notification_state st d)\<rparr>"
  by (auto simp: save_notification_state_def split: option.splits)

lemma save_notification_state_others [simp]:
  "lock_alerts (save_notification_state st d) = lock_alerts d"
  "long_query_alerts (save_notification_state st d) = long_query_alerts d"
  "settings_row (save_notification_state st d) = settings_row d"
  "next_pk (save_notification_state st d) = next_pk d"
  by (auto simp: save_notification_state_def split: option.splits)

lemma notification_state_save [simp]:
  "notification_state (st_instance st) (save_notification_state st d) = st"
proof (cases "first_row (\<lambda>x. st_instance x = st_instance st) (notification_states d)")
  case None
  then show ?thesis by (simp add: notification_state_def save_notification_state_def first_row_append)
next
  case (Some x)
  then show ?thesis
    by (simp add: notification_state_def save_notification_state_def first_row_update_rows)
qed

lemma save_notification_state_distinct:
  assumes "distinct (map st_instance (notification_states d))"
  shows "distinct (map st_instance (notification_states (save_notification_state st d)))"
proof (cases "first_row (\<lambda>x. st_instance x = st_instance st) (notification_states d)")
  case None
  moreover from None have "\<forall>x \<in> set (notification_states d). st_instance x \<noteq> st_instance st"
    by (simp add: first_row_None)
  ultimately show ?thesis using assms by (auto simp: save_notification_state_def)
next
  case (Some x)
  have "map st_instance (update_rows (\<lambda>x. st_instance x = st_instance st) (\<lambda>_. st) (notification_states d))
      = map st_instance (notification_states d)"
    by (rule map_update_rows_same) simp
  then show ?thesis using assms Some by (simp add: save_notification_state_def)
qed

text \<open>The three ways a check can go, with the databases in between.\<close>

lemma process_instance_cases:
  assumes "process_instance sha post fetch inst now d0 = (e, d', ps)"
  obtains (fetch_failed) err where "fetch inst = Inl err" "e = Some err" "d' = d0" "ps = []"
  | (upsert_failed) act blk where "fetch inst = Inr (act, blk)" "e = Some Integrity_error"
      "d' = save_settings (load_settings d0) d0" "ps = []"
  | (checked) act blk d1 cleared d2 d3 lps st sps where
      "fetch inst = Inr (act, blk)"
      "upsert_lock_alerts (inst_pk inst) (ns_threshold_seconds (load_settings d0)) now
         (collapse_blocking blk) (save_settings (load_settings d0) d0) = Inr d1"
      "clear_missing (inst_pk inst) (lock_key ` set blk) now d1 = (cleared, d2)"
      "process_long_queries sha post inst act (load_settings d0) now d2 = (e, d3, lps)"
      "summary_step sha post (load_settings d0) inst now (all_active_alerts (inst_pk inst) d3)
         (eligible_alerts (inst_pk inst) d2) cleared (notification_state (inst_pk inst) d3) = (st, sps)"
      "d' = (if e = None then save_notification_state st d3 else d3)"
      "ps = (if e = None then lps @ sps else lps)"
proof (cases "fetch inst")
  case (Inl err)
  then show ?thesis using assms fetch_failed by (simp add: process_instance_def)
next
  case (Inr ab)
  obtain act blk where ab: "ab = (act, blk)" by (cases ab)
  let ?d = "save_settings (load_settings d0) d0"
  let ?up = "upsert_lock_alerts (inst_pk inst) (ns_threshold_seconds (load_settings d0)) now
         (collapse_blocking blk) ?d"
  have Inl: "err = Integrity_error" if "upsert_lock_alerts i th now kvs d = Inl err" for i th kvs d err
    using that by (induction kvs arbitrary: d) (auto split: if_splits)
  show ?thesis
  proof (cases ?up)
    case (Inl err)
    moreover have "err = Integrity_error" using Inl by (rule \<open>\<And>kvs i err th d. upsert_lock_alerts i th now kvs d = Inl err \<Longrightarrow> err = Integrity_error\<close>)
    ultimately show ?thesis using assms Inr ab upsert_failed by (simp add: process_instance_def Let_def)
  next
    case (Inr d1)
    note up = this
    obtain cleared d2 where cl: "clear_missing (inst_pk inst) (lock_key ` set blk) now d1 = (cleared, d2)"
      by (cases "clear_missing (inst_pk inst) (lock_key ` set blk) now d1")
    obtain e3 d3 lps where lq: "process_long_queries sha post inst act (load_settings d0) now d2 = (e3, d3, lps)"
      by (cases "process_long_queries sha post inst act (load_settings d0) now d2") auto
    obtain st sps where ss: "summary_step sha post (load_settings d0) inst now (all_active_alerts (inst_pk inst) d3)
         (eligible_alerts (inst_pk inst) d2) cleared (notification_state (inst_pk inst) d3) = (st, sps)"
      by (cases "summary_step sha post (load_settings d0) inst now (all_active_alerts (inst_pk inst) d3)
         (eligible_alerts (inst_pk inst) d2) cleared (notification_state (inst_pk inst) d3)")
    have keys: "set (map fst (collapse_blocking blk)) = lock_key ` set blk" by (rule collapse_blocking_keys)
    have "e = e3" "d' = (if e = None then save_notification_state st d3 else d3)"
        "ps = (if e = None then lps @ sps else lps)"
      using assms \<open>fetch inst = Inr ab\<close> ab up cl lq ss keys
      by (auto simp: process_instance_def Let_def split: option.splits)
    then show ?thesis using checked \<open>fetch inst = Inr ab\<close> ab up cl lq ss by blast
  qed
qed

lemma process_instance_monitor_ok:
  assumes "monitor_ok d0" and "process_instance sha post fetch inst now d0 = (e, d', ps)"
  shows "monitor_ok d'"
  using assms(2)
proof (cases rule: process_instance_cases)
  case fetch_failed
  then show ?thesis using assms(1) by simp
next
  case upsert_failed
  then show ?thesis using assms(1) by (simp add: monitor_ok_def save_settings_def)
next
  case (checked act blk d1 cleared d2 d3 lps st sps)
  let ?d = "save_settings (load_settings d0) d0"
  have ok: "wf_table la_pk la_ident la_live (next_pk ?d) (lock_alerts ?d)"
      "wf_table lq_pk lq_ident lq_live (next_pk ?d) (long_query_alerts ?d)"
      "distinct (map st_instance (notification_states ?d))"
    using assms(1) by (simp_all add: monitor_ok_def save_settings_def)
  note f1 = upsert_lock_alerts_frame [OF checked(2)] and w1 = upsert_lock_alerts_wf [OF checked(2) ok(1)]
  note f2 = clear_missing_frame [OF checked(3)]
  note w2 = clear_missing_wf [OF checked(3) conjunct1 [OF w1]]
  have q1: "long_query_alerts d1 = long_query_alerts ?d" "notification_states d1 = notification_states ?d"
    by (subst f1, simp)+
  have q2: "long_query_alerts d2 = long_query_alerts d1" "notification_states d2 = notification_states d1"
      "next_pk d2 = next_pk d1"
    by (subst f2, simp)+
  have l2: "wf_table lq_pk lq_ident lq_live (next_pk d2) (long_query_alerts d2)"
    using ok(2) w1 q1 q2 by (auto intro: wf_table_mono)
  note f3 = process_long_queries_frame [OF checked(4)] and w3 = process_long_queries_wf [OF checked(4) l2]
  have q3: "lock_alerts d3 = lock_alerts d2" "notification_states d3 = notification_states d2"
    by (subst conjunct1 [OF f3], simp)+
  have "monitor_ok d3"
    using w2 w3 f3 q1 q2 q3 ok(3) by (auto simp: monitor_ok_def intro: wf_table_mono)
  moreover have "monitor_ok (save_notification_state st d3)"
    using calculation save_notification_state_distinct
    by (subst save_notification_state_frame) (simp add: monitor_ok_def)
  ultimately show ?thesis using checked(6) by simp
qed

section \<open>The summary card\<close>

lemma process_instance_settings:
  assumes "process_instance sha post fetch inst now d0 = (e, d', ps)"
  shows "load_settings d' = load_settings d0"
  using assms
proof (cases rule: process_instance_cases)
  case (checked act blk d1 cleared d2 d3 lps st sps)
  have "settings_row d3 = settings_row d2" by (rule process_long_queries_others [OF checked(4)])
  moreover have "settings_row d2 = settings_row d1" by (subst clear_missing_frame [OF checked(3)]) simp
  moreover have "settings_row d1 = Some (load_settings d0)"
    by (subst upsert_lock_alerts_frame [OF checked(2)]) (simp add: save_settings_def)
  ultimately show ?thesis using checked(6) by (simp add: load_settings_def)
qed simp_all

lemma process_long_queries_posts:
  assumes "process_long_queries sha post inst act config now d = (e, d', ps)" and "(w, p) \<in> set ps"
  shows "\<exists>al. p = Long_query inst al now \<and> lock_notifications_open config now"
  using assms
  by (auto simp: process_long_queries_def notify_long_query_def deliver_def Let_def
      split: option.splits if_splits prod.splits)

lemma ordinary_summary_post:
  assumes "(w, p) \<in> set (snd (ordinary_summary sha post config inst now el cl st))"
  shows "summary_fingerprint sha el \<noteq> st_last_fingerprint st"
    and "p = Lock_summary \<lparr>lc_event = summary_event (sort (st_last_active_keys st)) (sort (map la_alert_key el)),
       lc_instance = inst, lc_alerts = el, lc_previous_active_keys = sort (st_last_active_keys st),
       lc_cleared_keys = sort (remdups (filter (\<lambda>k. k \<notin> set (map la_alert_key el)) (sort (st_last_active_keys st)))),
       lc_sent_at = now, lc_cleared_alerts = cl\<rparr>"
    and "post w p = Accepted \<Longrightarrow> fst (ordinary_summary sha post config inst now el cl st) =
       st\<lparr>st_last_fingerprint := summary_fingerprint sha el,
          st_last_active_keys := sort (map la_alert_key el), st_last_sent_at := Some now\<rparr>"
    and "w \<in> set (webhook_urls config inst)"
  using assms
  by (auto simp: ordinary_summary_def notify_lock_summary_def deliver_def Let_def split: if_splits prod.splits)

lemma summary_event_not_Storm [simp]: "summary_event a b \<noteq> Storm"
  by (simp add: summary_event_def)

lemma ordinary_summary_instance: "st_instance (fst (ordinary_summary sha post config inst now el cl st)) = st_instance st"
  by (auto simp: ordinary_summary_def Let_def split: prod.splits)

lemma summary_step_instance:
  "st_instance (fst (summary_step sha post config inst now al el cl st)) = st_instance st"
  by (auto simp: summary_step_def Let_def ordinary_summary_instance split: prod.splits)

lemma summary_step_closed:
  "\<not> lock_notifications_open config now \<Longrightarrow>
   summary_step sha post config inst now al el cl st =
     (st\<lparr>st_last_fingerprint := [], st_last_active_keys := sort (map la_alert_key el)\<rparr>, [])"
  by (simp add: summary_step_def)

lemma summary_step_storm_active:
  "lock_notifications_open config now \<Longrightarrow> st_storm_active st \<Longrightarrow> al \<noteq> [] \<Longrightarrow>
   summary_step sha post config inst now al el cl st = (st, [])"
  by (simp add: summary_step_def Let_def)

text \<open>An ordinary card comes from \<open>ordinary_summary\<close> on the state with at most the storm flag reset.\<close>

lemma summary_step_ordinary_card:
  assumes "(w, Lock_summary c) \<in> set (snd (summary_step sha post config inst now al el cl st))"
    and "lc_event c \<noteq> Storm"
  obtains st0 where "st0 = st \<or> st0 = st\<lparr>st_storm_active := False\<rparr>"
    and "summary_step sha post config inst now al el cl st = ordinary_summary sha post config inst now el cl st0"
proof -
  have "lock_notifications_open config now"
    using assms(1) by (auto simp: summary_step_def Let_def split: if_splits)
  moreover have "\<not> (al \<noteq> [] \<and> ns_lock_storm_threshold config \<noteq> 0
      \<and> int (length al) \<ge> ns_lock_storm_threshold config)"
    using assms by (auto simp: summary_step_def notify_lock_summary_def deliver_def Let_def split: if_splits)
  moreover have "al \<noteq> [] \<Longrightarrow> \<not> st_storm_active st"
    using assms(1) calculation by (auto simp: summary_step_def Let_def split: if_splits)
  ultimately have "\<exists>st0. (st0 = st \<or> st0 = st\<lparr>st_storm_active := False\<rparr>) \<and>
      summary_step sha post config inst now al el cl st = ordinary_summary sha post config inst now el cl st0"
    by (auto simp: summary_step_def Let_def)
  then show ?thesis using that by blast
qed

lemma notification_state_instance [simp]: "st_instance (notification_state i d) = i"
  by (auto simp: notification_state_def new_notification_state_def dest: first_row_Some split: option.splits)

lemma notification_state_cong: "notification_states d = notification_states d' \<Longrightarrow>
    notification_state i d = notification_state i d'"
  by (simp add: notification_state_def)

text \<open>The summary step of a completed check, over the databases before and after it.\<close>

lemma completed_summary:
  assumes "process_instance sha post fetch inst now d0 = (None, d', ps)"
  obtains cleared lps st sps where
    "summary_step sha post (load_settings d0) inst now (all_active_alerts (inst_pk inst) d')
       (eligible_alerts (inst_pk inst) d') cleared (notification_state (inst_pk inst) d0) = (st, sps)"
    "notification_state (inst_pk inst) d' = st" "ps = lps @ sps"
    "\<And>w p. (w, p) \<in> set lps \<Longrightarrow> \<exists>al. p = Long_query inst al now"
    "lps \<noteq> [] \<Longrightarrow> lock_notifications_open (load_settings d0) now"
  using assms
proof (cases rule: process_instance_cases)
  case (checked act blk d1 cleared d2 d3 lps st sps)
  let ?i = "inst_pk inst"
  note long = process_long_queries_others [OF checked(4)] process_long_queries_posts [OF checked(4)]
  have la: "lock_alerts d' = lock_alerts d2" using checked(6) long by simp
  have "notification_states d3 = notification_states d0"
    using long(2) by (subst long(2), subst clear_missing_frame [OF checked(3)],
        subst upsert_lock_alerts_frame [OF checked(2)]) (simp add: save_settings_def)
  then have st0: "notification_state ?i d3 = notification_state ?i d0" by (rule notification_state_cong)
  have same: "all_active_alerts ?i d3 = all_active_alerts ?i d'" "eligible_alerts ?i d2 = eligible_alerts ?i d'"
    using la long(1) by (simp_all add: all_active_alerts_def eligible_alerts_def)
  have ss: "summary_step sha post (load_settings d0) inst now (all_active_alerts ?i d') (eligible_alerts ?i d')
      cleared (notification_state ?i d0) = (st, sps)"
    using checked(5) by (simp add: st0 same)
  have inst: "st_instance st = ?i"
    using summary_step_instance [of sha post "load_settings d0" inst now _ _ cleared "notification_state ?i d0"]
    by (metis ss fst_conv notification_state_instance)
  have "notification_state ?i d' = st" using checked(6) notification_state_save [of st d3] inst by simp
  moreover have "lps \<noteq> [] \<Longrightarrow> lock_notifications_open (load_settings d0) now"
    using long(4) by (cases lps) auto
  ultimately show ?thesis using that ss checked(7) long(4) by simp
qed simp_all

text \<open>A check that did not complete sends no lock card and leaves the notification states.\<close>

lemma incomplete_check:
  assumes "process_instance sha post fetch inst now d0 = (Some err, d', ps)"
  shows "notification_states d' = notification_states d0" and "(w, Lock_summary c) \<notin> set ps"
proof -
  have "notification_states d' = notification_states d0 \<and> (w, Lock_summary c) \<notin> set ps"
    using assms
  proof (cases rule: process_instance_cases)
    case (checked act blk d1 cleared d2 d3 lps st sps)
    note long = process_long_queries_others [OF checked(4)] process_long_queries_posts [OF checked(4)]
    have "notification_states d3 = notification_states d0"
      by (subst long(2), subst clear_missing_frame [OF checked(3)],
          subst upsert_lock_alerts_frame [OF checked(2)]) (simp add: save_settings_def)
    then show ?thesis using checked(6,7) long(4) by fastforce
  qed (simp_all add: save_settings_def)
  then show "notification_states d' = notification_states d0" and "(w, Lock_summary c) \<notin> set ps"
    by auto
qed

lemma process_instance_open_keys:
  assumes "monitor_ok d0" and "process_instance sha post fetch inst now d0 = (None, d', ps)"
    and "fetch inst = Inr (act, blk)"
  shows "open_locks j d' = (if j = inst_pk inst then lock_key ` set blk else open_locks j d0)"
proof -
  let ?i = "inst_pk inst" and ?d = "save_settings (load_settings d0) d0"
  show ?thesis
    using assms(2)
  proof (cases rule: process_instance_cases)
    case (checked act' blk' d1 cleared d2 d3 lps st sps)
    have blk: "blk' = blk" using checked(1) assms(3) by simp
    have "wf_table la_pk la_ident la_live (next_pk ?d) (lock_alerts ?d)"
      using assms(1) by (simp add: monitor_ok_def save_settings_def)
    note w1 = upsert_lock_alerts_wf [OF checked(2) this]
    have d1: "open_locks j d1 = (if j = ?i then open_locks j d0 \<union> lock_key ` set blk else open_locks j d0)" for j
      using w1 collapse_blocking_keys [of blk]
      by (auto simp: open_locks_open_keys blk save_settings_def)
    note c = clear_missing_open_locks [OF checked(3)]
    have "open_locks j d' = open_locks j d2" for j
      using checked(6) process_long_queries_others(1) [OF checked(4)] by (simp add: open_locks_def)
    then show ?thesis using c d1 by (auto simp: blk)
  qed (use assms(3) in auto)
qed

section \<open>What a check keeps of an incident\<close>

text \<open>
  One incident row at two times: it keeps its identity and first sighting, an announcement time
  once set stays, and a closed row is never touched again.
\<close>

definition incident_kept :: "lock_alert \<Rightarrow> lock_alert \<Rightarrow> bool" where
  "incident_kept a b \<longleftrightarrow> la_pk b = la_pk a \<and> la_ident b = la_ident a
     \<and> la_blocked_pid b = la_blocked_pid a \<and> la_blocking_pid b = la_blocking_pid a
     \<and> la_first_seen_at b = la_first_seen_at a
     \<and> (la_alerted_at a \<noteq> None \<longrightarrow> la_alerted_at b = la_alerted_at a)
     \<and> (la_clear_reason a = Manual_kill \<longrightarrow> la_clear_reason b = Manual_kill)
     \<and> la_cleared_by b = la_cleared_by a
     \<and> (\<not> la_live a \<longrightarrow> b = a)"

lemma incident_kept_refl [simp]: "incident_kept a a"
  by (simp add: incident_kept_def)

lemma incident_kept_trans: "incident_kept a b \<Longrightarrow> incident_kept b c \<Longrightarrow> incident_kept a c"
  by (auto simp: incident_kept_def)

lemma upsert_incident_kept:
  assumes "upsert_lock_alerts i th now kvs d = Inr d'" and "a \<in> set (lock_alerts d)"
    and "wf_table la_pk la_ident la_live (next_pk d) (lock_alerts d)"
  shows "\<exists>b \<in> set (lock_alerts d'). incident_kept a b"
  using assms
proof (induction kvs arbitrary: d a)
  case Nil
  then show ?case by (intro bexI [of _ a]) simp_all
next
  case (Cons kv kvs)
  obtain k r where kv: "kv = (k, r)" by (cases kv)
  let ?d = "d\<lparr>lock_alerts := upsert_row la_pk la_ident la_live (i, k)
      (open_lock_alert (next_pk d) (i, k) (r, th) now) (refresh_lock_alert (r, th) now) (lock_alerts d),
      next_pk := next_pk d + 1\<rparr>"
  have step: "upsert_lock_alerts i th now kvs ?d = Inr d'"
    using Cons.prems(1) by (auto simp: kv split: if_splits)
  have wf: "wf_table la_pk la_ident la_live (next_pk ?d) (lock_alerts ?d)"
    using locks.upsert_wf [OF Cons.prems(3)] by simp
  have "\<exists>b \<in> set (lock_alerts ?d). incident_kept a b"
  proof (cases "first_row (\<lambda>x. la_live x \<and> la_ident x = (i, k)) (lock_alerts d)")
    case None
    then have "a \<in> set (lock_alerts ?d)" using Cons.prems(2) by (simp add: upsert_row_def)
    then show ?thesis using incident_kept_refl by blast
  next
    case (Some x)
    then have x: "x \<in> set (lock_alerts d)" "la_live x" by (auto dest: first_row_Some)
    have "incident_kept x (refresh_lock_alert (r, th) now x)"
      using x by (auto simp: incident_kept_def refresh_lock_alert_def mark_alerted_def la_ident_def Let_def)
    then have "\<exists>b \<in> set (update_rows (\<lambda>y. la_pk y = la_pk x)
        (\<lambda>_. refresh_lock_alert (r, th) now x) (lock_alerts d)). incident_kept a b"
      using wf_table_pk_inj [OF Cons.prems(3) Cons.prems(2) x(1)] Cons.prems(2)
      by (intro update_rows_related) auto
    then show ?thesis using Some by (simp add: upsert_row_def)
  qed
  then obtain b where b: "b \<in> set (lock_alerts ?d)" "incident_kept a b" by blast
  then show ?case using Cons.IH [OF step b(1) wf] incident_kept_trans by blast
qed

lemma process_instance_kept:
  assumes "monitor_ok d0" and "process_instance sha post fetch inst now d0 = (e, d', ps)"
    and "a \<in> set (lock_alerts d0)"
  shows "\<exists>b \<in> set (lock_alerts d'). incident_kept a b"
  using assms(2)
proof (cases rule: process_instance_cases)
  case (checked act blk d1 cleared d2 d3 lps st sps)
  let ?d = "save_settings (load_settings d0) d0"
  have "wf_table la_pk la_ident la_live (next_pk ?d) (lock_alerts ?d)" "a \<in> set (lock_alerts ?d)"
    using assms(1,3) by (simp_all add: monitor_ok_def save_settings_def)
  then obtain b where b: "b \<in> set (lock_alerts d1)" "incident_kept a b"
    using upsert_incident_kept [OF checked(2)] by blast
  have "incident_kept b (close_lock_alert now b)" if "la_live b"
    using that by (auto simp: incident_kept_def close_lock_alert_def la_ident_def)
  then have "\<exists>c \<in> set (update_rows (\<lambda>a. la_instance a = inst_pk inst \<and> la_live a
      \<and> la_alert_key a \<notin> lock_key ` set blk) (close_lock_alert now) (lock_alerts d1)). incident_kept b c"
    by (intro update_rows_related [OF b(1)]) auto
  then have "\<exists>c \<in> set (lock_alerts d2). incident_kept b c"
    using checked(3) by (auto simp: clear_missing_def Let_def)
  then show ?thesis
    using checked(6) process_long_queries_others(1) [OF checked(4)] incident_kept_trans [OF b(2)] by auto
next
  case fetch_failed
  then show ?thesis using assms(3) incident_kept_refl by blast
next
  case upsert_failed
  then have "a \<in> set (lock_alerts d')" using assms(3) by (simp add: save_settings_def)
  then show ?thesis using incident_kept_refl by blast
qed

end
