(* ===== verification/Fixtures.thy ===== *)
theory Fixtures
  imports Models
begin

text \<open>
  Concrete rows at which the properties are applied: one registration, settings with both a
  channel and a storm threshold, and the database that holds them.
\<close>

definition demo_instance :: rds_instance where
  "demo_instance = \<lparr>inst_pk = 7, inst_name = lit ''orders'', inst_connection_group = lit ''g1'',
     inst_engine = lit ''postgresql'', inst_db_identifier = lit ''orders-db'',
     inst_region = lit ''us-east-1'', inst_host = lit ''db.example.com'', inst_port = 5432,
     inst_db_name = lit ''orders'', inst_username = lit ''app'', inst_lock_control_enabled = False,
     inst_control_username = [], inst_owner_teams_webhook_url = lit ''https://owner'',
     inst_exclude_from_global_notifications = False, inst_password_encrypted = lit ''x'',
     inst_control_password_encrypted = [], inst_query_runner_enabled = False,
     inst_query_runner_username = [], inst_query_runner_password_encrypted = [],
     inst_ssl_required = True, inst_is_active = True, inst_added_by = None\<rparr>"

definition demo_settings :: notification_settings where
  "demo_settings = default_settings\<lparr>ns_channel_webhook_url := lit ''https://channel'',
     ns_lock_storm_threshold := 3\<rparr>"

definition demo_db :: app_db where
  "demo_db = empty_db\<lparr>instances := [demo_instance], settings_row := Some demo_settings, next_pk := 10\<rparr>"

lemmas demo_db_defs = demo_instance_def demo_settings_def demo_db_def empty_db_def default_settings_def

lemma demo_pk [simp]: "inst_pk demo_instance = 7"
  by (simp add: demo_instance_def)

lemma load_settings_demo [simp]: "load_settings demo_db = demo_settings"
  by (simp add: load_settings_def demo_db_def)

end
