(* ===== verification/Monitor_Claims.thy ===== *)
theory Monitor_Claims
  imports Monitor_Props Fixtures
begin

text \<open>
  The properties of the monitor check, each over \<open>process_instance\<close> or one of its steps, with a
  concrete database, observation and endpoint at which each applies.
\<close>

section \<open>Concrete checks for the witnesses\<close>

definition demo_row :: "int \<Rightarrow> int \<Rightarrow> int \<Rightarrow> blocking_row" where
  "demo_row a b w = \<lparr>br_blocked_pid = Some a, br_blocking_pid = Some b,
     br_blocked_user = Some (lit ''app''), br_blocking_user = None, br_blocked_query = None,
     br_blocking_query = None, br_waiting_seconds = Some w\<rparr>"

abbreviation accept_all :: "pystr \<Rightarrow> payload \<Rightarrow> post_result" where
  "accept_all \<equiv> \<lambda>_ _. Accepted"

abbreviation demo_fetch :: "blocking_row list \<Rightarrow> rds_instance \<Rightarrow>
    monitor_exc + activity_row list \<times> blocking_row list" where
  "demo_fetch rows \<equiv> \<lambda>_. Inr ([], rows)"

lemmas demo_defs = demo_db_defs demo_row_def

lemma monitor_ok_demo [simp]: "monitor_ok demo_db"
  by (simp add: monitor_ok_def demo_db_def empty_db_def)

text \<open>A check of the concrete registration, and the database it leaves.\<close>

abbreviation demo_check :: "blocking_row list \<Rightarrow> datetime \<Rightarrow> app_db \<Rightarrow> monitor_exc option \<times> app_db \<times> posts" where
  "demo_check rows now d \<equiv> process_instance id accept_all (demo_fetch rows) demo_instance now d"

lemma demo_check_None:
  "fst (demo_check rows now d) = None \<Longrightarrow>
   demo_check rows now d = (None, fst (snd (demo_check rows now d)), snd (snd (demo_check rows now d)))"
  by (metis prod.collapse)

text \<open>The lock cards among the calls, by destination and event.\<close>

definition card_events :: "posts \<Rightarrow> (pystr \<times> lock_event) list" where
  "card_events ps = concat (map (\<lambda>(w, p). case p of Lock_summary c \<Rightarrow> [(w, lc_event c)] | _ \<Rightarrow> []) ps)"

lemma card_events_iff:
  "(w, ev) \<in> set (card_events ps) \<longleftrightarrow> (\<exists>c. (w, Lock_summary c) \<in> set ps \<and> lc_event c = ev)"
  by (induction ps) (auto simp: card_events_def split: payload.splits)

text \<open>The database the first check of one announced lock leaves.\<close>

definition demo_db1 :: app_db where
  "demo_db1 = demo_db\<lparr>lock_alerts := [\<lparr>la_pk = 10, la_instance = 7, la_alert_key = lit ''11:22'',
     la_blocked_pid = 11, la_blocking_pid = 22, la_blocked_user = lit ''app'', la_blocking_user = [],
     la_blocked_query = [], la_blocking_query = [], la_waiting_seconds = 300, la_first_seen_at = 5000,
     la_last_seen_at = 5000, la_alerted_at = Some 5000, la_resolved_at = None,
     la_clear_reason = No_reason, la_cleared_by = []\<rparr>],
   notification_states := [\<lparr>st_instance = 7, st_last_fingerprint = lit ''11:22'',
     st_last_active_keys = [lit ''11:22''], st_last_sent_at = Some 5000, st_storm_active = False\<rparr>],
   next_pk := 11\<rparr>"

lemma demo_first_check: "fst (snd (demo_check [demo_row 11 22 300] 5000 demo_db)) = demo_db1"
  by code_simp

lemma demo_first_check_None: "fst (demo_check [demo_row 11 22 300] 5000 demo_db) = None"
  by code_simp

lemma demo_first_run:
  "demo_check [demo_row 11 22 300] 5000 demo_db =
     (None, demo_db1, snd (snd (demo_check [demo_row 11 22 300] 5000 demo_db)))"
  using demo_check_None [OF demo_first_check_None] by (simp only: demo_first_check)

lemma demo_first_cards:
  "card_events (snd (snd (demo_check [demo_row 11 22 300] 5000 demo_db))) =
     [(lit ''https://channel'', Initial), (lit ''https://owner'', Initial)]"
  by code_simp

lemma card_events_fst:
  assumes "map fst (card_events ps) = w # ws"
  obtains c where "(w, Lock_summary c) \<in> set ps"
proof -
  have "w \<in> fst ` set (card_events ps)" using assms by (metis list.set_intros(1) set_map)
  then show ?thesis using that by (auto simp: card_events_iff)
qed

section \<open>The constraints of the incident tables\<close>

text \<open>
  C5. The database constraints hold through every check: in both incident tables at most one open
  row per registration and key, unique primary keys, and at most one notification state per
  registration, whatever was observed and wherever the check stops.
\<close>

theorem process_instance_invariant:
  assumes "monitor_ok d0" and "process_instance sha post fetch inst now d0 = (e, d', ps)"
  shows "monitor_ok d'"
  using assms by (rule process_instance_monitor_ok)

theorem process_instance_invariant_witness:
  "monitor_ok demo_db \<and>
   monitor_ok (fst (snd (process_instance id accept_all
     (demo_fetch [demo_row 11 22 300]) demo_instance 5000 demo_db)))"
proof -
  obtain e d' ps where p: "process_instance id accept_all (demo_fetch [demo_row 11 22 300])
      demo_instance 5000 demo_db = (e, d', ps)"
    by (rule prod_cases3)
  show ?thesis using process_instance_invariant [OF monitor_ok_demo p] p by simp
qed

section \<open>The open incidents are the observed pairs\<close>

text \<open>
  C4. A completed check implements its specification: the registration's open incidents are
  afterwards exactly the observed blocked/blocking pairs, one per pair however many rows the
  catalog returned, and the open incidents of every other registration are as before.
\<close>

theorem process_instance_open_locks:
  assumes "monitor_ok d0" and "process_instance sha post fetch inst now d0 = (None, d', ps)"
    and "fetch inst = Inr (act, blk)"
  shows "open_locks j d' = (if j = inst_pk inst then lock_key ` set blk else open_locks j d0)"
  using assms by (rule process_instance_open_keys)

theorem process_instance_open_locks_witness:
  "open_locks 7 (fst (snd (demo_check [demo_row 11 22 300, demo_row 11 22 90] 5000 demo_db)))
     = {lit ''11:22''}"
proof -
  have run: "fst (demo_check [demo_row 11 22 300, demo_row 11 22 90] 5000 demo_db) = None"
    by code_simp
  have key: "lock_key (demo_row 11 22 w) = lit ''11:22''" for w
    by (simp add: lock_key_def demo_row_def fmt_opt_def) code_simp
  show ?thesis
    using process_instance_open_locks [OF monitor_ok_demo demo_check_None [OF run] refl, of 7]
    by (simp add: key demo_instance_def)
qed

section \<open>The history of an incident\<close>

text \<open>
  C14. No check rewrites history: every incident row survives a check with its identity and its
  first sighting, an announcement time or a manual-kill attribution once recorded is kept, and
  closed incidents are left as they are.
\<close>

theorem process_instance_history:
  assumes "monitor_ok d0" and "process_instance sha post fetch inst now d0 = (e, d', ps)"
    and "a \<in> set (lock_alerts d0)"
  shows "\<exists>b \<in> set (lock_alerts d'). incident_kept a b"
  using assms by (rule process_instance_kept)

theorem process_instance_history_witness:
  "\<exists>a d'. a \<in> set (lock_alerts d') \<and> la_first_seen_at a = 5000
     \<and> (\<exists>b \<in> set (lock_alerts (fst (snd (demo_check [] 9000 d')))). incident_kept a b)"
proof -
  let ?d = "fst (snd (demo_check [demo_row 11 22 300] 5000 demo_db))"
  have "fst (demo_check [demo_row 11 22 300] 5000 demo_db) = None" by code_simp
  from process_instance_monitor_ok [OF monitor_ok_demo demo_check_None [OF this]]
  have ok: "monitor_ok ?d" .
  have "map la_first_seen_at (lock_alerts ?d) = [5000]" by code_simp
  then obtain a where a: "a \<in> set (lock_alerts ?d)" "la_first_seen_at a = 5000" by auto
  obtain e d' ps where p: "demo_check [] 9000 ?d = (e, d', ps)" by (rule prod_cases3)
  have "\<exists>b \<in> set (lock_alerts (fst (snd (demo_check [] 9000 ?d)))). incident_kept a b"
    using process_instance_history [OF ok p a(1)] p by simp
  then show ?thesis using a by blast
qed

section \<open>When a card is sent\<close>

text \<open>
  Quiet hours: a check outside the configured window makes no webhook call of any kind, while
  it still records what it observed.
\<close>

lemma closed_window_is_silent:
  assumes "process_instance sha post fetch inst now d0 = (e, d', ps)"
    and "\<not> lock_notifications_open (load_settings d0) now"
  shows "ps = []"
  using assms(1)
proof (cases rule: process_instance_cases)
  case (checked act blk d1 cleared d2 d3 lps st sps)
  have "lps = []" using process_long_queries_posts [OF checked(4)] assms(2) by (cases lps) auto
  moreover have "sps = []" using checked(5) assms(2) by (simp add: summary_step_closed)
  ultimately show ?thesis using checked(7) by simp
qed simp_all

definition quiet_settings :: notification_settings where
  "quiet_settings = demo_settings\<lparr>ns_notification_schedule_enabled := True\<rparr>"

text \<open>Midnight UTC is 05:30 in the display timezone, before the default opening at 09:00.\<close>

lemma closed_window_is_silent_witness:
  "\<not> lock_notifications_open quiet_settings 0
   \<and> snd (snd (demo_check [demo_row 11 22 300] 0 (save_settings quiet_settings demo_db))) = []"
proof -
  let ?d = "save_settings quiet_settings demo_db"
  have c: "\<not> lock_notifications_open quiet_settings 0" by code_simp
  then have closed: "\<not> lock_notifications_open (load_settings ?d) 0" by simp
  obtain e d' ps where p: "demo_check [demo_row 11 22 300] 0 ?d = (e, d', ps)" by (rule prod_cases3)
  show ?thesis using closed_window_is_silent [OF p closed] p c by simp
qed

lemma summary_fingerprint_cong:
  assumes "distinct (map la_alert_key xs)" "distinct (map la_alert_key ys)"
    and "la_alert_key ` set xs = la_alert_key ` set ys"
  shows "summary_fingerprint sha xs = summary_fingerprint sha ys"
proof -
  have "sort (map la_alert_key xs) = sort (map la_alert_key ys)"
    using assms by (intro sorted_distinct_set_unique) simp_all
  then show ?thesis by (simp add: summary_fingerprint_def)
qed

lemma eligible_distinct:
  assumes "monitor_ok d"
  shows "distinct (map la_alert_key (eligible_alerts i d))"
proof -
  let ?E = "filter (\<lambda>a. la_instance a = i \<and> la_live a \<and> la_alerted_at a \<noteq> None) (lock_alerts d)"
  have "distinct (map la_ident (filter la_live (lock_alerts d)))"
    using assms by (simp add: monitor_ok_def wf_table_def)
  then have "distinct (map la_ident (filter (\<lambda>a. la_instance a = i \<and> la_alerted_at a \<noteq> None)
      (filter la_live (lock_alerts d))))" by (rule distinct_map_filter)
  moreover have "filter (\<lambda>a. la_instance a = i \<and> la_alerted_at a \<noteq> None) (filter la_live (lock_alerts d)) = ?E"
    by (simp add: conj_commute conj_left_commute)
  ultimately have "distinct (map la_ident ?E)" by (simp only:)
  then have "distinct ?E" and inj: "inj_on la_ident (set ?E)" by (simp_all only: distinct_map)
  moreover have "inj_on la_alert_key (set ?E)"
    using inj by (auto simp: inj_on_def la_ident_def)
  ultimately show ?thesis
    by (auto simp: eligible_alerts_def by_pids_def distinct_map)
qed

text \<open>An ordinary card of a completed check comes from \<open>ordinary_summary\<close> on the state before it.\<close>

lemma ordinary_card_source:
  assumes "process_instance sha post fetch inst now d0 = (None, d', ps)"
    and "(w, Lock_summary c) \<in> set ps" and "lc_event c \<noteq> Storm"
  obtains cl st0 where
    "st0 = notification_state (inst_pk inst) d0 \<or> st0 = notification_state (inst_pk inst) d0\<lparr>st_storm_active := False\<rparr>"
    and "(w, Lock_summary c) \<in> set (snd (ordinary_summary sha post (load_settings d0) inst now
      (eligible_alerts (inst_pk inst) d') cl st0))"
    and "notification_state (inst_pk inst) d' =
      fst (ordinary_summary sha post (load_settings d0) inst now (eligible_alerts (inst_pk inst) d') cl st0)"
  using assms(1)
proof (rule completed_summary)
  let ?i = "inst_pk inst"
  fix cl lps st sps
  assume s: "summary_step sha post (load_settings d0) inst now (all_active_alerts ?i d')
      (eligible_alerts ?i d') cl (notification_state ?i d0) = (st, sps)"
    and st: "notification_state ?i d' = st" and ps: "ps = lps @ sps"
    and lps: "\<And>w p. (w, p) \<in> set lps \<Longrightarrow> \<exists>al. p = Long_query inst al now"
  have "(w, Lock_summary c) \<in> set sps" using assms(2) ps lps by fastforce
  then have card: "(w, Lock_summary c) \<in> set (snd (summary_step sha post (load_settings d0) inst now
      (all_active_alerts ?i d') (eligible_alerts ?i d') cl (notification_state ?i d0)))" using s by simp
  from summary_step_ordinary_card [OF card assms(3)] obtain st0 where
    st0: "st0 = notification_state ?i d0 \<or> st0 = notification_state ?i d0\<lparr>st_storm_active := False\<rparr>" and
    eq: "summary_step sha post (load_settings d0) inst now (all_active_alerts ?i d') (eligible_alerts ?i d')
      cl (notification_state ?i d0) =
      ordinary_summary sha post (load_settings d0) inst now (eligible_alerts ?i d') cl st0" by blast
  show ?thesis
    by (rule that [OF st0 card [unfolded eq]]) (use s st in \<open>simp add: eq\<close>)
qed





section \<open>Lock storms\<close>

text \<open>The checks of one registration in sequence, each at its time with what it observed.\<close>

fun run_checks ::
  "(pystr \<Rightarrow> pystr) \<Rightarrow> (pystr \<Rightarrow> payload \<Rightarrow> post_result) \<Rightarrow> rds_instance \<Rightarrow>
   (datetime \<times> (monitor_exc + activity_row list \<times> blocking_row list)) list \<Rightarrow> app_db \<Rightarrow> app_db \<times> posts" where
  "run_checks sha post inst [] d = (d, [])"
| "run_checks sha post inst ((now, obs) # cs) d =
     (let (e, d1, ps) = process_instance sha post (\<lambda>_. obs) inst now d;
          (d2, ps') = run_checks sha post inst cs d1
      in (d2, ps @ ps'))"

text \<open>A check during which a storm cannot end: it saw a lock, or ran outside the window.\<close>

definition storm_continues :: "notification_settings \<Rightarrow>
    datetime \<times> (monitor_exc + activity_row list \<times> blocking_row list) \<Rightarrow> bool" where
  "storm_continues config c =
     (case snd c of Inl _ \<Rightarrow> True
      | Inr (_, blk) \<Rightarrow> blk \<noteq> [] \<or> \<not> lock_notifications_open config (fst c))"

lemma all_active_nonempty:
  assumes "open_locks i d \<noteq> {}"
  shows "all_active_alerts i d \<noteq> []"
proof -
  obtain a where a: "a \<in> set (lock_alerts d)" "la_instance a = i \<and> la_live a"
    using assms by (auto simp: open_locks_def)
  then have "a \<in> set (all_active_alerts i d)" by (simp add: all_active_alerts_def by_pids_def)
  then show ?thesis by auto
qed

lemma storm_continues_step:
  assumes ok: "monitor_ok d" and active: "st_storm_active (notification_state (inst_pk inst) d)"
    and cont: "storm_continues (load_settings d) (now, obs)"
    and p: "process_instance sha post (\<lambda>_. obs) inst now d = (e, d', ps)"
  shows "st_storm_active (notification_state (inst_pk inst) d')" and "(w, Lock_summary c) \<notin> set ps"
proof -
  let ?i = "inst_pk inst"
  have "st_storm_active (notification_state ?i d') \<and> (w, Lock_summary c) \<notin> set ps"
  proof (cases e)
    case (Some err)
    note inc = incomplete_check [OF p [unfolded Some]]
    show ?thesis using inc(2) active notification_state_cong [OF inc(1)] by simp
  next
    case None
    from p None have p': "process_instance sha post (\<lambda>_. obs) inst now d = (None, d', ps)" by simp
    then show ?thesis
    proof (rule completed_summary)
      fix cl lps st sps
      assume s: "summary_step sha post (load_settings d) inst now (all_active_alerts ?i d')
          (eligible_alerts ?i d') cl (notification_state ?i d) = (st, sps)"
        and st: "notification_state ?i d' = st" and ps: "ps = lps @ sps"
        and lps: "\<And>w p. (w, p) \<in> set lps \<Longrightarrow> \<exists>al. p = Long_query inst al now"
      have lock: "(w, Lock_summary c) \<notin> set lps" using lps by fastforce
      show ?thesis
      proof (cases "lock_notifications_open (load_settings d) now")
        case False
        from s [unfolded summary_step_closed [OF False]]
        have "st_storm_active st" "sps = []" using active by auto
        then show ?thesis using lock by (simp add: st ps)
      next
        case True
        obtain act blk where obs: "obs = Inr (act, blk)"
          using p' by (cases obs) (auto simp: process_instance_def)
        then have "blk \<noteq> []" using cont True by (simp add: storm_continues_def)
        then have "open_locks ?i d' \<noteq> {}"
          using process_instance_open_keys [OF ok p' obs, of ?i] by simp
        then show ?thesis
          using summary_step_storm_active [OF True active all_active_nonempty] s st ps lock active by simp
      qed
    qed
  qed
  then show "st_storm_active (notification_state ?i d')" and "(w, Lock_summary c) \<notin> set ps" by auto
qed

lemma storm_run:
  assumes "monitor_ok d" and "st_storm_active (notification_state (inst_pk inst) d)"
    and "\<forall>c \<in> set cs. storm_continues (load_settings d) c"
    and "run_checks sha post inst cs d = (d', ps)"
  shows "st_storm_active (notification_state (inst_pk inst) d') \<and> (w, Lock_summary c) \<notin> set ps"
  using assms
proof (induction cs arbitrary: d ps)
  case Nil
  then show ?case by simp
next
  case (Cons x cs)
  obtain now obs where x: "x = (now, obs)" by (cases x)
  obtain e d1 ps1 where p: "process_instance sha post (\<lambda>_. obs) inst now d = (e, d1, ps1)" by (rule prod_cases3)
  obtain ps2 where r: "run_checks sha post inst cs d1 = (d', ps2)" and ps: "ps = ps1 @ ps2"
    using Cons.prems(4) by (auto simp: x p split: prod.splits)
  note step = storm_continues_step [OF Cons.prems(1,2) _ p]
  have c: "storm_continues (load_settings d) (now, obs)" using Cons.prems(3) by (simp add: x)
  have "st_storm_active (notification_state (inst_pk inst) d') \<and> (w, Lock_summary c) \<notin> set ps2"
    using Cons.IH [OF process_instance_monitor_ok [OF Cons.prems(1) p] step(1) [OF c] _ r]
      Cons.prems(3) process_instance_settings [OF p] by simp
  then show ?case using step(2) [OF c] by (simp add: ps)
qed


definition demo_storm_db :: app_db where
  "demo_storm_db = save_notification_state
     ((notification_state 7 demo_db)\<lparr>st_storm_active := True\<rparr>) demo_db"

lemma demo_storm_db_facts:
  "monitor_ok demo_storm_db" "st_storm_active (notification_state (inst_pk demo_instance) demo_storm_db)"
  "load_settings demo_storm_db = demo_settings"
  using monitor_ok_demo notification_state_save [of "(notification_state 7 demo_db)\<lparr>st_storm_active := True\<rparr>" demo_db]
    save_notification_state_distinct [of demo_db]
  by (simp_all add: demo_storm_db_def monitor_ok_def load_settings_def demo_db_def)


text \<open>
  What the storm flag does across quiet hours: if every lock of a storm clears during a check
  outside the window, the flag stays set, so a lock that appears afterwards, in the open window
  and below the storm threshold, is announced by no card, although no lock of the storm is left.
\<close>

lemma storm_flag_outlives_quiet_clear:
  assumes "monitor_ok d" and "st_storm_active (notification_state (inst_pk inst) d)"
    and "\<not> lock_notifications_open (load_settings d) t1"
    and "process_instance sha post (\<lambda>_. Inr (act1, [])) inst t1 d = (None, d1, ps1)"
    and "process_instance sha post (\<lambda>_. Inr (act2, blk)) inst t2 d1 = (e2, d2, ps2)" and "blk \<noteq> []"
  shows "open_locks (inst_pk inst) d1 = {} \<and> card_events (ps1 @ ps2) = []"
proof -
  let ?cs = "[(t1, Inr (act1, [])), (t2, Inr (act2, blk))]"
  have empty: "open_locks (inst_pk inst) d1 = {}"
    using process_instance_open_keys [OF assms(1,4) refl, of "inst_pk inst"] by simp
  have run: "run_checks sha post inst ?cs d = (d2, ps1 @ ps2)"
    using assms(4,5) by simp
  have cont: "\<forall>c \<in> set ?cs. storm_continues (load_settings d) c"
    using assms(3,6) by (simp add: storm_continues_def)
  have "x \<notin> set (card_events (ps1 @ ps2))" for x
    using storm_run [OF assms(1,2) cont run] by (cases x) (auto simp: card_events_iff simp del: set_append)
  then have "card_events (ps1 @ ps2) = []" by (cases "card_events (ps1 @ ps2)") auto
  then show ?thesis using empty by simp
qed

text \<open>The quiet check is at midnight UTC, the second at 06:00 UTC, 11:30 in the display timezone.\<close>

definition quiet_storm_db :: app_db where
  "quiet_storm_db = save_settings quiet_settings demo_storm_db"

lemma storm_flag_outlives_quiet_clear_witness:
  "lock_notifications_open quiet_settings (seconds 21600)
   \<and> card_events (snd (snd (demo_check [] 0 quiet_storm_db)) @
        snd (snd (demo_check [demo_row 11 22 300] (seconds 21600) (fst (snd (demo_check [] 0 quiet_storm_db)))))) = []"
proof -
  have "lock_notifications_open quiet_settings (seconds 21600)" by code_simp
  have closed: "\<not> lock_notifications_open (load_settings quiet_storm_db) 0" by code_simp
  have ok: "monitor_ok quiet_storm_db"
      "st_storm_active (notification_state (inst_pk demo_instance) quiet_storm_db)"
    using demo_storm_db_facts
    by (simp_all add: quiet_storm_db_def save_settings_def monitor_ok_def notification_state_def)
  have "fst (demo_check [] 0 quiet_storm_db) = None" by code_simp
  note p1 = demo_check_None [OF this]
  obtain e2 d2 ps2 where p2: "demo_check [demo_row 11 22 300] (seconds 21600)
      (fst (snd (demo_check [] 0 quiet_storm_db))) = (e2, d2, ps2)" by (rule prod_cases3)
  show ?thesis
    using storm_flag_outlives_quiet_clear [OF ok closed p1 p2] p2
      \<open>lock_notifications_open quiet_settings (seconds 21600)\<close> by simp
qed

end
