(* ===== verification/Calendar.thy ===== *)
theory Calendar
  imports Delivery
begin

text \<open>
  Calendar arithmetic of the display timezone: what \<open>monitor/notifications.py\<close> and
  \<open>monitor/background.py\<close> use of Python's \<open>datetime\<close> (date of an instant, weekday, ISO week,
  \<open>strftime\<close>). Days are proleptic Gregorian ordinals, 1 January of year 1 being day 1.
\<close>

section \<open>Dates\<close>

definition local_ordinal :: "datetime \<Rightarrow> int" where
  "local_ordinal t = (t + ist_offset) div day_us + 719163"

definition local_hour :: "datetime \<Rightarrow> int" where
  "local_hour t = local_time t div seconds 3600"

definition days_before_year :: "int \<Rightarrow> int" where
  "days_before_year year = (let y = year - 1 in y * 365 + y div 4 - y div 100 + y div 400)"

text \<open>Python's date from ordinal, by 400, 100, 4 and single years.\<close>

definition year_parts :: "int \<Rightarrow> int \<times> int \<times> int \<times> int \<times> int" where
  "year_parts ordinal =
     (let n = ordinal - 1; n400 = n div 146097; a = n mod 146097;
          n100 = a div 36524; b = a mod 36524; n4 = b div 1461; c = b mod 1461;
          n1 = c div 365
      in (n400, n100, n4, n1, c mod 365))"

definition year_of :: "int \<Rightarrow> int" where
  "year_of ordinal = (case year_parts ordinal of (n400, n100, n4, n1, n) \<Rightarrow>
     let y = n400 * 400 + 1 + n100 * 100 + n4 * 4 + n1
     in if n1 = 4 \<or> n100 = 4 then y - 1 else y)"

definition days_before_month :: "int list" where
  "days_before_month = [-1, 0, 31, 59, 90, 120, 151, 181, 212, 243, 273, 304, 334]"

definition days_in_month :: "int list" where
  "days_in_month = [-1, 31, 28, 31, 30, 31, 30, 31, 31, 30, 31, 30, 31]"

definition month_day :: "bool \<Rightarrow> int \<Rightarrow> int \<times> int" where
  "month_day leap n =
     (let month = (n + 50) div 32;
          preceding = days_before_month ! nat month + (if month > 2 \<and> leap then 1 else 0)
      in if preceding > n then
           let m = month - 1;
               p = preceding - (days_in_month ! nat m + (if m = 2 \<and> leap then 1 else 0))
           in (m, n - p + 1)
         else (month, n - preceding + 1))"

definition ymd_of :: "int \<Rightarrow> int \<times> int \<times> int" where
  "ymd_of ordinal = (case year_parts ordinal of (n400, n100, n4, n1, n) \<Rightarrow>
     if n1 = 4 \<or> n100 = 4 then (year_of ordinal, 12, 31)
     else (year_of ordinal, month_day (n1 = 3 \<and> (n4 \<noteq> 24 \<or> n100 = 3)) n))"

text \<open>Monday is 0.\<close>

definition weekday :: "int \<Rightarrow> int" where
  "weekday ordinal = (ordinal + 6) mod 7"

definition isoweek1monday :: "int \<Rightarrow> int" where
  "isoweek1monday year =
     (let firstday = days_before_year year + 1; firstweekday = (firstday + 6) mod 7;
          monday = firstday - firstweekday
      in if firstweekday > 3 then monday + 7 else monday)"

definition isocalendar :: "int \<Rightarrow> int \<times> int" where
  "isocalendar ordinal =
     (let year = year_of ordinal; week = (ordinal - isoweek1monday year) div 7
      in if week < 0 then (year - 1, (ordinal - isoweek1monday (year - 1)) div 7 + 1)
         else if week \<ge> 52 \<and> ordinal \<ge> isoweek1monday (year + 1) then (year + 1, 1)
         else (year, week + 1))"

text \<open>The Monday that starts the week of a day.\<close>

definition week_start :: "int \<Rightarrow> int" where
  "week_start ordinal = ordinal - weekday ordinal"

section \<open>Text of an instant\<close>

definition pad2 :: "int \<Rightarrow> pystr" where
  "pad2 n = (if n < 10 then 48 # str_int n else str_int n)"

definition em_dash :: pystr where "em_dash = [8212]"

definition timestamp_text :: "datetime \<Rightarrow> pystr" where
  "timestamp_text t =
     (case ymd_of (local_ordinal t) of (y, m, d) \<Rightarrow>
        let s = local_time t div 1000000
        in str_int y @ lit ''-'' @ pad2 m @ lit ''-'' @ pad2 d @ lit '' '' @ pad2 (s div 3600) @ lit '':''
             @ pad2 (s div 60 mod 60) @ lit '':'' @ pad2 (s mod 60) @ lit '' IST'')"

text \<open>\<open>_timestamp\<close>\<close>

definition timestamp_or_dash :: "datetime option \<Rightarrow> pystr" where
  "timestamp_or_dash v = (case v of None \<Rightarrow> em_dash | Some t \<Rightarrow> timestamp_text t)"

definition file_stamp :: "datetime \<Rightarrow> pystr" where
  "file_stamp t =
     (case ymd_of (local_ordinal t) of (y, m, d) \<Rightarrow>
        let s = local_time t div 1000000
        in str_int y @ pad2 m @ pad2 d @ lit ''-'' @ pad2 (s div 3600)
             @ pad2 (s div 60 mod 60) @ pad2 (s mod 60))"

section \<open>The ISO week is the Monday-to-Sunday week\<close>

lemma year_parts_bounds:
  assumes "year_parts ordinal = (n400, n100, n4, n1, n)"
  shows "ordinal - 1 = n400 * 146097 + n100 * 36524 + n4 * 1461 + n1 * 365 + n"
    and "0 \<le> n100" "0 \<le> n4" "0 \<le> n1" "0 \<le> n" "n < 365" "n100 \<le> 4" "n4 \<le> 24" "n1 \<le> 4"
    and "n100 = 4 \<Longrightarrow> n4 = 0 \<and> n1 = 0 \<and> n = 0" and "n1 = 4 \<Longrightarrow> n = 0 \<and> n4 \<le> 23"
proof -
  define a where "a = (ordinal - 1) mod 146097"
  define b where "b = a mod 36524"
  define c where "c = b mod 1461"
  have parts: "n400 = (ordinal - 1) div 146097" "n100 = a div 36524" "n4 = b div 1461"
      "n1 = c div 365" "n = c mod 365"
    using assms by (auto simp: year_parts_def Let_def a_def b_def c_def)
  have a: "0 \<le> a" "a < 146097" "ordinal - 1 = n400 * 146097 + a" by (simp_all add: a_def parts(1))
  have b: "0 \<le> b" "b < 36524" "a = n100 * 36524 + b" by (simp_all add: b_def parts(2))
  have c: "0 \<le> c" "c < 1461" "b = n4 * 1461 + c" by (simp_all add: c_def parts(3))
  have n: "0 \<le> n" "n < 365" "c = n1 * 365 + n" by (simp_all add: parts(4,5))
  show "ordinal - 1 = n400 * 146097 + n100 * 36524 + n4 * 1461 + n1 * 365 + n"
    using a b c n by linarith
  show nn: "0 \<le> n100" "0 \<le> n4" "0 \<le> n1"
    using a(1) b(1) c(1) by (simp_all add: parts(2-4) pos_imp_zdiv_nonneg_iff)
  show "0 \<le> n" "n < 365" using n by simp_all
  show "n100 \<le> 4" using a(2) b(1,3) by linarith
  show "n4 \<le> 24" using b(2) c(1,3) by linarith
  show "n1 \<le> 4" using c(2) n(1,3) by linarith
  show "n100 = 4 \<Longrightarrow> n4 = 0 \<and> n1 = 0 \<and> n = 0"
  proof -
    assume "n100 = 4"
    then have "b = 0" using a(2) b(1,3) by linarith
    then show "n4 = 0 \<and> n1 = 0 \<and> n = 0" by (simp add: parts(3-5) c_def)
  qed
  show "n1 = 4 \<Longrightarrow> n = 0 \<and> n4 \<le> 23"
  proof
    assume "n1 = 4"
    then show "n = 0" using c(2) n(1,3) by linarith
    show "n4 \<le> 23" using \<open>n1 = 4\<close> b(2) c(3) n(1,3) by linarith
  qed
qed

lemma div_shift: "0 < (d::int) \<Longrightarrow> 0 \<le> r \<Longrightarrow> r < d \<Longrightarrow> k = d * q + r \<Longrightarrow> k div d = q"
  by simp

lemma days_before_year_digits:
  assumes "k = n400 * 400 + n100 * 100 + n4 * 4 + n1"
    and "0 \<le> n100" "n100 \<le> 3" "0 \<le> n4" "n4 \<le> 24" "0 \<le> n1" "n1 \<le> 3"
  shows "days_before_year (k + 1) = n400 * 146097 + n100 * 36524 + n4 * 1461 + n1 * 365"
proof -
  have "k div 4 = n400 * 100 + n100 * 25 + n4" by (rule div_shift [where r = n1]) (use assms in simp_all)
  moreover have "k div 100 = n400 * 4 + n100"
    by (rule div_shift [where r = "n4 * 4 + n1"]) (use assms in simp_all)
  moreover have "k div 400 = n400"
    by (rule div_shift [where r = "n100 * 100 + n4 * 4 + n1"]) (use assms in simp_all)
  ultimately show ?thesis using assms(1) by (simp add: days_before_year_def Let_def)
qed

lemma div_pred:
  assumes "0 < (d::int)"
  shows "m div d = (m - 1) div d + (if d dvd m then 1 else 0)"
proof (cases "d dvd m")
  case True
  then obtain q where q: "m = d * q" by blast
  have "(m - 1) div d = q - 1"
    by (rule div_shift [where r = "d - 1"]) (use assms in \<open>simp_all add: q algebra_simps\<close>)
  then show ?thesis using assms by (simp add: q)
next
  case False
  then have "0 < m mod d" using assms by (simp add: dvd_eq_mod_eq_0 order_less_le)
  then have "(m - 1) div d = m div d"
    by (intro div_shift [where r = "m mod d - 1"]) (use assms pos_mod_bound [of d m] in \<open>linarith | simp\<close>)+
  then show ?thesis using False by simp
qed

lemma days_before_year_step:
  "days_before_year (y + 1) = days_before_year y + 365 +
     (if 4 dvd y \<and> (\<not> 100 dvd y \<or> 400 dvd y) then 1 else 0)"
proof -
  have 1: "100 dvd y \<Longrightarrow> 4 dvd y" by (erule dvd_trans [rotated]) simp
  have 2: "400 dvd y \<Longrightarrow> 100 dvd y" by (erule dvd_trans [rotated]) simp
  have "days_before_year (y + 1) - days_before_year y =
      365 + (y div 4 - (y - 1) div 4) - (y div 100 - (y - 1) div 100) + (y div 400 - (y - 1) div 400)"
    by (simp add: days_before_year_def Let_def)
  also have "\<dots> = 365 + (if 4 dvd y then 1 else 0) - (if 100 dvd y then 1 else 0) + (if 400 dvd y then 1 else 0)"
    using div_pred [of 4 y] div_pred [of 100 y] div_pred [of 400 y] by linarith
  finally show ?thesis using 1 2 by (cases "4 dvd y"; cases "100 dvd y"; cases "400 dvd y") auto
qed

lemma year_of_bounds: "days_before_year (year_of n) < n" "n \<le> days_before_year (year_of n + 1)"
proof -
  obtain n400 n100 n4 n1 r where p: "year_parts n = (n400, n100, n4, n1, r)" by (rule prod_cases5)
  note b = year_parts_bounds [OF p]
  define k where "k = n400 * 400 + n100 * 100 + n4 * 4 + n1"
  have "days_before_year (year_of n) < n \<and> n \<le> days_before_year (year_of n + 1)"
  proof (cases "n1 = 4 \<or> n100 = 4")
    case False
    then have y: "year_of n = k + 1" by (simp add: year_of_def p k_def)
    have "days_before_year (k + 1) = n - 1 - r"
      using days_before_year_digits [OF k_def] False b by simp
    then show ?thesis using days_before_year_step [of "k + 1"] b(5,6) by (simp add: y)
  next
    case True
    then have y: "year_of n = k" by (simp add: year_of_def p k_def)
    show ?thesis
    proof (cases "n100 = 4")
      case True
      then have "n1 = 0" "n4 = 0" "r = 0" "k = n400 * 400 + 400" using b(10) by (simp_all add: k_def)
      then have "days_before_year k = n - 366" "days_before_year (k + 1) = n"
        using days_before_year_digits [of "k - 1" n400 3 24 3]
          days_before_year_digits [of k "n400 + 1" 0 0 0] True b(1) by (simp_all add: algebra_simps)
      then show ?thesis by (simp add: y)
    next
      case False
      then have "n1 = 4" "r = 0" "n4 \<le> 23" "n100 \<le> 3" using True b by auto
      then have "days_before_year k = n - 366" "days_before_year (k + 1) = n"
        using days_before_year_digits [of "k - 1" n400 n100 n4 3]
          days_before_year_digits [of k n400 n100 "n4 + 1" 0] b by (simp_all add: k_def algebra_simps)
      then show ?thesis by (simp add: y)
    qed
  qed
  then show "days_before_year (year_of n) < n" "n \<le> days_before_year (year_of n + 1)" by simp_all
qed

lemma days_before_year_mono: "y \<le> z \<Longrightarrow> days_before_year y + 365 * (z - y) \<le> days_before_year z"
proof (induction z rule: int_ge_induct)
  case base
  then show ?case by simp
next
  case (step z)
  then show ?case using days_before_year_step [of z] by (auto split: if_splits)
qed

lemma isoweek1monday_bounds:
  "days_before_year y - 2 \<le> isoweek1monday y" "isoweek1monday y \<le> days_before_year y + 4"
  "isoweek1monday y mod 7 = 1"
proof -
  define f where "f = days_before_year y + 1"
  define w where "w = (f + 6) mod 7"
  have w: "0 \<le> w" "w < 7" by (simp_all add: w_def)
  have m: "isoweek1monday y = (if w > 3 then f - w + 7 else f - w)"
    by (simp add: isoweek1monday_def Let_def f_def w_def)
  show "days_before_year y - 2 \<le> isoweek1monday y" "isoweek1monday y \<le> days_before_year y + 4"
    using w by (auto simp: m f_def)
  have "(f - w) mod 7 = (f - (f + 6)) mod 7" unfolding w_def by (rule mod_diff_right_eq)
  then have "(f - w) mod 7 = 1" by simp
  then show "isoweek1monday y mod 7 = 1" by (simp add: m)
qed

lemma isoweek1monday_mono: "y < z \<Longrightarrow> isoweek1monday y + 364 \<le> isoweek1monday z"
proof -
  assume "y < z"
  then have "days_before_year y + 365 * (z - y) \<le> days_before_year z" using days_before_year_mono [of y z] by linarith
  moreover have "365 \<le> 365 * (z - y)" using \<open>y < z\<close> by simp
  ultimately have "isoweek1monday y + 359 \<le> isoweek1monday z"
    using isoweek1monday_bounds(2) [of y] isoweek1monday_bounds(1) [of z] by linarith
  moreover obtain a b where ab: "isoweek1monday y = 7 * a + 1" "isoweek1monday z = 7 * b + 1"
    using isoweek1monday_bounds(3) by (metis mult_div_mod_eq)
  ultimately have "a + 52 \<le> b" by simp
  then show ?thesis by (simp add: ab)
qed

lemma week_start_from_monday:
  assumes "isoweek1monday y mod 7 = 1"
  shows "week_start n = isoweek1monday y + 7 * ((n - isoweek1monday y) div 7)"
proof -
  have "(n - isoweek1monday y) mod 7 = (n - isoweek1monday y mod 7) mod 7" by (simp add: mod_diff_right_eq)
  also have "\<dots> = (n - 1 + 7) mod 7" unfolding assms by (rule mod_add_self2 [symmetric])
  finally have "(n - isoweek1monday y) mod 7 = weekday n" by (simp add: weekday_def add.commute)
  then show ?thesis
    using mult_div_mod_eq [of 7 "n - isoweek1monday y"] by (simp add: week_start_def)
qed

text \<open>The year and week name the week: they locate its Monday, inside the ISO year.\<close>

lemma isocalendar_spec:
  assumes iso: "isocalendar n = (y, w)"
  shows "week_start n = isoweek1monday y + 7 * (w - 1)"
    and "isoweek1monday y \<le> week_start n" "week_start n < isoweek1monday (y + 1)"
proof -
  let ?M = isoweek1monday
  define Y where "Y = year_of n"
  have n: "days_before_year Y < n" "n \<le> days_before_year (Y + 1)" unfolding Y_def by (rule year_of_bounds)+
  have ws: "week_start n \<le> n" "n < week_start n + 7" by (simp_all add: week_start_def weekday_def)
  note M = isoweek1monday_bounds(1,2)
  note in_week = week_start_from_monday [OF isoweek1monday_bounds(3)]
  have "week_start n = ?M y + 7 * (w - 1) \<and> ?M y \<le> week_start n \<and> week_start n < ?M (y + 1)"
  proof (cases "(n - ?M Y) div 7 < 0")
    case True
    then have y: "y = Y - 1" "w = (n - ?M (Y - 1)) div 7 + 1"
      using iso by (auto simp: isocalendar_def Let_def Y_def)
    have "?M (Y - 1) \<le> week_start n"
      using M(2) [of "Y - 1"] days_before_year_mono [of "Y - 1" Y] n(1) ws(2) by simp
    moreover have "week_start n < ?M Y" using in_week [of n Y] True by linarith
    ultimately show ?thesis using in_week [of n "Y - 1"] by (simp add: y)
  next
    case False
    show ?thesis
    proof (cases "(n - ?M Y) div 7 \<ge> 52 \<and> n \<ge> ?M (Y + 1)")
      case True
      then have y: "y = Y + 1" "w = 1" using iso by (auto simp: isocalendar_def Let_def Y_def)
      have "(n - ?M (Y + 1)) div 7 = 0"
        by (rule div_shift [where r = "n - ?M (Y + 1)"]) (use True n(2) M(1) [of "Y + 1"] in \<open>linarith | simp\<close>)+
      then have "week_start n = ?M (Y + 1)" using in_week [of n "Y + 1"] by simp
      then show ?thesis using isoweek1monday_mono [of "Y + 1" "Y + 1 + 1"] by (simp add: y)
    next
      case no: False
      then have y: "y = Y" "w = (n - ?M Y) div 7 + 1"
        using iso False by (auto simp: isocalendar_def Let_def Y_def)
      have "week_start n < ?M (Y + 1)"
        using no in_week [of n Y] isoweek1monday_mono [of Y "Y + 1"] ws(1) by linarith
      then show ?thesis using in_week [of n Y] False by (simp add: y)
    qed
  qed
  then show "week_start n = ?M y + 7 * (w - 1)" and "?M y \<le> week_start n" "week_start n < ?M (y + 1)"
    by auto
qed

theorem isocalendar_eq_iff: "isocalendar m = isocalendar n \<longleftrightarrow> week_start m = week_start n"
proof -
  obtain y w z v where iso: "isocalendar m = (y, w)" "isocalendar n = (z, v)"
    by (cases "isocalendar m"; cases "isocalendar n")
  note m = isocalendar_spec [OF iso(1)] and n = isocalendar_spec [OF iso(2)]
  show ?thesis
  proof
    assume "isocalendar m = isocalendar n"
    then show "week_start m = week_start n" using m(1) n(1) iso by simp
  next
    assume eq: "week_start m = week_start n"
    have "y = z"
    proof (rule ccontr)
      assume "y \<noteq> z"
      then consider "y + 1 \<le> z" | "z + 1 \<le> y" by linarith
      then show False
      proof cases
        case 1
        then have "isoweek1monday (y + 1) \<le> isoweek1monday z"
          using isoweek1monday_mono [of "y + 1" z] by (cases "y + 1 = z") auto
        then show False using m(3) n(2) eq by linarith
      next
        case 2
        then have "isoweek1monday (z + 1) \<le> isoweek1monday y"
          using isoweek1monday_mono [of "z + 1" y] by (cases "z + 1 = y") auto
        then show False using m(2) n(3) eq by linarith
      qed
    qed
    then show "isocalendar m = isocalendar n" using m(1) n(1) eq iso by simp
  qed
qed

end
