(* ===== verification/Cards.thy ===== *)
theory Cards
  imports Calendar
begin

text \<open>
  The texts and Adaptive Cards of \<open>monitor/notifications.py\<close>. A card is a JSON value; a message is
  the newline-separated text the program builds and \<open>_adaptive_card\<close> parses back into the facts
  it shows.
\<close>

section \<open>Text pieces\<close>

definition arrow :: pystr where "arrow = [32, 8594, 32]"
definition mid_dot :: pystr where "mid_dot = [32, 183, 32]"
definition ellipsis :: pystr where "ellipsis = [8230]"

definition or_dash :: "pystr \<Rightarrow> pystr" where
  "or_dash s = (if s = [] then em_dash else s)"

definition short_query :: "pystr \<Rightarrow> nat \<Rightarrow> pystr" where
  "short_query query limit =
     (let q = join_with [32] (py_split_words query)
      in if length q \<le> limit then q else take (limit - 1) q @ ellipsis)"

definition human_duration :: "int \<Rightarrow> pystr" where
  "human_duration secs =
     (let s = max 0 secs
      in if s < 60 then str_int s @ lit ''s''
         else if s < 3600 then str_int (s div 60) @ lit ''m '' @ pad2 (s mod 60) @ lit ''s''
         else str_int (s div 3600) @ lit ''h '' @ pad2 (s mod 3600 div 60) @ lit ''m'')"

text \<open>\<open>s.split(sep, 1)\<close>: the text before the first separator and the text after it.\<close>

fun cut_at :: "pystr \<Rightarrow> pystr \<Rightarrow> (pystr \<times> pystr) option" where
  "cut_at sep [] = None"
| "cut_at sep (c # cs) =
     (if take (length sep) (c # cs) = sep then Some ([], drop (length sep) (c # cs))
      else map_option (\<lambda>(a, b). (c # a, b)) (cut_at sep cs))"

text \<open>\<open>s.rsplit(sep, 1)[0]\<close>: the text before the last separator.\<close>

definition before_last :: "pystr \<Rightarrow> pystr \<Rightarrow> pystr" where
  "before_last sep s =
     (case filter (\<lambda>i. take (length sep) (drop i s) = sep) (rev [0..<length s]) of
        [] \<Rightarrow> s | i # _ \<Rightarrow> take i s)"

text \<open>\<open>key.replace(":", " \<rightarrow> ", 1)\<close>\<close>

definition pair_label :: "pystr \<Rightarrow> pystr" where
  "pair_label key = (case cut_at [58] key of None \<Rightarrow> key | Some (a, b) \<Rightarrow> a @ arrow @ b)"

definition pair_text :: "pystr list \<Rightarrow> nat \<Rightarrow> pystr" where
  "pair_text keys limit =
     (let pairs = map pair_label keys; txt = join_with mid_dot pairs
      in if length txt \<le> limit then or_dash txt
         else before_last mid_dot (take (limit - 30) txt) @ mid_dot @ ellipsis @ lit '' ('' @
                str_int (int (length pairs)) @ lit '' total)'')"

section \<open>The lock summary message\<close>

definition min_time :: "datetime list \<Rightarrow> datetime option" where
  "min_time ts = (case ts of [] \<Rightarrow> None | t # us \<Rightarrow> Some (foldl min t us))"

definition max_time :: "datetime list \<Rightarrow> datetime option" where
  "max_time ts = (case ts of [] \<Rightarrow> None | t # us \<Rightarrow> Some (foldl max t us))"

fun event_label :: "lock_event \<Rightarrow> pystr" where
  "event_label Initial = lit ''INITIAL SUMMARY''"
| "event_label Update = lit ''ACTIVE SUMMARY UPDATE''"
| "event_label Cleared = lit ''ALL LOCKS CLEARED''"
| "event_label Storm = lit ''LOCK STORM DETECTED''"

definition state_label :: "lock_event \<Rightarrow> pystr" where
  "state_label ev = (if ev = Cleared then lit ''LOCK SUMMARY CLEARED''
     else if ev = Storm then lit ''LOCK STORM'' else lit ''LOCK SUMMARY'')"

definition manual_clears :: "lock_alert list \<Rightarrow> lock_alert list" where
  "manual_clears alerts = filter (\<lambda>a. la_clear_reason a = Manual_kill) alerts"

definition cleared_by_text :: "lock_alert list \<Rightarrow> pystr" where
  "cleared_by_text alerts =
     pair_text (sort (remdups (filter (\<lambda>n. n \<noteq> []) (map la_cleared_by (manual_clears alerts))))) 1200"

definition killed_pids_text :: "lock_alert list \<Rightarrow> pystr" where
  "killed_pids_text alerts =
     pair_text (map str_int (sort (remdups (concat (map (\<lambda>a. [la_blocked_pid a, la_blocking_pid a])
       (manual_clears alerts)))))) 600"

definition status_message :: "lock_alert list \<Rightarrow> lock_event \<Rightarrow> lock_alert list \<Rightarrow> pystr" where
  "status_message alerts ev cleared_alerts =
     (let n = str_int (int (length alerts)) in
      if ev = Cleared then
        (if manual_clears cleared_alerts \<noteq> [] then
           lit ''All tracked locks are cleared. Manual kill recorded by '' @ cleared_by_text cleared_alerts
             @ lit '' for PID(s): '' @ killed_pids_text cleared_alerts @ lit ''.''
         else lit ''All tracked locks are cleared automatically.'')
      else if ev = Storm then
        n @ lit '' simultaneous locks detected in one check. Action required: review the blocking sessions. This storm alert will not repeat until all locks clear.''
      else if length alerts = 1 then
        lit ''1 lock is still active. Action required: review the blocking session.''
      else n @ lit '' locks are still active. Action required: review the blocking sessions.'')"

definition summary_fields ::
  "rds_instance \<Rightarrow> lock_alert list \<Rightarrow> lock_event \<Rightarrow> pystr list \<Rightarrow> pystr list \<Rightarrow> datetime \<Rightarrow>
   lock_alert list \<Rightarrow> (pystr \<times> pystr) list" where
  "summary_fields i alerts ev previous_active_keys cleared_keys sent_at cleared_alerts =
     [(lit ''HealthGrid'', state_label ev),
      (lit ''Status'', if ev = Cleared then lit ''CLEARED'' else lit ''ACTIVE''),
      (lit ''Alert event'', event_label ev),
      (lit ''Database'', inst_str i),
      (lit ''Region'', inst_region i),
      (lit ''Active locks'', str_int (int (length alerts))),
      (lit ''Active PID pairs'', pair_text (map la_alert_key alerts) 3200),
      (lit ''Cleared since previous card'', str_int (int (length cleared_keys))),
      (lit ''Cleared PID pairs'', pair_text cleared_keys 3200),
      (lit ''Clear reason'', if manual_clears cleared_alerts \<noteq> [] then lit ''MANUALLY KILLED''
         else if cleared_alerts \<noteq> [] then lit ''AUTO-CLEARED'' else em_dash),
      (lit ''Cleared by'', cleared_by_text cleared_alerts),
      (lit ''Previously active'', str_int (int (length previous_active_keys))),
      (lit ''First observed'', timestamp_or_dash (min_time (map la_first_seen_at alerts))),
      (lit ''Last observed'', timestamp_text
         (case max_time (map la_last_seen_at alerts) of None \<Rightarrow> sent_at | Some t \<Rightarrow> t)),
      (lit ''Sent at'', timestamp_text sent_at),
      (lit ''Message'', status_message alerts ev cleared_alerts)]"

definition field_lines :: "(pystr \<times> pystr) list \<Rightarrow> pystr" where
  "field_lines kvs = join_with [10] (map (\<lambda>(k, v). k @ lit '': '' @ v) kvs)"

definition summary_message ::
  "rds_instance \<Rightarrow> lock_alert list \<Rightarrow> lock_event \<Rightarrow> pystr list \<Rightarrow> pystr list \<Rightarrow> datetime \<Rightarrow>
   lock_alert list \<Rightarrow> pystr" where
  "summary_message i alerts ev previous_active_keys cleared_keys sent_at cleared_alerts =
     field_lines (summary_fields i alerts ev previous_active_keys cleared_keys sent_at cleared_alerts)"

section \<open>Cards\<close>

datatype json = JStr pystr | JInt int | JBool bool | JList "json list" | JObj "(pystr \<times> json) list"

definition jlit :: "string \<Rightarrow> json" where "jlit s = JStr (lit s)"

definition jobj :: "(string \<times> json) list \<Rightarrow> json" where
  "jobj kvs = JObj (map (\<lambda>(k, v). (lit k, v)) kvs)"

definition fact :: "string \<Rightarrow> pystr \<Rightarrow> json" where
  "fact t v = jobj [(''title'', jlit t), (''value'', JStr v)]"

definition card_frame :: "json list \<Rightarrow> json" where
  "card_frame body = jobj [(''$schema'', jlit ''http://adaptivecards.io/schemas/adaptive-card.json''),
     (''type'', jlit ''AdaptiveCard''), (''version'', jlit ''1.4''), (''body'', JList body),
     (''actions'', JList [])]"

definition alert_headline :: "lock_alert \<Rightarrow> pystr" where
  "alert_headline a = str_int (la_blocked_pid a) @ arrow @ str_int (la_blocking_pid a) @ mid_dot
     @ or_dash (la_blocked_user a) @ arrow @ or_dash (la_blocking_user a)
     @ (case la_clear_reason a of Manual_kill \<Rightarrow> mid_dot @ lit ''MANUALLY KILLED''
        | Auto_clear \<Rightarrow> mid_dot @ lit ''AUTO-CLEARED'' | No_reason \<Rightarrow> [])
     @ (if la_clear_reason a = Manual_kill \<and> la_cleared_by a \<noteq> [] then lit '' by '' @ la_cleared_by a else [])"

definition query_block :: "pystr \<Rightarrow> json" where
  "query_block txt = jobj [(''type'', jlit ''TextBlock''), (''text'', JStr txt), (''wrap'', JBool True),
     (''fontType'', jlit ''Monospace''), (''size'', jlit ''Small''), (''spacing'', jlit ''None'')]"

definition query_detail_container :: "string \<Rightarrow> lock_alert list \<Rightarrow> json option" where
  "query_detail_container title alerts =
     (if alerts = [] then None
      else Some (jobj [(''type'', jlit ''Container''), (''style'', jlit ''emphasis''),
        (''spacing'', jlit ''Medium''), (''items'', JList
          ([jobj [(''type'', jlit ''TextBlock''), (''text'', jlit title), (''weight'', jlit ''Bolder''),
              (''size'', jlit ''Small'')]]
           @ concat (map (\<lambda>a.
               [jobj ([(''type'', jlit ''TextBlock''), (''text'', JStr (alert_headline a)),
                   (''weight'', jlit ''Bolder''), (''size'', jlit ''Small''), (''spacing'', jlit ''Small'')]
                   @ (if la_clear_reason a = Manual_kill then [(''color'', jlit ''Good'')] else [])),
                query_block (lit ''Blocked: '' @ short_query (la_blocked_query a) 420),
                query_block (lit ''Blocking: '' @ short_query (la_blocking_query a) 420)])
               (take 10 alerts))
           @ (if length alerts > 10 then
                [jobj [(''type'', jlit ''TextBlock''), (''text'', JStr (lit ''Showing 10 of ''
                     @ str_int (int (length alerts))
                     @ lit '' query pairs. Use the dashboard CSV export for the complete list.'')),
                   (''wrap'', JBool True), (''size'', jlit ''Small''), (''color'', jlit ''Warning''),
                   (''spacing'', jlit ''Small'')]] else [])))]))"

text \<open>
  The values of a message: each line with a colon and a space is a key and a value, later
  lines replacing earlier ones.
\<close>

definition message_values :: "pystr \<Rightarrow> pystr \<Rightarrow> pystr option" where
  "message_values message =
     map_of (rev (concat (map (\<lambda>l. case cut_at (lit '': '') l of None \<Rightarrow> [] | Some kv \<Rightarrow> [kv])
       (split_on 10 message))))"

definition get_or :: "(pystr \<Rightarrow> pystr option) \<Rightarrow> string \<Rightarrow> pystr \<Rightarrow> pystr" where
  "get_or values k d = (case values (lit k) of None \<Rightarrow> d | Some v \<Rightarrow> v)"

definition card_facts :: "(pystr \<Rightarrow> pystr option) \<Rightarrow> bool \<Rightarrow> (string \<times> pystr) list" where
  "card_facts values is_report =
     [(''Status'', get_or values ''Status'' em_dash),
      (''Database'', get_or values ''Database'' em_dash),
      (''Region'', get_or values ''Region'' em_dash),
      (''Active locks'', get_or values ''Active locks'' (lit ''0'')),
      (''Active PID pairs'', get_or values ''Active PID pairs'' em_dash),
      (''Cleared since previous'', get_or values ''Cleared since previous card'' (lit ''0'')),
      (''Cleared PID pairs'', get_or values ''Cleared PID pairs'' em_dash),
      (''Clear reason'', get_or values ''Clear reason'' em_dash),
      (''Cleared by'', get_or values ''Cleared by'' em_dash),
      (''Alert event'', get_or values ''Alert event'' em_dash),
      (''First observed'', get_or values ''First observed'' em_dash),
      (''Last observed'', get_or values ''Last observed'' em_dash),
      (''Sent at'', get_or values ''Sent at'' em_dash),
      (''Previously active'', get_or values ''Previously active'' (lit ''0''))]
     @ (if is_report then
          [(''Report rows'', get_or values ''Report rows'' (lit ''0'')),
           (''File name'', get_or values ''File name'' em_dash),
           (''Delivery'', get_or values ''Delivery'' (lit ''See Flow instructions''))]
        else [])"

definition adaptive_card :: "pystr \<Rightarrow> lock_alert list \<Rightarrow> lock_alert list \<Rightarrow> json" where
  "adaptive_card message alerts cleared_alerts =
     (let values = message_values message;
          state = get_or values ''HealthGrid'' [];
          is_test = state = lit ''TEST NOTIFICATION'';
          resolved = values (lit ''Status'') = Some (lit ''CLEARED'');
          is_report = state = lit ''WEEKLY LOCK REPORT'';
          title = (if is_test then ''Teams notification test'' else if is_report then ''Weekly lock report''
                   else if resolved then ''All locks cleared'' else ''Database locks still active'');
          color = (if is_test \<or> is_report then ''Accent'' else if resolved then ''Good'' else ''Attention'');
          card_style = (if is_test \<or> is_report then ''emphasis'' else if resolved then ''good'' else ''attention'')
      in card_frame
        ([jobj [(''type'', jlit ''Container''), (''style'', jlit card_style), (''bleed'', JBool True),
            (''items'', JList
              [jobj [(''type'', jlit ''TextBlock''), (''text'', jlit ''HealthGrid''), (''weight'', jlit ''Bolder''),
                 (''size'', jlit ''Small''), (''color'', jlit color)],
               jobj [(''type'', jlit ''TextBlock''), (''text'', jlit title), (''weight'', jlit ''Bolder''),
                 (''size'', jlit ''Large''), (''color'', jlit color), (''spacing'', jlit ''None'')]])],
          jobj [(''type'', jlit ''Container''), (''style'', jlit card_style), (''spacing'', jlit ''Medium''),
            (''items'', JList
              [jobj [(''type'', jlit ''TextBlock''), (''text'', jlit ''Status message''), (''weight'', jlit ''Bolder''),
                 (''size'', jlit ''Small''), (''color'', jlit (if resolved then ''Good'' else ''Attention''))],
               jobj [(''type'', jlit ''TextBlock''), (''text'', JStr (get_or values ''Message'' em_dash)),
                 (''wrap'', JBool True), (''weight'', jlit ''Bolder''), (''size'', jlit ''Medium''),
                 (''color'', jlit color), (''spacing'', jlit ''Small'')]])],
          jobj [(''type'', jlit ''FactSet''), (''spacing'', jlit ''Medium''),
            (''facts'', JList (map (\<lambda>(t, v). fact t v) (card_facts values is_report)))]]
         @ (case query_detail_container ''Active query details'' alerts of None \<Rightarrow> [] | Some c \<Rightarrow> [c])
         @ (case query_detail_container ''Cleared query details'' cleared_alerts of None \<Rightarrow> [] | Some c \<Rightarrow> [c])))"

definition long_query_item :: "long_query_alert \<Rightarrow> json" where
  "long_query_item a = jobj
     [(''type'', jlit ''Container''), (''style'', jlit ''emphasis''), (''spacing'', jlit ''Medium''),
      (''items'', JList
        [jobj [(''type'', jlit ''TextBlock''), (''text'', JStr (lit ''PID '' @ str_int (lq_pid a) @ mid_dot
             @ lit ''user '' @ or_dash (lq_username a))), (''weight'', jlit ''Bolder''), (''size'', jlit ''Medium'')],
         jobj [(''type'', jlit ''FactSet''), (''facts'', JList
           [fact ''Runtime'' (human_duration (lq_duration_seconds a)),
            fact ''Application'' (or_dash (lq_application_name a)),
            fact ''Client'' (if lq_client_addr a = [] then lit ''local'' else lq_client_addr a),
            fact ''Query started'' (timestamp_or_dash (lq_query_start a))])],
         jobj [(''type'', jlit ''TextBlock''), (''text'', JStr (short_query (lq_query a) 3000)), (''wrap'', JBool True),
           (''fontType'', jlit ''Monospace''), (''size'', jlit ''Small''), (''spacing'', jlit ''Small'')]])]"

definition long_query_card :: "rds_instance \<Rightarrow> long_query_alert list \<Rightarrow> datetime \<Rightarrow> json" where
  "long_query_card i alerts sent_at = card_frame
     ([jobj [(''type'', jlit ''Container''), (''style'', jlit ''attention''), (''bleed'', JBool True),
         (''items'', JList
           [jobj [(''type'', jlit ''TextBlock''), (''text'', jlit ''HealthGrid''), (''weight'', jlit ''Bolder''),
              (''size'', jlit ''Small''), (''color'', jlit ''Attention'')],
            jobj [(''type'', jlit ''TextBlock''), (''text'', jlit ''Long-running manual query detected''),
              (''weight'', jlit ''Bolder''), (''size'', jlit ''Large''), (''color'', jlit ''Attention''),
              (''spacing'', jlit ''None'')]])],
       jobj [(''type'', jlit ''TextBlock''), (''text'', JStr (str_int (int (length alerts)) @ lit
           '' query execution(s) exceeded the configured runtime threshold. Review the user and query before terminating anything.'')),
         (''wrap'', JBool True), (''weight'', jlit ''Bolder''), (''spacing'', jlit ''Medium'')],
       jobj [(''type'', jlit ''FactSet''), (''facts'', JList
         [fact ''Database'' (inst_str i), fact ''Region'' (inst_region i),
          fact ''Detected at'' (timestamp_text sent_at)])]]
      @ map long_query_item (take 20 alerts)
      @ (if length alerts > 20 then
           [jobj [(''type'', jlit ''TextBlock''), (''text'', JStr (lit ''Showing 20 of ''
                @ str_int (int (length alerts))
                @ lit '' queries. Use the dashboard Sessions view for the complete list.'')),
              (''wrap'', JBool True), (''size'', jlit ''Small''), (''color'', jlit ''Warning'')]]
         else []))"

section \<open>Reading a message back\<close>

lemma cut_at_found:
  assumes "58 \<notin> set k"
  shows "cut_at (lit '': '') (k @ lit '': '' @ v) = Some (k, v)"
  using assms by (induction k) (auto simp: lit_def)

lemma message_values_rev:
  assumes "kvs \<noteq> []" and "\<forall>(k, v) \<in> set kvs. 58 \<notin> set k \<and> 10 \<notin> set k \<and> 10 \<notin> set v"
  shows "message_values (field_lines kvs) = map_of (rev kvs)"
proof -
  let ?line = "\<lambda>(k, v). k @ lit '': '' @ v"
  have "10 \<notin> set (?line kv)" if "kv \<in> set kvs" for kv
    using assms(2) that by (cases kv) (auto simp: lit_def)
  then have "split_on 10 (field_lines kvs) = map ?line kvs"
    unfolding field_lines_def using assms(1) by (intro split_join) auto
  moreover have "concat (map (\<lambda>l. case cut_at (lit '': '') l of None \<Rightarrow> [] | Some kv \<Rightarrow> [kv]) (map ?line kvs)) = kvs"
    using assms(2) by (induction kvs) (auto simp: cut_at_found)
  ultimately show ?thesis by (simp add: message_values_def)
qed

lemma message_values_lines:
  assumes "kvs \<noteq> []" and "distinct (map fst kvs)"
    and "\<forall>(k, v) \<in> set kvs. 58 \<notin> set k \<and> 10 \<notin> set k \<and> 10 \<notin> set v"
  shows "message_values (field_lines kvs) = map_of kvs"
proof -
  have "map_of (rev kvs) = map_of kvs"
    using assms(2) by (subst map_of_inject_set) (simp_all flip: rev_map)
  then show ?thesis using message_values_rev [OF assms(1,3)] by simp
qed

text \<open>No text that ends up in the message holds a line break.\<close>

definition one_line :: "pystr \<Rightarrow> bool" where "one_line s \<longleftrightarrow> 10 \<notin> set s"

lemma one_line_append [simp]: "one_line (s @ t) \<longleftrightarrow> one_line s \<and> one_line t"
  by (simp add: one_line_def)

lemma one_line_pieces [simp]: "one_line []" "one_line arrow" "one_line mid_dot" "one_line ellipsis" "one_line em_dash"
  by (simp_all add: one_line_def arrow_def mid_dot_def ellipsis_def em_dash_def)

lemma one_line_str_int [simp]: "one_line (str_int i)"
  using str_int_chars [of 10 i] by (auto simp: one_line_def is_dec_def)

lemma one_line_Cons [simp]: "one_line (c # s) \<longleftrightarrow> c \<noteq> 10 \<and> one_line s"
  by (auto simp: one_line_def)

lemma one_line_pad2 [simp]: "one_line (pad2 n)"
  by (simp add: pad2_def)

lemma one_line_lit [simp]: "one_line (lit s) \<longleftrightarrow> CHR 0x0A \<notin> set s"
proof -
  have "(10::nat) = of_char CHR 0x0A" by simp
  then show ?thesis unfolding one_line_def lit_def by (metis (no_types) image_iff inj_image_mem_iff inj_of_char list.set_map)
qed

lemma one_line_timestamp [simp]: "one_line (timestamp_text t)"
  by (cases "ymd_of (local_ordinal t)") (simp add: timestamp_text_def Let_def)

lemma one_line_take: "one_line s \<Longrightarrow> one_line (take n s)"
  by (auto simp: one_line_def dest: in_set_takeD)

lemma one_line_before_last: "one_line s \<Longrightarrow> one_line (before_last sep s)"
  by (auto simp: before_last_def one_line_take split: list.splits)

lemma cut_at_chars: "cut_at sep s = Some (a, b) \<Longrightarrow> set a \<union> set b \<subseteq> set s"
  by (induction s arbitrary: a) (auto split: if_splits dest: in_set_dropD)

lemma one_line_pair_label: "one_line s \<Longrightarrow> one_line (pair_label s)"
  using cut_at_chars [of "[58]" s] by (fastforce simp: pair_label_def one_line_def arrow_def split: option.splits)

lemma one_line_join: "one_line sep \<Longrightarrow> \<forall>w \<in> set ws. one_line w \<Longrightarrow> one_line (join_with sep ws)"
  by (induction sep ws rule: join_with.induct) auto

lemma one_line_pair_text: "\<forall>k \<in> set keys. one_line k \<Longrightarrow> one_line (pair_text keys limit)"
  by (auto simp: pair_text_def Let_def or_dash_def one_line_pair_label
      intro!: one_line_join one_line_before_last one_line_take)

section \<open>Bounds\<close>

lemma length_before_last: "length (before_last sep s) \<le> length s"
  by (auto simp: before_last_def split: list.splits)

lemma length_short_query: "0 < limit \<Longrightarrow> length (short_query q limit) \<le> limit"
  by (auto simp: short_query_def Let_def ellipsis_def)

lemma length_nat_digits: "n < 10 ^ Suc k \<Longrightarrow> length (nat_digits n) \<le> Suc k"
proof (induction k arbitrary: n)
  case 0
  then show ?case by (simp add: nat_digits.simps [of n])
next
  case (Suc k)
  then have "n div 10 < 10 ^ Suc k" by (simp add: div_less_iff_less_mult mult.commute)
  then show ?case using Suc.IH [of "n div 10"] by (subst nat_digits.simps) simp
qed

lemma length_pair_text:
  assumes "30 \<le> limit" and "length keys < 10 ^ 16"
  shows "length (pair_text keys limit) \<le> limit"
proof -
  have "length (nat_digits (length keys)) \<le> 16" using assms(2) length_nat_digits [of "length keys" 15] by simp
  then have "length (str_int (int (length keys))) \<le> 16" by (simp add: str_int_def)
  then show ?thesis
    using assms(1) length_before_last [of mid_dot "take (limit - 30) (join_with mid_dot (map pair_label keys))"]
    by (auto simp: pair_text_def Let_def or_dash_def em_dash_def mid_dot_def ellipsis_def)
qed

end
