(* ===== verification/Csv_Report.thy ===== *)
theory Csv_Report
  imports Calendar
begin

text \<open>
  The weekly CSV of \<open>_csv_report\<close>: Python's \<open>csv.writer\<close> with its default dialect (minimal
  quoting, doubled quotes, CR LF line ends), and a reader of that format, used as the
  specification of what the report file says.
\<close>

section \<open>The writer\<close>

definition csv_special :: "nat \<Rightarrow> bool" where
  "csv_special c \<longleftrightarrow> c = 44 \<or> c = 34 \<or> c = 13 \<or> c = 10"

fun double_quotes :: "pystr \<Rightarrow> pystr" where
  "double_quotes [] = []"
| "double_quotes (c # cs) = (if c = 34 then 34 # 34 # double_quotes cs else c # double_quotes cs)"

definition csv_field :: "pystr \<Rightarrow> pystr" where
  "csv_field s = (if list_ex csv_special s then 34 # double_quotes s @ [34] else s)"

definition csv_row :: "pystr list \<Rightarrow> pystr" where
  "csv_row cells = join_with [44] (map csv_field cells) @ [13, 10]"

definition write_csv :: "pystr list list \<Rightarrow> pystr" where
  "write_csv rows = concat (map csv_row rows)"

section \<open>The report\<close>

definition csv_header :: "pystr list" where
  "csv_header = map lit
     [''database'', ''db_identifier'', ''region'', ''status'', ''blocked_pid'', ''blocked_user'',
      ''blocking_pid'', ''blocking_user'', ''first_observed_ist'', ''last_observed_ist'',
      ''cleared_at_ist'', ''clear_reason'', ''cleared_by'', ''waiting_seconds'', ''blocked_query'',
      ''blocking_query'']"

fun clear_reason_text :: "clear_reason \<Rightarrow> pystr" where
  "clear_reason_text No_reason = []"
| "clear_reason_text Auto_clear = lit ''auto_clear''"
| "clear_reason_text Manual_kill = lit ''manual_kill''"

definition csv_cells :: "rds_instance \<times> lock_alert \<Rightarrow> pystr list" where
  "csv_cells ia = (let i = fst ia; a = snd ia in
     [inst_name i, inst_db_identifier i, inst_region i,
      if la_resolved_at a = None then lit ''ACTIVE'' else lit ''CLEARED'',
      str_int (la_blocked_pid a), la_blocked_user a, str_int (la_blocking_pid a), la_blocking_user a,
      timestamp_text (la_first_seen_at a), timestamp_text (la_last_seen_at a),
      timestamp_or_dash (la_resolved_at a), clear_reason_text (la_clear_reason a), la_cleared_by a,
      str_int (la_waiting_seconds a), la_blocked_query a, la_blocking_query a])"

definition csv_report :: "(rds_instance \<times> lock_alert) list \<Rightarrow> pystr" where
  "csv_report alerts = write_csv (csv_header # map csv_cells alerts)"

section \<open>The reader\<close>

datatype csv_mode = At_field | In_plain | In_quotes | After_quote

text \<open>The current field and row are kept reversed.\<close>

fun read_csv_from :: "csv_mode \<Rightarrow> pystr \<Rightarrow> pystr list \<Rightarrow> pystr \<Rightarrow> pystr list list" where
  "read_csv_from m f r [] = (if m = At_field \<and> r = [] then [] else [rev (rev f # r)])"
| "read_csv_from In_quotes f r (c # cs) =
     (if c = 34 then read_csv_from After_quote f r cs else read_csv_from In_quotes (c # f) r cs)"
| "read_csv_from m f r (c # cs) =
     (if c = 34 then read_csv_from In_quotes (if m = After_quote then c # f else f) r cs
      else if c = 44 then read_csv_from At_field [] (rev f # r) cs
      else if c = 13 then read_csv_from In_plain f r cs
      else if c = 10 then rev (rev f # r) # read_csv_from At_field [] [] cs
      else read_csv_from In_plain (c # f) r cs)"

definition read_csv :: "pystr \<Rightarrow> pystr list list" where
  "read_csv s = read_csv_from At_field [] [] s"

section \<open>Reading back what was written\<close>

lemma read_plain:
  "\<forall>c \<in> set s. \<not> csv_special c \<Longrightarrow> m = At_field \<or> m = In_plain \<Longrightarrow> t = 44 # rest \<or> t = 13 # rest \<Longrightarrow>
   read_csv_from m f r (s @ t) = read_csv_from In_plain (rev s @ f) r t"
proof (induction s arbitrary: m f)
  case Nil
  then show ?case by auto
next
  case (Cons c s)
  then show ?case by (cases m) (auto simp: csv_special_def)
qed

lemma read_quoted:
  "read_csv_from In_quotes f r (double_quotes s @ 34 # t) = read_csv_from After_quote (rev s @ f) r t"
  by (induction s arbitrary: f) auto

lemma read_field_comma:
  "read_csv_from At_field [] r (csv_field s @ 44 # rest) = read_csv_from At_field [] (s # r) rest"
  using read_plain [of s At_field "44 # rest" rest "[]" r] read_quoted [of "[]" r s "44 # rest"]
  by (auto simp: csv_field_def list_ex_iff)

lemma read_field_end:
  "read_csv_from At_field [] r (csv_field s @ 13 # 10 # rest) = rev (s # r) # read_csv_from At_field [] [] rest"
  using read_plain [of s At_field "13 # 10 # rest" "10 # rest" "[]" r] read_quoted [of "[]" r s "13 # 10 # rest"]
  by (auto simp: csv_field_def list_ex_iff)

lemma read_row:
  "cells \<noteq> [] \<Longrightarrow> read_csv_from At_field [] r (csv_row cells @ rest) =
     (rev r @ cells) # read_csv_from At_field [] [] rest"
proof (induction cells arbitrary: r rule: list_nonempty_induct)
  case (single c)
  then show ?case using read_field_end [of r c rest] by (simp add: csv_row_def)
next
  case (cons c cs)
  then have "join_with [44] (map csv_field (c # cs)) = csv_field c @ 44 # join_with [44] (map csv_field cs)"
    by (cases cs) auto
  then show ?case using cons read_field_comma [of r c "csv_row cs @ rest"] by (simp add: csv_row_def)
qed

theorem read_write_csv: "\<forall>row \<in> set rows. row \<noteq> [] \<Longrightarrow> read_csv (write_csv rows) = rows"
  unfolding read_csv_def
proof (induction rows)
  case Nil
  then show ?case by (simp add: write_csv_def)
next
  case (Cons row rows)
  then show ?case using read_row [of row "[]" "write_csv rows"] by (simp add: write_csv_def)
qed

lemma read_csv_report: "read_csv (csv_report alerts) = csv_header # map csv_cells alerts"
  unfolding csv_report_def by (rule read_write_csv) (auto simp: csv_header_def csv_cells_def Let_def)

end
