(* ===== verification/Reports.thy ===== *)
theory Reports
  imports Cards Csv_Report "HOL-Library.Product_Lexorder"
begin

text \<open>
  The weekly report and the connectivity test of \<open>monitor/notifications.py\<close>, and the JSON body
  each kind of payload is sent as. The token of Django's \<open>TimestampSigner\<close> is a parameter.
\<close>

section \<open>Payload bodies\<close>

definition weekly_report_message :: "weekly_payload \<Rightarrow> datetime \<Rightarrow> pystr" where
  "weekly_report_message w generated_at = field_lines
     [(lit ''HealthGrid'', lit ''WEEKLY LOCK REPORT''), (lit ''Status'', lit ''REPORT READY''),
      (lit ''Database'', wp_scope w), (lit ''Region'', em_dash),
      (lit ''Report rows'', str_int (int (wp_report_rows w))), (lit ''File name'', wp_file_name w),
      (lit ''Delivery'', if wp_report_url w \<noteq> [] then lit ''Power Automate downloads the signed report URL''
         else lit ''Power Automate creates the file from csv_content''),
      (lit ''Generated at'', timestamp_text generated_at),
      (lit ''Message'', lit ''Weekly blocked/blocking lock history is ready for OneDrive.'')]"

definition test_message :: "pystr \<Rightarrow> pystr" where
  "test_message destination = field_lines
     [(lit ''HealthGrid'', lit ''TEST NOTIFICATION''), (lit ''Destination'', destination),
      (lit ''Status'', lit ''Delivery successful'')]"

fun payload_json :: "datetime \<Rightarrow> payload \<Rightarrow> json" where
  "payload_json generated_at (Lock_summary c) = jobj
     [(''event_type'', jlit ''lock_alert''),
      (''card'', adaptive_card (summary_message (lc_instance c) (lc_alerts c) (lc_event c)
         (lc_previous_active_keys c) (lc_cleared_keys c) (lc_sent_at c) (lc_cleared_alerts c))
         (lc_alerts c) (lc_cleared_alerts c))]"
| "payload_json generated_at (Long_query i alerts sent_at) = jobj
     [(''event_type'', jlit ''lock_alert''), (''alert_type'', jlit ''long_query''),
      (''card'', long_query_card i alerts sent_at)]"
| "payload_json generated_at (Weekly_report w) = jobj
     [(''event_type'', jlit ''weekly_report''),
      (''card'', adaptive_card (weekly_report_message w generated_at) [] []),
      (''file_name'', JStr (wp_file_name w)), (''csv_content'', JStr (wp_csv_content w)),
      (''report_url'', JStr (wp_report_url w)), (''report_rows'', JInt (int (wp_report_rows w)))]"
| "payload_json generated_at (Test_notification destination) = jobj
     [(''event_type'', jlit ''lock_alert''), (''card'', adaptive_card (test_message destination) [] [])]"

section \<open>The weekly report\<close>

definition weekly_report_includes :: "datetime \<Rightarrow> lock_alert \<Rightarrow> bool" where
  "weekly_report_includes now a =
     (let cutoff = now - days 7 in
      la_first_seen_at a \<le> now \<and>
        (la_first_seen_at a \<ge> cutoff \<or> la_last_seen_at a \<ge> cutoff
         \<or> (case la_resolved_at a of None \<Rightarrow> False | Some t \<Rightarrow> t \<ge> cutoff)))"

text \<open>The alerts with their registrations, the inner join of \<open>select_related("instance")\<close>.\<close>

definition with_instance :: "app_db \<Rightarrow> lock_alert \<Rightarrow> (rds_instance \<times> lock_alert) list" where
  "with_instance d a = (case find_instance d (la_instance a) of None \<Rightarrow> [] | Some i \<Rightarrow> [(i, a)])"

definition weekly_alerts :: "app_db \<Rightarrow> datetime \<Rightarrow> int option \<Rightarrow> (rds_instance \<times> lock_alert) list" where
  "weekly_alerts d now inst =
     sort_key (\<lambda>(i, a). (inst_name i, la_first_seen_at a, la_blocked_pid a, la_blocking_pid a))
       (concat (map (with_instance d)
         (filter (\<lambda>a. weekly_report_includes now a \<and> (inst = None \<or> inst = Some (la_instance a)))
           (lock_alerts d))))"

definition utf8_length :: "pystr \<Rightarrow> nat" where
  "utf8_length s =
     sum_list (map (\<lambda>c. if c < 128 then 1 else if c < 2048 then 2 else if c < 65536 then 3 else 4) s)"

definition max_inline_report_bytes :: nat where
  "max_inline_report_bytes = 20 * 1024"

definition hex_digit :: "nat \<Rightarrow> nat" where
  "hex_digit n = (if n < 10 then 48 + n else 55 + n)"

text \<open>\<open>urllib.parse.quote(token, safe="")\<close> of an ASCII token.\<close>

definition url_quote :: "pystr \<Rightarrow> pystr" where
  "url_quote s = concat (map (\<lambda>c.
     if is_dec c \<or> (65 \<le> c \<and> c \<le> 90) \<or> (97 \<le> c \<and> c \<le> 122) \<or> c \<in> {95, 46, 45, 126} then [c]
     else [37, hex_digit (c div 16), hex_digit (c mod 16)]) s)"

definition rstrip_slash :: "pystr \<Rightarrow> pystr" where
  "rstrip_slash s = rev (dropWhile (\<lambda>c. c = 47) (rev s))"

definition report_url :: "(pystr \<Rightarrow> pystr) \<Rightarrow> lock_report \<Rightarrow> pystr \<Rightarrow> pystr" where
  "report_url sign report report_base_url =
     (if report_base_url = [] then []
      else rstrip_slash report_base_url @ lit ''/reports/weekly/'' @ url_quote (sign (str_int (lr_pk report)))
             @ lit ''/'')"

text \<open>
  \<open>_send_report_to_webhook\<close>: the report row is stored first, then the inline size is checked,
  then the card is posted.
\<close>

definition send_report_to_webhook ::
  "(pystr \<Rightarrow> pystr) \<Rightarrow> (pystr \<Rightarrow> payload \<Rightarrow> post_result) \<Rightarrow> pystr \<Rightarrow> pystr \<Rightarrow>
   (rds_instance \<times> lock_alert) list \<Rightarrow> notification_settings \<Rightarrow> datetime \<Rightarrow> app_db \<Rightarrow> bool \<times> app_db \<times> posts" where
  "send_report_to_webhook sign post webhook_url scope alerts config now d =
     (if webhook_url = [] then (False, d, [])
      else
        let csv_content = csv_report alerts;
            file_name = lit ''rds-lock-report-'' @ file_stamp now @ lit ''.csv'';
            report = \<lparr>lr_pk = next_pk d, lr_file_name = file_name, lr_csv_content = csv_content,
              lr_expires_at = now + days (ns_report_retention_days config)\<rparr>;
            d' = d\<lparr>lock_reports := lock_reports d @ [report], next_pk := next_pk d + 1\<rparr>;
            url = report_url sign report (ns_report_base_url config)
        in if url = [] \<and> utf8_length csv_content > max_inline_report_bytes then (False, d', [])
           else
             let p = Weekly_report \<lparr>wp_scope = scope, wp_file_name = file_name,
                   wp_csv_content = (if url \<noteq> [] then [] else csv_content), wp_report_url = url,
                   wp_report_rows = length alerts\<rparr>
             in (post webhook_url p = Accepted, d', [(webhook_url, p)]))"

fun send_owner_reports ::
  "(pystr \<Rightarrow> pystr) \<Rightarrow> (pystr \<Rightarrow> payload \<Rightarrow> post_result) \<Rightarrow> notification_settings \<Rightarrow> datetime \<Rightarrow>
   rds_instance list \<Rightarrow> app_db \<Rightarrow> bool \<times> app_db \<times> posts" where
  "send_owner_reports sign post config now [] d = (False, d, [])"
| "send_owner_reports sign post config now (i # is) d =
     (let (ok, d1, ps1) = send_report_to_webhook sign post (inst_owner_teams_webhook_url i) (inst_str i)
            (weekly_alerts d now (Some (inst_pk i))) config now d;
          (ok', d2, ps2) = send_owner_reports sign post config now is d1
      in (ok \<or> ok', d2, ps1 @ ps2))"

definition delete_expired_reports :: "datetime \<Rightarrow> app_db \<Rightarrow> app_db" where
  "delete_expired_reports now d =
     d\<lparr>lock_reports := filter (\<lambda>r. \<not> lr_expires_at r < now) (lock_reports d)\<rparr>"

text \<open>The active registrations with an owner webhook, in the model's order by name.\<close>

definition owner_instances :: "app_db \<Rightarrow> rds_instance list" where
  "owner_instances d =
     sort_key inst_name (filter (\<lambda>i. inst_owner_teams_webhook_url i \<noteq> []) (active_instances d))"

definition send_weekly_reports ::
  "(pystr \<Rightarrow> pystr) \<Rightarrow> (pystr \<Rightarrow> payload \<Rightarrow> post_result) \<Rightarrow> datetime \<Rightarrow> app_db \<Rightarrow> bool \<times> app_db \<times> posts" where
  "send_weekly_reports sign post now d0 =
     (let config = load_settings d0;
          d = delete_expired_reports now (save_settings config d0);
          all_alerts = weekly_alerts d now None;
          (ok, d1, ps1) =
            (if ns_channel_webhook_url config \<noteq> [] \<and> all_alerts \<noteq> [] then
               send_report_to_webhook sign post (ns_channel_webhook_url config)
                 (lit ''All monitored databases'') all_alerts config now d
             else (False, d, []));
          (ok', d2, ps2) = send_owner_reports sign post config now (owner_instances d1) d1
      in (ok \<or> ok', d2, ps1 @ ps2))"

section \<open>The connectivity test\<close>

definition send_test_notification ::
  "(pystr \<Rightarrow> payload \<Rightarrow> post_result) \<Rightarrow> (pystr \<Rightarrow> pystr) \<Rightarrow> pystr \<Rightarrow> pystr \<Rightarrow> (bool \<times> pystr) \<times> posts" where
  "send_test_notification post error_text webhook_url destination =
     (if webhook_url = [] then ((False, lit ''No Teams webhook URL is configured.''), [])
      else let p = Test_notification destination in
        (case post webhook_url p of
           Accepted \<Rightarrow> (True, lit ''Test notification sent.'')
         | Rejected \<Rightarrow> (False, lit ''Teams returned a non-success HTTP status.'')
         | Post_raised \<Rightarrow> (False, error_text webhook_url), [(webhook_url, p)]))"

section \<open>What a weekly run leaves unchanged\<close>

text \<open>The reports alone grow; everything else is as the run found it.\<close>

definition same_but_reports :: "app_db \<Rightarrow> app_db \<Rightarrow> bool" where
  "same_but_reports d d' \<longleftrightarrow>
     d'\<lparr>lock_reports := [], next_pk := 0\<rparr> = d\<lparr>lock_reports := [], next_pk := 0\<rparr>"

lemma same_but_reports_intros [simp]:
  "same_but_reports d d" "same_but_reports d (d\<lparr>lock_reports := rs, next_pk := n\<rparr>)"
  "same_but_reports d (d\<lparr>lock_reports := rs\<rparr>)"
  by (simp_all add: same_but_reports_def)

lemma same_but_reports_trans: "same_but_reports d e \<Longrightarrow> same_but_reports e f \<Longrightarrow> same_but_reports d f"
  by (simp add: same_but_reports_def)

lemma same_but_reportsD:
  assumes "same_but_reports d d'"
  shows "lock_alerts d' = lock_alerts d" "instances d' = instances d" "settings_row d' = settings_row d"
    "lease_row d' = lease_row d" "long_query_alerts d' = long_query_alerts d"
    "notification_states d' = notification_states d"
proof -
  note e = assms [unfolded same_but_reports_def]
  show "lock_alerts d' = lock_alerts d" using arg_cong [OF e, of lock_alerts] by simp
  show "instances d' = instances d" using arg_cong [OF e, of instances] by simp
  show "settings_row d' = settings_row d" using arg_cong [OF e, of settings_row] by simp
  show "lease_row d' = lease_row d" using arg_cong [OF e, of lease_row] by simp
  show "long_query_alerts d' = long_query_alerts d" using arg_cong [OF e, of long_query_alerts] by simp
  show "notification_states d' = notification_states d" using arg_cong [OF e, of notification_states] by simp
qed

lemma weekly_alerts_cong:
  assumes "same_but_reports d d'"
  shows "weekly_alerts d' now i = weekly_alerts d now i" "owner_instances d' = owner_instances d"
    "load_settings d' = load_settings d"
proof -
  note e = same_but_reportsD [OF assms]
  have "with_instance d' = with_instance d" by (rule ext) (simp add: with_instance_def find_instance_def e)
  then show "weekly_alerts d' now i = weekly_alerts d now i" by (simp add: weekly_alerts_def e)
  show "owner_instances d' = owner_instances d" "load_settings d' = load_settings d"
    by (simp_all add: owner_instances_def active_instances_def load_settings_def e)
qed

section \<open>What a posted report carries\<close>

definition report_carries :: "app_db \<Rightarrow> (rds_instance \<times> lock_alert) list \<Rightarrow> payload \<Rightarrow> bool" where
  "report_carries d alerts p \<longleftrightarrow>
     (\<exists>rep. p = Weekly_report rep \<and> wp_report_rows rep = length alerts
        \<and> csv_report alerts \<in> lr_csv_content ` set (lock_reports d)
        \<and> (wp_report_url rep = [] \<longrightarrow> wp_csv_content rep = csv_report alerts
             \<and> utf8_length (wp_csv_content rep) \<le> max_inline_report_bytes)
        \<and> (wp_report_url rep \<noteq> [] \<longrightarrow> wp_csv_content rep = []))"

lemma report_carries_mono:
  "report_carries d alerts p \<Longrightarrow> set (lock_reports d) \<subseteq> set (lock_reports d') \<Longrightarrow> report_carries d' alerts p"
  unfolding report_carries_def by blast

lemma send_report_effect:
  assumes "send_report_to_webhook sign post url scope alerts config now d = (ok, d', ps)"
  shows "same_but_reports d d'" and "set (lock_reports d) \<subseteq> set (lock_reports d')"
    and "(w, p) \<in> set ps \<Longrightarrow> w = url \<and> report_carries d' alerts p"
    and "ok \<Longrightarrow> \<exists>(w, p) \<in> set ps. post w p = Accepted"
  using assms
  by (auto simp: send_report_to_webhook_def Let_def report_carries_def split: if_splits)

lemma send_owner_reports_effect:
  assumes "send_owner_reports sign post config now is d = (ok, d', ps)"
  shows "same_but_reports d d'" and "set (lock_reports d) \<subseteq> set (lock_reports d')"
    and "(w, p) \<in> set ps \<Longrightarrow> \<exists>i \<in> set is. w = inst_owner_teams_webhook_url i
           \<and> report_carries d' (weekly_alerts d now (Some (inst_pk i))) p"
    and "ok \<Longrightarrow> \<exists>(w, p) \<in> set ps. post w p = Accepted"
proof -
  have "same_but_reports d d' \<and> set (lock_reports d) \<subseteq> set (lock_reports d')
      \<and> ((w, p) \<in> set ps \<longrightarrow> (\<exists>i \<in> set is. w = inst_owner_teams_webhook_url i
           \<and> report_carries d' (weekly_alerts d now (Some (inst_pk i))) p))
      \<and> (ok \<longrightarrow> (\<exists>(w, p) \<in> set ps. post w p = Accepted))"
    using assms
  proof (induction "is" arbitrary: d ok ps)
    case Nil
    then show ?case by simp
  next
    case (Cons i js)
    obtain ok1 d1 ps1 where s: "send_report_to_webhook sign post (inst_owner_teams_webhook_url i) (inst_str i)
        (weekly_alerts d now (Some (inst_pk i))) config now d = (ok1, d1, ps1)" by (rule prod_cases3)
    obtain ok2 d2 ps2 where r: "send_owner_reports sign post config now js d1 = (ok2, d2, ps2)"
      by (rule prod_cases3)
    have eq: "ok = (ok1 \<or> ok2)" "d' = d2" "ps = ps1 @ ps2" using Cons.prems by (simp_all add: s r)
    note e = send_report_effect [OF s]
    note ih = Cons.IH [OF r [folded eq(2)]]
    have "same_but_reports d d'" using same_but_reports_trans [OF e(1)] ih eq by blast
    moreover have "set (lock_reports d) \<subseteq> set (lock_reports d')" using e(2) ih eq by blast
    moreover have "\<exists>i \<in> set (i # js). w = inst_owner_teams_webhook_url i
        \<and> report_carries d' (weekly_alerts d now (Some (inst_pk i))) p" if "(w, p) \<in> set ps"
    proof (cases "(w, p) \<in> set ps1")
      case True
      then show ?thesis using e(3) [OF True] report_carries_mono ih eq by auto
    next
      case False
      then show ?thesis using ih that eq weekly_alerts_cong(1) [OF e(1)] by auto
    qed
    moreover have "\<exists>(w, p) \<in> set ps. post w p = Accepted" if ok
      using that e(4) ih unfolding eq by auto
    ultimately show ?case by blast
  qed
  then show "same_but_reports d d'" and "set (lock_reports d) \<subseteq> set (lock_reports d')"
    and "(w, p) \<in> set ps \<Longrightarrow> \<exists>i \<in> set is. w = inst_owner_teams_webhook_url i
           \<and> report_carries d' (weekly_alerts d now (Some (inst_pk i))) p"
    and "ok \<Longrightarrow> \<exists>(w, p) \<in> set ps. post w p = Accepted" by auto
qed

lemma send_weekly_reports_effect:
  assumes "send_weekly_reports sign post now d = (ok, d', ps)"
  shows "same_but_reports (save_settings (load_settings d) d) d'"
    and "(w, p) \<in> set ps \<Longrightarrow>
       w = ns_channel_webhook_url (load_settings d) \<and> report_carries d' (weekly_alerts d now None) p
       \<or> (\<exists>i \<in> set (owner_instances d). w = inst_owner_teams_webhook_url i
            \<and> report_carries d' (weekly_alerts d now (Some (inst_pk i))) p)"
    and "ok \<Longrightarrow> \<exists>(w, p) \<in> set ps. post w p = Accepted"
proof -
  define e where "e = save_settings (load_settings d) d"
  define c where "c = delete_expired_reports now e"
  define channel where "channel = (if ns_channel_webhook_url (load_settings d) \<noteq> [] \<and> weekly_alerts c now None \<noteq> [] then
      send_report_to_webhook sign post (ns_channel_webhook_url (load_settings d))
        (lit ''All monitored databases'') (weekly_alerts c now None) (load_settings d) now c else (False, c, []))"
  obtain ok1 d1 ps1 where s: "channel = (ok1, d1, ps1)" by (rule prod_cases3)
  obtain ok2 d2 ps2 where r: "send_owner_reports sign post (load_settings d) now (owner_instances d1) d1 = (ok2, d2, ps2)"
    by (rule prod_cases3)
  have eq: "ok = (ok1 \<or> ok2)" "d' = d2" "ps = ps1 @ ps2"
    using assms s r unfolding send_weekly_reports_def Let_def e_def [symmetric] c_def [symmetric] channel_def [symmetric]
    by simp_all
  have ec: "same_but_reports e c" by (simp add: c_def delete_expired_reports_def)
  have w: "weekly_alerts e now i = weekly_alerts d now i" "owner_instances e = owner_instances d" for i
    unfolding e_def save_settings_def weekly_alerts_def with_instance_def find_instance_def owner_instances_def
      active_instances_def by simp_all
  have s1: "same_but_reports c d1" "set (lock_reports c) \<subseteq> set (lock_reports d1)"
      "(w, p) \<in> set ps1 \<Longrightarrow> w = ns_channel_webhook_url (load_settings d) \<and> report_carries d1 (weekly_alerts c now None) p"
      "ok1 \<Longrightarrow> \<exists>(w, p) \<in> set ps1. post w p = Accepted"
    using s send_report_effect unfolding channel_def by (auto split: if_splits; blast)+
  note ed1 = same_but_reports_trans [OF ec s1(1)]
  note o = send_owner_reports_effect [OF r]
  show "same_but_reports (save_settings (load_settings d) d) d'"
    using same_but_reports_trans [OF ed1 o(1)] by (simp add: eq e_def)
  show "w = ns_channel_webhook_url (load_settings d) \<and> report_carries d' (weekly_alerts d now None) p
       \<or> (\<exists>i \<in> set (owner_instances d). w = inst_owner_teams_webhook_url i
            \<and> report_carries d' (weekly_alerts d now (Some (inst_pk i))) p)" if "(w, p) \<in> set ps"
  proof (cases "(w, p) \<in> set ps1")
    case True
    then show ?thesis
      using s1(3) [OF True] report_carries_mono [OF _ o(2)] weekly_alerts_cong(1) [OF ec] w by (simp add: eq)
  next
    case False
    then show ?thesis
      using that o(3) weekly_alerts_cong(1,2) [OF ed1] w by (simp add: eq)
  qed
  show "\<exists>(w, p) \<in> set ps. post w p = Accepted" if ok
    using that s1(4) o(4) by (auto simp: eq)
qed

text \<open>The incidents of a report are those of the window, each with its registration.\<close>

lemma set_weekly_alerts:
  "set (weekly_alerts d now sel) =
     {(i, a). a \<in> set (lock_alerts d) \<and> find_instance d (la_instance a) = Some i
        \<and> weekly_report_includes now a \<and> (sel = None \<or> sel = Some (la_instance a))}"
  by (fastforce simp: weekly_alerts_def with_instance_def split: option.splits)

end
