(* ===== verification/Background.thy ===== *)
theory Background
  imports Monitor_Props Reports
begin

text \<open>
  The embedded monitor of \<open>monitor/background.py\<close> and the loop of the management command: the
  lease that lets one process run a cycle, the cycle over the active registrations, the weekly
  report schedule and the history cleanup, composed into one turn of \<open>monitor_loop\<close>. The clock is
  a parameter: each operation is given the time it reads.
\<close>

section \<open>The lease\<close>

text \<open>
  \<open>acquire_monitor_lease\<close>. Comparing a missing \<open>lease_until\<close> raises, which is the outcome None;
  the settings row is created by the load before.
\<close>

definition lease_duration :: "notification_settings \<Rightarrow> int" where
  "lease_duration config = seconds (max 60 (ns_interval_seconds config * 2))"

definition acquire_monitor_lease :: "pystr \<Rightarrow> datetime \<Rightarrow> app_db \<Rightarrow> bool option \<times> app_db" where
  "acquire_monitor_lease owner_id now d0 =
     (let config = load_settings d0; d = save_settings config d0;
          lease_until = now + lease_duration config;
          lease = (case lease_row d of None \<Rightarrow> \<lparr>ml_owner_id = [], ml_lease_until = None\<rparr> | Some l \<Rightarrow> l);
          grant = (Some True, d\<lparr>lease_row := Some \<lparr>ml_owner_id = owner_id, ml_lease_until = Some lease_until\<rparr>\<rparr>)
      in if ml_owner_id lease \<noteq> [] \<and> ml_owner_id lease \<noteq> owner_id then
           (case ml_lease_until lease of
              None \<Rightarrow> (None, d)
            | Some t \<Rightarrow> if t > now then (Some False, d\<lparr>lease_row := Some lease\<rparr>) else grant)
         else grant)"

text \<open>
  The processes that share the database, as a relation between the lease row and the log of
  grants: a process with an owner id attempts to acquire at the current time, which never runs
  backwards, and any other writer changes the rest of the database.
\<close>

record lease_state =
  ls_db :: app_db
  ls_time :: datetime
  ls_grants :: "(pystr \<times> datetime \<times> datetime) list"

inductive lease_step :: "lease_state \<Rightarrow> lease_state \<Rightarrow> bool" where
  attempt: "owner \<noteq> [] \<Longrightarrow> ls_time s \<le> now \<Longrightarrow> acquire_monitor_lease owner now (ls_db s) = (r, d') \<Longrightarrow>
    lease_step s \<lparr>ls_db = d', ls_time = now,
      ls_grants = (if r = Some True
        then (owner, now, now + lease_duration (load_settings (ls_db s))) # ls_grants s else ls_grants s)\<rparr>"
| other: "lease_row d' = lease_row (ls_db s) \<Longrightarrow> ls_time s \<le> now \<Longrightarrow>
    lease_step s \<lparr>ls_db = d', ls_time = now, ls_grants = ls_grants s\<rparr>"

inductive lease_reachable :: "lease_state \<Rightarrow> bool" where
  start: "lease_row d = None \<Longrightarrow> lease_reachable \<lparr>ls_db = d, ls_time = t, ls_grants = []\<rparr>"
| step: "lease_reachable s \<Longrightarrow> lease_step s s' \<Longrightarrow> lease_reachable s'"

text \<open>
  Handover: in the log, newest first, a grant to another process comes only after the end of the
  grant before it.
\<close>

fun handover :: "(pystr \<times> datetime \<times> datetime) list \<Rightarrow> bool" where
  "handover ((b, v, w) # (a, t, u) # gs) = ((a \<noteq> b \<longrightarrow> u \<le> v) \<and> handover ((a, t, u) # gs))"
| "handover gs = True"

text \<open>The lease row is the newest grant.\<close>

definition lease_inv :: "lease_state \<Rightarrow> bool" where
  "lease_inv s \<longleftrightarrow> handover (ls_grants s)
     \<and> (\<forall>(a, t, u) \<in> set (ls_grants s). a \<noteq> [] \<and> t \<le> ls_time s \<and> t + seconds 60 \<le> u)
     \<and> lease_row (ls_db s) = (case ls_grants s of [] \<Rightarrow> None
          | (a, t, u) # _ \<Rightarrow> Some \<lparr>ml_owner_id = a, ml_lease_until = Some u\<rparr>)"

lemma lease_duration_min: "seconds 60 \<le> lease_duration config"
  by (simp add: lease_duration_def seconds_def)

lemma lease_row_save_settings [simp]: "lease_row (save_settings c d) = lease_row d"
  by (simp add: save_settings_def)

text \<open>What one attempt answers and leaves, by the newest grant.\<close>

lemma acquire_no_lease:
  "lease_row d = None \<Longrightarrow> acquire_monitor_lease owner now d = (r, d') \<Longrightarrow>
   r = Some True \<and> lease_row d' =
     Some \<lparr>ml_owner_id = owner, ml_lease_until = Some (now + lease_duration (load_settings d))\<rparr>"
  by (auto simp: acquire_monitor_lease_def Let_def)

lemma acquire_held_lease:
  assumes "lease_row d = Some \<lparr>ml_owner_id = a, ml_lease_until = Some u\<rparr>" and "a \<noteq> []"
    and "acquire_monitor_lease owner now d = (r, d')"
  shows "r = Some (a = owner \<or> u \<le> now) \<and> lease_row d' =
     (if a = owner \<or> u \<le> now
      then Some \<lparr>ml_owner_id = owner, ml_lease_until = Some (now + lease_duration (load_settings d))\<rparr>
      else lease_row d)"
  using assms by (auto simp: acquire_monitor_lease_def Let_def split: if_splits)

lemma lease_step_inv:
  assumes "lease_inv s" and "lease_step s s'"
  shows "lease_inv s'"
  using assms(2)
proof (cases rule: lease_step.cases)
  case (attempt owner now r d')
  let ?grant = "(owner, now, now + lease_duration (load_settings (ls_db s)))"
  have all: "\<forall>(a, t, u) \<in> set (ls_grants s). a \<noteq> [] \<and> t \<le> now \<and> t + seconds 60 \<le> u"
    using assms(1) attempt(3) by (fastforce simp: lease_inv_def)
  show ?thesis
  proof (cases "ls_grants s")
    case Nil
    then have "lease_row (ls_db s) = None" using assms(1) by (simp add: lease_inv_def)
    from acquire_no_lease [OF this attempt(4)] show ?thesis
      using Nil attempt(2) lease_duration_min by (simp add: lease_inv_def attempt(1))
  next
    case (Cons g gs)
    obtain a t u where g: "g = (a, t, u)" by (cases g)
    have row: "lease_row (ls_db s) = Some \<lparr>ml_owner_id = a, ml_lease_until = Some u\<rparr>" "a \<noteq> []"
        and h: "handover ((a, t, u) # gs)"
      using assms(1) Cons g by (auto simp: lease_inv_def)
    from acquire_held_lease [OF row attempt(4)] show ?thesis
      using Cons g attempt(2) lease_duration_min all row h by (auto simp: lease_inv_def attempt(1))
  qed
next
  case (other d' now)
  then show ?thesis using assms(1) by (fastforce simp: lease_inv_def)
qed

lemma lease_reachable_inv: "lease_reachable s \<Longrightarrow> lease_inv s"
proof (induction rule: lease_reachable.induct)
  case (start d t)
  then show ?case by (simp add: lease_inv_def)
next
  case (step s s')
  then show ?case using lease_step_inv by blast
qed

lemma handover_consecutive:
  "handover (xs @ (b, v, w) # (a, t, u) # ys) \<Longrightarrow> a \<noteq> b \<Longrightarrow> u \<le> v"
proof (induction xs)
  case (Cons x xs)
  then show ?case by (cases x; cases xs) auto
qed simp

section \<open>The cycle\<close>

text \<open>
  \<open>run_monitor_cycle\<close>, and one pass of the management command's loop: every active registration
  is checked, in the model's order by name, and an exception of a check is logged and does not
  reach the next one.
\<close>

fun run_checks_in_order ::
  "(pystr \<Rightarrow> pystr) \<Rightarrow> (pystr \<Rightarrow> payload \<Rightarrow> post_result) \<Rightarrow>
   (rds_instance \<Rightarrow> monitor_exc + activity_row list \<times> blocking_row list) \<Rightarrow> (rds_instance \<Rightarrow> datetime) \<Rightarrow>
   rds_instance list \<Rightarrow> app_db \<Rightarrow> (int \<times> monitor_exc option) list \<times> app_db \<times> posts" where
  "run_checks_in_order sha post fetch clock [] d = ([], d, [])"
| "run_checks_in_order sha post fetch clock (i # is) d =
     (let (e, d1, ps1) = process_instance sha post fetch i (clock i) d;
          (log, d2, ps2) = run_checks_in_order sha post fetch clock is d1
      in ((inst_pk i, e) # log, d2, ps1 @ ps2))"

definition run_monitor_cycle ::
  "(pystr \<Rightarrow> pystr) \<Rightarrow> (pystr \<Rightarrow> payload \<Rightarrow> post_result) \<Rightarrow>
   (rds_instance \<Rightarrow> monitor_exc + activity_row list \<times> blocking_row list) \<Rightarrow> (rds_instance \<Rightarrow> datetime) \<Rightarrow>
   app_db \<Rightarrow> (int \<times> monitor_exc option) list \<times> app_db \<times> posts" where
  "run_monitor_cycle sha post fetch clock d =
     run_checks_in_order sha post fetch clock (sort_key inst_name (active_instances d)) d"

lemma process_instance_other_open_locks:
  assumes "monitor_ok d0" and "process_instance sha post fetch inst now d0 = (e, d', ps)" and "j \<noteq> inst_pk inst"
  shows "open_locks j d' = open_locks j d0"
  using assms(2)
proof (cases rule: process_instance_cases)
  case (checked act blk d1 cleared d2 d3 lps st sps)
  let ?d = "save_settings (load_settings d0) d0"
  have "wf_table la_pk la_ident la_live (next_pk ?d) (lock_alerts ?d)"
    using assms(1) by (simp add: monitor_ok_def save_settings_def)
  note w1 = upsert_lock_alerts_wf [OF checked(2) this]
  have "open_locks j d' = open_locks j d2"
    using checked(6) process_long_queries_others(1) [OF checked(4)] by (simp add: open_locks_def)
  also have "\<dots> = open_locks j d1" by (rule clear_missing_open_locks(2) [OF checked(3) assms(3)])
  also have "\<dots> = open_locks j d0" using w1 assms(3) by (auto simp: open_locks_open_keys save_settings_def)
  finally show ?thesis .
qed (simp_all add: open_locks_def save_settings_def)

lemma run_checks_spec:
  assumes "monitor_ok d" and "distinct (map inst_pk is)"
    and "run_checks_in_order sha post fetch clock is d = (log, d', ps)"
  shows "monitor_ok d' \<and> map fst log = map inst_pk is
    \<and> (\<forall>j. j \<notin> inst_pk ` set is \<longrightarrow> open_locks j d' = open_locks j d)
    \<and> (\<forall>i \<in> set is. \<forall>act blk. (inst_pk i, None) \<in> set log \<longrightarrow> fetch i = Inr (act, blk) \<longrightarrow>
         open_locks (inst_pk i) d' = lock_key ` set blk)"
  using assms
proof (induction "is" arbitrary: d log ps)
  case Nil
  then show ?case by simp
next
  case (Cons i js)
  obtain e d1 ps1 where p: "process_instance sha post fetch i (clock i) d = (e, d1, ps1)" by (rule prod_cases3)
  obtain log2 d2 ps2 where r: "run_checks_in_order sha post fetch clock js d1 = (log2, d2, ps2)"
    by (rule prod_cases3)
  have eq: "log = (inst_pk i, e) # log2" "d' = d2" using Cons.prems(3) by (simp_all add: p r)
  have ok1: "monitor_ok d1" by (rule process_instance_monitor_ok [OF Cons.prems(1) p])
  have new: "inst_pk i \<notin> inst_pk ` set js" using Cons.prems(2) by auto
  note ih = Cons.IH [OF ok1 _ r [folded eq(2)]]
  have ih: "monitor_ok d'" "map fst log2 = map inst_pk js"
      "\<And>j. j \<notin> inst_pk ` set js \<Longrightarrow> open_locks j d' = open_locks j d1"
      "\<And>i act blk. i \<in> set js \<Longrightarrow> (inst_pk i, None) \<in> set log2 \<Longrightarrow> fetch i = Inr (act, blk) \<Longrightarrow>
         open_locks (inst_pk i) d' = lock_key ` set blk"
    using ih Cons.prems(2) by auto
  have "fst ` set log2 = inst_pk ` set js" using ih(2) by (metis list.set_map)
  then have new2: "(inst_pk i, x) \<notin> set log2" for x using new by force
  have "open_locks (inst_pk k) d' = lock_key ` set blk"
    if k: "k \<in> set (i # js)" "(inst_pk k, None) \<in> set log" "fetch k = Inr (act, blk)" for k act blk
  proof (cases "k = i")
    case True
    then have "e = None" using k(2) new2 by (simp add: eq)
    then show ?thesis
      using process_instance_open_keys [OF Cons.prems(1) p [unfolded \<open>e = None\<close>], of act blk "inst_pk i"]
        ih(3) [OF new] k(3) True by simp
  next
    case False
    then have "k \<in> set js" using k(1) by simp
    moreover have "inst_pk k \<noteq> inst_pk i" using new \<open>k \<in> set js\<close> by (metis imageI)
    then have "(inst_pk k, None) \<in> set log2" using k(2) by (simp add: eq)
    ultimately show ?thesis using ih(4) k(3) by blast
  qed
  moreover have "open_locks j d' = open_locks j d" if "j \<notin> inst_pk ` set (i # js)" for j
    using that ih(3) [of j] process_instance_other_open_locks [OF Cons.prems(1) p, of j] by auto
  ultimately show ?case using ih(1,2) by (simp add: eq)
qed

section \<open>The weekly report schedule\<close>

definition maybe_send_weekly_report ::
  "(pystr \<Rightarrow> pystr) \<Rightarrow> (pystr \<Rightarrow> payload \<Rightarrow> post_result) \<Rightarrow> datetime \<Rightarrow> app_db \<Rightarrow> bool \<times> app_db \<times> posts" where
  "maybe_send_weekly_report sign post now d0 =
     (let config = load_settings d0; d = save_settings config d0; today = local_ordinal now in
      if \<not> ns_weekly_report_enabled config then (False, d, [])
      else if weekday today \<noteq> ns_weekly_report_day config \<or> local_hour now < ns_weekly_report_hour config then
        (False, d, [])
      else if (case ns_last_weekly_report_at config of None \<Rightarrow> False
               | Some t \<Rightarrow> isocalendar (local_ordinal t) = isocalendar today) then (False, d, [])
      else
        let (delivered, d1, ps) = send_weekly_reports sign post now d in
        (delivered,
         if delivered then save_settings (config\<lparr>ns_last_weekly_report_at := Some now\<rparr>) d1 else d1, ps))"

section \<open>The history cleanup\<close>

text \<open>\<open>NotificationSettings.objects.get(pk=1)\<close> raises when the row is missing: the outcome None.\<close>

definition recently_cleaned :: "notification_settings \<Rightarrow> datetime \<Rightarrow> bool" where
  "recently_cleaned config now =
     (case ns_last_cleanup_at config of None \<Rightarrow> False | Some t \<Rightarrow> now - t < seconds (24 * 3600))"

text \<open>The filter \<open>resolved_at__isnull=False, resolved_at__lt=alert_cutoff\<close>.\<close>

definition past_retention :: "notification_settings \<Rightarrow> datetime \<Rightarrow> datetime option \<Rightarrow> bool" where
  "past_retention config now resolved =
     (case resolved of None \<Rightarrow> False
      | Some t \<Rightarrow> t < now - days (max 1 (ns_resolved_alert_retention_days config)))"

definition cleanup_monitor_history :: "datetime \<Rightarrow> app_db \<Rightarrow> (nat \<times> nat) option \<times> app_db" where
  "cleanup_monitor_history now d =
     (case settings_row d of
        None \<Rightarrow> (None, d)
      | Some config \<Rightarrow>
          if recently_cleaned config now then (Some (0, 0), d)
          else
            let old = past_retention config now;
                deleted_alerts = length (filter (\<lambda>a. old (la_resolved_at a)) (lock_alerts d));
                deleted_long = length (filter (\<lambda>a. old (lq_resolved_at a)) (long_query_alerts d));
                deleted_reports = length (filter (\<lambda>r. lr_expires_at r < now) (lock_reports d))
            in (Some (deleted_alerts + deleted_long, deleted_reports),
                d\<lparr>lock_alerts := filter (\<lambda>a. \<not> old (la_resolved_at a)) (lock_alerts d),
                   long_query_alerts := filter (\<lambda>a. \<not> old (lq_resolved_at a)) (long_query_alerts d),
                   lock_reports := filter (\<lambda>r. \<not> lr_expires_at r < now) (lock_reports d),
                   settings_row := Some (config\<lparr>ns_last_cleanup_at := Some now\<rparr>)\<rparr>))"

lemma length_filter_diff: "length xs - length (filter (\<lambda>x. \<not> P x) xs) = length (filter P xs)"
  using sum_length_filter_compl [of P xs] by simp

section \<open>One turn of the loop\<close>

text \<open>
  \<open>monitor_loop\<close>: what one turn did, what it left, and how many seconds it sleeps. A turn that
  raised sleeps as for an interval of 30.
\<close>

definition monitor_turn ::
  "(pystr \<Rightarrow> pystr) \<Rightarrow> (pystr \<Rightarrow> pystr) \<Rightarrow> (pystr \<Rightarrow> payload \<Rightarrow> post_result) \<Rightarrow>
   (rds_instance \<Rightarrow> monitor_exc + activity_row list \<times> blocking_row list) \<Rightarrow> (rds_instance \<Rightarrow> datetime) \<Rightarrow>
   pystr \<Rightarrow> datetime \<Rightarrow> app_db \<Rightarrow> int \<times> app_db \<times> posts" where
  "monitor_turn sha sign post fetch clock owner now d =
     (case acquire_monitor_lease owner now d of
        (None, d1) \<Rightarrow> (30, d1, [])
      | (Some False, d1) \<Rightarrow> (max 5 (ns_interval_seconds (load_settings d1)), d1, [])
      | (Some True, d1) \<Rightarrow>
          let (_, d2, ps1) = run_monitor_cycle sha post fetch clock d1;
              (_, d3, ps2) = maybe_send_weekly_report sign post now d2
          in case cleanup_monitor_history now d3 of
               (None, d4) \<Rightarrow> (30, d4, ps1 @ ps2)
             | (Some _, d4) \<Rightarrow> (max 5 (ns_interval_seconds (load_settings d4)), d4, ps1 @ ps2))"

end
