(* ===== verification/Background_Claims.thy ===== *)
theory Background_Claims
  imports Background Fixtures "HOL-Library.Multiset"
begin

text \<open>The properties of the embedded monitor: lease, cycle, report schedule and cleanup.\<close>

section \<open>The lease\<close>

text \<open>
  C8. One monitor at a time: however the processes' attempts interleave and whatever else is written
  to the database, the lease passes to another process only after the period of the last grant has
  ended, which is at least 60 seconds after that grant.
\<close>

theorem lease_exclusive:
  assumes "lease_reachable s" and "ls_grants s = xs @ (b, v, w) # (a, t, u) # ys" and "a \<noteq> b"
  shows "u \<le> v \<and> t + seconds 60 \<le> v"
proof -
  have inv: "lease_inv s" using assms(1) by (rule lease_reachable_inv)
  then have "handover (xs @ (b, v, w) # (a, t, u) # ys)" by (simp add: lease_inv_def flip: assms(2))
  from handover_consecutive [OF this assms(3)] have "u \<le> v" .
  moreover have "t + seconds 60 \<le> u" using inv by (auto simp: lease_inv_def assms(2))
  ultimately show ?thesis by simp
qed

text \<open>Two processes in turn: the second is refused at 30 s and granted at 60 s.\<close>

definition lease_run :: lease_state where
  "lease_run =
     (let d1 = snd (acquire_monitor_lease (lit ''p1'') 0 demo_db);
          d2 = snd (acquire_monitor_lease (lit ''p2'') (seconds 30) d1);
          d3 = snd (acquire_monitor_lease (lit ''p2'') (seconds 60) d2)
      in \<lparr>ls_db = d3, ls_time = seconds 60,
           ls_grants = [(lit ''p2'', seconds 60, seconds 120), (lit ''p1'', 0, seconds 60)]\<rparr>)"

lemma lease_attempt:
  assumes "lease_reachable \<lparr>ls_db = d, ls_time = t, ls_grants = gs\<rparr>" and "owner \<noteq> []" and "t \<le> now"
    and "fst (acquire_monitor_lease owner now d) = Some granted"
    and "gs' = (if granted then (owner, now, now + lease_duration (load_settings d)) # gs else gs)"
  shows "lease_reachable \<lparr>ls_db = snd (acquire_monitor_lease owner now d), ls_time = now, ls_grants = gs'\<rparr>"
proof -
  let ?s = "\<lparr>ls_db = d, ls_time = t, ls_grants = gs\<rparr>"
  have a: "acquire_monitor_lease owner now (ls_db ?s) = (Some granted, snd (acquire_monitor_lease owner now d))"
    using assms(4) by (metis lease_state.select_convs(1) prod.collapse)
  note step = lease_reachable.step [OF assms(1) lease_step.attempt [OF assms(2) _ a]]
  show ?thesis using step assms(3) by (cases granted) (simp_all add: assms(5))
qed

lemma lease_run_reachable: "lease_reachable lease_run"
proof -
  define d1 where "d1 = snd (acquire_monitor_lease (lit ''p1'') 0 demo_db)"
  define d2 where "d2 = snd (acquire_monitor_lease (lit ''p2'') (seconds 30) d1)"
  define d3 where "d3 = snd (acquire_monitor_lease (lit ''p2'') (seconds 60) d2)"
  have r0: "lease_reachable \<lparr>ls_db = demo_db, ls_time = 0, ls_grants = []\<rparr>"
    by (rule lease_reachable.start) (simp add: demo_db_def empty_db_def)
  have r1: "lease_reachable \<lparr>ls_db = d1, ls_time = 0, ls_grants = [(lit ''p1'', 0, seconds 60)]\<rparr>"
    unfolding d1_def by (rule lease_attempt [OF r0, where granted = True]) code_simp+
  have r2: "lease_reachable \<lparr>ls_db = d2, ls_time = seconds 30, ls_grants = [(lit ''p1'', 0, seconds 60)]\<rparr>"
    unfolding d2_def by (rule lease_attempt [OF r1, where granted = False]) (unfold d1_def, code_simp+)
  have "lease_reachable \<lparr>ls_db = d3, ls_time = seconds 60,
      ls_grants = [(lit ''p2'', seconds 60, seconds 120), (lit ''p1'', 0, seconds 60)]\<rparr>"
    unfolding d3_def by (rule lease_attempt [OF r2, where granted = True]) (unfold d2_def d1_def, code_simp+)
  then show ?thesis by (simp add: lease_run_def Let_def d1_def d2_def d3_def)
qed

theorem lease_exclusive_witness: "ls_grants lease_run \<noteq> [] \<and> seconds 60 \<le> seconds (60::int)"
proof -
  have g: "ls_grants lease_run = [] @ (lit ''p2'', seconds 60, seconds 120) # (lit ''p1'', 0, seconds 60) # []"
    by (simp add: lease_run_def Let_def)
  from lease_exclusive [OF lease_run_reachable g] g show ?thesis by simp
qed

text \<open>
  Takeover: an attempt never fails with an exception, and it is granted exactly when there is no
  grant yet, the newest grant is the caller's own, or its period has ended; so a process that
  stops is replaced.
\<close>

lemma lease_decision:
  assumes "lease_reachable s" and "owner \<noteq> []" and "acquire_monitor_lease owner now (ls_db s) = (r, d')"
  shows "r = Some (case ls_grants s of [] \<Rightarrow> True | (a, t, u) # _ \<Rightarrow> a = owner \<or> u \<le> now)"
proof -
  have inv: "lease_inv s" using assms(1) by (rule lease_reachable_inv)
  show ?thesis
  proof (cases "ls_grants s")
    case Nil
    then have "lease_row (ls_db s) = None" using inv by (simp add: lease_inv_def)
    from acquire_no_lease [OF this assms(3)] show ?thesis by (simp add: Nil)
  next
    case (Cons g gs)
    obtain a t u where g: "g = (a, t, u)" by (cases g)
    have "lease_row (ls_db s) = Some \<lparr>ml_owner_id = a, ml_lease_until = Some u\<rparr>" "a \<noteq> []"
      using inv Cons g by (auto simp: lease_inv_def)
    from acquire_held_lease [OF this assms(3)] show ?thesis by (simp add: Cons g)
  qed
qed

lemma lease_decision_witness:
  "fst (acquire_monitor_lease (lit ''p1'') (seconds 119) (ls_db lease_run)) = Some False
   \<and> fst (acquire_monitor_lease (lit ''p1'') (seconds 120) (ls_db lease_run)) = Some True"
proof -
  have g: "ls_grants lease_run = [(lit ''p2'', seconds 60, seconds 120), (lit ''p1'', 0, seconds 60)]"
    by (simp add: lease_run_def Let_def)
  have "fst (acquire_monitor_lease (lit ''p1'') now (ls_db lease_run)) = Some (seconds 120 \<le> now)" for now
  proof -
    obtain r d' where a: "acquire_monitor_lease (lit ''p1'') now (ls_db lease_run) = (r, d')"
      by (cases "acquire_monitor_lease (lit ''p1'') now (ls_db lease_run)")
    from lease_decision [OF lease_run_reachable _ a] show ?thesis by (simp add: a g)
  qed
  then show ?thesis by (simp add: seconds_def)
qed

section \<open>The cycle\<close>

text \<open>
  C30. Isolation: in a cycle every active registration is checked, whatever exceptions other checks
  raise; each whose own check completed has exactly its observed pairs open afterwards, and the
  incidents of inactive registrations are untouched.
\<close>

theorem cycle_isolates_failures:
  assumes "monitor_ok d" and "distinct (map inst_pk (instances d))"
    and "run_monitor_cycle sha post fetch clock d = (log, d', ps)"
  shows "monitor_ok d' \<and> mset (map fst log) = mset (map inst_pk (active_instances d))
    \<and> (\<forall>j. j \<notin> inst_pk ` set (active_instances d) \<longrightarrow> open_locks j d' = open_locks j d)
    \<and> (\<forall>i \<in> set (active_instances d). \<forall>act blk. (inst_pk i, None) \<in> set log \<longrightarrow> fetch i = Inr (act, blk) \<longrightarrow>
         open_locks (inst_pk i) d' = lock_key ` set blk)"
proof -
  let ?is = "sort_key inst_name (active_instances d)"
  have "mset (map inst_pk ?is) = mset (map inst_pk (active_instances d))" by simp
  moreover have "distinct (map inst_pk (active_instances d))"
    using assms(2) by (simp add: active_instances_def distinct_map_filter)
  ultimately have "distinct (map inst_pk ?is)" by (metis mset_eq_imp_distinct_iff)
  from run_checks_spec [OF assms(1) this assms(3) [unfolded run_monitor_cycle_def]] show ?thesis
    by simp
qed

definition other_instance :: rds_instance where
  "other_instance = demo_instance\<lparr>inst_pk := 8, inst_name := lit ''billing''\<rparr>"

definition two_db :: app_db where
  "two_db = demo_db\<lparr>instances := [demo_instance, other_instance]\<rparr>"

text \<open>The first registration in name order cannot be reached, the second reports one pair.\<close>

definition two_fetch :: "rds_instance \<Rightarrow> monitor_exc + activity_row list \<times> blocking_row list" where
  "two_fetch i = (if inst_pk i = 8 then Inl (Connection_error []) else Inr ([], [\<lparr>br_blocked_pid = Some 11,
     br_blocking_pid = Some 22, br_blocked_user = None, br_blocking_user = None, br_blocked_query = None,
     br_blocking_query = None, br_waiting_seconds = Some 5\<rparr>]))"

theorem cycle_isolates_failures_witness:
  "fst (run_monitor_cycle id (\<lambda>_ _. Accepted) two_fetch (\<lambda>_. 5000) two_db) = [(8, Some (Connection_error [])), (7, None)]
   \<and> open_locks 7 (fst (snd (run_monitor_cycle id (\<lambda>_ _. Accepted) two_fetch (\<lambda>_. 5000) two_db))) \<noteq> {}"
proof -
  let ?run = "run_monitor_cycle id (\<lambda>_ _. Accepted) two_fetch (\<lambda>_. 5000) two_db"
  have log: "fst ?run = [(8, Some (Connection_error [])), (7, None)]" by code_simp
  obtain log d' ps where r: "?run = (log, d', ps)" by (rule prod_cases3)
  have ok: "monitor_ok two_db" "distinct (map inst_pk (instances two_db))"
    by (simp_all add: two_db_def monitor_ok_def demo_db_def empty_db_def other_instance_def)
  have "demo_instance \<in> set (active_instances two_db)"
    by (simp add: two_db_def active_instances_def demo_instance_def)
  then have "open_locks 7 d' \<noteq> {}"
    using cycle_isolates_failures [OF ok r] log r by (fastforce simp: two_fetch_def)
  then show ?thesis using log r by simp
qed

section \<open>The weekly report schedule\<close>

text \<open>
  C31. Once a week: after a delivered report nothing is posted in the same Monday-to-Sunday week of the
  display timezone, as long as the recorded delivery time stays.
\<close>

theorem weekly_report_once:
  assumes "maybe_send_weekly_report sign post t0 d0 = (True, d1, ps1)"
    and "ns_last_weekly_report_at (load_settings d) = ns_last_weekly_report_at (load_settings d1)"
    and "week_start (local_ordinal t1) = week_start (local_ordinal t0)"
  shows "\<exists>d'. maybe_send_weekly_report sign post t1 d = (False, d', [])"
proof -
  have "ns_last_weekly_report_at (load_settings d1) = Some t0"
    using assms(1) by (auto simp: maybe_send_weekly_report_def Let_def split: if_splits prod.splits)
  moreover have "isocalendar (local_ordinal t0) = isocalendar (local_ordinal t1)"
    using assms(3) by (simp add: isocalendar_eq_iff)
  ultimately show ?thesis using assms(2) by (simp add: maybe_send_weekly_report_def Let_def)
qed

text \<open>Monday 5 January 1970, 10:00 in the display timezone, and the Sunday after it.\<close>

definition weekly_demo_db :: app_db where
  "weekly_demo_db = demo_db\<lparr>settings_row := Some (demo_settings\<lparr>ns_weekly_report_enabled := True,
     ns_report_base_url := lit ''https://grid''\<rparr>)\<rparr>"

definition monday_ten :: datetime where "monday_ten = days 4 + seconds (36000 - 19800)"

lemma weekly_demo_delivers:
  "\<exists>d1 ps. maybe_send_weekly_report id (\<lambda>_ _. Accepted) monday_ten weekly_demo_db = (True, d1, ps)"
proof -
  have row: "settings_row weekly_demo_db = Some (demo_settings\<lparr>ns_weekly_report_enabled := True,
      ns_report_base_url := lit ''https://grid''\<rparr>)"
    by (simp add: weekly_demo_db_def)
  then have c: "load_settings weekly_demo_db = demo_settings\<lparr>ns_weekly_report_enabled := True,
      ns_report_base_url := lit ''https://grid''\<rparr>"
    by (simp add: load_settings_def)
  have time: "weekday (local_ordinal monday_ten) = 0" "\<not> local_hour monday_ten < 9" by code_simp+
  have owners: "owner_instances d = [demo_instance]" if "instances d = [demo_instance]" for d
    using that by (simp add: owner_instances_def active_instances_def demo_instance_def)
  have "instances weekly_demo_db = [demo_instance]" by (simp add: weekly_demo_db_def demo_db_def)
  moreover have "lock_alerts weekly_demo_db = []" by (simp add: weekly_demo_db_def demo_db_def empty_db_def)
  ultimately have "fst (send_weekly_reports id (\<lambda>_ _. Accepted) monday_ten
      (save_settings (load_settings weekly_demo_db) weekly_demo_db))"
    by (simp add: send_weekly_reports_def Let_def weekly_alerts_def owners delete_expired_reports_def save_settings_def
        send_report_to_webhook_def report_url_def row load_settings_def) (simp add: demo_instance_def)
  moreover have "ns_weekly_report_enabled (load_settings weekly_demo_db)"
      "ns_weekly_report_day (load_settings weekly_demo_db) = 0" "ns_weekly_report_hour (load_settings weekly_demo_db) = 9"
      "ns_last_weekly_report_at (load_settings weekly_demo_db) = None"
    by (simp_all add: c demo_settings_def default_settings_def)
  ultimately show ?thesis
    using time by (cases "send_weekly_reports id (\<lambda>_ _. Accepted) monday_ten
        (save_settings (load_settings weekly_demo_db) weekly_demo_db)")
      (auto simp: maybe_send_weekly_report_def Let_def)
qed

theorem weekly_report_once_witness:
  "\<exists>d1. fst (maybe_send_weekly_report id (\<lambda>_ _. Accepted) monday_ten weekly_demo_db)
     \<and> snd (snd (maybe_send_weekly_report id (\<lambda>_ _. Accepted) (monday_ten + days 6) d1)) = []"
proof -
  obtain d1 ps where p: "maybe_send_weekly_report id (\<lambda>_ _. Accepted) monday_ten weekly_demo_db = (True, d1, ps)"
    using weekly_demo_delivers by blast
  have "week_start (local_ordinal (monday_ten + days 6)) = week_start (local_ordinal monday_ten)" by code_simp
  from weekly_report_once [OF p refl this] show ?thesis using p by (metis fst_conv snd_conv)
qed

section \<open>The history cleanup\<close>

text \<open>
  Cleanup is safe: it removes an incident only when it was resolved more than the retention period
  (at least one day) ago, so it keeps every open one, changes nothing else than the expired reports
  and its own time stamp, counts what it removed, and does nothing within 24 hours of the last
  cleanup.
\<close>

lemma cleanup_only_old_resolved:
  assumes "settings_row d = Some config" and "cleanup_monitor_history now d = (r, d')"
  shows "set (lock_alerts d) - set (lock_alerts d') \<subseteq>
       {a. \<exists>t. la_resolved_at a = Some t \<and> t < now - days (max 1 (ns_resolved_alert_retention_days config))}
     \<and> set (lock_alerts d') \<subseteq> set (lock_alerts d)
     \<and> set (long_query_alerts d) - set (long_query_alerts d') \<subseteq>
       {a. \<exists>t. lq_resolved_at a = Some t \<and> t < now - days (max 1 (ns_resolved_alert_retention_days config))}
     \<and> set (long_query_alerts d') \<subseteq> set (long_query_alerts d)
     \<and> r = Some (length (lock_alerts d) - length (lock_alerts d')
           + (length (long_query_alerts d) - length (long_query_alerts d')),
         length (lock_reports d) - length (lock_reports d'))
     \<and> (recently_cleaned config now \<longrightarrow> d' = d)
     \<and> d' = d\<lparr>lock_alerts := lock_alerts d', long_query_alerts := long_query_alerts d',
            lock_reports := lock_reports d', settings_row := settings_row d'\<rparr>"
proof (cases "recently_cleaned config now")
  case True
  then have "r = Some (0, 0)" "d' = d" using assms by (simp_all add: cleanup_monitor_history_def)
  then show ?thesis by simp
next
  case False
  let ?old = "past_retention config now"
  have old: "past_retention config now x \<longleftrightarrow>
      (\<exists>t. x = Some t \<and> t < now - days (max 1 (ns_resolved_alert_retention_days config)))" for x
    by (auto simp: past_retention_def split: option.splits)
  from assms False have eqs:
    "r = Some (length (filter (\<lambda>a. ?old (la_resolved_at a)) (lock_alerts d))
        + length (filter (\<lambda>a. ?old (lq_resolved_at a)) (long_query_alerts d)),
        length (filter (\<lambda>r. lr_expires_at r < now) (lock_reports d)))"
    "d' = d\<lparr>lock_alerts := filter (\<lambda>a. \<not> ?old (la_resolved_at a)) (lock_alerts d),
       long_query_alerts := filter (\<lambda>a. \<not> ?old (lq_resolved_at a)) (long_query_alerts d),
       lock_reports := filter (\<lambda>r. \<not> lr_expires_at r < now) (lock_reports d),
       settings_row := Some (config\<lparr>ns_last_cleanup_at := Some now\<rparr>)\<rparr>"
    by (simp_all add: cleanup_monitor_history_def Let_def)
  have alerts: "lock_alerts d' = filter (\<lambda>a. \<not> ?old (la_resolved_at a)) (lock_alerts d)"
    "long_query_alerts d' = filter (\<lambda>a. \<not> ?old (lq_resolved_at a)) (long_query_alerts d)"
    "lock_reports d' = filter (\<lambda>r. \<not> lr_expires_at r < now) (lock_reports d)"
    by (simp_all add: eqs(2))
  have "r = Some (length (lock_alerts d) - length (lock_alerts d')
           + (length (long_query_alerts d) - length (long_query_alerts d')),
         length (lock_reports d) - length (lock_reports d'))"
    unfolding eqs(1) alerts length_filter_diff by (rule refl)
  moreover have "d' = d\<lparr>lock_alerts := lock_alerts d', long_query_alerts := long_query_alerts d',
            lock_reports := lock_reports d', settings_row := settings_row d'\<rparr>"
    by (simp add: eqs(2))
  ultimately show ?thesis using False by (auto simp: alerts old)
qed

text \<open>An incident resolved 40 days ago goes, one resolved yesterday stays.\<close>

definition closed_alert :: "int \<Rightarrow> datetime \<Rightarrow> lock_alert" where
  "closed_alert pk t = \<lparr>la_pk = pk, la_instance = 7, la_alert_key = lit ''11:22'', la_blocked_pid = 11,
     la_blocking_pid = 22, la_blocked_user = [], la_blocking_user = [], la_blocked_query = [],
     la_blocking_query = [], la_waiting_seconds = 300, la_first_seen_at = 0, la_last_seen_at = 0,
     la_alerted_at = None, la_resolved_at = Some t, la_clear_reason = Auto_clear, la_cleared_by = []\<rparr>"

lemma cleanup_only_old_resolved_witness:
  "fst (cleanup_monitor_history (days 50) (demo_db\<lparr>lock_alerts := [closed_alert 1 (days 10), closed_alert 2 (days 49)]\<rparr>))
     = Some (1, 0)"
proof -
  let ?d = "demo_db\<lparr>lock_alerts := [closed_alert 1 (days 10), closed_alert 2 (days 49)]\<rparr>"
  have row: "settings_row ?d = Some demo_settings" by (simp add: demo_db_def)
  obtain r d' where c: "cleanup_monitor_history (days 50) ?d = (r, d')"
    by (cases "cleanup_monitor_history (days 50) ?d")
  have "map la_pk (lock_alerts (snd (cleanup_monitor_history (days 50) ?d))) = [2]"
    "long_query_alerts (snd (cleanup_monitor_history (days 50) ?d)) = []"
    "lock_reports (snd (cleanup_monitor_history (days 50) ?d)) = []" by code_simp+
  then have "length (lock_alerts d') = 1" "long_query_alerts d' = []" "lock_reports d' = []"
    by (auto simp: c dest: map_eq_imp_length_eq)
  then have "r = Some (1, 0)"
    using cleanup_only_old_resolved [OF row c] by (simp add: demo_db_def empty_db_def)
  then show ?thesis by (simp only: c fst_conv)
qed

end
