(* ===== verification/Webhook.thy ===== *)
theory Webhook
  imports Delivery "HOL-Library.Word"
begin

text \<open>
  The outgoing request of \<open>_post_webhook\<close> in \<open>monitor/notifications.py\<close> with the checks that
  precede it: \<open>urllib.parse.urlsplit\<close>, the hostname allow-list and the address classes of
  Python's \<open>ipaddress\<close>. Name resolution and the HTTP exchange are parameters.

  \<open>urlsplit\<close> is modelled for ASCII URLs without bracketed hosts; a URL with a bracket in its
  authority is refused here, where Python accepts a bracketed IPv6 literal.
\<close>

section \<open>\<open>urlsplit\<close>\<close>

record url_parts =
  up_scheme :: pystr
  up_hostname :: "pystr option"
  up_username :: "pystr option"
  up_password :: "pystr option"

definition is_alpha :: "nat \<Rightarrow> bool" where
  "is_alpha c \<longleftrightarrow> (65 \<le> c \<and> c \<le> 90) \<or> (97 \<le> c \<and> c \<le> 122)"

definition scheme_char :: "nat \<Rightarrow> bool" where
  "scheme_char c \<longleftrightarrow> is_alpha c \<or> is_dec c \<or> c = 43 \<or> c = 45 \<or> c = 46"

text \<open>The text before the first element that satisfies P, and the text from it on.\<close>

definition break_at :: "(nat \<Rightarrow> bool) \<Rightarrow> pystr \<Rightarrow> pystr \<times> pystr" where
  "break_at P s = (takeWhile (\<lambda>c. \<not> P c) s, dropWhile (\<lambda>c. \<not> P c) s)"

definition split_scheme :: "pystr \<Rightarrow> pystr \<times> pystr" where
  "split_scheme url =
     (case break_at (\<lambda>c. c = 58) url of
        (c # cs, _ # rest) \<Rightarrow>
          if is_alpha c \<and> list_all scheme_char cs then (py_lower (c # cs), rest) else ([], url)
      | _ \<Rightarrow> ([], url))"

definition clean_url :: "pystr \<Rightarrow> pystr" where
  "clean_url url = filter (\<lambda>c. c \<noteq> 9 \<and> c \<noteq> 10 \<and> c \<noteq> 13) (dropWhile (\<lambda>c. c \<le> 32) url)"

definition split_netloc :: "pystr \<Rightarrow> pystr" where
  "split_netloc rest =
     (if take 2 rest = [47, 47] then fst (break_at (\<lambda>c. c \<in> {47, 63, 35}) (drop 2 rest)) else [])"

text \<open>\<open>netloc.rpartition("@")\<close>\<close>

definition userinfo_of :: "pystr \<Rightarrow> pystr option" where
  "userinfo_of netloc = (case break_at (\<lambda>c. c = 64) (rev netloc) of
     (_, []) \<Rightarrow> None | (_, _ # before) \<Rightarrow> Some (rev before))"

definition hostinfo_of :: "pystr \<Rightarrow> pystr" where
  "hostinfo_of netloc = rev (fst (break_at (\<lambda>c. c = 64) (rev netloc)))"

definition urlsplit :: "pystr \<Rightarrow> url_parts option" where
  "urlsplit url =
     (let (scheme, rest) = split_scheme (clean_url url); netloc = split_netloc rest in
      if 91 \<in> set netloc \<or> 93 \<in> set netloc then None
      else
        let host = fst (break_at (\<lambda>c. c = 58) (hostinfo_of netloc));
            user = map_option (break_at (\<lambda>c. c = 58)) (userinfo_of netloc)
        in Some \<lparr>up_scheme = scheme,
             up_hostname = (if host = [] then None
               else Some (let (h, zone) = break_at (\<lambda>c. c = 37) host in py_lower h @ zone)),
             up_username = map_option fst user,
             up_password = (case user of Some (_, _ # pw) \<Rightarrow> Some pw | _ \<Rightarrow> None)\<rparr>)"

definition truthy :: "pystr option \<Rightarrow> bool" where
  "truthy x \<longleftrightarrow> (case x of None \<Rightarrow> False | Some s \<Rightarrow> s \<noteq> [])"

section \<open>Address classes\<close>

datatype ip_addr = V4 "32 word" | V6 "128 word"

text \<open>A network: base address and prefix length.\<close>

definition in_net :: "nat \<Rightarrow> 'a::len word \<Rightarrow> nat \<times> nat \<Rightarrow> bool" where
  "in_net width a net = (drop_bit (width - snd net) a = drop_bit (width - snd net) (of_nat (fst net)))"

definition quad :: "nat \<Rightarrow> nat \<Rightarrow> nat \<Rightarrow> nat \<Rightarrow> nat" where
  "quad a b c d = ((a * 256 + b) * 256 + c) * 256 + d"

definition v4_private :: "(nat \<times> nat) list" where
  "v4_private = [(quad 0 0 0 0, 8), (quad 10 0 0 0, 8), (quad 127 0 0 0, 8), (quad 169 254 0 0, 16),
     (quad 172 16 0 0, 12), (quad 192 0 0 0, 24), (quad 192 0 0 170, 31), (quad 192 0 2 0, 24),
     (quad 192 168 0 0, 16), (quad 198 18 0 0, 15), (quad 198 51 100 0, 24), (quad 203 0 113 0, 24),
     (quad 240 0 0 0, 4), (quad 255 255 255 255, 32)]"

definition v4_private_exceptions :: "(nat \<times> nat) list" where
  "v4_private_exceptions = [(quad 192 0 0 9, 32), (quad 192 0 0 10, 32)]"

text \<open>The first three groups and the last group of an IPv6 base address.\<close>

definition v6 :: "nat \<Rightarrow> nat \<Rightarrow> nat \<Rightarrow> nat \<Rightarrow> nat" where
  "v6 a b c z = (a * 2 ^ 112 + b * 2 ^ 96 + c * 2 ^ 80) + z"

definition v6_private :: "(nat \<times> nat) list" where
  "v6_private = [(v6 0 0 0 1, 128), (v6 0 0 0 0, 128), (v6 0 0 0 (0xffff * 2 ^ 32), 96),
     (v6 0x64 0xff9b 1 0, 48), (v6 0x100 0 0 0, 64), (v6 0x2001 0 0 0, 23), (v6 0x2001 0xdb8 0 0, 32),
     (v6 0x2002 0 0 0, 16), (v6 0xfc00 0 0 0, 7), (v6 0xfe80 0 0 0, 10)]"

definition v6_private_exceptions :: "(nat \<times> nat) list" where
  "v6_private_exceptions = [(v6 0x2001 1 0 1, 128), (v6 0x2001 1 0 2, 128), (v6 0x2001 3 0 0, 32),
     (v6 0x2001 4 0x112 0, 48), (v6 0x2001 0x20 0 0, 28), (v6 0x2001 0x30 0 0, 28)]"

definition v6_reserved :: "(nat \<times> nat) list" where
  "v6_reserved = [(v6 0 0 0 0, 8), (v6 0x100 0 0 0, 8), (v6 0x200 0 0 0, 7), (v6 0x400 0 0 0, 6),
     (v6 0x800 0 0 0, 5), (v6 0x1000 0 0 0, 4), (v6 0x4000 0 0 0, 3), (v6 0x6000 0 0 0, 3),
     (v6 0x8000 0 0 0, 3), (v6 0xa000 0 0 0, 3), (v6 0xc000 0 0 0, 3), (v6 0xe000 0 0 0, 4),
     (v6 0xf000 0 0 0, 5), (v6 0xf800 0 0 0, 6), (v6 0xfe00 0 0 0, 9)]"

fun is_private :: "ip_addr \<Rightarrow> bool" where
  "is_private (V4 a) = (list_ex (in_net 32 a) v4_private \<and> \<not> list_ex (in_net 32 a) v4_private_exceptions)"
| "is_private (V6 a) = (list_ex (in_net 128 a) v6_private \<and> \<not> list_ex (in_net 128 a) v6_private_exceptions)"

fun is_loopback :: "ip_addr \<Rightarrow> bool" where
  "is_loopback (V4 a) = in_net 32 a (quad 127 0 0 0, 8)"
| "is_loopback (V6 a) = (a = 1)"

fun is_link_local :: "ip_addr \<Rightarrow> bool" where
  "is_link_local (V4 a) = in_net 32 a (quad 169 254 0 0, 16)"
| "is_link_local (V6 a) = in_net 128 a (v6 0xfe80 0 0 0, 10)"

fun is_reserved :: "ip_addr \<Rightarrow> bool" where
  "is_reserved (V4 a) = in_net 32 a (quad 240 0 0 0, 4)"
| "is_reserved (V6 a) = list_ex (in_net 128 a) v6_reserved"

fun is_multicast :: "ip_addr \<Rightarrow> bool" where
  "is_multicast (V4 a) = in_net 32 a (quad 224 0 0 0, 4)"
| "is_multicast (V6 a) = in_net 128 a (v6 0xff00 0 0 0, 8)"

definition blocked_address :: "ip_addr \<Rightarrow> bool" where
  "blocked_address a \<longleftrightarrow> is_private a \<or> is_loopback a \<or> is_link_local a \<or> is_reserved a \<or> is_multicast a"

section \<open>The request\<close>

text \<open>
  \<open>getaddrinfo\<close> answers with the addresses or raises; \<open>opener.open\<close> answers with a status or
  raises, and raises on a redirect because of \<open>_NoRedirectHandler\<close>.
\<close>

record net_env =
  ne_allowed_hosts :: "pystr list"
  ne_getaddrinfo :: "pystr \<Rightarrow> ip_addr list option"
  ne_open :: "pystr \<Rightarrow> payload \<Rightarrow> int option"

definition lstrip_star_dot :: "pystr \<Rightarrow> pystr" where
  "lstrip_star_dot s = dropWhile (\<lambda>c. c = 42 \<or> c = 46) s"

definition host_allowed :: "pystr list \<Rightarrow> pystr \<Rightarrow> bool" where
  "host_allowed allowed host \<longleftrightarrow> allowed = [] \<or>
     list_ex (\<lambda>item. host = item \<or> endswith host (46 # lstrip_star_dot item)) allowed"

definition webhook_host :: "pystr \<Rightarrow> pystr" where
  "webhook_host h = rev (dropWhile (\<lambda>c. c = 46) (rev (py_lower h)))"

text \<open>The checks before the request: the host the name service was asked for, if all pass.\<close>

definition webhook_checks :: "net_env \<Rightarrow> pystr \<Rightarrow> pystr option" where
  "webhook_checks env url =
     (case urlsplit url of
        None \<Rightarrow> None
      | Some parts \<Rightarrow>
          if up_scheme parts \<noteq> lit ''https'' \<or> \<not> truthy (up_hostname parts) \<or> truthy (up_username parts)
             \<or> truthy (up_password parts) then None
          else
            let hostname = webhook_host (the (up_hostname parts)) in
            if \<not> host_allowed (ne_allowed_hosts env) hostname then None
            else (case ne_getaddrinfo env hostname of
                None \<Rightarrow> None
              | Some addresses \<Rightarrow> if list_ex blocked_address addresses then None else Some hostname))"

text \<open>\<open>_post_webhook\<close>: its outcome and whether a request left the process.\<close>

definition post_webhook :: "net_env \<Rightarrow> pystr \<Rightarrow> payload \<Rightarrow> post_result \<times> bool" where
  "post_webhook env url p =
     (case webhook_checks env url of
        None \<Rightarrow> (Post_raised, False)
      | Some _ \<Rightarrow> (case ne_open env url p of
            None \<Rightarrow> (Post_raised, True)
          | Some status \<Rightarrow> (if 200 \<le> status \<and> status < 300 then Accepted else Rejected, True)))"

section \<open>What the checks guarantee\<close>

lemma webhook_checks_Some:
  assumes "webhook_checks env url = Some host"
  shows "\<exists>parts addresses. urlsplit url = Some parts \<and> up_scheme parts = lit ''https''
     \<and> \<not> truthy (up_username parts) \<and> \<not> truthy (up_password parts)
     \<and> host_allowed (ne_allowed_hosts env) host
     \<and> ne_getaddrinfo env host = Some addresses \<and> (\<forall>a \<in> set addresses. \<not> blocked_address a)"
  using assms by (auto simp: webhook_checks_def Let_def list_ex_iff split: option.splits if_splits)

text \<open>The first two octets of an IPv4 address.\<close>

definition octets :: "32 word \<Rightarrow> nat \<times> nat" where
  "octets a = (unat a div 2 ^ 24, unat a div 2 ^ 16 mod 256)"

lemma in_net32:
  fixes a :: "32 word"
  assumes "base < 2 ^ 32"
  shows "in_net 32 a (base, n) \<longleftrightarrow> unat a div 2 ^ (32 - n) = base div 2 ^ (32 - n)"
proof -
  have "unat (of_nat base :: 32 word) = base"
    using assms by (simp add: unat_of_nat take_bit_nat_eq_self)
  then have "in_net 32 a (base, n) \<longleftrightarrow> drop_bit (32 - n) (unat a) = drop_bit (32 - n) base"
    unfolding in_net_def by (simp only: word_unat_eq_iff unat_drop_bit_eq fst_conv snd_conv)
  then show ?thesis by (simp add: drop_bit_eq_div)
qed

lemma v4_not_exception:
  assumes "octets a \<noteq> (192, 0)"
  shows "\<not> list_ex (in_net 32 a) v4_private_exceptions"
  using assms by (auto simp: v4_private_exceptions_def in_net32 quad_def octets_def)

lemma unblocked_v4:
  assumes "\<not> blocked_address (V4 a)" and "octets a = (x, y)"
  shows "x \<notin> {0, 10, 127} \<and> x < 224 \<and> (x, y) \<notin> {(169, 254), (192, 168)} \<and> \<not> (x = 172 \<and> 16 \<le> y \<and> y \<le> 31)"
proof (cases "(x, y) = (192, 0)")
  case True
  then show ?thesis by simp
next
  case False
  then have n: "\<not> list_ex (in_net 32 a) v4_private" "\<not> in_net 32 a (quad 240 0 0 0, 4)"
      "\<not> in_net 32 a (quad 224 0 0 0, 4)"
    using assms v4_not_exception [of a] by (auto simp: blocked_address_def)
  define u where "u = unat a div 2 ^ 16"
  have u24: "unat a div 2 ^ 24 = u div 256" and u20: "unat a div 2 ^ 20 = u div 16"
      and u28: "unat a div 2 ^ 28 = u div 4096"
    by (simp_all add: u_def flip: div_mult2_eq)
  have xy: "x = u div 256" "y = u mod 256" using assms(2) by (auto simp: octets_def u24 u_def)
  have u: "u = x * 256 + y" "y < 256" by (simp_all add: xy)
  have "unat a < 2 ^ 32" using unsigned_less [of a] by simp
  then have "u < 65536" by (simp add: u_def less_mult_imp_div_less)
  have f: "u div 256 \<notin> {0, 10, 127}" "u \<noteq> 169 * 256 + 254" "u \<noteq> 192 * 256 + 168" "u div 16 \<noteq> 172 * 16 + 1"
      "u div 4096 \<noteq> 14" "u div 4096 \<noteq> 15"
    unfolding u24 [symmetric] u20 [symmetric] u28 [symmetric] using n
    by (simp_all add: v4_private_def in_net32 quad_def u_def)
  have "x < 224"
  proof (rule ccontr)
    assume "\<not> x < 224"
    then have "14 \<le> u div 4096" "u div 4096 < 16" using u \<open>u < 65536\<close> by auto
    then show False using f(5,6) by linarith
  qed
  moreover have "\<not> (x = 172 \<and> 16 \<le> y \<and> y \<le> 31)"
  proof
    assume "x = 172 \<and> 16 \<le> y \<and> y \<le> 31"
    then have "u div 16 = 172 * 16 + 1" using u by (intro div_nat_eqI) auto
    then show False using f(4) by contradiction
  qed
  moreover have "x \<notin> {0, 10, 127}" using f(1) by (simp only: xy(1) not_False_eq_True)
  moreover have "(x, y) \<noteq> (169, 254)" "(x, y) \<noteq> (192, 168)" using f(2,3) u(1) by auto
  ultimately show ?thesis by blast
qed

end
