(* ===== verification/Notification_Claims.thy ===== *)
theory Notification_Claims
  imports Reports Webhook Fixtures
begin

text \<open>
  The properties of the texts, cards, reports and outgoing requests of
  \<open>monitor/notifications.py\<close>.
\<close>

section \<open>Outgoing requests\<close>


definition demo_env :: net_env where
  "demo_env = \<lparr>ne_allowed_hosts = [lit ''*.logic.azure.com''],
     ne_getaddrinfo = (\<lambda>h. if h = lit ''prod-1.logic.azure.com'' then Some [V4 (of_nat (quad 20 50 60 70))] else None),
     ne_open = (\<lambda>_ _. Some 202)\<rparr>"

lemma demo_address: "\<not> blocked_address (V4 (of_nat (quad 20 50 60 70)))"
proof -
  have "\<not> blocked_address (V4 a)" if u: "unat a = quad 20 50 60 70" for a :: "32 word"
  proof -
    have "octets a \<noteq> (192, 0)" by (simp add: octets_def u quad_def)
    from v4_not_exception [OF this] show ?thesis
      by (simp add: blocked_address_def v4_private_def in_net32 u quad_def)
  qed
  then show ?thesis by (simp add: quad_def)
qed

definition demo_url :: pystr where
  "demo_url = lit ''https://prod-1.logic.azure.com:443/workflows/x''"

lemma demo_checks:
  "urlsplit demo_url = Some \<lparr>up_scheme = lit ''https'', up_hostname = Some (lit ''prod-1.logic.azure.com''),
     up_username = None, up_password = None\<rparr>"
  "host_allowed [lit ''*.logic.azure.com''] (webhook_host (lit ''prod-1.logic.azure.com''))"
  "webhook_host (lit ''prod-1.logic.azure.com'') = lit ''prod-1.logic.azure.com''"
  "truthy (Some (lit ''prod-1.logic.azure.com''))" "\<not> truthy None"
  by code_simp+


section \<open>Cards\<close>

lemma one_line_fields:
  assumes "\<forall>k \<in> set (map fst kvs). 58 \<notin> set k \<and> 10 \<notin> set k" and "\<forall>v \<in> set (map snd kvs). one_line v"
  shows "\<forall>(k, v) \<in> set kvs. 58 \<notin> set k \<and> 10 \<notin> set k \<and> 10 \<notin> set v"
  using assms by (induction kvs) (auto simp: one_line_def)

lemma one_line_inst_str: "one_line (inst_str i) \<longleftrightarrow> one_line (inst_name i) \<and> one_line (inst_db_identifier i)"
  by (simp add: inst_str_def)

lemma one_line_event_label: "one_line (event_label ev)"
  by (cases ev) simp_all

lemma one_line_cleared_by: "\<forall>a \<in> set alerts. one_line (la_cleared_by a) \<Longrightarrow> one_line (cleared_by_text alerts)"
  unfolding cleared_by_text_def by (rule one_line_pair_text) (auto simp: manual_clears_def)

lemma one_line_killed_pids: "one_line (killed_pids_text alerts)"
  unfolding killed_pids_text_def by (rule one_line_pair_text) auto

lemma one_line_status:
  "\<forall>a \<in> set cleared_alerts. one_line (la_cleared_by a) \<Longrightarrow> one_line (status_message alerts ev cleared_alerts)"
  using one_line_cleared_by [of cleared_alerts] one_line_killed_pids [of cleared_alerts]
  by (simp add: status_message_def Let_def)

text \<open>
  The lock card says what the monitor measured: the message that is built and parsed again for the
  card yields the status, the registration, the counts, the pairs and the times of the call, for
  every text without line breaks.
\<close>

lemma lock_card_facts:
  assumes "one_line (inst_name i)" and "one_line (inst_db_identifier i)" and "one_line (inst_region i)"
    and "\<forall>a \<in> set alerts. one_line (la_alert_key a)" and "\<forall>k \<in> set cleared. one_line k"
    and "\<forall>a \<in> set cleared_alerts. one_line (la_cleared_by a)"
  shows "map snd (card_facts (message_values (summary_message i alerts ev prev cleared t cleared_alerts)) False) =
     [if ev = Cleared then lit ''CLEARED'' else lit ''ACTIVE'', inst_str i, inst_region i,
      str_int (int (length alerts)), pair_text (map la_alert_key alerts) 3200,
      str_int (int (length cleared)), pair_text cleared 3200,
      if manual_clears cleared_alerts \<noteq> [] then lit ''MANUALLY KILLED''
        else if cleared_alerts \<noteq> [] then lit ''AUTO-CLEARED'' else em_dash,
      cleared_by_text cleared_alerts, event_label ev,
      timestamp_or_dash (min_time (map la_first_seen_at alerts)),
      timestamp_text (case max_time (map la_last_seen_at alerts) of None \<Rightarrow> t | Some s \<Rightarrow> s),
      timestamp_text t, str_int (int (length prev))]"
proof -
  let ?kvs = "summary_fields i alerts ev prev cleared t cleared_alerts"
  have parsed: "message_values (summary_message i alerts ev prev cleared t cleared_alerts) = map_of ?kvs"
    unfolding summary_message_def
  proof (rule message_values_lines)
    show "?kvs \<noteq> []" by (simp add: summary_fields_def)
    show "distinct (map fst ?kvs)" by (simp add: summary_fields_def)
    have keys: "\<forall>k \<in> set (map fst ?kvs). 58 \<notin> set k \<and> 10 \<notin> set k"
      unfolding summary_fields_def by code_simp
    have vals: "\<forall>v \<in> set (map snd ?kvs). one_line v"
      using assms one_line_status one_line_cleared_by
      by (auto simp: summary_fields_def one_line_inst_str one_line_event_label state_label_def
          timestamp_or_dash_def intro!: one_line_pair_text split: option.split)
    show "\<forall>(k, v) \<in> set ?kvs. 58 \<notin> set k \<and> 10 \<notin> set k \<and> 10 \<notin> set v"
      using keys vals by (rule one_line_fields)
  qed
  show ?thesis
    unfolding parsed card_facts_def get_or_def by (simp add: summary_fields_def)
qed

definition demo_alert :: lock_alert where
  "demo_alert = \<lparr>la_pk = 10, la_instance = 7, la_alert_key = lit ''11:22'', la_blocked_pid = 11,
     la_blocking_pid = 22, la_blocked_user = lit ''app'', la_blocking_user = lit ''batch'',
     la_blocked_query = lit ''update t, u'', la_blocking_query = [34, 104, 105, 34], la_waiting_seconds = 300,
     la_first_seen_at = 5000, la_last_seen_at = 5000, la_alerted_at = Some 5000, la_resolved_at = None,
     la_clear_reason = No_reason, la_cleared_by = []\<rparr>"

lemma lock_card_facts_witness:
  "map snd (card_facts (message_values
     (summary_message demo_instance [demo_alert] Initial [] [] 5000 [])) False) ! 3 = str_int 1"
proof -
  have "one_line (inst_name demo_instance)" "one_line (inst_db_identifier demo_instance)"
      "one_line (inst_region demo_instance)" "\<forall>a \<in> set [demo_alert]. one_line (la_alert_key a)"
    by (simp_all add: demo_instance_def demo_alert_def)
  from lock_card_facts [OF this, of "[]" "[]" Initial "[]" 5000] show ?thesis
    by (simp only: nth_Cons_numeral nth_Cons_0 nth_Cons_Suc list.size) simp
qed

text \<open>
  A registration name with line breaks forges the lines after it: this one puts the status
  CLEARED on the card of open locks.
\<close>

definition forged_name :: pystr where
  "forged_name = lit ''orders'' @ 10 # lit ''Status'' @ lit '': '' @ lit ''CLEARED'' @ 10 # lit ''Name'' @ lit '': ''"

lemma line_break_in_name_forges_status:
  assumes "one_line (inst_db_identifier i)" and "one_line (inst_region i)" and "\<forall>a \<in> set alerts. one_line (la_alert_key a)"
  shows "message_values (summary_message (i\<lparr>inst_name := forged_name\<rparr>) alerts Initial [] [] t []) (lit ''Status'') =
     Some (lit ''CLEARED'')"
proof -
  let ?kvs = "summary_fields i alerts Initial [] [] t []"
  let ?forged = "take 3 ?kvs @ [(lit ''Database'', lit ''orders''), (lit ''Status'', lit ''CLEARED''),
      (lit ''Name'', lit '' ('' @ inst_db_identifier i @ lit '')'')] @ drop 4 ?kvs"
  have eq: "summary_message (i\<lparr>inst_name := forged_name\<rparr>) alerts Initial [] [] t [] = field_lines ?forged"
    unfolding summary_message_def summary_fields_def field_lines_def
    by (simp add: inst_str_def forged_name_def)
  have keys: "\<forall>k \<in> set (map fst ?forged). 58 \<notin> set k \<and> 10 \<notin> set k"
    unfolding summary_fields_def by code_simp
  have "\<forall>v \<in> set (map snd ?forged). one_line v"
    using assms one_line_status [of "[]" alerts Initial] one_line_cleared_by [of "[]"]
    by (auto simp: summary_fields_def one_line_event_label state_label_def timestamp_or_dash_def
        intro!: one_line_pair_text split: option.split)
  then have "message_values (field_lines ?forged) = map_of (rev ?forged)"
    using keys by (intro message_values_rev one_line_fields) simp_all
  then show ?thesis unfolding eq by (simp add: summary_fields_def)
qed

text \<open>
  Bounded fields: the list of pairs on a card never exceeds its limit, however many locks there
  are; a longer list is cut and states the total.
\<close>

theorem pair_text_bounded:
  assumes "30 \<le> limit" and "length keys < 10 ^ 16"
  shows "length (pair_text keys limit) \<le> limit"
  using assms by (rule length_pair_text)

theorem pair_text_bounded_witness:
  "length (pair_text (replicate 9 (lit ''11111:22222'')) 60) \<le> 60"
  by (rule pair_text_bounded) simp_all

section \<open>The weekly report\<close>

text \<open>
  The CSV is unambiguous: a reader of the format gets back exactly the header and the cells of
  each incident, whatever commas, quotes and line breaks the queries and names contain.
\<close>

lemma csv_report_roundtrip: "read_csv (csv_report alerts) = csv_header # map csv_cells alerts"
  by (rule read_csv_report)


definition weekly_db :: app_db where
  "weekly_db = demo_db\<lparr>lock_alerts := [demo_alert],
     settings_row := Some (demo_settings\<lparr>ns_report_base_url := lit ''https://grid''\<rparr>)\<rparr>"

lemma weekly_db_alerts: "weekly_alerts weekly_db 9000 None \<noteq> []"
proof -
  have "(demo_instance, demo_alert) \<in> set (weekly_alerts weekly_db 9000 None)"
    by (simp add: set_weekly_alerts weekly_db_def demo_db_def find_instance_def weekly_report_includes_def
        demo_alert_def days_def)
  then show ?thesis by auto
qed

lemma weekly_db_posts:
  "\<exists>p. (lit ''https://channel'', p) \<in> set (snd (snd (send_weekly_reports id (\<lambda>_ _. Accepted) 9000 weekly_db)))"
proof -
  let ?d = "delete_expired_reports 9000 (save_settings (load_settings weekly_db) weekly_db)"
  have c: "load_settings weekly_db = demo_settings\<lparr>ns_report_base_url := lit ''https://grid''\<rparr>"
    by (simp add: weekly_db_def load_settings_def)
  have "?d = weekly_db"
    by (simp add: delete_expired_reports_def save_settings_def c) (simp add: weekly_db_def demo_db_def empty_db_def)
  then show ?thesis
    using weekly_db_alerts
    by (simp add: send_weekly_reports_def c Let_def send_report_to_webhook_def report_url_def demo_settings_def
        split: prod.splits) blast
qed


end
