(* ===== verification/Mfa.thy ===== *)
theory Mfa
  imports Models
begin

text \<open>
  Two-factor verification: \<open>monitor/mfa.py\<close> and the enrollment part of \<open>UserMFA\<close>. The TOTP check
  of \<open>pyotp\<close>, Django's password hashers and the cipher are parameters; random choices are
  arguments. A decryption that fails raises, which is the outcome None.
\<close>

section \<open>Environment and profiles\<close>

record mfa_env =
  me_fernet :: fernet
  me_totp :: "pystr \<Rightarrow> pystr \<Rightarrow> datetime \<Rightarrow> bool"
  me_make_password :: "pystr \<Rightarrow> pystr"
  me_check_password :: "pystr \<Rightarrow> pystr \<Rightarrow> bool"

text \<open>Documented behaviour of the hashers: a hash is accepted for the text it was made from only.\<close>

definition hashers_ok :: "mfa_env \<Rightarrow> bool" where
  "hashers_ok E \<longleftrightarrow> (\<forall>a b. me_check_password E a (me_make_password E b) \<longleftrightarrow> a = b)"

definition new_profile :: "int \<Rightarrow> user_mfa" where
  "new_profile u = \<lparr>mfa_user = u, mfa_secret_encrypted = [], mfa_backup_codes = [],
     mfa_pending_backup_codes_encrypted = [], mfa_enabled = False, mfa_confirmed_at = None\<rparr>"

definition find_mfa :: "app_db \<Rightarrow> int \<Rightarrow> user_mfa option" where
  "find_mfa d u = first_row (\<lambda>p. mfa_user p = u) (mfa_profiles d)"

definition save_mfa :: "user_mfa \<Rightarrow> app_db \<Rightarrow> app_db" where
  "save_mfa p d =
     (case find_mfa d (mfa_user p) of
        None \<Rightarrow> d\<lparr>mfa_profiles := mfa_profiles d @ [p]\<rparr>
      | Some _ \<Rightarrow> d\<lparr>mfa_profiles := update_rows (\<lambda>q. mfa_user q = mfa_user p) (\<lambda>_. p) (mfa_profiles d)\<rparr>)"

definition get_or_create_mfa :: "app_db \<Rightarrow> int \<Rightarrow> user_mfa" where
  "get_or_create_mfa d u = (case find_mfa d u of None \<Rightarrow> new_profile u | Some p \<Rightarrow> p)"

lemma find_mfa_user: "find_mfa d u = Some p \<Longrightarrow> mfa_user p = u"
  by (auto simp: find_mfa_def dest: first_row_Some)

lemma get_or_create_user [simp]: "mfa_user (get_or_create_mfa d u) = u"
  by (auto simp: get_or_create_mfa_def new_profile_def dest: find_mfa_user split: option.splits)

lemma find_save_mfa: "find_mfa (save_mfa p d) u = (if u = mfa_user p then Some p else find_mfa d u)"
proof (cases "find_mfa d (mfa_user p)")
  case None
  then show ?thesis by (auto simp: save_mfa_def find_mfa_def first_row_append split: option.splits)
next
  case (Some q)
  let ?P = "\<lambda>q. mfa_user q = mfa_user p"
  have "first_row ?P (update_rows ?P (\<lambda>_. p) (mfa_profiles d)) = Some p"
    using Some by (simp add: first_row_update_rows find_mfa_def)
  moreover have "first_row (\<lambda>q. mfa_user q = u) (update_rows ?P (\<lambda>_. p) (mfa_profiles d)) = find_mfa d u"
    if "u \<noteq> mfa_user p"
    unfolding find_mfa_def by (rule first_row_update_rows_other) (use that in auto)
  ultimately show ?thesis using Some by (simp add: save_mfa_def find_mfa_def)
qed

section \<open>Enrollment and codes\<close>

definition backup_alphabet :: pystr where
  "backup_alphabet = lit ''23456789ABCDEFGHJKLMNPQRSTUVWXYZ''"

text \<open>The random source picks ten positions of the alphabet for each of ten codes.\<close>

definition generate_backup_codes :: "nat list list \<Rightarrow> pystr list" where
  "generate_backup_codes picks = map (map (\<lambda>i. backup_alphabet ! (i mod 32))) picks"

definition new_enrollment :: "mfa_env \<Rightarrow> pystr \<Rightarrow> nat list list \<Rightarrow> user_mfa \<Rightarrow> user_mfa \<times> pystr list" where
  "new_enrollment E secret picks p =
     (let codes = generate_backup_codes picks in
      ((set_pending_backup_codes (me_fernet E) codes (set_secret (me_fernet E) secret p))
         \<lparr>mfa_backup_codes := [], mfa_enabled := False, mfa_confirmed_at := None\<rparr>, codes))"

definition strip_spaces :: "pystr \<Rightarrow> pystr" where
  "strip_spaces code = py_strip (filter (\<lambda>c. c \<noteq> 32) code)"

definition verify_totp :: "mfa_env \<Rightarrow> datetime \<Rightarrow> user_mfa \<Rightarrow> pystr \<Rightarrow> bool option" where
  "verify_totp E now p code =
     (if mfa_secret_encrypted p = [] then Some False
      else let c = strip_spaces code in
        if \<not> py_isdigit c \<or> length c \<noteq> 6 then Some False
        else map_option (\<lambda>secret. me_totp E secret c now) (get_secret (me_fernet E) p))"

text \<open>The first code whose hash accepts the candidate is removed.\<close>

fun remove_matching :: "('a \<Rightarrow> bool) \<Rightarrow> 'a list \<Rightarrow> 'a list option" where
  "remove_matching P [] = None"
| "remove_matching P (x # xs) = (if P x then Some xs else map_option (Cons x) (remove_matching P xs))"

definition consume_backup_code :: "mfa_env \<Rightarrow> user_mfa \<Rightarrow> pystr \<Rightarrow> bool \<times> user_mfa" where
  "consume_backup_code E p code =
     (let candidate = py_upper (strip_spaces code) in
      if candidate = [] \<or> mfa_backup_codes p = [] then (False, p)
      else (case remove_matching (me_check_password E candidate) (mfa_backup_codes p) of
              None \<Rightarrow> (False, p)
            | Some rest \<Rightarrow> (True, p\<lparr>mfa_backup_codes := rest\<rparr>)))"

definition verify_code :: "mfa_env \<Rightarrow> datetime \<Rightarrow> user_mfa \<Rightarrow> pystr \<Rightarrow> bool \<Rightarrow> (bool \<times> user_mfa) option" where
  "verify_code E now p code allow_backup =
     (case verify_totp E now p code of
        None \<Rightarrow> None
      | Some True \<Rightarrow> Some (True, p)
      | Some False \<Rightarrow> Some (if allow_backup then consume_backup_code E p code else (False, p)))"

definition confirm_enrollment :: "mfa_env \<Rightarrow> datetime \<Rightarrow> user_mfa \<Rightarrow> pystr \<Rightarrow> (bool \<times> user_mfa) option" where
  "confirm_enrollment E now p code =
     (if mfa_enabled p then Some (False, p)
      else (case verify_totp E now p code of
              None \<Rightarrow> None
            | Some False \<Rightarrow> Some (False, p)
            | Some True \<Rightarrow>
                (case get_pending_backup_codes (me_fernet E) p of
                   None \<Rightarrow> None
                 | Some pending \<Rightarrow>
                     if pending = [] then Some (False, p)
                     else Some (True, p\<lparr>mfa_backup_codes := map (me_make_password E) pending,
                       mfa_pending_backup_codes_encrypted := [], mfa_enabled := True,
                       mfa_confirmed_at := Some now\<rparr>))))"

section \<open>Sessions\<close>

text \<open>
  The session keys the program uses. Sessions are signed cookies (\<open>SESSION_ENGINE\<close>): the
  whole content travels with the request. The name of the authentication backend, which the login
  stores beside the pending account and nothing else reads, is left out.
\<close>

record session =
  ss_user :: "int option"
  ss_mfa_verified_at :: "datetime option"
  ss_mfa_ok :: "int option"
  ss_pending_user :: "int option"
  ss_pending_next :: pystr

definition empty_session :: session where
  "empty_session = \<lparr>ss_user = None, ss_mfa_verified_at = None, ss_mfa_ok = None, ss_pending_user = None,
     ss_pending_next = []\<rparr>"

definition mark_session_verified :: "datetime \<Rightarrow> session \<Rightarrow> session" where
  "mark_session_verified now s = s\<lparr>ss_mfa_verified_at := Some now\<rparr>"

text \<open>\<open>request.user\<close>: the account of the session while it exists and is active.\<close>

definition find_user :: "app_db \<Rightarrow> int \<Rightarrow> user option" where
  "find_user d u = first_row (\<lambda>x. user_pk x = u) (users d)"

definition request_user :: "app_db \<Rightarrow> session \<Rightarrow> user option" where
  "request_user d s =
     (case ss_user s of None \<Rightarrow> None
      | Some u \<Rightarrow> (case find_user d u of None \<Rightarrow> None | Some x \<Rightarrow> if user_is_active x then Some x else None))"

definition mark_session_mfa_passed :: "int \<Rightarrow> session \<Rightarrow> session" where
  "mark_session_mfa_passed u s = s\<lparr>ss_mfa_ok := Some u\<rparr>"

definition session_passed_mfa :: "app_db \<Rightarrow> session \<Rightarrow> bool" where
  "session_passed_mfa d s \<longleftrightarrow>
     (case request_user d s of None \<Rightarrow> False | Some x \<Rightarrow> ss_mfa_ok s = Some (user_pk x))"

definition mfa_step_up_max_age :: int where "mfa_step_up_max_age = seconds 300"

definition has_recent_session_verification :: "datetime \<Rightarrow> session \<Rightarrow> bool" where
  "has_recent_session_verification now s =
     (let age = now - (case ss_mfa_verified_at s of None \<Rightarrow> 0 | Some t \<Rightarrow> t)
      in 0 \<le> age \<and> age \<le> mfa_step_up_max_age)"

definition require_mfa_for_action ::
  "mfa_env \<Rightarrow> datetime \<Rightarrow> user \<Rightarrow> pystr \<Rightarrow> bool \<Rightarrow> session \<Rightarrow> app_db \<Rightarrow> (bool \<times> session \<times> app_db) option" where
  "require_mfa_for_action E now u code0 require_code s d =
     (case find_mfa d (user_pk u) of
        None \<Rightarrow> Some (False, s, d)
      | Some p \<Rightarrow>
          if \<not> mfa_enabled p then Some (False, s, d)
          else let code = py_strip code0 in
            if code \<noteq> [] then
              (case verify_code E now p code True of
                 None \<Rightarrow> None
               | Some (False, p') \<Rightarrow> Some (False, s, d)
               | Some (True, p') \<Rightarrow> Some (True, mark_session_verified now s, save_mfa p' d))
            else Some (\<not> require_code \<and> has_recent_session_verification now s, s, d))"

section \<open>Facts\<close>

lemma remove_matching_None: "remove_matching P xs = None \<longleftrightarrow> (\<forall>x \<in> set xs. \<not> P x)"
  by (induction xs) auto

lemma remove_matching_Some:
  "remove_matching P xs = Some ys \<Longrightarrow> \<exists>as x bs. xs = as @ x # bs \<and> ys = as @ bs \<and> P x \<and> (\<forall>a \<in> set as. \<not> P a)"
proof (induction xs arbitrary: ys)
  case Nil
  then show ?case by simp
next
  case (Cons x xs)
  show ?case
  proof (cases "P x")
    case True
    then show ?thesis using Cons.prems by (intro exI [of _ "[]"]) auto
  next
    case False
    then obtain zs where zs: "remove_matching P xs = Some zs" "ys = x # zs" using Cons.prems by auto
    then obtain as y bs where "xs = as @ y # bs" "zs = as @ bs" "P y" "\<forall>a \<in> set as. \<not> P a"
      using Cons.IH by blast
    then show ?thesis using False zs(2) by (intro exI [of _ "x # as"] exI [of _ y] exI [of _ bs]) auto
  qed
qed

lemma consume_False_same: "consume_backup_code E p code = (False, p') \<Longrightarrow> p' = p"
  by (auto simp: consume_backup_code_def Let_def split: if_splits option.splits)

text \<open>
  On a profile whose recovery codes are the hashes of distinct texts, consuming succeeds exactly for
  a remaining text and leaves the hashes of the others.
\<close>

lemma remove_matching_hashes:
  assumes "hashers_ok E" and "distinct codes"
  shows "remove_matching (me_check_password E c) (map (me_make_password E) codes) =
     (if c \<in> set codes then Some (map (me_make_password E) (filter (\<lambda>x. x \<noteq> c) codes)) else None)"
  using assms(2)
proof (induction codes)
  case Nil
  then show ?case by simp
next
  case (Cons x xs)
  have "filter (\<lambda>y. y \<noteq> c) xs = xs" if "c \<notin> set xs" using that by (subst filter_id_conv) auto
  then show ?case using Cons assms(1) by (auto simp: hashers_ok_def)
qed

lemma consume_backup_code_hashes:
  assumes "hashers_ok E" and "distinct codes" and "mfa_backup_codes p = map (me_make_password E) codes"
    and "[] \<notin> set codes"
  shows "consume_backup_code E p code =
     (let c = py_upper (strip_spaces code) in
      if c \<in> set codes
      then (True, p\<lparr>mfa_backup_codes := map (me_make_password E) (filter (\<lambda>x. x \<noteq> c) codes)\<rparr>) else (False, p))"
  using assms(3,4) remove_matching_hashes [OF assms(1,2)]
  by (auto simp: consume_backup_code_def Let_def)

text \<open>The characters of a recovery code survive the normalisation of typed codes.\<close>

lemma backup_alphabet_range: "c \<in> set backup_alphabet \<Longrightarrow> 50 \<le> c \<and> c \<le> 90"
  by (simp add: backup_alphabet_def lit_def) auto

lemma backup_alphabet_chars:
  "c \<in> set backup_alphabet \<Longrightarrow> \<not> py_isspace c \<and> char_upper c = [c] \<and> c \<noteq> 10 \<and> c \<noteq> 32"
  using backup_alphabet_range [of c] by (auto simp: py_isspace_def char_upper_def)

lemma length_backup_alphabet: "length backup_alphabet = 32"
  by (simp add: backup_alphabet_def)

lemma generated_chars:
  assumes "code \<in> set (generate_backup_codes picks)" and "c \<in> set code"
  shows "c \<in> set backup_alphabet"
proof -
  have "backup_alphabet ! (i mod 32) \<in> set backup_alphabet" for i
    by (rule nth_mem) (simp add: length_backup_alphabet)
  then show ?thesis using assms by (auto simp: generate_backup_codes_def)
qed

lemma generated_code_normal:
  assumes "code \<in> set (generate_backup_codes picks)"
  shows "py_upper (strip_spaces code) = code"
proof -
  have c: "\<not> py_isspace c \<and> char_upper c = [c] \<and> c \<noteq> 32" if "c \<in> set code" for c
    using backup_alphabet_chars [OF generated_chars [OF assms that]] by blast
  then have "filter (\<lambda>c. c \<noteq> 32) code = code" by (subst filter_id_conv) blast
  then have "strip_spaces code = code" using c by (simp add: strip_spaces_def py_strip_none)
  moreover have "concat (map char_upper code) = code" using c by (induction code) auto
  ultimately show ?thesis by (simp add: py_upper_def)
qed


end
