(* ===== verification/Auth.thy ===== *)
theory Auth
  imports Mfa
begin

text \<open>
  Signing in: the throttle, the login view, the verification and enrollment views of
  \<open>monitor/auth_views.py\<close> and the gate of \<open>monitor/middleware.py\<close>. A view is given the request's
  fields, the session, the database and the cache, and returns its response with what it leaves;
  None is an exception (an undecryptable secret). Django's \<open>authenticate\<close> and URL safety check are
  parameters.
\<close>

section \<open>The failure throttle\<close>

text \<open>A cache entry is a count with the time it expires; \<open>incr\<close> keeps the expiry.\<close>

type_synonym cache = "(pystr \<times> int \<times> datetime) list"

definition cache_live :: "datetime \<Rightarrow> pystr \<Rightarrow> cache \<Rightarrow> (int \<times> datetime) option" where
  "cache_live now k c = (case map_of c k of None \<Rightarrow> None | Some (n, e) \<Rightarrow> if now < e then Some (n, e) else None)"

definition login_throttle_limit :: int where "login_throttle_limit = 10"
definition login_throttle_time :: int where "login_throttle_time = seconds (15 * 60)"

definition auth_throttle_key :: "pystr \<Rightarrow> pystr \<Rightarrow> pystr" where
  "auth_throttle_key address subject =
     lit ''auth-fail:'' @ address @ lit '':'' @ take 150 (py_lower (py_strip subject))"

definition is_throttled :: "datetime \<Rightarrow> pystr \<Rightarrow> cache \<Rightarrow> bool" where
  "is_throttled now k c \<longleftrightarrow>
     (case cache_live now k c of None \<Rightarrow> False | Some (n, e) \<Rightarrow> n \<ge> login_throttle_limit)"

definition record_failure :: "datetime \<Rightarrow> pystr \<Rightarrow> cache \<Rightarrow> cache" where
  "record_failure now k c =
     (case cache_live now k c of
        Some (n, e) \<Rightarrow> AList.update k (n + 1, e) c
      | None \<Rightarrow> AList.update k (1, now + login_throttle_time) c)"

definition clear_failures :: "pystr \<Rightarrow> cache \<Rightarrow> cache" where
  "clear_failures k c = AList.delete k c"

section \<open>Sessions of Django\<close>

text \<open>\<open>login\<close>: a session of another account is flushed; \<open>logout\<close> flushes.\<close>

definition django_login :: "int \<Rightarrow> session \<Rightarrow> session" where
  "django_login u s =
     (if ss_user s \<noteq> None \<and> ss_user s \<noteq> Some u then empty_session\<lparr>ss_user := Some u\<rparr>
      else s\<lparr>ss_user := Some u\<rparr>)"

datatype auth_response =
    To_instance_list | To_login | To_mfa_setup | To_mfa_verify | To_url pystr | Auth_page pystr

section \<open>Password login\<close>

definition login_post ::
  "(pystr \<Rightarrow> pystr \<Rightarrow> user option) \<Rightarrow> (pystr \<Rightarrow> bool) \<Rightarrow> pystr \<Rightarrow> pystr \<Rightarrow> pystr \<Rightarrow> pystr \<Rightarrow> datetime \<Rightarrow>
   session \<Rightarrow> app_db \<Rightarrow> cache \<Rightarrow> auth_response \<times> session \<times> app_db \<times> cache" where
  "login_post authenticate safe_url address username password next_url now s d c =
     (if is_throttled now (auth_throttle_key address username) c then
        (Auth_page (lit ''Too many sign-in attempts. Try again in 15 minutes.''), s, d, c)
      else (case authenticate username password of
          None \<Rightarrow> (Auth_page [], s, d, record_failure now (auth_throttle_key address username) c)
        | Some u \<Rightarrow>
            let c' = clear_failures (auth_throttle_key address (user_username u)) c;
                p = get_or_create_mfa d (user_pk u);
                d' = (if find_mfa d (user_pk u) = None then save_mfa p d else d)
            in if \<not> mfa_enabled p then (To_mfa_setup, django_login (user_pk u) s, d', c')
               else (To_mfa_verify, s\<lparr>ss_pending_user := Some (user_pk u),
                       ss_pending_next := (if safe_url next_url then next_url else [])\<rparr>, d', c')))"

section \<open>The second factor at login\<close>

definition mfa_subject :: "int \<Rightarrow> pystr" where
  "mfa_subject u = lit ''mfa:'' @ str_int u"

definition mfa_verify_post ::
  "mfa_env \<Rightarrow> pystr \<Rightarrow> pystr \<Rightarrow> datetime \<Rightarrow> session \<Rightarrow> app_db \<Rightarrow> cache \<Rightarrow>
   (auth_response \<times> session \<times> app_db \<times> cache) option" where
  "mfa_verify_post E address code now s d c =
     (if request_user d s \<noteq> None then Some (To_instance_list, s, d, c)
      else (case ss_pending_user s of
          None \<Rightarrow> Some (To_login, s, d, c)
        | Some u \<Rightarrow>
            (case (find_user d u, find_mfa d u) of
               (Some x, Some p) \<Rightarrow>
                 if \<not> user_is_active x then Some (To_login, empty_session, d, c)
                 else
                   let key = auth_throttle_key address (mfa_subject u) in
                   if is_throttled now key c then
                     Some (Auth_page (lit ''Too many verification attempts. Try again in 15 minutes.''), s, d, c)
                   else (case verify_code E now p code True of
                       None \<Rightarrow> None
                     | Some (False, _) \<Rightarrow>
                         Some (Auth_page (lit ''That authenticator or recovery code is invalid. Try again.''),
                           s, d, record_failure now key c)
                     | Some (True, p') \<Rightarrow>
                         Some (if ss_pending_next s = [] then To_instance_list else To_url (ss_pending_next s),
                           (mark_session_mfa_passed u (mark_session_verified now (django_login u s)))
                             \<lparr>ss_pending_user := None, ss_pending_next := []\<rparr>,
                           save_mfa p' d, clear_failures key c))
             | _ \<Rightarrow> Some (To_login, empty_session, d, c))))"

section \<open>Enrollment\<close>

text \<open>
  \<open>mfa_setup\<close> for one request: the action of a POST (None for a GET). What it falls through to, a
  profile without a pending secret gets one.
\<close>

datatype setup_action = Regenerate | Reset | Confirm | Unknown_action

definition fill_enrollment :: "mfa_env \<Rightarrow> pystr \<Rightarrow> nat list list \<Rightarrow> user_mfa \<Rightarrow> user_mfa" where
  "fill_enrollment E secret picks p =
     (if \<not> mfa_enabled p \<and> (mfa_secret_encrypted p = [] \<or> mfa_pending_backup_codes_encrypted p = [])
      then fst (new_enrollment E secret picks p) else p)"

text \<open>The page of a profile that is not enabled shows its secret and its pending codes, decrypted.\<close>

definition enrollment_readable :: "mfa_env \<Rightarrow> user_mfa \<Rightarrow> bool" where
  "enrollment_readable E p \<longleftrightarrow> mfa_enabled p
     \<or> (get_secret (me_fernet E) p \<noteq> None \<and> get_pending_backup_codes (me_fernet E) p \<noteq> None)"

definition mfa_setup ::
  "mfa_env \<Rightarrow> setup_action option \<Rightarrow> pystr \<Rightarrow> pystr \<Rightarrow> nat list list \<Rightarrow> datetime \<Rightarrow> session \<Rightarrow> app_db \<Rightarrow>
   (auth_response \<times> session \<times> app_db) option" where
  "mfa_setup E action code secret picks now s d =
     (case request_user d s of
        None \<Rightarrow> Some (To_login, s, d)
      | Some x \<Rightarrow>
          let u = user_pk x; p = get_or_create_mfa d u;
              page = (\<lambda>q err. let q' = fill_enrollment E secret picks q in
                if enrollment_readable E q' then Some (Auth_page (lit err), s, save_mfa q' d) else None)
          in (case action of
                None \<Rightarrow> page p ''''
              | Some Regenerate \<Rightarrow>
                  if mfa_enabled p then
                    page p ''MFA is already enabled. Use Reset with a current authenticator or recovery code to change it.''
                  else Some (To_mfa_setup, s, save_mfa (fst (new_enrollment E secret picks p)) d)
              | Some Reset \<Rightarrow>
                  if mfa_enabled p then
                    (case verify_code E now p code True of
                       None \<Rightarrow> None
                     | Some (True, p') \<Rightarrow> Some (To_mfa_setup, s, save_mfa (fst (new_enrollment E secret picks p')) d)
                     | Some (False, _) \<Rightarrow>
                         page p ''Enter a valid current authenticator or recovery code to reset MFA.'')
                  else page p ''Enter the 6-digit code shown by your authenticator app to confirm setup.''
              | Some Confirm \<Rightarrow>
                  if mfa_enabled p then page p ''''
                  else (case confirm_enrollment E now p code of
                      None \<Rightarrow> None
                    | Some (True, p') \<Rightarrow>
                        Some (To_instance_list, mark_session_mfa_passed u (mark_session_verified now s), save_mfa p' d)
                    | Some (False, _) \<Rightarrow>
                        page p ''Enter the 6-digit code shown by your authenticator app to confirm setup.'')
              | Some Unknown_action \<Rightarrow>
                  if mfa_enabled p then page p ''''
                  else page p ''Enter the 6-digit code shown by your authenticator app to confirm setup.''))"

section \<open>The gate\<close>

datatype gate = Pass | Redirect_setup | Logout_redirect

definition mfa_exempt_paths :: "pystr set" where
  "mfa_exempt_paths = {lit ''/login/'', lit ''/logout/'', lit ''/mfa/verify/'', lit ''/settings/security/mfa/''}"

definition profile_enabled :: "app_db \<Rightarrow> int \<Rightarrow> bool" where
  "profile_enabled d u \<longleftrightarrow> (case find_mfa d u of None \<Rightarrow> False | Some p \<Rightarrow> mfa_enabled p)"

definition mfa_gated_path :: "pystr \<Rightarrow> bool" where
  "mfa_gated_path path \<longleftrightarrow> path \<notin> mfa_exempt_paths \<and> \<not> startswith path (lit ''/static/'')
     \<and> \<not> startswith path (lit ''/admin/login'') \<and> \<not> startswith path (lit ''/admin/logout'')"

definition admin_path :: "pystr \<Rightarrow> bool" where
  "admin_path path \<longleftrightarrow> startswith path (lit ''/admin/'') \<and> \<not> startswith path (lit ''/admin/login'')
     \<and> \<not> startswith path (lit ''/admin/logout'')"

definition mfa_gate :: "bool \<Rightarrow> pystr \<Rightarrow> datetime \<Rightarrow> session \<Rightarrow> app_db \<Rightarrow> gate" where
  "mfa_gate mfa_required path now s d =
     (case request_user d s of
        None \<Rightarrow> Pass
      | Some x \<Rightarrow>
          let admin_check =
            (if admin_path path \<and> (\<not> profile_enabled d (user_pk x) \<or> \<not> has_recent_session_verification now s)
             then Logout_redirect else Pass)
          in if mfa_required \<and> mfa_gated_path path then
               (if \<not> profile_enabled d (user_pk x) then Redirect_setup
                else if \<not> session_passed_mfa d s then Logout_redirect
                else admin_check)
             else admin_check)"

section \<open>The sessions that can exist\<close>

text \<open>
  Sessions are signed cookies, so a client presents any session the server ever issued, old ones
  included. \<open>issued\<close> pairs each with the accounts for which a code was accepted on the way to it;
  a request takes any issued session, or none, and issues the one its view leaves. Between
  requests the database may change in any way.
\<close>

definition code_accepted :: "mfa_env \<Rightarrow> datetime \<Rightarrow> app_db \<Rightarrow> int \<Rightarrow> pystr \<Rightarrow> bool" where
  "code_accepted E now d u code \<longleftrightarrow>
     (\<exists>p p'. find_mfa d u = Some p \<and> verify_code E now p code True = Some (True, p'))"

definition proved :: "mfa_env \<Rightarrow> datetime \<Rightarrow> app_db \<Rightarrow> int option \<Rightarrow> pystr \<Rightarrow> int set" where
  "proved E now d u code = {v. u = Some v \<and> code_accepted E now d v code}"

inductive issued :: "mfa_env \<Rightarrow> session \<Rightarrow> int set \<Rightarrow> bool" for E where
  fresh: "issued E empty_session {}"
| login: "issued E s pr \<Longrightarrow>
    login_post authenticate safe_url address username password next_url now s d c = (r, s', d', c') \<Longrightarrow>
    issued E s' pr"
| verify: "issued E s pr \<Longrightarrow> mfa_verify_post E address code now s d c = Some (r, s', d', c') \<Longrightarrow>
    issued E s' (pr \<union> proved E now d (ss_pending_user s) code)"
| enroll: "issued E s pr \<Longrightarrow> mfa_setup E action code secret picks now s d = Some (r, s', d') \<Longrightarrow>
    issued E s' (pr \<union> proved E now d (ss_user s) code)"
| step_up: "issued E s pr \<Longrightarrow> request_user d s = Some x \<Longrightarrow>
    require_mfa_for_action E now x code require_code s d = Some (ok, s', d') \<Longrightarrow>
    issued E s' (pr \<union> proved E now d (ss_user s) (py_strip code))"
| logout: "issued E s pr \<Longrightarrow> issued E empty_session {}"

section \<open>What the views leave\<close>

lemma django_login_ok: "ss_mfa_ok (django_login u s) = Some v \<Longrightarrow> ss_mfa_ok s = Some v"
  by (auto simp: django_login_def empty_session_def split: if_splits)

lemma login_post_session:
  assumes "login_post authenticate safe_url address username password next_url now s d c = (r, s', d', c')"
  shows "(\<exists>v. s' = django_login v s) \<or> (\<exists>v n. s' = s\<lparr>ss_pending_user := v, ss_pending_next := n\<rparr>)"
proof -
  have same: "s = s\<lparr>ss_pending_user := ss_pending_user s, ss_pending_next := ss_pending_next s\<rparr>" by simp
  show ?thesis
  proof (cases "is_throttled now (auth_throttle_key address username) c \<or> authenticate username password = None")
    case True
    then have "s' = s" using assms by (auto simp: login_post_def split: if_splits)
    then show ?thesis using same by metis
  next
    case False
    then obtain u where "authenticate username password = Some u" by auto
    then show ?thesis
      using assms False by (cases "mfa_enabled (get_or_create_mfa d (user_pk u))") (auto simp: login_post_def Let_def)
  qed
qed

lemma login_post_ok:
  assumes "login_post authenticate safe_url address username password next_url now s d c = (r, s', d', c')"
    and "ss_mfa_ok s' = Some v"
  shows "ss_mfa_ok s = Some v"
  using login_post_session [OF assms(1)] assms(2) by (auto dest: django_login_ok)

definition verified_session :: "datetime \<Rightarrow> int \<Rightarrow> session \<Rightarrow> session" where
  "verified_session now u s = (mark_session_mfa_passed u (mark_session_verified now (django_login u s)))
     \<lparr>ss_pending_user := None, ss_pending_next := []\<rparr>"

lemma mfa_verify_post_cases:
  assumes "mfa_verify_post E address code now s d c = Some (r, s', d', c')"
  obtains (unchanged) "s' = s \<or> s' = empty_session" "d' = d"
  | (accepted) u p p' where "ss_pending_user s = Some u" "find_mfa d u = Some p"
      "verify_code E now p code True = Some (True, p')" "s' = verified_session now u s" "d' = save_mfa p' d"
proof (cases "request_user d s = None \<and> ss_pending_user s \<noteq> None")
  case False
  then show ?thesis using assms unchanged by (auto simp: mfa_verify_post_def split: if_splits)
next
  case True
  then obtain u where u: "request_user d s = None" "ss_pending_user s = Some u" by auto
  let ?key = "auth_throttle_key address (mfa_subject u)"
  show ?thesis
  proof (cases "find_user d u")
    case None
    then show ?thesis using assms u unchanged by (simp add: mfa_verify_post_def)
  next
    case x: (Some x)
    show ?thesis
    proof (cases "find_mfa d u")
      case None
      then show ?thesis using assms u x unchanged by (simp add: mfa_verify_post_def)
    next
      case p: (Some p)
      show ?thesis
      proof (cases "user_is_active x \<and> \<not> is_throttled now ?key c")
        case False
        then show ?thesis
          using assms u x p unchanged by (auto simp: mfa_verify_post_def Let_def split: if_splits)
      next
        case go: True
        show ?thesis
        proof (cases "verify_code E now p code True")
          case None
          then show ?thesis using assms u x p go by (simp add: mfa_verify_post_def Let_def)
        next
          case (Some bp)
          obtain ok p' where "bp = (ok, p')" by (cases bp)
          then show ?thesis
            using assms u x p go Some unchanged accepted [OF u(2) p]
            by (cases ok) (simp_all add: mfa_verify_post_def Let_def verified_session_def)
        qed
      qed
    qed
  qed
qed

lemma mfa_verify_post_ok:
  assumes "mfa_verify_post E address code now s d c = Some (r, s', d', c')" and "ss_mfa_ok s' = Some v"
  shows "ss_mfa_ok s = Some v \<or> v \<in> proved E now d (ss_pending_user s) code"
  using assms(1)
proof (cases rule: mfa_verify_post_cases)
  case unchanged
  then show ?thesis using assms(2) by (auto simp: empty_session_def)
next
  case (accepted u p p')
  then have "v = u" using assms(2) by (simp add: verified_session_def mark_session_mfa_passed_def)
  then show ?thesis using accepted(1-3) by (auto simp: proved_def code_accepted_def)
qed

lemma request_user_pk: "request_user d s = Some x \<Longrightarrow> ss_user s = Some (user_pk x)"
  by (auto simp: request_user_def find_user_def dest: first_row_Some split: option.splits if_splits)

lemma verify_totp_new_profile: "verify_totp E now (new_profile u) code = Some False"
  by (simp add: verify_totp_def new_profile_def)

lemma confirm_enrollment_accepted:
  assumes "confirm_enrollment E now (get_or_create_mfa d u) code = Some (True, p')"
  shows "code_accepted E now d u code"
proof (cases "find_mfa d u")
  case None
  then show ?thesis
    using assms by (simp add: confirm_enrollment_def get_or_create_mfa_def verify_totp_new_profile split: if_splits)
next
  case (Some p)
  then have "verify_totp E now p code = Some True"
    using assms by (auto simp: confirm_enrollment_def get_or_create_mfa_def split: if_splits option.splits bool.splits)
  then show ?thesis using Some by (simp add: code_accepted_def verify_code_def)
qed

lemma mfa_setup_ok:
  assumes "mfa_setup E action code secret picks now s d = Some (r, s', d')" and "ss_mfa_ok s' = Some v"
  shows "ss_mfa_ok s = Some v \<or> v \<in> proved E now d (ss_user s) code"
  using assms confirm_enrollment_accepted
  by (auto simp: mfa_setup_def Let_def mark_session_mfa_passed_def mark_session_verified_def proved_def
      dest!: request_user_pk split: if_splits option.splits setup_action.splits bool.splits prod.splits)

lemma require_mfa_ok:
  assumes "require_mfa_for_action E now x code require_code s d = Some (b, s', d')"
  shows "ss_mfa_ok s' = ss_mfa_ok s"
  using assms
  by (auto simp: require_mfa_for_action_def Let_def mark_session_verified_def
      split: option.splits if_splits bool.splits prod.splits)

text \<open>The flag of a session names an account whose code was accepted on the way to it.\<close>

lemma issued_mfa_ok: "issued E s pr \<Longrightarrow> ss_mfa_ok s = Some u \<Longrightarrow> u \<in> pr"
proof (induction arbitrary: u rule: issued.induct)
  case fresh
  then show ?case by (simp add: empty_session_def)
next
  case (login s pr)
  then show ?case using login_post_ok by blast
next
  case (verify s pr)
  then show ?case using mfa_verify_post_ok by blast
next
  case (enroll s pr)
  then show ?case using mfa_setup_ok by blast
next
  case (step_up s pr)
  then show ?case using require_mfa_ok by fastforce
next
  case (logout s pr)
  then show ?case by (simp add: empty_session_def)
qed

section \<open>The throttle\<close>

lemma cache_live_record:
  "cache_live t k (record_failure now k' c) =
     (if k = k' then
        (case cache_live now k c of
           Some (n, e) \<Rightarrow> if t < e then Some (n + 1, e) else None
         | None \<Rightarrow> if t < now + login_throttle_time then Some (1, now + login_throttle_time) else None)
      else cache_live t k c)"
  by (auto simp: cache_live_def record_failure_def AList.update_conv' split: option.splits if_splits)

end
