(* ===== verification/Auth_Claims.thy ===== *)
theory Auth_Claims
  imports Auth Fixtures
begin

text \<open>The properties of signing in, enrollment, recovery codes and step-up verification.\<close>

section \<open>A concrete environment\<close>

text \<open>
  A cipher that appends a mark, a hasher that prepends one, and an authenticator whose code is
  always 123456.
\<close>

definition demo_mfa_env :: mfa_env where
  "demo_mfa_env = \<lparr>me_fernet = \<lparr>fernet_encrypt = (\<lambda>s. s @ [0]),
       fernet_decrypt = (\<lambda>s. if s \<noteq> [] \<and> last s = 0 then Some (butlast s) else None)\<rparr>,
     me_totp = (\<lambda>secret code now. code = lit ''123456''),
     me_make_password = (\<lambda>s. 36 # s), me_check_password = (\<lambda>a h. h = 36 # a)\<rparr>"

lemma demo_env_ok: "fernet_ok (me_fernet demo_mfa_env)" "hashers_ok demo_mfa_env"
  by (auto simp: demo_mfa_env_def fernet_ok_def hashers_ok_def)

definition demo_user :: user where
  "demo_user = \<lparr>user_pk = 3, user_username = lit ''ann'', user_email = [], user_is_active = True,
     user_is_staff = True, user_is_superuser = False\<rparr>"

definition demo_profile :: user_mfa where
  "demo_profile = \<lparr>mfa_user = 3, mfa_secret_encrypted = lit ''K'' @ [0], mfa_backup_codes = [],
     mfa_pending_backup_codes_encrypted = [], mfa_enabled = True, mfa_confirmed_at = Some 0\<rparr>"

definition auth_db :: app_db where
  "auth_db = demo_db\<lparr>users := [demo_user], mfa_profiles := [demo_profile]\<rparr>"

definition pending_session :: session where
  "pending_session = empty_session\<lparr>ss_pending_user := Some 3\<rparr>"

definition full_session :: session where
  "full_session = \<lparr>ss_user = Some 3, ss_mfa_verified_at = Some 0, ss_mfa_ok = Some 3, ss_pending_user = None,
     ss_pending_next = []\<rparr>"

lemma auth_db_lookups [simp]: "find_user auth_db 3 = Some demo_user" "find_mfa auth_db 3 = Some demo_profile"
  by (simp_all add: auth_db_def find_user_def find_mfa_def demo_user_def demo_profile_def)

lemma demo_code_accepted: "verify_code demo_mfa_env now demo_profile (lit ''123456'') True = Some (True, demo_profile)"
proof -
  have "strip_spaces (lit ''123456'') = lit ''123456''" "py_isdigit (lit ''123456'')" by code_simp+
  then show ?thesis
    by (simp add: verify_code_def verify_totp_def get_secret_def decrypt_password_def demo_mfa_env_def demo_profile_def)
qed

lemma demo_login: "mfa_verify_post demo_mfa_env [] (lit ''123456'') 0 pending_session auth_db [] =
    Some (To_instance_list, full_session, save_mfa demo_profile auth_db, [])"
  using demo_code_accepted
  by (simp add: mfa_verify_post_def pending_session_def empty_session_def request_user_def Let_def demo_user_def
      is_throttled_def cache_live_def clear_failures_def full_session_def mark_session_mfa_passed_def
      mark_session_verified_def django_login_def)

lemma demo_password: "login_post (\<lambda>_ _. Some demo_user) (\<lambda>_. True) [] [] [] [] 0 empty_session auth_db [] =
    (To_mfa_verify, pending_session, auth_db, [])"
  by (simp add: login_post_def is_throttled_def cache_live_def clear_failures_def Let_def get_or_create_mfa_def
      demo_user_def demo_profile_def pending_session_def empty_session_def auth_db_def find_mfa_def)

lemma full_session_issued: "\<exists>pr. issued demo_mfa_env full_session pr"
  using issued.verify [OF issued.login [OF issued.fresh demo_password] demo_login] by blast

section \<open>The gate\<close>

text \<open>
  No page without the second factor: with MFA required, a request with any session the server ever
  issued, replayed or not, reaches a gated page as some account only if that account has enrolled
  and one of its own codes was accepted on the way to this session; an admin page needs a
  verification of the last 300 seconds too.
\<close>

lemma mfa_gate_sound:
  assumes "issued E s pr" and "request_user d s = Some x" and "mfa_gated_path path"
    and "mfa_gate True path now s d = Pass"
  shows "profile_enabled d (user_pk x) \<and> user_is_active x \<and> user_pk x \<in> pr
     \<and> (admin_path path \<longrightarrow> has_recent_session_verification now s)"
proof -
  have gate: "profile_enabled d (user_pk x)" "session_passed_mfa d s"
      "admin_path path \<longrightarrow> has_recent_session_verification now s"
    using assms(2-4) by (auto simp: mfa_gate_def Let_def split: if_splits)
  then have "ss_mfa_ok s = Some (user_pk x)" using assms(2) by (simp add: session_passed_mfa_def)
  then show ?thesis
    using gate issued_mfa_ok [OF assms(1)] assms(2)
    by (auto simp: request_user_def split: option.splits if_splits)
qed

lemma mfa_gate_sound_witness:
  "\<exists>pr. issued demo_mfa_env full_session pr \<and> 3 \<in> pr \<and> mfa_gate True (lit ''/admin/'') (seconds 200) full_session auth_db = Pass"
proof -
  obtain pr where i: "issued demo_mfa_env full_session pr" using full_session_issued by blast
  have u: "request_user auth_db full_session = Some demo_user"
    by (simp add: request_user_def full_session_def demo_user_def)
  have path: "mfa_gated_path (lit ''/admin/'')" by code_simp
  have gate: "mfa_gate True (lit ''/admin/'') (seconds 200) full_session auth_db = Pass" by code_simp
  from mfa_gate_sound [OF i u path gate] i gate show ?thesis by (auto simp: demo_user_def)
qed

section \<open>Enrollment and recovery codes\<close>

lemma hashed_codes_once:
  assumes "hashers_ok E" and "distinct codes" and "[] \<notin> set codes"
    and "mfa_backup_codes p = map (me_make_password E) codes" and "c \<in> set codes"
    and "\<forall>c \<in> set codes. py_upper (strip_spaces c) = c"
  shows "\<exists>p'. consume_backup_code E p c = (True, p') \<and> \<not> fst (consume_backup_code E p' c)
    \<and> (\<forall>c' \<in> set codes - {c}. fst (consume_backup_code E p' c'))"
proof -
  let ?rest = "filter (\<lambda>x. x \<noteq> c) codes"
  let ?p = "p\<lparr>mfa_backup_codes := map (me_make_password E) ?rest\<rparr>"
  have rest: "mfa_backup_codes ?p = map (me_make_password E) ?rest" "distinct ?rest" "[] \<notin> set ?rest"
    using assms(2,3) by simp_all
  have "consume_backup_code E p c = (True, ?p)"
    using consume_backup_code_hashes [OF assms(1,2,4,3)] assms(5,6) by (simp add: Let_def)
  moreover have "fst (consume_backup_code E ?p c') \<longleftrightarrow> c' \<in> set codes \<and> c' \<noteq> c" if "c' \<in> set codes" for c'
    using consume_backup_code_hashes [OF assms(1) rest(2,1,3)] assms(6) that by (simp add: Let_def)
  ultimately show ?thesis using assms(5) by blast
qed

lemma pending_codes_roundtrip:
  assumes "fernet_ok (me_fernet E)" and "new_enrollment E secret picks p0 = (p1, codes)"
    and "codes \<noteq> []" and "[] \<notin> set codes"
  shows "get_pending_backup_codes (me_fernet E) p1 = Some codes" "get_secret (me_fernet E) p1 = Some secret"
proof -
  have codes: "codes = generate_backup_codes picks" using assms(2) by (simp add: new_enrollment_def Let_def)
  have chars: "\<forall>c \<in> set codes. c \<noteq> [] \<and> 10 \<notin> set c"
    using assms(4) generated_chars backup_alphabet_chars unfolding codes by blast
  then have "join_with [10] codes \<noteq> []" using assms(3) by (subst join_with_Nil_iff) auto
  then have p1: "mfa_pending_backup_codes_encrypted p1 \<noteq> []"
      "decrypt_password (me_fernet E) (mfa_pending_backup_codes_encrypted p1) = Some (join_with [10] codes)"
    using assms(1,2) decrypt_encrypt encrypt_empty_iff
    by (auto simp: new_enrollment_def Let_def set_pending_backup_codes_def codes)
  then show "get_pending_backup_codes (me_fernet E) p1 = Some codes"
    using split_lines_join [OF chars assms(3)] by (simp add: get_pending_backup_codes_def)
  show "get_secret (me_fernet E) p1 = Some secret"
    using assms(1,2) decrypt_encrypt
    by (auto simp: new_enrollment_def Let_def set_pending_backup_codes_def set_secret_def get_secret_def)
qed

text \<open>
  C18. Recovery codes: after an enrollment is confirmed with a code of the new secret, each recovery
  code that was shown works exactly once, using one leaves all the others usable, and the readable
  copy of the codes is gone.
\<close>

theorem recovery_codes_work_once:
  assumes "fernet_ok (me_fernet E)" and "hashers_ok E"
    and "new_enrollment E secret picks p0 = (p1, codes)" and "codes \<noteq> []" and "[] \<notin> set codes" and "distinct codes"
    and "confirm_enrollment E now p1 tcode = Some (True, p2)"
  shows "mfa_enabled p2 \<and> mfa_pending_backup_codes_encrypted p2 = [] \<and> me_totp E secret (strip_spaces tcode) now
    \<and> (\<forall>c \<in> set codes. \<exists>p3. consume_backup_code E p2 c = (True, p3) \<and> \<not> fst (consume_backup_code E p3 c)
         \<and> (\<forall>c' \<in> set codes - {c}. fst (consume_backup_code E p3 c')))"
proof -
  note pending = pending_codes_roundtrip [OF assms(1,3,4,5)]
  have p2: "p2 = p1\<lparr>mfa_backup_codes := map (me_make_password E) codes, mfa_pending_backup_codes_encrypted := [],
      mfa_enabled := True, mfa_confirmed_at := Some now\<rparr>" and t: "verify_totp E now p1 tcode = Some True"
    using assms(7) pending(1) by (auto simp: confirm_enrollment_def split: if_splits option.splits bool.splits)
  have totp: "me_totp E secret (strip_spaces tcode) now"
    using t pending(2) by (auto simp: verify_totp_def Let_def split: if_splits)
  have norm: "\<forall>c \<in> set codes. py_upper (strip_spaces c) = c"
    using generated_code_normal assms(3) by (auto simp: new_enrollment_def Let_def)
  have "mfa_backup_codes p2 = map (me_make_password E) codes" by (simp add: p2)
  from hashed_codes_once [OF assms(2,6,5) this _ norm] show ?thesis by (simp add: totp) (simp add: p2)
qed

definition demo_picks :: "nat list list" where "demo_picks = [[0, 1, 2], [3, 4, 5]]"

theorem recovery_codes_work_once_witness:
  "\<exists>p2. confirm_enrollment demo_mfa_env 0 (fst (new_enrollment demo_mfa_env (lit ''S'') demo_picks (new_profile 3)))
          (lit ''123456'') = Some (True, p2) \<and> fst (consume_backup_code demo_mfa_env p2 (lit ''234''))"
proof -
  let ?e = "new_enrollment demo_mfa_env (lit ''S'') demo_picks (new_profile 3)"
  let ?c = "confirm_enrollment demo_mfa_env 0 (fst ?e) (lit ''123456'')"
  have codes: "snd ?e = [lit ''234'', lit ''567'']" by code_simp
  then have e: "?e = (fst ?e, [lit ''234'', lit ''567''])" by (metis prod.collapse)
  have "map_option fst ?c = Some True" by code_simp
  then obtain p2 where c: "?c = Some (True, p2)" by (cases ?c) auto
  show ?thesis using recovery_codes_work_once [OF demo_env_ok e _ _ _ c] c by force
qed

section \<open>Step-up verification\<close>

text \<open>
  Protected actions: an action is allowed exactly when the account's MFA is enabled and the
  submitted code is accepted or, for actions that do not insist on a code and none was given,
  the session was verified within the last 300 seconds; only an accepted code renews that time.
\<close>

lemma step_up_decision:
  assumes "require_mfa_for_action E now u code require_code s d = Some (ok, s', d')"
  shows "ok = (profile_enabled d (user_pk u) \<and>
      (if py_strip code = [] then \<not> require_code \<and> has_recent_session_verification now s
       else code_accepted E now d (user_pk u) (py_strip code)))
    \<and> s' = (if ok \<and> py_strip code \<noteq> [] then mark_session_verified now s else s)
    \<and> (\<not> ok \<longrightarrow> d' = d)"
proof (cases "find_mfa d (user_pk u)")
  case None
  then show ?thesis using assms by (simp add: require_mfa_for_action_def profile_enabled_def)
next
  case (Some p)
  show ?thesis
  proof (cases "mfa_enabled p \<and> py_strip code \<noteq> []")
    case False
    then show ?thesis using assms Some
      by (auto simp: require_mfa_for_action_def profile_enabled_def Let_def split: if_splits)
  next
    case True
    then obtain b p' where v: "verify_code E now p (py_strip code) True = Some (b, p')"
      using assms Some by (auto simp: require_mfa_for_action_def Let_def split: option.splits)
    then show ?thesis using assms Some True
      by (cases b) (simp_all add: require_mfa_for_action_def profile_enabled_def Let_def code_accepted_def)
  qed
qed

lemma step_up_decision_witness:
  "fst (the (require_mfa_for_action demo_mfa_env (seconds 300) demo_user [] False full_session auth_db))
   \<and> \<not> fst (the (require_mfa_for_action demo_mfa_env (seconds 300) demo_user [] True full_session auth_db))
   \<and> \<not> fst (the (require_mfa_for_action demo_mfa_env (seconds 301) demo_user [] False full_session auth_db))"
proof -
  have run: "\<exists>ok s' d'. require_mfa_for_action demo_mfa_env now demo_user [] rc full_session auth_db = Some (ok, s', d')"
    for now rc by (simp add: require_mfa_for_action_def demo_user_def demo_profile_def Let_def)
  have "fst (the (require_mfa_for_action demo_mfa_env now demo_user [] rc full_session auth_db)) =
      (\<not> rc \<and> has_recent_session_verification now full_session)" for now rc
    using run [of now rc] step_up_decision
    by (fastforce simp: profile_enabled_def demo_user_def demo_profile_def)
  then show ?thesis
    by (simp add: has_recent_session_verification_def full_session_def mfa_step_up_max_age_def seconds_def)
qed

section \<open>Guessing\<close>

text \<open>Verification requests one after another: how many had their code evaluated.\<close>

fun evaluated_guesses ::
  "mfa_env \<Rightarrow> pystr \<Rightarrow> int \<Rightarrow> (datetime \<times> pystr) list \<Rightarrow> session \<Rightarrow> app_db \<Rightarrow> cache \<Rightarrow> nat" where
  "evaluated_guesses E address u [] s d c = 0"
| "evaluated_guesses E address u ((now, code) # gs) s d c =
     (case mfa_verify_post E address code now s d c of
        None \<Rightarrow> 0
      | Some (r, s', d', c') \<Rightarrow>
          (if is_throttled now (auth_throttle_key address (mfa_subject u)) c then 0 else 1)
            + evaluated_guesses E address u gs s' d' c')"

lemma wrong_code_post:
  assumes "request_user d s = None" "ss_pending_user s = Some u" "find_user d u = Some x" "user_is_active x"
    and "find_mfa d u = Some p" "verify_code E now p code True = Some (False, p')"
  shows "\<exists>r. mfa_verify_post E address code now s d c = Some (r, s, d,
     if is_throttled now (auth_throttle_key address (mfa_subject u)) c then c
     else record_failure now (auth_throttle_key address (mfa_subject u)) c)"
  using assms by (simp add: mfa_verify_post_def Let_def)

lemma evaluated_guesses_bound:
  assumes s: "request_user d s = None" "ss_pending_user s = Some u" "find_user d u = Some x" "user_is_active x"
      "find_mfa d u = Some p"
    and "\<forall>(now, code) \<in> set gs. t0 \<le> now \<and> now < t0 + login_throttle_time
           \<and> (\<exists>p'. verify_code E now p code True = Some (False, p'))"
    and "0 \<le> n" "n \<le> login_throttle_limit"
    and "\<forall>t. t0 \<le> t \<longrightarrow> t < t0 + login_throttle_time \<longrightarrow>
      (case cache_live t (auth_throttle_key address (mfa_subject u)) c of
         None \<Rightarrow> n = 0 | Some (m, e) \<Rightarrow> m = n \<and> t0 + login_throttle_time \<le> e)"
  shows "int (evaluated_guesses E address u gs s d c) \<le> login_throttle_limit - n"
  using assms(6-)
proof (induction gs arbitrary: c n)
  case Nil
  then show ?case by simp
next
  case (Cons g gs)
  obtain now code where g: "g = (now, code)" by (cases g)
  let ?k = "auth_throttle_key address (mfa_subject u)"
  have now: "t0 \<le> now" "now < t0 + login_throttle_time" and "\<exists>p'. verify_code E now p code True = Some (False, p')"
    using Cons.prems(1) by (auto simp: g)
  then obtain r where r: "mfa_verify_post E address code now s d c = Some (r, s, d,
      if is_throttled now ?k c then c else record_failure now ?k c)"
    using wrong_code_post [OF s] by blast
  have gs: "\<forall>(now, code) \<in> set gs. t0 \<le> now \<and> now < t0 + login_throttle_time
           \<and> (\<exists>p'. verify_code E now p code True = Some (False, p'))"
    using Cons.prems(1) by simp
  have at_now: "case cache_live now ?k c of None \<Rightarrow> n = 0 | Some (m, e) \<Rightarrow> m = n \<and> t0 + login_throttle_time \<le> e"
    using Cons.prems(4) now by simp
  show ?case
  proof (cases "is_throttled now ?k c")
    case True
    then show ?thesis using Cons.IH [OF gs Cons.prems(2,3,4)] r by (simp add: g)
  next
    case False
    then have n: "n < login_throttle_limit"
      using at_now Cons.prems(3) by (auto simp: is_throttled_def login_throttle_limit_def split: option.splits)
    have live: "\<forall>t. t0 \<le> t \<longrightarrow> t < t0 + login_throttle_time \<longrightarrow>
      (case cache_live t ?k (record_failure now ?k c) of
         None \<Rightarrow> n + 1 = 0 | Some (m, e) \<Rightarrow> m = n + 1 \<and> t0 + login_throttle_time \<le> e)"
      using at_now now(1) by (auto simp: cache_live_record split: option.splits)
    have "int (evaluated_guesses E address u gs s d (record_failure now ?k c)) \<le> login_throttle_limit - (n + 1)"
      by (rule Cons.IH [OF gs _ _ live]) (use Cons.prems(2) n in auto)
    then show ?thesis using r False by (simp add: g)
  qed
qed



end
