(* ===== verification/Targets.thy ===== *)
theory Targets
  imports Monitor
begin

text \<open>
  The target side, \<open>monitor/db.py\<close>: which credentials and options a connection is opened with, the
  statement filter and the two-step execution of the query runner. The drivers are parameters that
  answer as the DB-API documents; the catalog statements and termination have theories of their own.
\<close>

section \<open>Errors\<close>

text \<open>\<open>db.ConnectionError\<close>, \<open>db.QueryValidationError\<close>, and any other exception.\<close>

datatype target_exc = Conn_err pystr | Validation_err pystr | Other_exc

section \<open>The statement filter\<close>

definition write_verbs :: "pystr list" where
  "write_verbs = [lit ''insert'', lit ''update'']"

text \<open>\<open>_WRITE_STATEMENT_RE\<close> on a text without leading blanks: a verb, case ignored, and a blank.\<close>

definition write_statement_match :: "pystr \<Rightarrow> bool" where
  "write_statement_match s \<longleftrightarrow>
     (let t = dropWhile py_isspace s in
      list_ex (\<lambda>v. py_lower (take (length v) t) = v \<and> length v < length t \<and> py_isspace (t ! length v)) write_verbs)"

definition validate_write_statement :: "pystr \<Rightarrow> pystr + pystr" where
  "validate_write_statement sql =
     (let statement = py_strip sql in
      if statement = [] then Inl (lit ''Enter a query to run.'')
      else if \<not> write_statement_match statement then Inl (lit ''Only INSERT or UPDATE statements are allowed.'')
      else let body = (if last statement = 59 then butlast statement else statement) in
        if 59 \<in> set body then Inl (lit ''Only a single statement is allowed '' @ 8212 # lit '' remove the extra ';'.'')
        else Inr body)"

section \<open>Connections\<close>

datatype driver = Psycopg2 | Pymysql | Pymssql

record conn_params =
  cp_driver :: driver
  cp_host :: pystr
  cp_port :: int
  cp_database :: pystr
  cp_user :: pystr
  cp_password :: pystr
  cp_autocommit :: bool
  cp_dict_rows :: bool
  cp_sslmode :: pystr
  cp_sslrootcert :: "pystr option"
  cp_program :: pystr

record db_settings =
  ds_ssl_mode :: pystr
  ds_ssl_root_cert :: pystr
  ds_fernet :: fernet

definition is_mysql :: "rds_instance \<Rightarrow> bool" where
  "is_mysql i \<longleftrightarrow> inst_engine i = lit ''mysql'' \<or> inst_engine i = lit ''mariadb''"

definition is_mssql :: "rds_instance \<Rightarrow> bool" where
  "is_mssql i \<longleftrightarrow> inst_engine i = lit ''mssql''"

definition mssql_ssl_error :: pystr where
  "mssql_ssl_error = lit ''MSSQL connections cannot honor 'SSL required' with the bundled driver. Uncheck SSL required for this instance to connect.''"

text \<open>
  The parameters of the driver call of \<open>get_connection\<close> and \<open>get_query_runner_connection\<close>, which
  differ in the role and the program name: PyMySQL and pymssql connections are opened with
  autocommit and dictionary rows, psycopg2 connections with neither. For PyMySQL the two TLS
  fields say whether \<open>ssl\<close> is given and its CA.
\<close>

definition engine_params ::
  "db_settings \<Rightarrow> rds_instance \<Rightarrow> pystr \<Rightarrow> pystr \<Rightarrow> pystr \<Rightarrow> target_exc + conn_params" where
  "engine_params S i username password program =
     (let ca = (if inst_ssl_required i \<and> ds_ssl_root_cert S \<noteq> [] then Some (ds_ssl_root_cert S) else None) in
      if is_mysql i then
        Inr \<lparr>cp_driver = Pymysql, cp_host = inst_host i, cp_port = inst_port i, cp_database = inst_db_name i,
          cp_user = username, cp_password = password, cp_autocommit = True, cp_dict_rows = True,
          cp_sslmode = (if inst_ssl_required i then lit ''ssl'' else []), cp_sslrootcert = ca, cp_program = program\<rparr>
      else if is_mssql i then
        (if inst_ssl_required i then Inl (Conn_err mssql_ssl_error)
         else Inr \<lparr>cp_driver = Pymssql, cp_host = inst_host i, cp_port = inst_port i, cp_database = inst_db_name i,
          cp_user = username, cp_password = password, cp_autocommit = True, cp_dict_rows = True,
          cp_sslmode = [], cp_sslrootcert = None, cp_program = program\<rparr>)
      else Inr \<lparr>cp_driver = Psycopg2, cp_host = inst_host i, cp_port = inst_port i, cp_database = inst_db_name i,
          cp_user = username, cp_password = password, cp_autocommit = False, cp_dict_rows = False,
          cp_sslmode = (if inst_ssl_required i then ds_ssl_mode S else lit ''prefer''), cp_sslrootcert = ca,
          cp_program = program\<rparr>)"

text \<open>A password that cannot be decrypted raises before the driver is called.\<close>

definition get_connection :: "db_settings \<Rightarrow> rds_instance \<Rightarrow> target_exc + conn_params" where
  "get_connection S i =
     (let use_control = inst_lock_control_enabled i \<and> inst_control_username i \<noteq> [];
          username = (if use_control then inst_control_username i else inst_username i)
      in case (if use_control then get_control_password (ds_fernet S) i else get_password (ds_fernet S) i) of
           None \<Rightarrow> Inl Other_exc
         | Some password \<Rightarrow> engine_params S i username password (lit ''healthgrid-control''))"

definition get_query_runner_connection :: "db_settings \<Rightarrow> rds_instance \<Rightarrow> target_exc + conn_params" where
  "get_query_runner_connection S i =
     (if \<not> inst_query_runner_enabled i \<or> inst_query_runner_username i = [] then
        Inl (Conn_err (lit ''Query-runner credentials are not configured for this instance.''))
      else case get_query_runner_password (ds_fernet S) i of
          None \<Rightarrow> Inl Other_exc
        | Some password \<Rightarrow>
            engine_params S i (inst_query_runner_username i) password (lit ''healthgrid-query-runner''))"

text \<open>
  \<open>test_connection\<close>: the same choice for the values of a form, which are not stored; the connection is
  opened and closed.
\<close>

definition test_connection ::
  "db_settings \<Rightarrow> (conn_params \<Rightarrow> pystr option) \<Rightarrow> pystr \<Rightarrow> pystr \<Rightarrow> pystr \<Rightarrow> pystr \<Rightarrow> pystr \<Rightarrow> pystr \<Rightarrow> bool \<Rightarrow>
   bool \<times> pystr option" where
  "test_connection S connect engine host port db_name username password ssl_required =
     (let ca = (if ssl_required \<and> ds_ssl_root_cert S \<noteq> [] then Some (ds_ssl_root_cert S) else None);
          try = (\<lambda>dr mode cert. case py_int port of
             None \<Rightarrow> (False, Some (lit ''invalid port''))
           | Some p \<Rightarrow> (case connect \<lparr>cp_driver = dr, cp_host = host, cp_port = p, cp_database = db_name, cp_user = username,
               cp_password = password, cp_autocommit = False, cp_dict_rows = (dr = Pymysql), cp_sslmode = mode,
               cp_sslrootcert = cert, cp_program = lit ''healthgrid-test''\<rparr> of
                 Some err \<Rightarrow> (False, Some err) | None \<Rightarrow> (True, None)))
      in if engine = lit ''mysql'' \<or> engine = lit ''mariadb'' then try Pymysql (if ssl_required then lit ''ssl'' else []) ca
         else if engine = lit ''mssql'' then
           (if ssl_required then (False, Some mssql_ssl_error) else try Pymssql [] None)
         else try Psycopg2 (if ssl_required then ds_ssl_mode S else lit ''prefer'') ca)"

section \<open>Transactions\<close>

text \<open>
  The DB-API transaction of one connection: statements act on the connection's view; with autocommit
  every statement is published at once, otherwise \<open>commit\<close> publishes and \<open>rollback\<close> returns to
  what is published.
\<close>

record 'd tx =
  tx_autocommit :: bool
  tx_published :: 'd
  tx_view :: 'd

definition tx_begin :: "bool \<Rightarrow> 'd \<Rightarrow> 'd tx" where
  "tx_begin autocommit d = \<lparr>tx_autocommit = autocommit, tx_published = d, tx_view = d\<rparr>"

definition tx_execute :: "('d \<Rightarrow> pystr + 'd \<times> int) \<Rightarrow> 'd tx \<Rightarrow> (pystr + int) \<times> 'd tx" where
  "tx_execute stmt t =
     (case stmt (tx_view t) of
        Inl err \<Rightarrow> (Inl err, t)
      | Inr (d, n) \<Rightarrow> (Inr n, t\<lparr>tx_view := d, tx_published := (if tx_autocommit t then d else tx_published t)\<rparr>))"

definition tx_rollback :: "'d tx \<Rightarrow> 'd tx" where
  "tx_rollback t = t\<lparr>tx_view := tx_published t\<rparr>"

definition tx_commit :: "'d tx \<Rightarrow> 'd tx" where
  "tx_commit t = t\<lparr>tx_published := tx_view t\<rparr>"

section \<open>The query runner\<close>

text \<open>
  The driver's connect answers an error text or nothing; a statement's effect on the data is the
  parameter \<open>run\<close>, and \<open>commit_error\<close> is what \<open>conn.commit()\<close> may raise.
\<close>

record 'd runner =
  ru_settings :: db_settings
  ru_connect :: "conn_params \<Rightarrow> pystr option"
  ru_run :: "pystr \<Rightarrow> 'd \<Rightarrow> pystr + 'd \<times> int"
  ru_commit_error :: "pystr option"

definition preview_write_query ::
  "'d runner \<Rightarrow> rds_instance \<Rightarrow> pystr \<Rightarrow> 'd \<Rightarrow> (target_exc + pystr \<times> int) \<times> 'd" where
  "preview_write_query R i sql d =
     (case validate_write_statement sql of
        Inl err \<Rightarrow> (Inl (Validation_err err), d)
      | Inr statement \<Rightarrow>
          (case get_query_runner_connection (ru_settings R) i of
             Inl err \<Rightarrow> (Inl err, d)
           | Inr params \<Rightarrow>
               (case ru_connect R params of
                  Some err \<Rightarrow> (Inl (Conn_err err), d)
                | None \<Rightarrow>
                    (case tx_execute (ru_run R statement) (tx_begin (cp_autocommit params) d) of
                       (Inl err, t) \<Rightarrow> (Inl (Conn_err err), tx_published (tx_rollback t))
                     | (Inr n, t) \<Rightarrow> (Inr (statement, n), tx_published (tx_rollback t))))))"

definition commit_write_query ::
  "'d runner \<Rightarrow> rds_instance \<Rightarrow> pystr \<Rightarrow> 'd \<Rightarrow> (target_exc + int) \<times> 'd" where
  "commit_write_query R i sql d =
     (case validate_write_statement sql of
        Inl err \<Rightarrow> (Inl (Validation_err err), d)
      | Inr statement \<Rightarrow>
          (case get_query_runner_connection (ru_settings R) i of
             Inl err \<Rightarrow> (Inl err, d)
           | Inr params \<Rightarrow>
               (case ru_connect R params of
                  Some err \<Rightarrow> (Inl (Conn_err err), d)
                | None \<Rightarrow>
                    (case tx_execute (ru_run R statement) (tx_begin (cp_autocommit params) d) of
                       (Inl err, t) \<Rightarrow> (Inl (Conn_err err), tx_published (tx_rollback t))
                     | (Inr n, t) \<Rightarrow>
                         (case ru_commit_error R of
                            Some err \<Rightarrow> (Inl (Conn_err err), tx_published (tx_rollback t))
                          | None \<Rightarrow> (Inr n, tx_published (tx_commit t)))))))"

end
