(* ===== verification/Catalog.thy ===== *)
theory Catalog
  imports Targets
begin

text \<open>
  The catalog queries of \<open>monitor/db.py\<close>. The PostgreSQL statements are translated over a snapshot
  of the system views they read; the rows of the MySQL and SQL Server statements are what the
  driver returns. A statement sees the server at its own time, so the server is a sequence of
  snapshots and each read takes the next one.
\<close>

section \<open>System views\<close>

record pg_session =
  se_pid :: int
  se_datname :: "pystr option"
  se_usename :: "pystr option"
  se_application_name :: "pystr option"
  se_client_addr :: "pystr option"
  se_backend_type :: "pystr option"
  se_state :: "pystr option"
  se_wait_event :: "pystr option"
  se_query :: "pystr option"
  se_query_start :: "(datetime \<times> pystr) option"

text \<open>The columns of \<open>pg_locks\<close> that identify the locked object, all but the first nullable.\<close>

record pg_lock_object =
  ob_locktype :: pystr
  ob_database :: "int option"
  ob_relation :: "int option"
  ob_page :: "int option"
  ob_tuple :: "int option"
  ob_virtualxid :: "pystr option"
  ob_transactionid :: "int option"
  ob_classid :: "int option"
  ob_objid :: "int option"
  ob_objsubid :: "int option"

record pg_lock =
  lk_pid :: "int option"
  lk_object :: pg_lock_object
  lk_granted :: bool

record pg_slot =
  sl_name :: pystr
  sl_active_pid :: "int option"

record pg_database =
  pd_name :: pystr
  pd_allow_conn :: bool
  pd_is_template :: bool

record pg_catalog =
  ct_now :: datetime
  ct_current_database :: pystr
  ct_backend_pid :: int
  ct_sessions :: "pg_session list"
  ct_locks :: "pg_lock list"
  ct_slots :: "pg_slot list"
  ct_databases :: "pg_database list"

text \<open>The rows of the session query: what the monitor reads and the wait event.\<close>

record session_row = activity_row +
  sr_wait_event :: "pystr option"

section \<open>The PostgreSQL statements\<close>

text \<open>\<open>EXTRACT(EPOCH FROM interval)::int\<close> rounds to the nearest second.\<close>

definition epoch_int :: "int \<Rightarrow> int" where
  "epoch_int us = (if 0 \<le> us then (us + 500000) div 1000000 else - ((500000 - us) div 1000000))"

definition in_current :: "pg_catalog \<Rightarrow> pg_session \<Rightarrow> bool" where
  "in_current c s \<longleftrightarrow> se_datname s = Some (ct_current_database c)"

definition busy_states :: "pystr list" where
  "busy_states = [lit ''active'', lit ''idle in transaction'', lit ''idle in transaction (aborted)'']"

definition session_shown :: "pg_catalog \<Rightarrow> pg_session \<Rightarrow> bool" where
  "session_shown c s \<longleftrightarrow> in_current c s \<and> se_pid s \<noteq> ct_backend_pid c
     \<and> (case se_state s of None \<Rightarrow> False | Some x \<Rightarrow> x \<in> set busy_states)"

definition session_row_of :: "pg_catalog \<Rightarrow> pg_session \<Rightarrow> session_row" where
  "session_row_of c s = \<lparr>ar_pid = Some (se_pid s), ar_usename = se_usename s,
     ar_application_name = se_application_name s, ar_client_addr = se_client_addr s, ar_state = se_state s,
     ar_query = se_query s, ar_query_start = se_query_start s,
     ar_duration_seconds = map_option (\<lambda>t. epoch_int (ct_now c - fst t)) (se_query_start s),
     sr_wait_event = se_wait_event s\<rparr>"

definition nulls_last :: "(datetime \<times> pystr) option \<Rightarrow> int \<times> int" where
  "nulls_last x = (case x of None \<Rightarrow> (1, 0) | Some t \<Rightarrow> (0, fst t))"

definition activity_query :: "pg_catalog \<Rightarrow> session_row list" where
  "activity_query c = map (session_row_of c)
     (sort_key (\<lambda>s. nulls_last (se_query_start s)) (filter (session_shown c) (ct_sessions c)))"

text \<open>
  The three joins that the blocking query and the server-wide lock count share: a waiting entry,
  its session, an entry of another backend for the same object, and that session.
\<close>

definition lock_pairs :: "pg_catalog \<Rightarrow> (pg_session \<times> pg_session) list" where
  "lock_pairs c =
     [(bs, ks). b \<leftarrow> ct_locks c, \<not> lk_granted b, bs \<leftarrow> ct_sessions c, lk_pid b = Some (se_pid bs),
        k \<leftarrow> ct_locks c, lk_object k = lk_object b \<and> lk_pid k \<noteq> lk_pid b,
        ks \<leftarrow> ct_sessions c, lk_pid k = Some (se_pid ks)]"

definition blocking_row_of :: "pg_catalog \<Rightarrow> pg_session \<times> pg_session \<Rightarrow> blocking_row" where
  "blocking_row_of c p = \<lparr>br_blocked_pid = Some (se_pid (fst p)), br_blocking_pid = Some (se_pid (snd p)),
     br_blocked_user = se_usename (fst p), br_blocking_user = se_usename (snd p),
     br_blocked_query = se_query (fst p), br_blocking_query = se_query (snd p),
     br_waiting_seconds = map_option (\<lambda>t. epoch_int (ct_now c - fst t)) (se_query_start (fst p))\<rparr>"

definition blocking_query :: "pg_catalog \<Rightarrow> blocking_row list" where
  "blocking_query c = map (blocking_row_of c)
     (filter (\<lambda>p. in_current c (fst p) \<and> in_current c (snd p)) (lock_pairs c))"

text \<open>\<open>GROUP BY\<close> a name with \<open>COUNT\<close> columns, as the dictionary the code builds from the rows.\<close>

definition count_by :: "pystr list \<Rightarrow> (pystr \<times> int) list" where
  "count_by names = map (\<lambda>n. (n, int (count_list names n))) (remdups names)"

definition server_databases_query :: "pg_catalog \<Rightarrow> pystr list" where
  "server_databases_query c =
     sort (map pd_name (filter (\<lambda>d. pd_allow_conn d \<and> \<not> pd_is_template d) (ct_databases c)))"

definition idle_states :: "pystr list" where
  "idle_states = [lit ''idle'', lit ''idle in transaction'', lit ''idle in transaction (aborted)'']"

record session_counts =
  sc_total :: int
  sc_active :: int
  sc_idle :: int

definition count_sessions :: "pg_session list \<Rightarrow> session_counts" where
  "count_sessions ss = \<lparr>sc_total = int (length ss),
     sc_active = int (length (filter (\<lambda>s. se_state s = Some (lit ''active'')) ss)),
     sc_idle = int (length (filter (\<lambda>s. \<exists>x \<in> set idle_states. se_state s = Some x) ss))\<rparr>"

definition server_activity_counts_query :: "pg_catalog \<Rightarrow> (pystr \<times> session_counts) list" where
  "server_activity_counts_query c =
     (let ss = filter (\<lambda>s. se_datname s \<noteq> None \<and> se_pid s \<noteq> ct_backend_pid c) (ct_sessions c) in
      map (\<lambda>n. (n, count_sessions (filter (\<lambda>s. se_datname s = Some n) ss)))
        (remdups (map (\<lambda>s. the (se_datname s)) ss)))"

definition server_lock_counts_query :: "pg_catalog \<Rightarrow> (pystr \<times> int) list" where
  "server_lock_counts_query c =
     count_by (map (\<lambda>p. the (se_datname (fst p)))
       (filter (\<lambda>p. se_datname (fst p) \<noteq> None \<and> se_datname (fst p) = se_datname (snd p)) (lock_pairs c)))"

section \<open>The server overview\<close>

record database_counts =
  dc_name :: pystr
  dc_total :: int
  dc_active :: int
  dc_idle :: int
  dc_locks :: int

record server_overview =
  so_databases :: "database_counts list"
  so_total :: int
  so_active :: int
  so_idle :: int
  so_locks :: int

definition databases_from_counts ::
  "pystr list \<Rightarrow> (pystr \<times> session_counts) list \<Rightarrow> (pystr \<times> int) list \<Rightarrow> server_overview" where
  "databases_from_counts names activity_counts lock_counts =
     (let item = (\<lambda>n. let c = (case map_of activity_counts n of None \<Rightarrow> \<lparr>sc_total = 0, sc_active = 0, sc_idle = 0\<rparr>
                                | Some c \<Rightarrow> c)
              in \<lparr>dc_name = n, dc_total = sc_total c, dc_active = sc_active c, dc_idle = sc_idle c,
                  dc_locks = (case map_of lock_counts n of None \<Rightarrow> 0 | Some k \<Rightarrow> k)\<rparr>);
          dbs = map item names
      in \<lparr>so_databases = dbs, so_total = sum_list (map dc_total dbs), so_active = sum_list (map dc_active dbs),
          so_idle = sum_list (map dc_idle dbs), so_locks = sum_list (map dc_locks dbs)\<rparr>)"

section \<open>Reading a target\<close>

text \<open>
  What the program reads from a server: the driver's connect, the snapshots the statements of one
  call see in turn, the rows of the other engines' statements, vitals and table sizes. None is a
  statement that raises.
\<close>

record 'v server =
  sv_settings :: db_settings
  sv_connect :: "conn_params \<Rightarrow> pystr option"
  sv_world :: "nat \<Rightarrow> pg_catalog option"
  sv_activity_rows :: "session_row list option"
  sv_lock_rows :: "blocking_row list option"
  sv_fallback_lock_rows :: "blocking_row list option"
  sv_vitals :: "'v option"
  sv_top_tables :: "'v list option"
  sv_database_names :: "pystr list option"
  sv_activity_counts :: "(pystr \<times> session_counts) list option"
  sv_lock_counts :: "(pystr \<times> int) list option"

definition open_connection :: "('v, 'z) server_scheme \<Rightarrow> rds_instance \<Rightarrow> target_exc + conn_params" where
  "open_connection V i =
     (case get_connection (sv_settings V) i of
        Inl e \<Rightarrow> Inl e
      | Inr p \<Rightarrow> (case sv_connect V p of Some err \<Rightarrow> Inl (Conn_err err) | None \<Rightarrow> Inr p))"

text \<open>Missing names and texts become empty ones.\<close>

definition normalise_lock_row :: "blocking_row \<Rightarrow> blocking_row" where
  "normalise_lock_row r = r\<lparr>
     br_blocked_user := Some (text_or (br_blocked_user r) []), br_blocking_user := Some (text_or (br_blocking_user r) []),
     br_blocked_query := Some (text_or (br_blocked_query r) []),
     br_blocking_query := Some (text_or (br_blocking_query r) [])\<rparr>"

definition mysql_blocking :: "('v, 'z) server_scheme \<Rightarrow> blocking_row list" where
  "mysql_blocking V = map normalise_lock_row
     (case sv_lock_rows V of Some rows \<Rightarrow> rows
      | None \<Rightarrow> (case sv_fallback_lock_rows V of Some rows \<Rightarrow> rows | None \<Rightarrow> []))"

definition mssql_blocking :: "('v, 'z) server_scheme \<Rightarrow> blocking_row list option" where
  "mssql_blocking V = map_option (map normalise_lock_row) (sv_lock_rows V)"

definition read_activity :: "('v, 'z) server_scheme \<Rightarrow> rds_instance \<Rightarrow> target_exc + session_row list \<times> blocking_row list" where
  "read_activity V i =
     (if is_mysql i then
        (case sv_activity_rows V of None \<Rightarrow> Inl Other_exc | Some rows \<Rightarrow> Inr (rows, mysql_blocking V))
      else if is_mssql i then
        (case (sv_activity_rows V, mssql_blocking V) of
           (Some rows, Some blocking) \<Rightarrow> Inr (rows, blocking) | _ \<Rightarrow> Inl Other_exc)
      else (case (sv_world V 0, sv_world V 1) of
           (Some a, Some b) \<Rightarrow> Inr (activity_query a, blocking_query b) | _ \<Rightarrow> Inl Other_exc))"

definition fetch_activity :: "('v, 'z) server_scheme \<Rightarrow> rds_instance \<Rightarrow> target_exc + session_row list \<times> blocking_row list" where
  "fetch_activity V i = (case open_connection V i of Inl e \<Rightarrow> Inl e | Inr _ \<Rightarrow> read_activity V i)"

text \<open>Vitals and table sizes are best effort except on MySQL, where a failing statement raises.\<close>

definition fetch_activity_with_vitals ::
  "('v, 'z) server_scheme \<Rightarrow> rds_instance \<Rightarrow> target_exc + session_row list \<times> blocking_row list \<times> 'v option \<times> 'v list" where
  "fetch_activity_with_vitals V i =
     (case open_connection V i of
        Inl e \<Rightarrow> Inl e
      | Inr _ \<Rightarrow>
          (case read_activity V i of
             Inl e \<Rightarrow> Inl e
           | Inr (activity, blocking) \<Rightarrow>
               if is_mysql i then
                 (case (sv_vitals V, sv_top_tables V) of
                    (Some v, Some ts) \<Rightarrow> Inr (activity, blocking, Some v, ts) | _ \<Rightarrow> Inl Other_exc)
               else Inr (activity, blocking, sv_vitals V, case sv_top_tables V of None \<Rightarrow> [] | Some ts \<Rightarrow> ts)))"

definition fetch_server_overview :: "('v, 'z) server_scheme \<Rightarrow> rds_instance \<Rightarrow> target_exc + server_overview" where
  "fetch_server_overview V i =
     (if is_mysql i then
        Inl (Conn_err (lit ''Server-wide database discovery is currently available for PostgreSQL and MSSQL endpoints only.''))
      else case open_connection V i of
          Inl e \<Rightarrow> Inl e
        | Inr _ \<Rightarrow>
            if is_mssql i then
              (case (sv_database_names V, sv_activity_counts V, sv_lock_counts V) of
                 (Some names, Some activity, Some locks) \<Rightarrow> Inr (databases_from_counts names activity locks)
               | _ \<Rightarrow> Inl Other_exc)
            else (case (sv_world V 0, sv_world V 1, sv_world V 2) of
                 (Some a, Some b, Some c) \<Rightarrow> Inr (databases_from_counts (server_databases_query a)
                   (server_activity_counts_query b) (server_lock_counts_query c))
               | _ \<Rightarrow> Inl Other_exc))"

definition fetch_replication_slots :: "('v, 'z) server_scheme \<Rightarrow> rds_instance \<Rightarrow> target_exc + pg_slot list" where
  "fetch_replication_slots V i =
     (if is_mysql i \<or> is_mssql i then Inr []
      else case open_connection V i of
          Inl e \<Rightarrow> Inl e
        | Inr _ \<Rightarrow> (case sv_world V 0 of None \<Rightarrow> Inl Other_exc | Some c \<Rightarrow> Inr (sort_key sl_name (ct_slots c))))"

section \<open>Facts\<close>

lemma set_if: "x \<in> set (if P then xs else []) \<longleftrightarrow> P \<and> x \<in> set xs"
  by simp

lemma set_concat_map: "x \<in> set (concat (map f xs)) \<longleftrightarrow> (\<exists>y \<in> set xs. x \<in> set (f y))"
  by simp

lemmas set_query = set_if set_concat_map list.set singleton_iff prod.inject

lemma lock_pairs_iff:
  "(bs, ks) \<in> set (lock_pairs c) \<longleftrightarrow>
     (\<exists>b \<in> set (ct_locks c). \<exists>k \<in> set (ct_locks c). \<not> lk_granted b \<and> lk_object k = lk_object b
        \<and> lk_pid b = Some (se_pid bs) \<and> lk_pid k = Some (se_pid ks) \<and> se_pid ks \<noteq> se_pid bs
        \<and> bs \<in> set (ct_sessions c) \<and> ks \<in> set (ct_sessions c))" (is "?L = ?R")
proof
  assume ?L
  then show ?R unfolding lock_pairs_def by (simp only: set_query) (elim bexE conjE, hypsubst, metis)
next
  assume ?R
  then obtain b k where "b \<in> set (ct_locks c)" "k \<in> set (ct_locks c)" "\<not> lk_granted b" "lk_object k = lk_object b"
    "lk_pid b = Some (se_pid bs)" "lk_pid k = Some (se_pid ks)" "se_pid ks \<noteq> se_pid bs"
    "bs \<in> set (ct_sessions c)" "ks \<in> set (ct_sessions c)" by blast
  then show ?L unfolding lock_pairs_def
    by (simp only: set_query)
      (intro bexI [of _ b] bexI [of _ bs] bexI [of _ k] bexI [of _ ks] conjI, simp_all)
qed

lemma map_of_count_by: "map_of (count_by names) n = (if n \<in> set names then Some (int (count_list names n)) else None)"
  by (auto simp: count_by_def map_of_map_restrict restrict_map_def)

lemma count_list_filter: "count_list xs x = length (filter (\<lambda>y. y = x) xs)"
  by (induction xs) auto

end
