(* ===== verification/Terminate.thy ===== *)
theory Terminate
  imports Catalog
begin

text \<open>
  The operations of \<open>monitor/db.py\<close> that act on a target: terminating sessions and dropping
  replication slots. Each returns its result, or the exception it raises, and the effects it has
  had on the server by then, in order.
\<close>

datatype target_effect = Signalled int | Dropped pystr

text \<open>
  The server's side: what \<open>pg_terminate_backend\<close> of the n-th statement answers (None: it raises, for
  example for lack of privilege), the count of the MySQL and SQL Server membership statements,
  whether a \<open>KILL\<close> statement succeeds, and the error of \<open>pg_drop_replication_slot\<close>.
\<close>

record 'v control_server = "'v server" +
  sv_terminate :: "nat \<Rightarrow> int \<Rightarrow> bool option"
  sv_thread_count :: "int \<Rightarrow> int option"
  sv_kill :: "int \<Rightarrow> bool"
  sv_drop_slot :: "pystr \<Rightarrow> pystr option"

type_synonym 'a acted = "(target_exc + 'a) \<times> target_effect list"

section \<open>PostgreSQL\<close>

definition slot_pid :: "pg_catalog \<Rightarrow> int \<Rightarrow> bool" where
  "slot_pid c pid \<longleftrightarrow> (\<exists>s \<in> set (ct_slots c). sl_active_pid s = Some pid)"

definition pid_in_current :: "pg_catalog \<Rightarrow> int \<Rightarrow> bool" where
  "pid_in_current c pid \<longleftrightarrow> (\<exists>s \<in> set (ct_sessions c). se_pid s = pid \<and> in_current c s)"

text \<open>
  \<open>pg_terminate_backend(pid)\<close> and \<open>GUARDED_TERMINATE_QUERY\<close>: the guard and the termination are one
  statement. None is a statement that raises.
\<close>

definition terminate_backend :: "('v, 'z) control_server_scheme \<Rightarrow> nat \<Rightarrow> int \<Rightarrow> (bool \<times> target_effect list) option" where
  "terminate_backend V n pid = map_option (\<lambda>ok. (ok, if ok then [Signalled pid] else [])) (sv_terminate V n pid)"

definition guarded_terminate ::
  "('v, 'z) control_server_scheme \<Rightarrow> nat \<Rightarrow> bool \<Rightarrow> int \<Rightarrow> (bool \<times> target_effect list) option" where
  "guarded_terminate V n allow_replication pid =
     (case sv_world V n of
        None \<Rightarrow> None
      | Some c \<Rightarrow>
          if (allow_replication \<or> \<not> slot_pid c pid) \<and> pid_in_current c pid then terminate_backend V n pid
          else Some (False, []))"

section \<open>MySQL and SQL Server\<close>

text \<open>
  A fetched row is a tuple, or a dictionary on connections opened for dictionary rows. Indexing a
  dictionary with 0 raises.
\<close>

datatype sql_row = Tuple_row "int list" | Dict_row "(pystr \<times> int) list"

fun row_index0 :: "sql_row \<Rightarrow> int option" where
  "row_index0 (Tuple_row []) = None"
| "row_index0 (Tuple_row (x # xs)) = Some x"
| "row_index0 (Dict_row kvs) = None"

definition count_row :: "conn_params \<Rightarrow> int \<Rightarrow> sql_row" where
  "count_row p n = (if cp_dict_rows p then Dict_row [(lit ''COUNT(*)'', n)] else Tuple_row [n])"

text \<open>\<open>_mysql_pid_in_db\<close> and \<open>_mssql_pid_in_db\<close>; None is an exception.\<close>

definition pid_in_db :: "('v, 'z) control_server_scheme \<Rightarrow> conn_params \<Rightarrow> int \<Rightarrow> bool option" where
  "pid_in_db V p pid =
     (case sv_thread_count V pid of
        None \<Rightarrow> None
      | Some n \<Rightarrow> map_option (\<lambda>k. k \<noteq> 0) (row_index0 (count_row p n)))"

definition kill_statement :: "('v, 'z) control_server_scheme \<Rightarrow> conn_params \<Rightarrow> int \<Rightarrow> (bool \<times> target_effect list) option" where
  "kill_statement V p pid =
     (case pid_in_db V p pid of
        None \<Rightarrow> None
      | Some False \<Rightarrow> Some (False, [])
      | Some True \<Rightarrow> if sv_kill V pid then Some (True, [Signalled pid]) else None)"

section \<open>The operations\<close>

definition raised :: "(bool \<times> target_effect list) option \<Rightarrow> bool acted" where
  "raised x = (case x of None \<Rightarrow> (Inl Other_exc, []) | Some (ok, eff) \<Rightarrow> (Inr ok, eff))"

definition kill_pid :: "('v, 'z) control_server_scheme \<Rightarrow> rds_instance \<Rightarrow> int \<Rightarrow> bool \<Rightarrow> bool acted" where
  "kill_pid V i pid allow_replication =
     (case open_connection V i of
        Inl e \<Rightarrow> (Inl e, [])
      | Inr p \<Rightarrow> raised (if is_mysql i \<or> is_mssql i then kill_statement V p pid
                         else guarded_terminate V 0 allow_replication pid))"

text \<open>
  The loop of \<open>kill_pids\<close>: the results are a dictionary. On MySQL and SQL Server an exception counts as
  False; on PostgreSQL it ends the call.
\<close>

fun kill_each :: "(nat \<Rightarrow> int \<Rightarrow> (bool \<times> target_effect list) option) \<Rightarrow> nat \<Rightarrow> int list \<Rightarrow>
    (int \<times> bool) list \<Rightarrow> target_effect list \<Rightarrow> ((int \<times> bool) list) acted" where
  "kill_each kill n [] results eff = (Inr results, eff)"
| "kill_each kill n (pid # pids) results eff =
     (case kill n pid of
        None \<Rightarrow> (Inl Other_exc, eff)
      | Some (ok, e) \<Rightarrow> kill_each kill (Suc n) pids (AList.update pid ok results) (eff @ e))"

definition or_false :: "(bool \<times> target_effect list) option \<Rightarrow> (bool \<times> target_effect list) option" where
  "or_false x = (case x of None \<Rightarrow> Some (False, []) | Some y \<Rightarrow> Some y)"

definition kill_pids ::
  "('v, 'z) control_server_scheme \<Rightarrow> rds_instance \<Rightarrow> int list \<Rightarrow> bool \<Rightarrow> ((int \<times> bool) list) acted" where
  "kill_pids V i pids allow_replication =
     (case open_connection V i of
        Inl e \<Rightarrow> (Inl e, [])
      | Inr p \<Rightarrow>
          if is_mysql i \<or> is_mssql i then kill_each (\<lambda>n pid. or_false (kill_statement V p pid)) 0 pids [] []
          else kill_each (\<lambda>n pid. guarded_terminate V n allow_replication pid) 0 pids [] [])"

text \<open>The PID of the slot is read by one statement and terminated by the next.\<close>

definition terminate_replication_slot_backend :: "('v, 'z) control_server_scheme \<Rightarrow> rds_instance \<Rightarrow> pystr \<Rightarrow> bool acted" where
  "terminate_replication_slot_backend V i slot_name =
     (if is_mysql i \<or> is_mssql i then (Inr False, [])
      else case open_connection V i of
          Inl e \<Rightarrow> (Inl e, [])
        | Inr p \<Rightarrow>
            (case sv_world V 0 of
               None \<Rightarrow> (Inl Other_exc, [])
             | Some c \<Rightarrow>
                 (case first_row (\<lambda>s. sl_name s = slot_name) (ct_slots c) of
                    None \<Rightarrow> (Inr False, [])
                  | Some s \<Rightarrow>
                      (case sl_active_pid s of
                         None \<Rightarrow> (Inr False, [])
                       | Some pid \<Rightarrow> if pid = 0 then (Inr False, []) else raised (terminate_backend V 1 pid)))))"

definition drop_replication_slot ::
  "('v, 'z) control_server_scheme \<Rightarrow> rds_instance \<Rightarrow> pystr \<Rightarrow> (bool \<times> pystr option) acted" where
  "drop_replication_slot V i slot_name =
     (if is_mysql i \<or> is_mssql i then (Inr (False, Some (lit ''Replication slots are only supported for PostgreSQL.'')), [])
      else case open_connection V i of
          Inl e \<Rightarrow> (Inl e, [])
        | Inr p \<Rightarrow> (case sv_drop_slot V slot_name of
                      Some err \<Rightarrow> (Inr (False, Some err), [])
                    | None \<Rightarrow> (Inr (True, None), [Dropped slot_name])))"

section \<open>Facts\<close>

lemma guarded_terminate_effects:
  assumes "guarded_terminate V n allow pid = Some (ok, eff)"
  shows "eff = (if ok then [Signalled pid] else []) \<and> (ok \<longrightarrow> (\<exists>c. sv_world V n = Some c \<and> pid_in_current c pid
     \<and> (allow \<or> \<not> slot_pid c pid)))"
  using assms by (auto simp: guarded_terminate_def terminate_backend_def split: option.splits if_splits)

lemma kill_each_effects:
  assumes "kill_each kill n pids results eff = (r, eff')"
    and step: "\<And>m pid ok e. kill m pid = Some (ok, e) \<Longrightarrow> e = (if ok then [Signalled pid] else []) \<and> (ok \<longrightarrow> G pid)"
    and "set eff \<subseteq> {Signalled pid | pid. pid \<in> P \<and> G pid}" and "set pids \<subseteq> P"
  shows "set eff' \<subseteq> {Signalled pid | pid. pid \<in> P \<and> G pid}"
  using assms(1,3,4)
proof (induction pids arbitrary: n results eff)
  case Nil
  then show ?case by simp
next
  case (Cons pid pids)
  show ?case
  proof (cases "kill n pid")
    case None
    then show ?thesis using Cons.prems by simp
  next
    case (Some oe)
    then obtain ok e where oe: "kill n pid = Some (ok, e)" by (cases oe) auto
    then have "set (eff @ e) \<subseteq> {Signalled pid | pid. pid \<in> P \<and> G pid}"
      using step [OF oe] Cons.prems(2,3) by (auto split: if_splits)
    moreover have "kill_each kill (Suc n) pids (AList.update pid ok results) (eff @ e) = (r, eff')"
      using Cons.prems(1) oe by simp
    ultimately show ?thesis using Cons.IH Cons.prems(3) by simp
  qed
qed

lemma kill_each_results:
  assumes "kill_each kill n pids results eff = (Inr results', eff')" and "distinct pids"
    and step: "\<And>m pid ok e. kill m pid = Some (ok, e) \<Longrightarrow> e = (if ok then [Signalled pid] else [])"
  shows "\<exists>es. eff' = eff @ es \<and> set es \<subseteq> Signalled ` set pids
     \<and> map_of results' = (\<lambda>k. if k \<in> set pids then Some (Signalled k \<in> set es) else map_of results k)"
  using assms(1,2)
proof (induction pids arbitrary: n results eff)
  case Nil
  then show ?case by auto
next
  case (Cons pid pids)
  then obtain ok e where oe: "kill n pid = Some (ok, e)" by (auto split: option.splits)
  have e: "e = (if ok then [Signalled pid] else [])" using step [OF oe] .
  have "kill_each kill (Suc n) pids (AList.update pid ok results) (eff @ e) = (Inr results', eff')"
    using Cons.prems oe by simp
  then obtain es where es: "eff' = (eff @ e) @ es" "set es \<subseteq> Signalled ` set pids"
    "map_of results' = (\<lambda>k. if k \<in> set pids then Some (Signalled k \<in> set es) else map_of (AList.update pid ok results) k)"
    using Cons.IH [of "Suc n" "AList.update pid ok results" "eff @ e"] Cons.prems(2) by auto
  have "Signalled pid \<notin> set es" using es(2) Cons.prems(2) by auto
  then have "map_of results' = (\<lambda>k. if k \<in> set (pid # pids) then Some (Signalled k \<in> set (e @ es)) else map_of results k)"
    using es(3) Cons.prems(2) e by (auto simp: update_conv' fun_eq_iff)
  then show ?case using es(1,2) e by (intro exI [of _ "e @ es"]) auto
qed

lemma kill_statement_effects:
  "kill_statement V p pid = Some (ok, eff) \<Longrightarrow> eff = (if ok then [Signalled pid] else [])"
  by (auto simp: kill_statement_def split: option.splits bool.splits if_splits)

lemma kill_pid_effects:
  "kill_pid V i pid allow = (r, eff) \<Longrightarrow> eff = (if r = Inr True then [Signalled pid] else [])"
  by (auto simp: kill_pid_def raised_def dest: kill_statement_effects guarded_terminate_effects
      split: sum.splits option.splits if_splits)

lemma kill_pids_effects:
  assumes "kill_pids V i pids allow = (r, eff)"
  shows "set eff \<subseteq> Signalled ` set pids"
proof (cases "open_connection V i")
  case (Inl e)
  then show ?thesis using assms by (simp add: kill_pids_def)
next
  case (Inr p)
  obtain kill where k: "kill_each kill 0 pids [] [] = (r, eff)"
      and step: "\<And>m q ok e. kill m q = Some (ok, e) \<Longrightarrow> e = (if ok then [Signalled q] else [])"
  proof (cases "is_mysql i \<or> is_mssql i")
    case True
    then have "kill_each (\<lambda>n pid. or_false (kill_statement V p pid)) 0 pids [] [] = (r, eff)"
      using assms Inr by (simp add: kill_pids_def)
    then show ?thesis
      by (rule that) (auto simp: or_false_def dest: kill_statement_effects split: option.splits)
  next
    case False
    then have "kill_each (\<lambda>n pid. guarded_terminate V n allow pid) 0 pids [] [] = (r, eff)"
      using assms Inr by (simp add: kill_pids_def)
    then show ?thesis by (rule that) (auto dest: guarded_terminate_effects)
  qed
  have "set eff \<subseteq> {Signalled q | q. q \<in> set pids \<and> True}"
    by (rule kill_each_effects [OF k]) (use step in auto)
  then show ?thesis by auto
qed

end
