(* ===== verification/Requests.thy ===== *)
theory Requests
  imports Auth Permissions Terminate
begin

text \<open>
  What the views of \<open>monitor/views.py\<close> share: the submitted form, the answer, the state a request
  reads and leaves, the guards, the audit log and the MFA check of protected actions. A view maps
  the state to its answer and the state it leaves; an exception nobody catches is the answer
  \<open>Server_error\<close>, and what was done before it stays. The texts of the banner messages are not
  modelled, only their levels.
\<close>

section \<open>Forms\<close>

text \<open>A submitted form as Django keeps it: \<open>get\<close> answers the last value of a name, \<open>getlist\<close> all.\<close>

type_synonym form = "(pystr \<times> pystr) list"

definition form_all :: "form \<Rightarrow> pystr \<Rightarrow> pystr list" where
  "form_all p k = map snd (filter (\<lambda>kv. fst kv = k) p)"

definition form_get :: "form \<Rightarrow> pystr \<Rightarrow> pystr option" where
  "form_get p k = (if form_all p k = [] then None else Some (last (form_all p k)))"

definition form_text :: "form \<Rightarrow> string \<Rightarrow> string \<Rightarrow> pystr" where
  "form_text p k dflt = (case form_get p (lit k) of None \<Rightarrow> lit dflt | Some v \<Rightarrow> v)"

text \<open>\<open>bool(request.POST.get(k))\<close>: the field is present and not empty.\<close>

definition form_flag :: "form \<Rightarrow> string \<Rightarrow> bool" where
  "form_flag p k \<longleftrightarrow> form_text p k '''' \<noteq> []"

lemma form_get_Nil [simp]: "form_get [] k = None"
  by (simp add: form_get_def form_all_def)

lemma form_get_single [simp]: "form_get [(k', v)] k = (if k = k' then Some v else None)"
  by (simp add: form_get_def form_all_def)

section \<open>Answers and state\<close>

datatype response =
    Login_page | Method_not_allowed | Forbidden | Not_found | Server_error
  | Detail_page int | List_page | Users_page | Settings_page | Links_page | Add_page
  | Form_again | Page_ok | Api_ok | Api_error

datatype notice = Notice_success | Notice_warning | Notice_error

record view_state =
  vs_db :: app_db
  vs_session :: session
  vs_notices :: "notice list"
  vs_effects :: "target_effect list"
  vs_uncached :: "pystr list"

text \<open>
  The surroundings of one request: the MFA environment, the clock, the target server as each of the
  request's calls to \<open>db\<close> finds it, and whether the application database accepts the audit row and
  the attribution update (it raises \<open>DatabaseError\<close> otherwise).
\<close>

record 'v view_env =
  ve_mfa :: mfa_env
  ve_now :: datetime
  ve_server :: "nat \<Rightarrow> 'v control_server"
  ve_audit_ok :: bool
  ve_mark_ok :: bool

type_synonym view = "view_state \<Rightarrow> response \<times> view_state"

text \<open>A list of posted numbers; None is the \<open>ValueError\<close> of one of them.\<close>

fun parse_all :: "pystr list \<Rightarrow> int list option" where
  "parse_all [] = Some []"
| "parse_all (t # ts) = (case py_int t of None \<Rightarrow> None | Some n \<Rightarrow> map_option (Cons n) (parse_all ts))"

definition notify_user :: "notice \<Rightarrow> view_state \<Rightarrow> view_state" where
  "notify_user n s = s\<lparr>vs_notices := vs_notices s @ [n]\<rparr>"

definition act_on_target :: "target_effect list \<Rightarrow> view_state \<Rightarrow> view_state" where
  "act_on_target eff s = s\<lparr>vs_effects := vs_effects s @ eff\<rparr>"

definition forget_cached :: "pystr \<Rightarrow> view_state \<Rightarrow> view_state" where
  "forget_cached key s = s\<lparr>vs_uncached := vs_uncached s @ [key]\<rparr>"

definition activity_key :: "rds_instance \<Rightarrow> pystr" where
  "activity_key i = lit ''activity:'' @ str_int (inst_pk i)"

definition slots_key :: "rds_instance \<Rightarrow> pystr" where
  "slots_key i = lit ''repslots:'' @ str_int (inst_pk i)"

section \<open>Guards\<close>

text \<open>\<open>login_required\<close>, alone and before \<open>require_POST\<close>.\<close>

definition signed_in :: "(user \<Rightarrow> view) \<Rightarrow> view" where
  "signed_in h s = (case request_user (vs_db s) (vs_session s) of None \<Rightarrow> (Login_page, s) | Some u \<Rightarrow> h u s)"

definition posted :: "bool \<Rightarrow> view \<Rightarrow> view" where
  "posted is_post h s = (if is_post then h s else (Method_not_allowed, s))"

definition permit :: "bool \<Rightarrow> view \<Rightarrow> view" where
  "permit ok h s = (if ok then h s else (Forbidden, s))"

definition for_instance :: "int \<Rightarrow> (rds_instance \<Rightarrow> view) \<Rightarrow> view" where
  "for_instance pk h s = (case find_instance (vs_db s) pk of None \<Rightarrow> (Not_found, s) | Some i \<Rightarrow> h i s)"

definition is_administrator :: "user \<Rightarrow> bool" where
  "is_administrator u \<longleftrightarrow> user_is_active u \<and> user_is_staff u \<and> user_is_superuser u"

definition instance_access :: "app_db \<Rightarrow> user \<Rightarrow> rds_instance \<Rightarrow> bool \<Rightarrow> bool" where
  "instance_access d u i write \<longleftrightarrow> can_view_instance d (Some u) i \<and> (write \<longrightarrow> can_operate_instance d (Some u) i)"

section \<open>Audit and attribution\<close>

definition audit_row ::
  "rds_instance option \<Rightarrow> audit_action \<Rightarrow> user \<Rightarrow> int option \<Rightarrow> pystr \<Rightarrow> audit_result \<Rightarrow> pystr \<Rightarrow> audit_log" where
  "audit_row inst action u pid query result detail =
     \<lparr>au_instance = map_option inst_pk inst, au_instance_name = (case inst of None \<Rightarrow> [] | Some i \<Rightarrow> inst_name i),
      au_action = action, au_target_pid = pid, au_target_query = query, au_performed_by = Some (user_pk u),
      au_result = result, au_detail = detail\<rparr>"

text \<open>A database error while writing the audit row is logged and otherwise ignored.\<close>

definition log_audit :: "('v, 'z) view_env_scheme \<Rightarrow> audit_log \<Rightarrow> view_state \<Rightarrow> view_state" where
  "log_audit E row s =
     (if ve_audit_ok E then s\<lparr>vs_db := (vs_db s)\<lparr>audit_logs := audit_logs (vs_db s) @ [row]\<rparr>\<rparr> else s)"

definition mark_manual_kill :: "rds_instance \<Rightarrow> int list \<Rightarrow> user \<Rightarrow> app_db \<Rightarrow> app_db" where
  "mark_manual_kill i pids u d =
     (if pids = [] then d
      else d\<lparr>lock_alerts := update_rows
         (\<lambda>a. la_instance a = inst_pk i \<and> la_resolved_at a = None
            \<and> (la_blocked_pid a \<in> set pids \<or> la_blocking_pid a \<in> set pids))
         (\<lambda>a. a\<lparr>la_clear_reason := Manual_kill, la_cleared_by := user_username u\<rparr>) (lock_alerts d)\<rparr>)"

definition safe_mark_manual_kill :: "('v, 'z) view_env_scheme \<Rightarrow> rds_instance \<Rightarrow> int list \<Rightarrow> user \<Rightarrow> view_state \<Rightarrow> view_state" where
  "safe_mark_manual_kill E i pids u s =
     (if ve_mark_ok E then s\<lparr>vs_db := mark_manual_kill i pids u (vs_db s)\<rparr> else s)"

definition fmt_pids :: "int list \<Rightarrow> pystr" where
  "fmt_pids pids = 91 # join_with (lit '', '') (map str_int pids) @ [93]"

section \<open>The MFA check\<close>

text \<open>
  \<open>_require_action_mfa\<close>: None is an exception; otherwise whether the action may go on. A refusal is
  audited.
\<close>

definition require_action_mfa ::
  "('v, 'z) view_env_scheme \<Rightarrow> user \<Rightarrow> form \<Rightarrow> rds_instance \<Rightarrow> audit_action \<Rightarrow> pystr \<Rightarrow> bool \<Rightarrow> view_state \<Rightarrow>
   (bool \<times> view_state) option" where
  "require_action_mfa E u p i action detail require_code s =
     (case require_mfa_for_action (ve_mfa E) (ve_now E) u (form_text p ''mfa_code'' '''') require_code
             (vs_session s) (vs_db s) of
        None \<Rightarrow> None
      | Some (True, ss, d) \<Rightarrow> Some (True, s\<lparr>vs_session := ss, vs_db := d\<rparr>)
      | Some (False, ss, d) \<Rightarrow>
          Some (False, notify_user Notice_error
            (log_audit E (audit_row (Some i) action u None [] Failed
               (lit ''MFA verification required'' @ (if detail = [] then [] else lit '': '' @ detail)))
             (s\<lparr>vs_session := ss, vs_db := d\<rparr>))))"

definition with_mfa ::
  "('v, 'z) view_env_scheme \<Rightarrow> user \<Rightarrow> form \<Rightarrow> rds_instance \<Rightarrow> audit_action \<Rightarrow> pystr \<Rightarrow> response \<Rightarrow> view \<Rightarrow> view" where
  "with_mfa E u p i action detail refused h s =
     (case require_action_mfa E u p i action detail True s of
        None \<Rightarrow> (Server_error, s)
      | Some (False, s') \<Rightarrow> (refused, s')
      | Some (True, s') \<Rightarrow> h s')"

section \<open>Facts\<close>

lemma request_user_active: "request_user d s = Some u \<Longrightarrow> user_is_active u"
  by (auto simp: request_user_def split: option.splits if_splits)

lemma request_user_cong:
  "users d = users d' \<Longrightarrow> ss_user s = ss_user s' \<Longrightarrow> request_user d s = request_user d' s'"
  by (simp only: request_user_def find_user_def)

lemma find_instance_cong: "instances d = instances d' \<Longrightarrow> find_instance d pk = find_instance d' pk"
  by (simp only: find_instance_def)

lemma state_simps [simp]:
  "vs_effects (notify_user n s) = vs_effects s" "vs_db (notify_user n s) = vs_db s"
  "vs_session (notify_user n s) = vs_session s"
  "vs_effects (forget_cached k s) = vs_effects s" "vs_db (forget_cached k s) = vs_db s"
  "vs_session (forget_cached k s) = vs_session s"
  "vs_effects (log_audit E row s) = vs_effects s" "vs_session (log_audit E row s) = vs_session s"
  "vs_effects (safe_mark_manual_kill E i pids u s) = vs_effects s"
  "vs_session (safe_mark_manual_kill E i pids u s) = vs_session s"
  "vs_effects (act_on_target eff s) = vs_effects s @ eff" "vs_db (act_on_target eff s) = vs_db s"
  "vs_session (act_on_target eff s) = vs_session s"
  by (simp_all add: notify_user_def forget_cached_def log_audit_def safe_mark_manual_kill_def act_on_target_def)

text \<open>The tables that decide who may do what: everything but the audit log, incidents and MFA profiles.\<close>

definition control_tables :: "app_db \<Rightarrow> app_db" where
  "control_tables d = d\<lparr>audit_logs := [], lock_alerts := [], mfa_profiles := []\<rparr>"

lemma control_tables_log [simp]: "control_tables (vs_db (log_audit E row s)) = control_tables (vs_db s)"
  by (simp add: log_audit_def control_tables_def)

lemma control_tables_mark [simp]:
  "control_tables (vs_db (safe_mark_manual_kill E i pids u s)) = control_tables (vs_db s)"
  by (simp add: safe_mark_manual_kill_def mark_manual_kill_def control_tables_def)

lemma control_tables_mfa [simp]: "control_tables (save_mfa q d) = control_tables d"
  by (simp add: save_mfa_def control_tables_def split: option.split)

lemma control_tables_inst:
  "control_tables d = control_tables d' \<Longrightarrow> instances d = instances d' \<and> users d = users d'
     \<and> access_grants d = access_grants d' \<and> access_scopes d = access_scopes d' \<and> slot_access d = slot_access d'
     \<and> query_runner_grants d = query_runner_grants d' \<and> query_runner_executions d = query_runner_executions d'
     \<and> settings_row d = settings_row d' \<and> next_pk d = next_pk d' \<and> long_query_alerts d = long_query_alerts d'
     \<and> notification_states d = notification_states d'"
  by (cases d; cases d') (simp add: control_tables_def)

text \<open>The outcomes of the MFA check.\<close>

lemma require_action_mfa_cases:
  assumes "require_action_mfa E u p i action detail True s = Some (ok, s')"
  shows "ok = (profile_enabled (vs_db s) (user_pk u)
        \<and> py_strip (form_text p ''mfa_code'' '''') \<noteq> []
        \<and> code_accepted (ve_mfa E) (ve_now E) (vs_db s) (user_pk u) (py_strip (form_text p ''mfa_code'' '''')))
    \<and> vs_effects s' = vs_effects s \<and> control_tables (vs_db s') = control_tables (vs_db s)
    \<and> lock_alerts (vs_db s') = lock_alerts (vs_db s) \<and> vs_uncached s' = vs_uncached s
    \<and> (ok \<longrightarrow> audit_logs (vs_db s') = audit_logs (vs_db s))"
proof (cases "find_mfa (vs_db s) (user_pk u)")
  case None
  then show ?thesis
    using assms by (auto simp: require_action_mfa_def require_mfa_for_action_def profile_enabled_def log_audit_def
        notify_user_def control_tables_def)
next
  case (Some q)
  let ?code = "py_strip (form_text p ''mfa_code'' '''')"
  show ?thesis
  proof (cases "mfa_enabled q \<and> ?code \<noteq> []")
    case False
    then show ?thesis using assms Some
      by (auto simp: require_action_mfa_def require_mfa_for_action_def profile_enabled_def log_audit_def
          notify_user_def control_tables_def Let_def split: if_splits)
  next
    case True
    then obtain b q' where v: "verify_code (ve_mfa E) (ve_now E) q ?code True = Some (b, q')"
      using assms Some
      by (auto simp: require_action_mfa_def require_mfa_for_action_def Let_def split: option.splits)
    have "lock_alerts (save_mfa q' d) = lock_alerts d" "audit_logs (save_mfa q' d) = audit_logs d" for d
      by (simp_all add: save_mfa_def split: option.split)
    then show ?thesis using assms Some True v
      by (cases b) (auto simp: require_action_mfa_def require_mfa_for_action_def Let_def profile_enabled_def
          code_accepted_def log_audit_def notify_user_def control_tables_def save_mfa_def split: option.splits)
  qed
qed

section \<open>Walking through the guards\<close>

lemma signed_inE:
  assumes "signed_in h s = (r, s')"
  obtains (refused) "s' = s" | (user) u where "request_user (vs_db s) (vs_session s) = Some u" "h u s = (r, s')"
  using assms by (auto simp: signed_in_def split: option.splits)

lemma postedE:
  assumes "posted b h s = (r, s')"
  obtains (refused) "s' = s" | (post) "b" "h s = (r, s')"
  using assms by (auto simp: posted_def split: if_splits)

lemma permitE:
  assumes "permit ok h s = (r, s')"
  obtains (refused) "s' = s" | (granted) "ok" "h s = (r, s')"
  using assms by (auto simp: permit_def split: if_splits)

lemma for_instanceE:
  assumes "for_instance pk h s = (r, s')"
  obtains (refused) "s' = s" | (found) i where "find_instance (vs_db s) pk = Some i" "h i s = (r, s')"
  using assms by (auto simp: for_instance_def split: option.splits)

definition fresh_code :: "('v, 'z) view_env_scheme \<Rightarrow> app_db \<Rightarrow> user \<Rightarrow> form \<Rightarrow> bool" where
  "fresh_code E d u p \<longleftrightarrow> profile_enabled d (user_pk u) \<and> py_strip (form_text p ''mfa_code'' '''') \<noteq> []
     \<and> code_accepted (ve_mfa E) (ve_now E) d (user_pk u) (py_strip (form_text p ''mfa_code'' ''''))"

lemma with_mfaE:
  assumes "with_mfa E u p i action detail refused h s = (r, s')"
  obtains (refused) "vs_effects s' = vs_effects s" "control_tables (vs_db s') = control_tables (vs_db s)"
      "lock_alerts (vs_db s') = lock_alerts (vs_db s)"
    | (accepted) s1 where "fresh_code E (vs_db s) u p" "h s1 = (r, s')" "vs_effects s1 = vs_effects s"
      "control_tables (vs_db s1) = control_tables (vs_db s)" "lock_alerts (vs_db s1) = lock_alerts (vs_db s)"
      "audit_logs (vs_db s1) = audit_logs (vs_db s)"
proof (cases "require_action_mfa E u p i action detail True s")
  case None
  then show ?thesis using assms refused by (simp add: with_mfa_def)
next
  case (Some os)
  obtain ok s1 where os: "os = (ok, s1)" by (cases os)
  note c = require_action_mfa_cases [OF Some [unfolded os]]
  show ?thesis
  proof (cases ok)
    case True
    then show ?thesis using accepted [of s1] assms Some os c by (simp add: with_mfa_def fresh_code_def)
  next
    case False
    then have "s' = s1" using assms Some os by (simp add: with_mfa_def)
    then show ?thesis using refused c by blast
  qed
qed

section \<open>Requests in a row\<close>

text \<open>Requests one after another, each with a session of its own, and what may change some part of the state.\<close>

fun serve :: "('r \<Rightarrow> view) \<Rightarrow> (session \<times> 'r) list \<Rightarrow> view_state \<Rightarrow> view_state" where
  "serve handle [] s = s"
| "serve handle ((ss, r) # rs) s = serve handle rs (snd (handle r (s\<lparr>vs_session := ss\<rparr>)))"

locale guarded_view =
  fixes handle :: "'r \<Rightarrow> view"
    and may :: "view_state \<Rightarrow> 'r \<Rightarrow> bool"
    and guarded :: "view_state \<Rightarrow> 'p"
  assumes refused: "\<not> may s r \<Longrightarrow> handle r s = (a, s') \<Longrightarrow> guarded s' = guarded s"
    and session_free: "guarded (s\<lparr>vs_session := ss\<rparr>) = guarded s"
begin

lemma refused_serve:
  "\<forall>as ss r bs. rs = as @ (ss, r) # bs \<longrightarrow> \<not> may ((serve handle as s)\<lparr>vs_session := ss\<rparr>) r \<Longrightarrow>
   guarded (serve handle rs s) = guarded s"
proof (induction rs arbitrary: s)
  case Nil
  then show ?case by simp
next
  case (Cons q rs)
  obtain ss r where q: "q = (ss, r)" by (cases q)
  obtain a s1 where h: "handle r (s\<lparr>vs_session := ss\<rparr>) = (a, s1)" by (cases "handle r (s\<lparr>vs_session := ss\<rparr>)")
  have "\<not> may (s\<lparr>vs_session := ss\<rparr>) r" using Cons.prems [rule_format, of "[]" ss r rs] q by simp
  then have "guarded s1 = guarded s" using refused [OF _ h] session_free by simp
  moreover have "guarded (serve handle rs s1) = guarded s1"
  proof (rule Cons.IH, intro allI impI)
    fix as ss' r' bs
    assume "rs = as @ (ss', r') # bs"
    then show "\<not> may ((serve handle as s1)\<lparr>vs_session := ss'\<rparr>) r'"
      using Cons.prems [rule_format, of "q # as" ss' r' bs] q h by simp
  qed
  ultimately show ?case using q h by simp
qed

lemma change_was_permitted:
  assumes "guarded (serve handle rs s) \<noteq> guarded s"
  shows "\<exists>as ss r bs. rs = as @ (ss, r) # bs \<and> may ((serve handle as s)\<lparr>vs_session := ss\<rparr>) r"
  using refused_serve [of rs s] assms by blast

end

end
