(* ===== verification/Query_Runner.thy ===== *)
theory Query_Runner
  imports Requests
begin

text \<open>
  The query runner of \<open>monitor/views.py\<close>: previewing, committing and discarding a statement. The
  views also work on the target's data, of any type. A commit reads the pending execution first
  and runs the statement later, which matters when requests overlap.
\<close>

section \<open>Executions\<close>

definition new_execution :: "int \<Rightarrow> rds_instance \<Rightarrow> user \<Rightarrow> pystr \<Rightarrow> int \<Rightarrow> query_runner_execution" where
  "new_execution n i u statement rows = \<lparr>ex_pk = n, ex_instance = inst_pk i, ex_user = Some (user_pk u),
     ex_sql = statement, ex_status = Pending, ex_rows_affected = Some rows, ex_error = [], ex_resolved_at = None\<rparr>"

definition add_execution :: "query_runner_execution \<Rightarrow> app_db \<Rightarrow> app_db" where
  "add_execution ex d = d\<lparr>query_runner_executions := query_runner_executions d @ [ex], next_pk := next_pk d + 1\<rparr>"

definition update_execution :: "int \<Rightarrow> (query_runner_execution \<Rightarrow> query_runner_execution) \<Rightarrow> app_db \<Rightarrow> app_db" where
  "update_execution n f d = d\<lparr>query_runner_executions :=
     update_rows (\<lambda>x. ex_pk x = n) f (query_runner_executions d)\<rparr>"

definition run_audit :: "rds_instance \<Rightarrow> user \<Rightarrow> pystr \<Rightarrow> audit_result \<Rightarrow> pystr \<Rightarrow> audit_log" where
  "run_audit i u query result detail = audit_row (Some i) Run_query u None query result detail"

definition may_run :: "app_db \<Rightarrow> user \<Rightarrow> rds_instance \<Rightarrow> bool" where
  "may_run d u i \<longleftrightarrow> instance_access d u i False \<and> can_run_queries d (Some u) i"

section \<open>Preview\<close>

definition do_preview ::
  "('v, 'z) view_env_scheme \<Rightarrow> 'd runner \<Rightarrow> rds_instance \<Rightarrow> user \<Rightarrow> pystr \<Rightarrow> view_state \<Rightarrow> 'd \<Rightarrow>
   response \<times> view_state \<times> 'd" where
  "do_preview E R i u sql s d =
     (case preview_write_query R i sql d of
        (Inr (statement, n), d1) \<Rightarrow>
          let ex = new_execution (next_pk (vs_db s)) i u statement n in
          (Detail_page (inst_pk i), notify_user Notice_success
             (log_audit E (run_audit i u statement Success
                (lit ''[preview] rows_affected='' @ str_int n @ lit '' execution_id='' @ str_int (ex_pk ex)))
               (s\<lparr>vs_db := add_execution ex (vs_db s)\<rparr>)), d1)
      | (Inl (Validation_err e), d1) \<Rightarrow> (Detail_page (inst_pk i), notify_user Notice_error s, d1)
      | (Inl (Conn_err e), d1) \<Rightarrow>
          (Detail_page (inst_pk i), notify_user Notice_error
             (log_audit E (run_audit i u (take 2000 sql) Failed (lit ''[preview] '' @ e)) s), d1)
      | (Inl Other_exc, d1) \<Rightarrow> (Server_error, s, d1))"

definition preview_query ::
  "('v, 'z) view_env_scheme \<Rightarrow> 'd runner \<Rightarrow> int \<Rightarrow> form \<Rightarrow> view_state \<Rightarrow> 'd \<Rightarrow> response \<times> view_state \<times> 'd" where
  "preview_query E R pk p s d =
     (case request_user (vs_db s) (vs_session s) of
        None \<Rightarrow> (Login_page, s, d)
      | Some u \<Rightarrow>
          (case find_instance (vs_db s) pk of
             None \<Rightarrow> (Not_found, s, d)
           | Some i \<Rightarrow>
               if \<not> may_run (vs_db s) u i then (Forbidden, s, d)
               else let sql = form_text p ''sql'' '''' in
                 (case require_action_mfa E u p i Run_query (lit ''[preview] '' @ take 200 sql) True s of
                    None \<Rightarrow> (Server_error, s, d)
                  | Some (False, s1) \<Rightarrow> (Detail_page (inst_pk i), s1, d)
                  | Some (True, s1) \<Rightarrow> do_preview E R i u sql s1 d)))"

section \<open>Commit and discard\<close>

text \<open>\<open>_get_own_pending_execution\<close>.\<close>

definition own_pending_execution :: "app_db \<Rightarrow> user \<Rightarrow> rds_instance \<Rightarrow> int \<Rightarrow> response + query_runner_execution" where
  "own_pending_execution d u i n =
     (case first_row (\<lambda>x. ex_pk x = n \<and> ex_instance x = inst_pk i \<and> ex_status x = Pending) (query_runner_executions d) of
        None \<Rightarrow> Inl Not_found
      | Some ex \<Rightarrow> if ex_user ex \<noteq> Some (user_pk u) \<and> \<not> user_is_superuser u then Inl Forbidden else Inr ex)"

definition run_rights :: "int \<Rightarrow> int \<Rightarrow> view_state \<Rightarrow> response + user \<times> rds_instance \<times> query_runner_execution" where
  "run_rights pk n s =
     (case request_user (vs_db s) (vs_session s) of
        None \<Rightarrow> Inl Login_page
      | Some u \<Rightarrow>
          (case find_instance (vs_db s) pk of
             None \<Rightarrow> Inl Not_found
           | Some i \<Rightarrow>
               if \<not> may_run (vs_db s) u i then Inl Forbidden
               else (case own_pending_execution (vs_db s) u i n of Inl r \<Rightarrow> Inl r | Inr ex \<Rightarrow> Inr (u, i, ex))))"

text \<open>The part of \<open>commit_query\<close> before the statement runs, and the rest.\<close>

definition commit_start ::
  "('v, 'z) view_env_scheme \<Rightarrow> int \<Rightarrow> int \<Rightarrow> form \<Rightarrow> view_state \<Rightarrow>
   (response + user \<times> rds_instance \<times> query_runner_execution) \<times> view_state" where
  "commit_start E pk n p s =
     (case run_rights pk n s of
        Inl r \<Rightarrow> (Inl r, s)
      | Inr (u, i, ex) \<Rightarrow>
          (case require_action_mfa E u p i Run_query (lit ''[commit] execution_id='' @ str_int n) True s of
             None \<Rightarrow> (Inl Server_error, s)
           | Some (False, s1) \<Rightarrow> (Inl (Detail_page (inst_pk i)), s1)
           | Some (True, s1) \<Rightarrow> (Inr (u, i, ex), s1)))"

definition commit_finish ::
  "('v, 'z) view_env_scheme \<Rightarrow> 'd runner \<Rightarrow> user \<Rightarrow> rds_instance \<Rightarrow> query_runner_execution \<Rightarrow> view_state \<Rightarrow> 'd \<Rightarrow>
   response \<times> view_state \<times> 'd" where
  "commit_finish E R u i ex s d =
     (case commit_write_query R i (ex_sql ex) d of
        (Inr n, d1) \<Rightarrow>
          (Detail_page (inst_pk i), forget_cached (activity_key i) (notify_user Notice_success
             (log_audit E (run_audit i u (ex_sql ex) Success
                (lit ''[commit] rows_affected='' @ str_int n @ lit '' execution_id='' @ str_int (ex_pk ex)))
               (s\<lparr>vs_db := update_execution (ex_pk ex) (\<lambda>x. x\<lparr>ex_status := Committed, ex_rows_affected := Some n,
                   ex_resolved_at := Some (ve_now E)\<rparr>) (vs_db s)\<rparr>))), d1)
      | (Inl (Conn_err e), d1) \<Rightarrow>
          (Detail_page (inst_pk i), notify_user Notice_error
             (log_audit E (run_audit i u (ex_sql ex) Failed (lit ''[commit] '' @ e))
               (s\<lparr>vs_db := update_execution (ex_pk ex) (\<lambda>x. x\<lparr>ex_status := Failed_status, ex_error := e,
                   ex_resolved_at := Some (ve_now E)\<rparr>) (vs_db s)\<rparr>)), d1)
      | (Inl _, d1) \<Rightarrow> (Server_error, s, d1))"

definition commit_query ::
  "('v, 'z) view_env_scheme \<Rightarrow> 'd runner \<Rightarrow> int \<Rightarrow> int \<Rightarrow> form \<Rightarrow> view_state \<Rightarrow> 'd \<Rightarrow> response \<times> view_state \<times> 'd" where
  "commit_query E R pk n p s d =
     (case commit_start E pk n p s of
        (Inl r, s1) \<Rightarrow> (r, s1, d)
      | (Inr (u, i, ex), s1) \<Rightarrow> commit_finish E R u i ex s1 d)"

definition discard_query :: "('v, 'z) view_env_scheme \<Rightarrow> int \<Rightarrow> int \<Rightarrow> view_state \<Rightarrow> response \<times> view_state" where
  "discard_query E pk n s =
     (case run_rights pk n s of
        Inl r \<Rightarrow> (r, s)
      | Inr (u, i, ex) \<Rightarrow>
          (Detail_page (inst_pk i), notify_user Notice_success
             (log_audit E (run_audit i u (ex_sql ex) Success (lit ''[discard] execution_id='' @ str_int n))
               (s\<lparr>vs_db := update_execution n (\<lambda>x. x\<lparr>ex_status := Discarded, ex_resolved_at := Some (ve_now E)\<rparr>)
                  (vs_db s)\<rparr>))))"

section \<open>Requests one after another and overlapping\<close>

text \<open>
  The states the three routes reach from a database without executions, whoever sends what, with
  the executions whose statement the target has run, in order. \<open>flying\<close> holds the commits that have
  passed their checks and have not run their statement yet; \<open>overlap\<close> says whether other requests
  may be served meanwhile. The views of the query runner do not read a target's catalog, so the
  type of its vitals does not matter. Other parts of the database may change between requests as long as the
  executions stay.
\<close>

definition same_executions :: "view_state \<Rightarrow> view_state \<Rightarrow> bool" where
  "same_executions s s' \<longleftrightarrow> query_runner_executions (vs_db s') = query_runner_executions (vs_db s)
     \<and> next_pk (vs_db s) \<le> next_pk (vs_db s')"

type_synonym flying = "(user \<times> rds_instance \<times> query_runner_execution) list"

inductive runner_run :: "bool \<Rightarrow> view_state \<Rightarrow> 'd \<Rightarrow> int list \<Rightarrow> flying \<Rightarrow> bool" for overlap where
  start: "query_runner_executions (vs_db s) = [] \<Longrightarrow> runner_run overlap s d [] []"
| other: "runner_run overlap s d runs fl \<Longrightarrow> same_executions s s' \<Longrightarrow> runner_run overlap s' d' runs fl"
| preview: "runner_run overlap s d runs fl \<Longrightarrow> overlap \<or> fl = [] \<Longrightarrow>
    preview_query (E :: unit view_env) R pk p s d = (r, s', d') \<Longrightarrow>
    runner_run overlap s' d' runs fl"
| discard: "runner_run overlap s d runs fl \<Longrightarrow> overlap \<or> fl = [] \<Longrightarrow>
    discard_query (E :: unit view_env) pk n s = (r, s') \<Longrightarrow>
    runner_run overlap s' d runs fl"
| refused: "runner_run overlap s d runs fl \<Longrightarrow> overlap \<or> fl = [] \<Longrightarrow>
    commit_start (E :: unit view_env) pk n p s = (Inl r, s') \<Longrightarrow>
    runner_run overlap s' d runs fl"
| begin_commit: "runner_run overlap s d runs fl \<Longrightarrow> overlap \<or> fl = [] \<Longrightarrow>
    commit_start (E :: unit view_env) pk n p s = (Inr c, s') \<Longrightarrow>
    runner_run overlap s' d runs (fl @ [c])"
| end_commit: "runner_run overlap s d runs (as @ (u, i, ex) # bs) \<Longrightarrow> commit_finish (E :: unit view_env) R u i ex s d = (r, s', d') \<Longrightarrow>
    runner_run overlap s' d' (if isl (fst (commit_write_query R i (ex_sql ex) d)) then runs else runs @ [ex_pk ex])
      (as @ bs)"

section \<open>Facts\<close>

lemma require_mfa_executions:
  assumes "require_action_mfa E u p i action detail True s = Some (ok, s')"
  shows "query_runner_executions (vs_db s') = query_runner_executions (vs_db s) \<and> next_pk (vs_db s') = next_pk (vs_db s)"
  using require_action_mfa_cases [OF assms] control_tables_inst by blast+

lemma executions_log [simp]:
  "query_runner_executions (vs_db (log_audit E row s)) = query_runner_executions (vs_db s)"
  "next_pk (vs_db (log_audit E row s)) = next_pk (vs_db s)"
  by (simp_all add: log_audit_def)

text \<open>What each route does to the executions.\<close>

lemma preview_executions:
  assumes "preview_query E R pk p s d = (r, s', d')"
  shows "same_executions s s' \<or> (\<exists>i u st n.
      query_runner_executions (vs_db s') = query_runner_executions (vs_db s) @ [new_execution (next_pk (vs_db s)) i u st n]
      \<and> next_pk (vs_db s') = next_pk (vs_db s) + 1)"
proof -
  have do: "same_executions s1 s2 \<or> (\<exists>i u st n.
      query_runner_executions (vs_db s2) = query_runner_executions (vs_db s1) @ [new_execution (next_pk (vs_db s1)) i u st n]
      \<and> next_pk (vs_db s2) = next_pk (vs_db s1) + 1)" if "do_preview E R i u sql s1 d = (r, s2, d')" for i u sql s1 s2
    using that by (auto simp: do_preview_def same_executions_def add_execution_def Let_def
        split: prod.splits sum.splits target_exc.splits) blast
  consider (same) "same_executions s s'"
    | (run) i u sql s1 where "do_preview E R i u sql s1 d = (r, s', d')"
        "query_runner_executions (vs_db s1) = query_runner_executions (vs_db s)" "next_pk (vs_db s1) = next_pk (vs_db s)"
    using assms
    by (auto simp: preview_query_def Let_def same_executions_def dest: require_mfa_executions
        split: option.splits if_splits bool.splits prod.splits)
  then show ?thesis
  proof cases
    case run
    from do [OF run(1)] show ?thesis unfolding same_executions_def run(2,3) by blast
  qed blast
qed

lemma commit_start_executions:
  assumes "commit_start E pk n p s = (c, s')"
  shows "same_executions s s'"
    and "c = Inr (u, i, ex) \<Longrightarrow> ex \<in> set (query_runner_executions (vs_db s')) \<and> ex_status ex = Pending \<and> ex_pk ex = n"
proof -
  show same: "same_executions s s'"
    using assms require_mfa_executions
    by (fastforce simp: commit_start_def same_executions_def split: sum.splits option.splits prod.splits bool.splits)
  show "ex \<in> set (query_runner_executions (vs_db s')) \<and> ex_status ex = Pending \<and> ex_pk ex = n" if "c = Inr (u, i, ex)"
  proof -
    have "run_rights pk n s = Inr (u, i, ex)"
      using assms that by (auto simp: commit_start_def split: sum.splits option.splits prod.splits bool.splits)
    then have "ex \<in> set (query_runner_executions (vs_db s)) \<and> ex_status ex = Pending \<and> ex_pk ex = n"
      by (auto simp: run_rights_def own_pending_execution_def dest: first_row_Some split: option.splits if_splits sum.splits)
    then show ?thesis using same by (simp add: same_executions_def)
  qed
qed

lemma discard_executions:
  assumes "discard_query E pk n s = (r, s')"
  shows "same_executions s s' \<or> (next_pk (vs_db s') = next_pk (vs_db s) \<and>
     (\<exists>ex \<in> set (query_runner_executions (vs_db s)). ex_pk ex = n \<and> ex_status ex = Pending) \<and>
     query_runner_executions (vs_db s') = update_rows (\<lambda>x. ex_pk x = n)
       (\<lambda>x. x\<lparr>ex_status := Discarded, ex_resolved_at := Some (ve_now E)\<rparr>) (query_runner_executions (vs_db s)))"
proof (cases "run_rights pk n s")
  case (Inl r')
  then show ?thesis using assms by (simp add: discard_query_def same_executions_def)
next
  case (Inr c)
  obtain u i ex where c: "c = (u, i, ex)" by (cases c)
  then have "ex \<in> set (query_runner_executions (vs_db s)) \<and> ex_status ex = Pending \<and> ex_pk ex = n"
    using Inr by (auto simp: run_rights_def own_pending_execution_def dest: first_row_Some split: option.splits if_splits sum.splits)
  moreover have "query_runner_executions (vs_db s') = update_rows (\<lambda>x. ex_pk x = n)
       (\<lambda>x. x\<lparr>ex_status := Discarded, ex_resolved_at := Some (ve_now E)\<rparr>) (query_runner_executions (vs_db s))"
    "next_pk (vs_db s') = next_pk (vs_db s)"
    using assms Inr c by (auto simp: discard_query_def update_execution_def)
  ultimately show ?thesis by blast
qed

lemma commit_finish_executions:
  assumes "commit_finish E R u i ex s d = (r, s', d')"
  shows "next_pk (vs_db s') = next_pk (vs_db s) \<and>
    (if isl (fst (commit_write_query R i (ex_sql ex) d))
     then same_executions s s' \<or> (\<exists>e. query_runner_executions (vs_db s') = update_rows (\<lambda>x. ex_pk x = ex_pk ex)
       (\<lambda>x. x\<lparr>ex_status := Failed_status, ex_error := e, ex_resolved_at := Some (ve_now E)\<rparr>) (query_runner_executions (vs_db s)))
     else \<exists>n. query_runner_executions (vs_db s') = update_rows (\<lambda>x. ex_pk x = ex_pk ex)
       (\<lambda>x. x\<lparr>ex_status := Committed, ex_rows_affected := Some n, ex_resolved_at := Some (ve_now E)\<rparr>)
       (query_runner_executions (vs_db s)))"
  using assms
  by (auto simp: commit_finish_def update_execution_def same_executions_def
      split: prod.splits sum.splits target_exc.splits)

end
