(* ===== verification/Kills.thy ===== *)
theory Kills
  imports Requests
begin

text \<open>
  The views of \<open>monitor/views.py\<close> that act on a target: the single and bulk kills, with their
  lock-only variants, and the two replication-slot actions.
\<close>

section \<open>Terminating sessions\<close>

definition current_lock_pids :: "('v, 'z) server_scheme \<Rightarrow> rds_instance \<Rightarrow> target_exc + int list" where
  "current_lock_pids V i =
     (case fetch_activity V i of
        Inl e \<Rightarrow> Inl e
      | Inr (activity, blocking) \<Rightarrow>
          Inr (concat (map (\<lambda>r. (case br_blocked_pid r of None \<Rightarrow> [] | Some p \<Rightarrow> [p])
                              @ (case br_blocking_pid r of None \<Rightarrow> [] | Some p \<Rightarrow> [p])) blocking)))"

text \<open>
  A refused lock check and an unreachable target both go back to the page with a message; another
  exception is not caught.
\<close>

definition with_lock_check :: "('v, 'z) view_env_scheme \<Rightarrow> rds_instance \<Rightarrow> int list \<Rightarrow> view \<Rightarrow> view" where
  "with_lock_check E i pids h s =
     (case current_lock_pids (ve_server E 0) i of
        Inl (Conn_err e) \<Rightarrow> (Detail_page (inst_pk i), notify_user Notice_error s)
      | Inl _ \<Rightarrow> (Server_error, s)
      | Inr locked \<Rightarrow>
          if set pids \<subseteq> set locked then h s else (Detail_page (inst_pk i), notify_user Notice_error s))"

definition parse_pid :: "form \<Rightarrow> int option" where
  "parse_pid p = (case form_get p (lit ''pid'') of None \<Rightarrow> None | Some t \<Rightarrow> py_int t)"

definition slot_terminate_right :: "user \<Rightarrow> view_state \<Rightarrow> bool" where
  "slot_terminate_right u s = can_manage_replication_slot (vs_db s) (Some u) (lit ''terminate'')"

definition do_kill_session :: "('v, 'z) view_env_scheme \<Rightarrow> user \<Rightarrow> rds_instance \<Rightarrow> int \<Rightarrow> pystr \<Rightarrow> view" where
  "do_kill_session E u i pid snapshot s0 =
     (let (r, eff) = kill_pid (ve_server E 1) i pid (slot_terminate_right u s0);
          s = act_on_target eff s0;
          audit = (\<lambda>result detail. audit_row (Some i) Kill_session u (Some pid) snapshot result detail);
          leave = (\<lambda>s. (Detail_page (inst_pk i), forget_cached (activity_key i) s))
      in case r of
           Inr True \<Rightarrow>
             leave (notify_user Notice_success
               (safe_mark_manual_kill E i [pid] u (log_audit E (audit Success []) s)))
         | Inr False \<Rightarrow>
             leave (notify_user Notice_warning
               (log_audit E (audit Failed (lit ''pid was not running or is a protected replication-slot backend'')) s))
         | Inl (Conn_err e) \<Rightarrow> leave (notify_user Notice_error (log_audit E (audit Failed e) s))
         | Inl _ \<Rightarrow> (Server_error, s))"

definition kill_session_impl :: "('v, 'z) view_env_scheme \<Rightarrow> bool \<Rightarrow> int \<Rightarrow> form \<Rightarrow> user \<Rightarrow> view" where
  "kill_session_impl E lock_only pk p u =
     for_instance pk (\<lambda>i. permit (user_is_staff u) (\<lambda>s. permit (instance_access (vs_db s) u i True) (\<lambda>s.
       case parse_pid p of
         None \<Rightarrow> (Detail_page (inst_pk i), notify_user Notice_error s)
       | Some pid \<Rightarrow>
           let go = do_kill_session E u i pid (form_text p ''query'' '''') in
           if lock_only then with_lock_check E i [pid] go s
           else with_mfa E u p i Kill_session (lit ''pid='' @ str_int pid) (Detail_page (inst_pk i)) go s) s))"

definition kill_session :: "('v, 'z) view_env_scheme \<Rightarrow> int \<Rightarrow> form \<Rightarrow> bool \<Rightarrow> view" where
  "kill_session E pk p is_post = signed_in (\<lambda>u. posted is_post (kill_session_impl E False pk p u))"

definition kill_lock_session :: "('v, 'z) view_env_scheme \<Rightarrow> int \<Rightarrow> form \<Rightarrow> bool \<Rightarrow> view" where
  "kill_lock_session E pk p is_post = signed_in (\<lambda>u. posted is_post (kill_session_impl E True pk p u))"

text \<open>
  The bulk kill: the audit row of a connection error is always filed under \<open>kill_chain\<close>.
\<close>

definition do_kill_chain ::
  "('v, 'z) view_env_scheme \<Rightarrow> user \<Rightarrow> rds_instance \<Rightarrow> int list \<Rightarrow> audit_action \<Rightarrow> pystr \<Rightarrow> view" where
  "do_kill_chain E u i pids action snapshot s0 =
     (let (r, eff) = kill_pids (ve_server E 1) i pids (slot_terminate_right u s0);
          s = act_on_target eff s0;
          leave = (\<lambda>s. (Detail_page (inst_pk i), forget_cached (activity_key i) s))
      in case r of
           Inr results \<Rightarrow>
             let terminated = map fst (filter snd results);
                 not_running = map fst (filter (\<lambda>x. \<not> snd x) results);
                 s1 = log_audit E (audit_row (Some i) action u None snapshot
                        (if terminated \<noteq> [] then Success else Failed)
                        (lit ''pids='' @ fmt_pids pids @ lit '' terminated='' @ fmt_pids terminated
                           @ lit '' not_running='' @ fmt_pids not_running)) s;
                 s2 = (if terminated \<noteq> [] then notify_user Notice_success (safe_mark_manual_kill E i terminated u s1) else s1)
             in leave (if not_running \<noteq> [] then notify_user Notice_warning s2 else s2)
         | Inl (Conn_err e) \<Rightarrow>
             leave (notify_user Notice_error (log_audit E (audit_row (Some i) Kill_chain u None snapshot Failed e) s))
         | Inl _ \<Rightarrow> (Server_error, s))"

definition kill_chain_impl :: "('v, 'z) view_env_scheme \<Rightarrow> bool \<Rightarrow> bool \<Rightarrow> int \<Rightarrow> form \<Rightarrow> user \<Rightarrow> view" where
  "kill_chain_impl E lock_only require_mfa pk p u =
     for_instance pk (\<lambda>i. permit (user_is_staff u) (\<lambda>s. permit (instance_access (vs_db s) u i True) (\<lambda>s.
       case parse_all (form_all p (lit ''pid'')) of
         None \<Rightarrow> (Detail_page (inst_pk i), notify_user Notice_error s)
       | Some [] \<Rightarrow> (Detail_page (inst_pk i), notify_user Notice_error s)
       | Some pids \<Rightarrow>
           let action = (if form_get p (lit ''mode'') = Some (lit ''chain'') then Kill_chain else Bulk_kill);
               go = do_kill_chain E u i pids action (form_text p ''query'' '''');
               checked = (if lock_only then with_lock_check E i pids go else go)
           in if require_mfa
              then with_mfa E u p i action (lit ''pids='' @ fmt_pids pids) (Detail_page (inst_pk i)) checked s
              else checked s) s))"

definition kill_chain :: "('v, 'z) view_env_scheme \<Rightarrow> int \<Rightarrow> form \<Rightarrow> bool \<Rightarrow> view" where
  "kill_chain E pk p is_post = signed_in (\<lambda>u. posted is_post (kill_chain_impl E False True pk p u))"

definition kill_lock_chain :: "('v, 'z) view_env_scheme \<Rightarrow> int \<Rightarrow> form \<Rightarrow> bool \<Rightarrow> view" where
  "kill_lock_chain E pk p is_post = signed_in (\<lambda>u. posted is_post (kill_chain_impl E True True pk p u))"

section \<open>Replication slots\<close>

definition do_kill_slot :: "('v, 'z) view_env_scheme \<Rightarrow> user \<Rightarrow> rds_instance \<Rightarrow> pystr \<Rightarrow> view" where
  "do_kill_slot E u i name s =
     (let (r, eff) = terminate_replication_slot_backend (ve_server E 0) i name;
          s1 = act_on_target eff s;
          audit = (\<lambda>result detail. audit_row (Some i) Kill_replication_slot u None [] result detail);
          leave = (\<lambda>s. (Detail_page (inst_pk i), forget_cached (slots_key i) s))
      in case r of
           Inr ok \<Rightarrow> leave (notify_user (if ok then Notice_success else Notice_warning)
             (log_audit E (audit (if ok then Success else Failed) name) s1))
         | Inl (Conn_err e) \<Rightarrow>
             leave (notify_user Notice_error (log_audit E (audit Failed (name @ lit '': '' @ e)) s1))
         | Inl _ \<Rightarrow> (Server_error, s1))"

definition kill_replication_slot_impl :: "('v, 'z) view_env_scheme \<Rightarrow> int \<Rightarrow> form \<Rightarrow> user \<Rightarrow> view" where
  "kill_replication_slot_impl E pk p u s0 =
     permit (can_manage_replication_slot (vs_db s0) (Some u) (lit ''terminate''))
       (for_instance pk (\<lambda>i s. permit (instance_access (vs_db s) u i True)
          (do_kill_slot E u i (form_text p ''slot_name'' '''')) s)) s0"

definition kill_replication_slot :: "('v, 'z) view_env_scheme \<Rightarrow> int \<Rightarrow> form \<Rightarrow> bool \<Rightarrow> view" where
  "kill_replication_slot E pk p is_post = signed_in (\<lambda>u. posted is_post (kill_replication_slot_impl E pk p u))"

definition do_drop_slot :: "('v, 'z) view_env_scheme \<Rightarrow> user \<Rightarrow> rds_instance \<Rightarrow> pystr \<Rightarrow> view" where
  "do_drop_slot E u i name s =
     (let (r, eff) = Terminate.drop_replication_slot (ve_server E 0) i name;
          s1 = act_on_target eff s;
          audit = (\<lambda>result detail. audit_row (Some i) Drop_replication_slot u None [] result detail);
          leave = (\<lambda>s. (Detail_page (inst_pk i), forget_cached (slots_key i) s))
      in case r of
           Inr (ok, err) \<Rightarrow> leave (notify_user (if ok then Notice_success else Notice_error)
             (log_audit E (audit (if ok then Success else Failed)
                (if ok then name else name @ lit '': '' @ (case err of None \<Rightarrow> lit ''None'' | Some e \<Rightarrow> e))) s1))
         | Inl (Conn_err e) \<Rightarrow>
             leave (notify_user Notice_error (log_audit E (audit Failed (name @ lit '': '' @ e)) s1))
         | Inl _ \<Rightarrow> (Server_error, s1))"

definition drop_slot_impl :: "('v, 'z) view_env_scheme \<Rightarrow> int \<Rightarrow> form \<Rightarrow> user \<Rightarrow> view" where
  "drop_slot_impl E pk p u s0 =
     permit (can_manage_replication_slot (vs_db s0) (Some u) (lit ''drop''))
       (for_instance pk (\<lambda>i s. permit (instance_access (vs_db s) u i True)
          (with_mfa E u p i Drop_replication_slot (form_text p ''slot_name'' '''') (Detail_page (inst_pk i))
             (do_drop_slot E u i (form_text p ''slot_name'' ''''))) s)) s0"

definition drop_slot :: "('v, 'z) view_env_scheme \<Rightarrow> int \<Rightarrow> form \<Rightarrow> bool \<Rightarrow> view" where
  "drop_slot E pk p is_post = signed_in (\<lambda>u. posted is_post (drop_slot_impl E pk p u))"

section \<open>One request\<close>

text \<open>The six routes, and what each acts on.\<close>

datatype kill_route = Kill | Kill_lock | Chain | Lock_chain | Slot_kill | Slot_drop

fun kill_view :: "kill_route \<Rightarrow> ('v, 'z) view_env_scheme \<Rightarrow> int \<Rightarrow> form \<Rightarrow> bool \<Rightarrow> view" where
  "kill_view Kill = kill_session"
| "kill_view Kill_lock = kill_lock_session"
| "kill_view Chain = kill_chain"
| "kill_view Lock_chain = kill_lock_chain"
| "kill_view Slot_kill = kill_replication_slot"
| "kill_view Slot_drop = drop_slot"

end
