(* ===== verification/Target_Claims.thy ===== *)
theory Target_Claims
  imports Terminate Fixtures
begin

text \<open>The properties of the target side: connections, the query runner, the catalog and termination.\<close>

section \<open>Concrete servers\<close>

text \<open>A cipher that does nothing, and a runner whose statements all add one to a counter.\<close>

definition demo_db_settings :: db_settings where
  "demo_db_settings = \<lparr>ds_ssl_mode = lit ''verify-full'', ds_ssl_root_cert = lit ''/ca.pem'',
     ds_fernet = \<lparr>fernet_encrypt = (\<lambda>s. s), fernet_decrypt = (\<lambda>s. Some s)\<rparr>\<rparr>"

definition demo_runner :: "int runner" where
  "demo_runner = \<lparr>ru_settings = demo_db_settings, ru_connect = (\<lambda>_. None), ru_run = (\<lambda>s n. Inr (n + 1, 1)),
     ru_commit_error = None\<rparr>"

definition runner_instance :: rds_instance where
  "runner_instance = demo_instance\<lparr>inst_query_runner_enabled := True, inst_query_runner_username := lit ''qr'',
     inst_query_runner_password_encrypted := lit ''pw''\<rparr>"

definition mysql_instance :: rds_instance where
  "mysql_instance = runner_instance\<lparr>inst_engine := lit ''mysql''\<rparr>"

definition demo_sql :: pystr where "demo_sql = lit ''UPDATE t SET a = 1''"

lemmas filter_eval = validate_write_statement_def py_strip_def write_statement_match_def write_verbs_def lit_def
  py_lower_def char_lower_def py_isspace_def

lemma demo_sql_valid: "validate_write_statement demo_sql = Inr demo_sql"
  by (simp add: demo_sql_def filter_eval)

lemma runner_engines [simp]: "\<not> is_mysql demo_instance" "\<not> is_mssql demo_instance" "\<not> is_mysql runner_instance"
    "\<not> is_mssql runner_instance" "is_mysql mysql_instance"
  by (simp_all add: is_mysql_def is_mssql_def runner_instance_def mysql_instance_def demo_instance_def)

lemmas runner_eval = preview_write_query_def commit_write_query_def demo_sql_valid get_query_runner_connection_def
  engine_params_def demo_runner_def runner_instance_def mysql_instance_def demo_instance_def demo_db_settings_def
  get_query_runner_password_def decrypt_password_def is_mysql_def is_mssql_def tx_execute_def tx_begin_def
  tx_rollback_def tx_commit_def

lemma demo_preview: "preview_write_query demo_runner runner_instance demo_sql 0 = (Inr (demo_sql, 1), 0)"
  by (simp add: runner_eval)

lemma demo_mysql_preview: "preview_write_query demo_runner mysql_instance demo_sql 0 = (Inr (demo_sql, 1), 1)"
  by (simp add: runner_eval)

section \<open>Connections\<close>

definition tls_kept :: "db_settings \<Rightarrow> rds_instance \<Rightarrow> conn_params \<Rightarrow> bool" where
  "tls_kept S i p \<longleftrightarrow> (inst_ssl_required i \<longrightarrow> cp_driver p \<noteq> Pymssql
     \<and> cp_sslmode p = (if is_mysql i then lit ''ssl'' else ds_ssl_mode S)
     \<and> (ds_ssl_root_cert S \<noteq> [] \<longrightarrow> cp_sslrootcert p = Some (ds_ssl_root_cert S)))"

definition own_endpoint :: "rds_instance \<Rightarrow> conn_params \<Rightarrow> bool" where
  "own_endpoint i p \<longleftrightarrow> cp_host p = inst_host i \<and> cp_port p = inst_port i \<and> cp_database p = inst_db_name i"

lemma engine_params_ok:
  assumes "engine_params S i u pw prog = Inr p"
  shows "own_endpoint i p \<and> tls_kept S i p \<and> cp_user p = u \<and> cp_password p = pw
    \<and> cp_autocommit p = (is_mysql i \<or> is_mssql i) \<and> cp_dict_rows p = (is_mysql i \<or> is_mssql i)"
  using assms by (auto simp: engine_params_def own_endpoint_def tls_kept_def Let_def split: if_splits)

text \<open>
  Every connection goes to the registered endpoint and database with the credentials of its role:
  monitoring and control use the lock-control login exactly when it is enabled and named,
  statements use the query-runner login only; a registration that requires TLS is never opened
  without it.
\<close>

lemma connection_roles:
  "(\<forall>p. get_connection S i = Inr p \<longrightarrow> own_endpoint i p \<and> tls_kept S i p
      \<and> (if inst_lock_control_enabled i \<and> inst_control_username i \<noteq> []
         then cp_user p = inst_control_username i \<and> get_control_password (ds_fernet S) i = Some (cp_password p)
         else cp_user p = inst_username i \<and> get_password (ds_fernet S) i = Some (cp_password p)))
   \<and> (\<forall>p. get_query_runner_connection S i = Inr p \<longrightarrow> own_endpoint i p \<and> tls_kept S i p
      \<and> inst_query_runner_enabled i \<and> cp_user p = inst_query_runner_username i \<and> cp_user p \<noteq> []
      \<and> get_query_runner_password (ds_fernet S) i = Some (cp_password p))"
  by (auto simp: get_connection_def get_query_runner_connection_def Let_def
      dest!: engine_params_ok split: if_splits option.splits)

lemma connection_roles_witness:
  "\<exists>p q. get_connection demo_db_settings runner_instance = Inr p \<and> cp_user p = lit ''app''
    \<and> cp_sslmode p = lit ''verify-full'' \<and> get_query_runner_connection demo_db_settings runner_instance = Inr q
    \<and> cp_user q = lit ''qr'' \<and> own_endpoint runner_instance q"
proof -
  obtain p where p: "get_connection demo_db_settings runner_instance = Inr p"
    by (simp add: get_connection_def engine_params_def runner_instance_def demo_instance_def demo_db_settings_def
        get_password_def decrypt_password_def is_mysql_def is_mssql_def)
  obtain q where q: "get_query_runner_connection demo_db_settings runner_instance = Inr q"
    by (simp add: get_query_runner_connection_def engine_params_def runner_instance_def demo_instance_def
        demo_db_settings_def get_query_runner_password_def decrypt_password_def is_mysql_def is_mssql_def)
  show ?thesis
    using connection_roles [of demo_db_settings runner_instance] p q
    by (auto simp: runner_instance_def demo_instance_def demo_db_settings_def tls_kept_def is_mysql_def)
qed

section \<open>The query runner\<close>

text \<open>
  C33. On PostgreSQL the query runner is transactional: a preview never changes the data and answers the
  row count of the validated statement; a commit that returns a count has applied exactly the
  statement, and one that fails has changed nothing.
\<close>

theorem query_runner_transaction:
  assumes "\<not> is_mysql i" and "\<not> is_mssql i"
  shows "(case preview_write_query R i sql d of
            (Inl e, d') \<Rightarrow> d' = d
          | (Inr (st, n), d') \<Rightarrow> d' = d \<and> validate_write_statement sql = Inr st \<and> (\<exists>d2. ru_run R st d = Inr (d2, n)))
       \<and> (case commit_write_query R i sql d of
            (Inl e, d') \<Rightarrow> d' = d
          | (Inr n, d') \<Rightarrow> \<exists>st. validate_write_statement sql = Inr st \<and> ru_run R st d = Inr (d', n))"
proof (cases "validate_write_statement sql")
  case (Inl e)
  then show ?thesis by (simp add: preview_write_query_def commit_write_query_def)
next
  case st: (Inr st)
  show ?thesis
  proof (cases "get_query_runner_connection (ru_settings R) i")
    case (Inl e)
    then show ?thesis using st by (simp add: preview_write_query_def commit_write_query_def)
  next
    case (Inr p)
    then have "\<not> cp_autocommit p"
      using assms by (auto simp: get_query_runner_connection_def dest!: engine_params_ok split: if_splits option.splits)
    then show ?thesis using st Inr
      by (auto simp: preview_write_query_def commit_write_query_def tx_execute_def tx_begin_def tx_rollback_def
          tx_commit_def split: option.splits sum.splits prod.splits)
  qed
qed

theorem query_runner_transaction_witness:
  "preview_write_query demo_runner runner_instance demo_sql 0 = (Inr (demo_sql, 1), 0)
   \<and> commit_write_query demo_runner runner_instance demo_sql 0 = (Inr 1, 1)"
proof -
  have "fst (commit_write_query demo_runner runner_instance demo_sql 0) = Inr 1" by (simp add: runner_eval)
  then obtain d' where c: "commit_write_query demo_runner runner_instance demo_sql 0 = (Inr 1, d')"
    by (metis prod.collapse)
  then have "d' = 1"
    using query_runner_transaction [of runner_instance, where R = demo_runner and sql = demo_sql and d = 0] demo_preview demo_sql_valid
    by (auto simp: demo_runner_def)
  then show ?thesis using c demo_preview by simp
qed

text \<open>
  C34. On MySQL, MariaDB and SQL Server connections are opened with autocommit, so the rollback of a
  preview undoes nothing: every successful preview has already applied its statement.
\<close>

theorem preview_applies_with_autocommit:
  assumes "is_mysql i \<or> is_mssql i" and "preview_write_query R i sql d = (Inr (st, n), d')"
  shows "ru_run R st d = Inr (d', n)"
proof -
  from assms(2) obtain p where p: "get_query_runner_connection (ru_settings R) i = Inr p"
    by (auto simp: preview_write_query_def split: sum.splits)
  then have "cp_autocommit p"
    using assms(1) by (auto simp: get_query_runner_connection_def dest!: engine_params_ok split: if_splits option.splits)
  then show ?thesis using assms(2) p
    by (auto simp: preview_write_query_def tx_execute_def tx_begin_def tx_rollback_def
        split: option.splits sum.splits prod.splits)
qed

theorem preview_applies_with_autocommit_witness:
  "\<exists>d' d2. preview_write_query demo_runner mysql_instance demo_sql 0 = (Inr (demo_sql, 1), d') \<and> d' = 1
     \<and> commit_write_query demo_runner mysql_instance demo_sql d' = (Inr 1, d2) \<and> d2 = 2"
proof -
  have "ru_run demo_runner demo_sql 0 = Inr (1, 1)"
    using preview_applies_with_autocommit [OF _ demo_mysql_preview] by simp
  moreover have "commit_write_query demo_runner mysql_instance demo_sql 1 = (Inr 1, 2)" by (simp add: runner_eval)
  ultimately show ?thesis using demo_mysql_preview by simp
qed

subsection \<open>The stored statement\<close>

definition rstrip :: "pystr \<Rightarrow> pystr" where
  "rstrip s = rev (dropWhile py_isspace (rev s))"

lemma py_strip_rstrip: "py_strip s = rstrip (dropWhile py_isspace s)"
  by (simp add: py_strip_def rstrip_def)

lemma rstrip_append:
  assumes "w \<noteq> []" and "\<not> py_isspace (last w)"
  shows "rstrip (w @ r) = w @ rstrip r"
proof -
  have w: "dropWhile py_isspace (rev w) = rev w" using assms by (cases w rule: rev_cases) auto
  show ?thesis
  proof (cases "\<forall>c \<in> set r. py_isspace c")
    case True
    then have "dropWhile py_isspace (rev r @ rev w) = dropWhile py_isspace (rev w)"
      by (intro dropWhile_append2) simp
    moreover have "dropWhile py_isspace (rev r) = []" using True by simp
    ultimately show ?thesis using w by (simp add: rstrip_def)
  next
    case False
    then obtain c where "c \<in> set (rev r)" "\<not> py_isspace c" by auto
    then show ?thesis by (simp add: rstrip_def dropWhile_append1)
  qed
qed

lemma rstrip_Cons: "rstrip (c # r) = (if py_isspace c \<and> rstrip r = [] then [] else c # rstrip r)"
proof (cases "\<forall>x \<in> set r. py_isspace x")
  case True
  then have "dropWhile py_isspace (rev r @ [c]) = dropWhile py_isspace [c]" by (intro dropWhile_append2) simp
  moreover have "dropWhile py_isspace (rev r) = []" using True by simp
  ultimately show ?thesis by (simp add: rstrip_def)
next
  case False
  then obtain x where x: "x \<in> set (rev r)" "\<not> py_isspace x" by auto
  then have "dropWhile py_isspace (rev r) \<noteq> []" by auto
  then show ?thesis using x by (simp add: rstrip_def dropWhile_append1)
qed

lemma set_rstrip: "set (rstrip s) \<subseteq> set s"
  by (auto simp: rstrip_def dest: set_dropWhileD)

lemma verb_chars: "py_lower w \<in> set write_verbs \<Longrightarrow> c \<in> set w \<Longrightarrow> \<not> py_isspace c \<and> c \<noteq> 59"
proof -
  assume a: "py_lower w \<in> set write_verbs" "c \<in> set w"
  then have "char_lower c \<in> set (py_lower w)" by (simp add: py_lower_def)
  then have "97 \<le> char_lower c \<and> char_lower c \<le> 122"
    using a(1) by (auto simp: write_verbs_def lit_def)
  then show ?thesis by (auto simp: char_lower_def py_isspace_def split: if_splits)
qed

lemma verb_length: "py_lower w \<in> set write_verbs \<Longrightarrow> length w = 6"
proof -
  assume "py_lower w \<in> set write_verbs"
  moreover have "\<forall>v \<in> set write_verbs. length v = 6" by (simp add: write_verbs_def)
  ultimately have "length (py_lower w) = 6" by blast
  then show ?thesis by (simp add: py_lower_def)
qed

lemma write_match_iff:
  assumes "t = [] \<or> \<not> py_isspace (hd t)"
  shows "write_statement_match t \<longleftrightarrow>
    (\<exists>w c r. t = w @ c # r \<and> py_lower w \<in> set write_verbs \<and> py_isspace c)" (is "?L = ?R")
proof -
  have t: "dropWhile py_isspace t = t" using assms by (cases t) auto
  show ?thesis
  proof
    assume ?L
    then obtain v where v: "v \<in> set write_verbs" "py_lower (take (length v) t) = v" "length v < length t"
      "py_isspace (t ! length v)" by (auto simp: write_statement_match_def Let_def t list_ex_iff)
    then have "t = take (length v) t @ t ! length v # drop (Suc (length v)) t" by (simp add: id_take_nth_drop)
    then show ?R using v by metis
  next
    assume ?R
    then obtain w c r where w: "t = w @ c # r" "py_lower w \<in> set write_verbs" "py_isspace c" by blast
    then have "length (py_lower w) = length w" by (simp add: py_lower_def)
    then show ?L using w unfolding write_statement_match_def Let_def t list_ex_iff
      by (intro bexI [OF _ w(2)]) simp
  qed
qed

lemma hd_dropWhile_space: "dropWhile py_isspace s \<noteq> [] \<Longrightarrow> \<not> py_isspace (hd (dropWhile py_isspace s))"
  by (rule hd_dropWhile)

lemma py_strip_hd: "py_strip s = [] \<or> \<not> py_isspace (hd (py_strip s))"
proof (cases "dropWhile py_isspace s")
  case Nil
  then show ?thesis by (simp add: py_strip_rstrip rstrip_def del: dropWhile_eq_Nil_conv)
next
  case (Cons c r)
  then have "\<not> py_isspace c" using hd_dropWhile_space [of s] by simp
  then show ?thesis by (simp add: py_strip_rstrip Cons rstrip_Cons)
qed

lemma validated_shape:
  assumes "validate_write_statement sql = Inr b"
  obtains w c r where "b = w @ c # r" "py_lower w \<in> set write_verbs" "py_isspace c" "59 \<notin> set b"
proof -
  let ?s = "py_strip sql"
  have s: "write_statement_match ?s" "b = (if last ?s = 59 then butlast ?s else ?s)" "59 \<notin> set b"
    using assms by (auto simp: validate_write_statement_def Let_def split: if_splits)
  then obtain w c r where w: "?s = w @ c # r" "py_lower w \<in> set write_verbs" "py_isspace c"
    using write_match_iff [OF py_strip_hd] by blast
  show ?thesis
  proof (cases "last ?s = 59")
    case False
    then show ?thesis using that w s by simp
  next
    case True
    have "c \<noteq> 59" using w(3) by (auto simp: py_isspace_def)
    then have "r \<noteq> []" using True w(1) by auto
    then have "b = w @ c # butlast r" using s(2) True w(1) by (simp add: butlast_append)
    then show ?thesis using that w s(3) by blast
  qed
qed

lemma py_strip_idem: "py_strip (py_strip s) = py_strip s"
proof -
  have "dropWhile py_isspace (py_strip s) = py_strip s" using py_strip_hd [of s] by (cases "py_strip s") auto
  then show ?thesis by (simp add: py_strip_rstrip [of "py_strip s"]) (simp add: py_strip_rstrip [of s] rstrip_def)
qed

lemma strip_validated:
  assumes "b = w @ c # r" and "py_lower w \<in> set write_verbs" and "py_isspace c"
  shows "py_strip b = w @ rstrip (c # r)"
    and "write_statement_match (py_strip b) \<longleftrightarrow> py_lower (py_strip b) \<notin> set write_verbs"
proof -
  have "w \<noteq> []" using verb_length [OF assms(2)] by auto
  then have w: "w \<noteq> []" "\<not> py_isspace (hd w)" "\<not> py_isspace (last w)"
    using verb_chars [OF assms(2)] hd_in_set last_in_set by blast+
  then have "dropWhile py_isspace b = b" using assms(1) by (cases w) auto
  then show strip: "py_strip b = w @ rstrip (c # r)"
    using rstrip_append [OF w(1,3)] assms(1) by (simp add: py_strip_rstrip)
  show "write_statement_match (py_strip b) \<longleftrightarrow> py_lower (py_strip b) \<notin> set write_verbs"
  proof (cases "rstrip r = []")
    case True
    then have e: "py_strip b = w" using strip assms(3) by (simp add: rstrip_Cons)
    have "\<not> write_statement_match w"
      using write_match_iff [of w] w verb_length verb_length [OF assms(2)] by fastforce
    then show ?thesis using assms(2) e by simp
  next
    case False
    then have e: "py_strip b = w @ c # rstrip r" using strip by (simp add: rstrip_Cons)
    then have "write_statement_match (py_strip b)"
      using write_match_iff [OF py_strip_hd, of b] assms(2,3) by blast
    moreover have "length (py_strip b) \<noteq> 6" using e verb_length [OF assms(2)] by simp
    ultimately show ?thesis using verb_length by blast
  qed
qed

text \<open>
  What the preview stores is one INSERT or UPDATE without a semicolon, and the commit, which filters
  it again, runs the same statement without its trailing blanks; the one exception is a bare verb,
  which the second filter refuses.
\<close>

lemma stored_statement_revalidates:
  assumes "validate_write_statement sql = Inr b"
  shows "59 \<notin> set b \<and> (\<exists>w c r. b = w @ c # r \<and> py_lower w \<in> {lit ''insert'', lit ''update''} \<and> py_isspace c)
    \<and> validate_write_statement b =
        (if py_lower (py_strip b) \<in> {lit ''insert'', lit ''update''}
         then Inl (lit ''Only INSERT or UPDATE statements are allowed.'') else Inr (py_strip b))"
proof -
  obtain w c r where b: "b = w @ c # r" "py_lower w \<in> set write_verbs" "py_isspace c" "59 \<notin> set b"
    using validated_shape [OF assms] .
  note strip = strip_validated [OF b(1-3)]
  have verbs: "set write_verbs = {lit ''insert'', lit ''update''}" by (simp add: write_verbs_def)
  have no: "59 \<notin> set (py_strip b)" using b(1,4) set_rstrip [of "c # r"] strip(1) by auto
  have ne: "py_strip b \<noteq> []" using strip(1) verb_length [OF b(2)] by auto
  then have "last (py_strip b) \<noteq> 59" using no last_in_set by metis
  then have "validate_write_statement b =
      (if py_lower (py_strip b) \<in> set write_verbs
       then Inl (lit ''Only INSERT or UPDATE statements are allowed.'') else Inr (py_strip b))"
    using ne no strip(2) by (simp add: validate_write_statement_def)
  then show ?thesis using b verbs by auto
qed

lemma stored_statement_revalidates_witness:
  "\<exists>b. validate_write_statement (lit ''INSERT ;'') = Inr b
     \<and> validate_write_statement b = Inl (lit ''Only INSERT or UPDATE statements are allowed.'')"
proof -
  let ?b = "lit ''INSERT ''"
  have v: "validate_write_statement (lit ''INSERT ;'') = Inr ?b" by (simp add: filter_eval)
  have "py_lower (py_strip ?b) = lit ''insert''" by (simp add: filter_eval)
  then have m: "py_lower (py_strip ?b) \<in> {lit ''insert'', lit ''update''}" by blast
  note r = stored_statement_revalidates [OF v, THEN conjunct2, THEN conjunct2, unfolded if_P [OF m]]
  from v r show ?thesis by blast
qed

section \<open>The catalog\<close>

lemma lock_pairs_current [simp]: "lock_pairs (c\<lparr>ct_current_database := n\<rparr>) = lock_pairs c"
  by (simp add: lock_pairs_def cong: if_cong)

lemma server_lock_count:
  "map_of (server_lock_counts_query c) n =
     (let k = length (blocking_query (c\<lparr>ct_current_database := n\<rparr>)) in if k = 0 then None else Some (int k))"
proof -
  let ?same = "\<lambda>p. se_datname (fst p) \<noteq> None \<and> se_datname (fst p) = se_datname (snd p)"
  let ?names = "map (\<lambda>p. the (se_datname (fst p))) (filter ?same (lock_pairs c))"
  have "filter (\<lambda>p. the (se_datname (fst p)) = n) (filter ?same (lock_pairs c)) =
      filter (\<lambda>p. se_datname (fst p) = Some n \<and> se_datname (snd p) = Some n) (lock_pairs c)"
    by (auto intro!: filter_cong) (metis option.sel)+
  then have "count_list ?names n = length (blocking_query (c\<lparr>ct_current_database := n\<rparr>))"
    by (simp add: count_list_filter filter_map o_def blocking_query_def in_current_def)
  moreover have "n \<in> set ?names \<longleftrightarrow> count_list ?names n \<noteq> 0" by (simp add: count_list_0_iff)
  ultimately show ?thesis by (simp add: server_lock_counts_query_def map_of_count_by Let_def)
qed

text \<open>
  The two ways of counting locks agree: on a server that does not change meanwhile, the overview
  of a PostgreSQL server counts for each of its databases exactly the rows that reading the
  locks of that database returns, and its total is their sum.
\<close>

lemma overview_counts_blocking_rows:
  assumes "\<not> is_mysql i" and "\<not> is_mssql i" and "\<forall>n. sv_world V n = Some c"
    and "fetch_server_overview V i = Inr ov"
  shows "(\<forall>db \<in> set (so_databases ov).
      dc_locks db = int (length (blocking_query (c\<lparr>ct_current_database := dc_name db\<rparr>))))
    \<and> so_locks ov = sum_list (map dc_locks (so_databases ov))
    \<and> map dc_name (so_databases ov) = server_databases_query c"
  using assms
  by (auto simp: fetch_server_overview_def databases_from_counts_def Let_def server_lock_count o_def split: sum.splits)

definition waiting_on :: "int \<Rightarrow> pg_lock" where
  "waiting_on pid = \<lparr>lk_pid = Some pid, lk_object = \<lparr>ob_locktype = lit ''relation'', ob_database = Some 1,
     ob_relation = Some 5, ob_page = None, ob_tuple = None, ob_virtualxid = None, ob_transactionid = None,
     ob_classid = None, ob_objid = None, ob_objsubid = None\<rparr>, lk_granted = False\<rparr>"

definition demo_session :: "int \<Rightarrow> pystr \<Rightarrow> pg_session" where
  "demo_session pid db = \<lparr>se_pid = pid, se_datname = Some db, se_usename = Some (lit ''u''),
     se_application_name = None, se_client_addr = None, se_backend_type = None, se_state = Some (lit ''active''),
     se_wait_event = None, se_query = Some (lit ''q''), se_query_start = None\<rparr>"

text \<open>Backend 11 holds the lock that 12 and 13 wait for; 14 is in another database.\<close>

definition demo_catalog :: pg_catalog where
  "demo_catalog = \<lparr>ct_now = 0, ct_current_database = lit ''orders'', ct_backend_pid = 1,
     ct_sessions = [demo_session 11 (lit ''orders''), demo_session 12 (lit ''orders''), demo_session 13 (lit ''orders''),
       demo_session 14 (lit ''other'')],
     ct_locks = [(waiting_on 11)\<lparr>lk_granted := True\<rparr>, waiting_on 12, waiting_on 13],
     ct_slots = [\<lparr>sl_name = lit ''s1'', sl_active_pid = Some 13\<rparr>],
     ct_databases = [\<lparr>pd_name = lit ''orders'', pd_allow_conn = True, pd_is_template = False\<rparr>]\<rparr>"

definition demo_server :: "unit control_server" where
  "demo_server = \<lparr>sv_settings = demo_db_settings, sv_connect = (\<lambda>_. None), sv_world = (\<lambda>_. Some demo_catalog),
     sv_activity_rows = None, sv_lock_rows = None, sv_fallback_lock_rows = None, sv_vitals = None, sv_top_tables = None,
     sv_database_names = None, sv_activity_counts = None, sv_lock_counts = None,
     sv_terminate = (\<lambda>n pid. Some True), sv_thread_count = (\<lambda>pid. Some 1), sv_kill = (\<lambda>pid. True),
     sv_drop_slot = (\<lambda>s. None)\<rparr>"

lemma demo_connection [simp]:
  "\<exists>p. get_connection demo_db_settings demo_instance = Inr p"
  "\<exists>p. get_connection demo_db_settings mysql_instance = Inr p"
  by (simp_all add: get_connection_def get_password_def runner_eval)

lemma demo_open [simp]:
  "\<exists>p. open_connection demo_server demo_instance = Inr p"
  "\<exists>p. open_connection demo_server mysql_instance = Inr p"
proof -
  obtain p q where "get_connection demo_db_settings demo_instance = Inr p"
    "get_connection demo_db_settings mysql_instance = Inr q" using demo_connection by blast
  then show "\<exists>p. open_connection demo_server demo_instance = Inr p" "\<exists>p. open_connection demo_server mysql_instance = Inr p"
    by (simp_all add: open_connection_def demo_server_def)
qed

lemmas catalog_eval = demo_catalog_def demo_session_def waiting_on_def lock_pairs_def blocking_query_def in_current_def

lemma demo_pairs: "map (\<lambda>p. (se_pid (fst p), se_pid (snd p))) (lock_pairs demo_catalog) = [(12, 11), (12, 13), (13, 11), (13, 12)]"
  by (simp add: catalog_eval)

lemma overview_counts_blocking_rows_witness:
  "\<exists>ov. fetch_server_overview demo_server demo_instance = Inr ov
     \<and> map dc_name (so_databases ov) = [lit ''orders''] \<and> so_locks ov = 4"
proof -
  obtain p where "open_connection demo_server demo_instance = Inr p" using demo_open by blast
  then obtain ov where ov: "fetch_server_overview demo_server demo_instance = Inr ov"
    by (simp add: fetch_server_overview_def demo_server_def)
  have w: "\<forall>n. sv_world demo_server n = Some demo_catalog" by (simp add: demo_server_def)
  note r = overview_counts_blocking_rows [OF runner_engines(1,2) w ov]
  have names: "map dc_name (so_databases ov) = [lit ''orders'']"
    using r by (simp add: server_databases_query_def demo_catalog_def)
  then obtain db where db: "so_databases ov = [db]" "dc_name db = lit ''orders''" by auto
  have same: "demo_catalog\<lparr>ct_current_database := lit ''orders''\<rparr> = demo_catalog" by (simp add: demo_catalog_def)
  have "length (blocking_query demo_catalog) = 4" by (simp add: catalog_eval)
  then have "dc_locks db = 4" using r [THEN conjunct1] db same by simp
  moreover have "so_locks ov = dc_locks db" using r [THEN conjunct2, THEN conjunct1] by (simp only: db(1)) simp
  ultimately have "so_locks ov = 4" by (rule trans [rotated])
  then show ?thesis using ov names by (intro exI [of _ ov] conjI)
qed

text \<open>
  The blocking query reports more than blockers. Every waiter of the current database appears with
  each holder of a granted entry on the same object, but two waiters for one object also appear
  as blocking each other, in both directions, whatever the order of the lock queue.
\<close>

lemma blocking_rows_holders_and_waiters:
  assumes "b \<in> set (ct_locks c)" and "\<not> lk_granted b" and "k \<in> set (ct_locks c)" and "lk_object k = lk_object b"
    and "bs \<in> set (ct_sessions c)" and "lk_pid b = Some (se_pid bs)" and "in_current c bs"
    and "ks \<in> set (ct_sessions c)" and "lk_pid k = Some (se_pid ks)" and "in_current c ks" and "se_pid ks \<noteq> se_pid bs"
  shows "blocking_row_of c (bs, ks) \<in> set (blocking_query c)
    \<and> (\<not> lk_granted k \<longrightarrow> blocking_row_of c (ks, bs) \<in> set (blocking_query c))"
proof -
  have "(bs, ks) \<in> set (lock_pairs c)" using assms unfolding lock_pairs_iff by blast
  moreover have "(ks, bs) \<in> set (lock_pairs c)" if "\<not> lk_granted k" using assms that unfolding lock_pairs_iff by metis
  ultimately show ?thesis using assms(7,10) by (force simp: blocking_query_def)
qed

lemma blocking_rows_holders_and_waiters_witness:
  "blocking_row_of demo_catalog (demo_session 12 (lit ''orders''), demo_session 13 (lit ''orders''))
      \<in> set (blocking_query demo_catalog)
   \<and> blocking_row_of demo_catalog (demo_session 13 (lit ''orders''), demo_session 12 (lit ''orders''))
      \<in> set (blocking_query demo_catalog)"
  using blocking_rows_holders_and_waiters [of "waiting_on 12" demo_catalog "waiting_on 13"
      "demo_session 12 (lit ''orders'')" "demo_session 13 (lit ''orders'')"]
  by (simp add: demo_catalog_def waiting_on_def demo_session_def in_current_def)

section \<open>Termination\<close>



text \<open>
  On MySQL, MariaDB and SQL Server nothing is ever terminated: the membership check indexes a
  dictionary row with 0, so a single kill raises an error that is not a connection error, and a
  bulk kill reports every PID as not running.
\<close>

lemma kill_never_works_with_dict_rows:
  assumes "is_mysql i \<or> is_mssql i" and "open_connection V i = Inr p"
  shows "kill_pid V i pid allow = (Inl Other_exc, [])
    \<and> (\<exists>results. kill_pids V i pids allow = (Inr results, []) \<and> (\<forall>k b. (k, b) \<in> set results \<longrightarrow> \<not> b))"
proof -
  have "cp_dict_rows p"
    using assms by (auto simp: open_connection_def get_connection_def Let_def
        dest!: engine_params_ok split: sum.splits option.splits)
  then have stmt: "kill_statement V p q = None" for q
    by (simp add: kill_statement_def pid_in_db_def count_row_def split: option.split)
  have "\<exists>results'. kill_each (\<lambda>n pid. or_false (kill_statement V p pid)) n pids results [] = (Inr results', [])
      \<and> (\<forall>k b. (k, b) \<in> set results' \<longrightarrow> \<not> b)" if "\<forall>k b. (k, b) \<in> set results \<longrightarrow> \<not> b" for n results
    using that
  proof (induction pids arbitrary: n results)
    case Nil
    then show ?case by simp
  next
    case (Cons q pids)
    have "set (AList.update q False results) \<subseteq> insert (q, False) (set results)"
      by (induction results) auto
    then have "\<forall>k b. (k, b) \<in> set (AList.update q False results) \<longrightarrow> \<not> b" using Cons.prems by blast
    then show ?case using Cons.IH by (simp add: stmt or_false_def)
  qed
  then show ?thesis using assms stmt by (simp add: kill_pid_def kill_pids_def raised_def)
qed

lemma kill_never_works_with_dict_rows_witness:
  "sv_thread_count demo_server 12 = Some 1 \<and> kill_pid demo_server mysql_instance 12 True = (Inl Other_exc, [])"
proof -
  obtain p where "open_connection demo_server mysql_instance = Inr p" using demo_open by blast
  then show ?thesis using kill_never_works_with_dict_rows [of mysql_instance demo_server p] by (simp add: demo_server_def)
qed

end
