(* ===== verification/Kill_Claims.thy ===== *)
theory Kill_Claims
  imports Kills Target_Claims Auth_Claims Monitor_Claims
begin

text \<open>The properties of the views that act on a target.\<close>

section \<open>Who may act\<close>

text \<open>A request to one of the six routes, and the rights its route asks for.\<close>

type_synonym 'v kill_request = "kill_route \<times> 'v view_env \<times> int \<times> form \<times> bool"

definition handle_kill :: "'v kill_request \<Rightarrow> view" where
  "handle_kill q = (case q of (rt, E, pk, p, b) \<Rightarrow> kill_view rt E pk p b)"

definition route_right :: "kill_route \<Rightarrow> 'v view_env \<Rightarrow> app_db \<Rightarrow> user \<Rightarrow> form \<Rightarrow> bool" where
  "route_right rt E d u p \<longleftrightarrow>
     (rt \<in> {Kill, Chain, Lock_chain, Slot_drop} \<longrightarrow> fresh_code E d u p)
     \<and> (rt \<in> {Kill, Kill_lock, Chain, Lock_chain} \<longrightarrow> user_is_staff u)
     \<and> (rt = Slot_kill \<longrightarrow> can_manage_replication_slot d (Some u) (lit ''terminate''))
     \<and> (rt = Slot_drop \<longrightarrow> can_manage_replication_slot d (Some u) (lit ''drop''))"

definition may_act :: "view_state \<Rightarrow> 'v kill_request \<Rightarrow> bool" where
  "may_act s q = (case q of (rt, E, pk, p, b) \<Rightarrow>
     b \<and> (\<exists>u i. request_user (vs_db s) (vs_session s) = Some u \<and> find_instance (vs_db s) pk = Some i
       \<and> can_operate_instance (vs_db s) (Some u) i \<and> route_right rt E (vs_db s) u p))"

lemma lock_check_effects:
  assumes "with_lock_check E i pids h s = (r, s')"
  obtains (refused) "vs_effects s' = vs_effects s" "vs_db s' = vs_db s"
    | (locked) pidsl where "current_lock_pids (ve_server E 0) i = Inr pidsl" "set pids \<subseteq> set pidsl" "h s = (r, s')"
  using assms by (auto simp: with_lock_check_def split: sum.splits target_exc.splits if_splits)

lemma operator_viewE:
  assumes "for_instance pk (\<lambda>i. permit staff (\<lambda>s. permit (instance_access (vs_db s) u i True) (h i) s)) s = (r, s')"
  obtains (refused) "s' = s"
    | (operator) i where "find_instance (vs_db s) pk = Some i" "staff" "can_operate_instance (vs_db s) (Some u) i" "h i s = (r, s')"
  using assms by (auto simp: instance_access_def elim!: for_instanceE permitE)

lemma kill_session_walk:
  assumes "kill_session_impl E lock_only pk p u s = (r, s')"
  obtains (refused) "vs_effects s' = vs_effects s"
    | (mfa) i pid s1 where "\<not> lock_only" "find_instance (vs_db s) pk = Some i" "user_is_staff u"
        "can_operate_instance (vs_db s) (Some u) i" "parse_pid p = Some pid" "fresh_code E (vs_db s) u p"
        "do_kill_session E u i pid (form_text p ''query'' '''') s1 = (r, s')" "vs_effects s1 = vs_effects s"
        "control_tables (vs_db s1) = control_tables (vs_db s)" "lock_alerts (vs_db s1) = lock_alerts (vs_db s)"
        "audit_logs (vs_db s1) = audit_logs (vs_db s)"
    | (lock) i pid locked where "lock_only" "find_instance (vs_db s) pk = Some i" "user_is_staff u"
        "can_operate_instance (vs_db s) (Some u) i" "parse_pid p = Some pid"
        "current_lock_pids (ve_server E 0) i = Inr locked" "pid \<in> set locked"
        "do_kill_session E u i pid (form_text p ''query'' '''') s = (r, s')"
  using assms unfolding kill_session_impl_def
proof (cases rule: operator_viewE)
  case refused
  then show ?thesis using that(1) by simp
next
  case (operator i)
  show ?thesis
  proof (cases "parse_pid p")
    case None
    then show ?thesis using operator(4) that(1) by auto
  next
    case (Some pid)
    let ?go = "do_kill_session E u i pid (form_text p ''query'' '''')"
    show ?thesis
    proof (cases lock_only)
      case True
      then have "with_lock_check E i [pid] ?go s = (r, s')" using operator(4) Some by (simp add: Let_def)
      then show ?thesis
      proof (cases rule: lock_check_effects)
        case refused
        then show ?thesis using that(1) by simp
      next
        case (locked l)
        then show ?thesis using that(3) True operator(1-3) Some by simp
      qed
    next
      case False
      then have "with_mfa E u p i Kill_session (lit ''pid='' @ str_int pid) (Detail_page (inst_pk i)) ?go s = (r, s')"
        using operator(4) Some by (simp add: Let_def)
      then show ?thesis
      proof (cases rule: with_mfaE)
        case refused
        then show ?thesis using that(1) by simp
      next
        case (accepted s1)
        then show ?thesis using that(2) False operator(1-3) Some by blast
      qed
    qed
  qed
qed

lemma kill_chain_walk:
  assumes "kill_chain_impl E lock_only True pk p u s = (r, s')"
  obtains (refused) "vs_effects s' = vs_effects s"
    | (mfa) i pids s1 action where "find_instance (vs_db s) pk = Some i" "user_is_staff u"
        "can_operate_instance (vs_db s) (Some u) i" "parse_all (form_all p (lit ''pid'')) = Some pids" "fresh_code E (vs_db s) u p"
        "lock_only \<longrightarrow> (\<exists>l. current_lock_pids (ve_server E 0) i = Inr l \<and> set pids \<subseteq> set l)"
        "do_kill_chain E u i pids action (form_text p ''query'' '''') s1 = (r, s')" "vs_effects s1 = vs_effects s"
        "control_tables (vs_db s1) = control_tables (vs_db s)" "lock_alerts (vs_db s1) = lock_alerts (vs_db s)"
        "audit_logs (vs_db s1) = audit_logs (vs_db s)"
  using assms unfolding kill_chain_impl_def
proof (cases rule: operator_viewE)
  case refused
  then show ?thesis using that(1) by simp
next
  case (operator i)
  show ?thesis
  proof (cases "parse_all (form_all p (lit ''pid'')) \<in> {None, Some []}")
    case True
    then show ?thesis using operator(4) that(1) by auto
  next
    case False
    then obtain x xs where pids: "parse_all (form_all p (lit ''pid'')) = Some (x # xs)"
      by (metis insertCI list.exhaust option.exhaust)
    let ?action = "if form_get p (lit ''mode'') = Some (lit ''chain'') then Kill_chain else Bulk_kill"
    let ?go = "do_kill_chain E u i (x # xs) ?action (form_text p ''query'' '''')"
    let ?check = "if lock_only then with_lock_check E i (x # xs) ?go else ?go"
    have "with_mfa E u p i ?action (lit ''pids='' @ fmt_pids (x # xs)) (Detail_page (inst_pk i)) ?check s = (r, s')"
      using operator(4) pids by (simp add: Let_def)
    then show ?thesis
    proof (cases rule: with_mfaE)
      case refused
      then show ?thesis using that(1) by simp
    next
      case (accepted s1)
      show ?thesis
      proof (cases lock_only)
        case False
        then show ?thesis using that(2) accepted operator(1-3) pids by auto
      next
        case True
        then have "with_lock_check E i (x # xs) ?go s1 = (r, s')" using accepted(2) by simp
        then show ?thesis
        proof (cases rule: lock_check_effects)
          case refused
          then show ?thesis using that(1) accepted(3) by simp
        next
          case (locked l)
          then show ?thesis using that(2) accepted operator(1-3) pids by blast
        qed
      qed
    qed
  qed
qed

lemma kill_slot_walk:
  assumes "kill_replication_slot_impl E pk p u s = (r, s')"
  obtains (refused) "s' = s"
    | (granted) i where "can_manage_replication_slot (vs_db s) (Some u) (lit ''terminate'')"
        "find_instance (vs_db s) pk = Some i" "can_operate_instance (vs_db s) (Some u) i"
        "do_kill_slot E u i (form_text p ''slot_name'' '''') s = (r, s')"
  using assms unfolding kill_replication_slot_impl_def
  by (auto simp: instance_access_def elim!: for_instanceE permitE)

lemma drop_slot_walk:
  assumes "drop_slot_impl E pk p u s = (r, s')"
  obtains (refused) "vs_effects s' = vs_effects s"
    | (granted) i s1 where "can_manage_replication_slot (vs_db s) (Some u) (lit ''drop'')" "fresh_code E (vs_db s) u p"
        "find_instance (vs_db s) pk = Some i" "can_operate_instance (vs_db s) (Some u) i"
        "do_drop_slot E u i (form_text p ''slot_name'' '''') s1 = (r, s')" "vs_effects s1 = vs_effects s"
        "audit_logs (vs_db s1) = audit_logs (vs_db s)"
  using assms unfolding drop_slot_impl_def
  by (auto simp: instance_access_def elim!: for_instanceE permitE with_mfaE)

lemmas kill_routes = kill_session_def kill_lock_session_def kill_chain_def kill_lock_chain_def
  kill_replication_slot_def drop_slot_def

lemma unauthorised_kill:
  assumes "\<not> may_act s q" and "handle_kill q s = (r, s')"
  shows "vs_effects s' = vs_effects s"
proof -
  obtain rt E pk p b where q: "q = (rt, E, pk, p, b)" by (cases q)
  define impl where "impl = (case rt of Kill \<Rightarrow> kill_session_impl E False pk p | Kill_lock \<Rightarrow> kill_session_impl E True pk p
      | Chain \<Rightarrow> kill_chain_impl E False True pk p | Lock_chain \<Rightarrow> kill_chain_impl E True True pk p
      | Slot_kill \<Rightarrow> kill_replication_slot_impl E pk p | Slot_drop \<Rightarrow> drop_slot_impl E pk p)"
  have "signed_in (\<lambda>u. posted b (impl u)) s = (r, s')"
    using assms(2) by (cases rt) (simp_all add: q handle_kill_def kill_routes impl_def)
  then consider "s' = s"
    | u where "request_user (vs_db s) (vs_session s) = Some u" "b" "impl u s = (r, s')"
    by (elim signed_inE postedE) blast+
  then show ?thesis
  proof cases
    case 1
    then show ?thesis by simp
  next
    case (2 u)
    have no: False if "find_instance (vs_db s) pk = Some i" "can_operate_instance (vs_db s) (Some u) i"
      "route_right rt E (vs_db s) u p" for i
      using assms(1) that 2(1,2) by (auto simp: may_act_def q)
    show ?thesis
    proof (cases rt)
      case Kill
      then have "kill_session_impl E False pk p u s = (r, s')" using 2(3) by (simp add: impl_def)
      then show ?thesis by (cases rule: kill_session_walk) (use no Kill in \<open>auto simp: route_right_def\<close>)
    next
      case Kill_lock
      then have "kill_session_impl E True pk p u s = (r, s')" using 2(3) by (simp add: impl_def)
      then show ?thesis by (cases rule: kill_session_walk) (use no Kill_lock in \<open>auto simp: route_right_def\<close>)
    next
      case Chain
      then have "kill_chain_impl E False True pk p u s = (r, s')" using 2(3) by (simp add: impl_def)
      then show ?thesis by (cases rule: kill_chain_walk) (use no Chain in \<open>auto simp: route_right_def\<close>)
    next
      case Lock_chain
      then have "kill_chain_impl E True True pk p u s = (r, s')" using 2(3) by (simp add: impl_def)
      then show ?thesis by (cases rule: kill_chain_walk) (use no Lock_chain in \<open>auto simp: route_right_def\<close>)
    next
      case Slot_kill
      then have "kill_replication_slot_impl E pk p u s = (r, s')" using 2(3) by (simp add: impl_def)
      then show ?thesis by (cases rule: kill_slot_walk) (use no Slot_kill in \<open>auto simp: route_right_def\<close>)
    next
      case Slot_drop
      then have "drop_slot_impl E pk p u s = (r, s')" using 2(3) by (simp add: impl_def)
      then show ?thesis by (cases rule: drop_slot_walk) (use no Slot_drop in \<open>auto simp: route_right_def\<close>)
    qed
  qed
qed

interpretation kills: guarded_view handle_kill may_act vs_effects
  by unfold_locales (auto dest: unauthorised_kill)

text \<open>
  C1. Whatever requests are sent, with whatever sessions, something happens on a target only after a
  request that was authorised when it was served: an active account with operator rights on the
  registration, and what its route asks for besides - a code of its own submitted with the request
  for live-session kills, every bulk kill and slot drops, and the grant for the slot actions.
\<close>

theorem target_actions_authorised:
  assumes "vs_effects (serve handle_kill qs s) \<noteq> vs_effects s"
  shows "\<exists>as ss rt E pk p bs u i. qs = as @ (ss, rt, E, pk, p, True) # bs
    \<and> (let d = vs_db (serve handle_kill as s) in request_user d ss = Some u \<and> find_instance d pk = Some i
        \<and> can_operate_instance d (Some u) i \<and> route_right rt E d u p)"
proof -
  obtain as ss q bs where q: "qs = as @ (ss, q) # bs" "may_act ((serve handle_kill as s)\<lparr>vs_session := ss\<rparr>) q"
    using kills.change_was_permitted [OF assms] by blast
  obtain rt E pk p b where "q = (rt, E, pk, p, b)" by (cases q)
  then show ?thesis using q unfolding may_act_def Let_def by auto blast
qed

section \<open>Concrete requests\<close>

text \<open>The demo operator with a recent session, the demo server, an incident in which 11 blocks 12, and a
  form that names backend 12.\<close>

definition kill_env :: "unit view_env" where
  "kill_env = \<lparr>ve_mfa = demo_mfa_env, ve_now = 0, ve_server = (\<lambda>_. demo_server), ve_audit_ok = True, ve_mark_ok = True\<rparr>"

definition kill_incident :: lock_alert where
  "kill_incident = \<lparr>la_pk = 10, la_instance = 7, la_alert_key = lit ''12:11'',
     la_blocked_pid = 12, la_blocking_pid = 11, la_blocked_user = [], la_blocking_user = [],
     la_blocked_query = [], la_blocking_query = [], la_waiting_seconds = 300, la_first_seen_at = 0,
     la_last_seen_at = 0, la_alerted_at = None, la_resolved_at = None,
     la_clear_reason = No_reason, la_cleared_by = []\<rparr>"

definition kill_db :: app_db where
  "kill_db = auth_db\<lparr>lock_alerts := [kill_incident], next_pk := 11\<rparr>"

lemma kill_db_lookups [simp]: "find_user kill_db 3 = Some demo_user" "find_mfa kill_db 3 = Some demo_profile"
  by (simp_all add: kill_db_def auth_db_def find_user_def find_mfa_def demo_user_def demo_profile_def)

definition kill_state :: view_state where
  "kill_state = \<lparr>vs_db = kill_db, vs_session = full_session, vs_notices = [], vs_effects = [], vs_uncached = []\<rparr>"

definition kill_form :: form where
  "kill_form = [(lit ''pid'', lit ''12'')]"

lemma kill_state_user: "request_user (vs_db kill_state) (vs_session kill_state) = Some demo_user"
  by (simp add: kill_state_def request_user_def full_session_def demo_user_def)

lemma kill_state_instance: "find_instance (vs_db kill_state) 7 = Some demo_instance"
  by (simp add: kill_state_def kill_db_def auth_db_def demo_db_def find_instance_def)

lemma kill_state_operator: "can_operate_instance (vs_db kill_state) (Some demo_user) demo_instance"
  by (simp add: kill_state_def kill_db_def auth_db_def demo_db_def empty_db_def demo_user_def can_operate_instance_def
      instance_role_def grant_of_def has_scope_def has_grants_def)

lemma kill_form_pid: "parse_pid kill_form = Some 12"
proof -
  have "form_get kill_form (lit ''pid'') = Some (lit ''12'')" by (simp add: kill_form_def)
  moreover have "py_int (lit ''12'') = Some 12" by (rule py_int_lit) (simp add: digit_eval)
  ultimately show ?thesis by (simp add: parse_pid_def)
qed

lemma demo_fetch_activity:
  "fetch_activity demo_server demo_instance = Inr (activity_query demo_catalog, blocking_query demo_catalog)"
proof -
  obtain p where "open_connection demo_server demo_instance = Inr p" using demo_open by blast
  then show ?thesis by (simp add: fetch_activity_def read_activity_def) (simp add: demo_server_def)
qed

lemma demo_locked: "current_lock_pids demo_server demo_instance = Inr [12, 11, 12, 13, 13, 11, 13, 12]"
  by (simp add: current_lock_pids_def demo_fetch_activity) (simp add: catalog_eval blocking_row_of_def)

lemma demo_kill: "kill_pid demo_server demo_instance 12 allow = (Inr True, [Signalled 12])"
proof -
  obtain p where "open_connection demo_server demo_instance = Inr p" using demo_open by blast
  then show ?thesis
    by (simp add: kill_pid_def raised_def)
      (simp add: guarded_terminate_def terminate_backend_def demo_server_def slot_pid_def pid_in_current_def
        in_current_def demo_catalog_def demo_session_def)
qed

lemma kill_impl_effects: "vs_effects (snd (kill_session_impl kill_env True 7 kill_form demo_user kill_state)) = [Signalled 12]"
  using kill_state_instance kill_state_operator kill_form_pid demo_locked demo_kill
  by (simp add: kill_session_impl_def for_instance_def permit_def instance_access_def can_operate_view
      with_lock_check_def do_kill_session_def kill_env_def demo_user_def Let_def) (simp add: kill_state_def)

lemma kill_request_effects:
  "vs_effects (snd (handle_kill (Kill_lock, kill_env, 7, kill_form, True) kill_state)) = [Signalled 12]"
  using kill_impl_effects kill_state_user
  by (simp add: handle_kill_def kill_lock_session_def signed_in_def posted_def)

lemma kill_state_session: "kill_state\<lparr>vs_session := full_session\<rparr> = kill_state"
  by (simp add: kill_state_def)

theorem target_actions_authorised_witness:
  "\<exists>u i. request_user (vs_db kill_state) full_session = Some u \<and> find_instance (vs_db kill_state) 7 = Some i
     \<and> can_operate_instance (vs_db kill_state) (Some u) i
     \<and> vs_effects (serve handle_kill [(full_session, Kill_lock, kill_env, 7, kill_form, True)] kill_state) = [Signalled 12]"
proof -
  let ?qs = "[(full_session, Kill_lock, kill_env, 7, kill_form, True)]"
  have e: "vs_effects (serve handle_kill ?qs kill_state) = [Signalled 12]"
    using kill_request_effects by (simp add: kill_state_session)
  then have "vs_effects (serve handle_kill ?qs kill_state) \<noteq> vs_effects kill_state" by (simp add: kill_state_def)
  from target_actions_authorised [OF this] show ?thesis using e by (auto simp: Cons_eq_append_conv Let_def)
qed

section \<open>Lock-only kills\<close>

lemma parse_all_sound: "parse_all ts = Some xs \<Longrightarrow> x \<in> set xs \<Longrightarrow> Some x \<in> py_int ` set ts"
  by (induction ts arbitrary: xs) (auto split: option.splits)

lemma parse_pid_sound:
  assumes "parse_pid p = Some x"
  shows "Some x \<in> py_int ` set (form_all p (lit ''pid''))"
proof -
  have "form_all p (lit ''pid'') \<noteq> []" "py_int (last (form_all p (lit ''pid''))) = Some x"
    using assms by (auto simp: parse_pid_def form_get_def split: if_splits)
  then show ?thesis by (metis image_eqI last_in_set)
qed

text \<open>What a lock-only request signals lies within the lock it read and the form.\<close>

definition within_lock :: "'q view_env \<Rightarrow> int \<Rightarrow> form \<Rightarrow> view_state \<Rightarrow> view_state \<Rightarrow> bool" where
  "within_lock E pk p s s' \<longleftrightarrow> (\<exists>i locked eff. find_instance (vs_db s) pk = Some i
     \<and> current_lock_pids (ve_server E 0) i = Inr locked \<and> vs_effects s' = vs_effects s @ eff
     \<and> set eff \<subseteq> Signalled ` (set locked \<inter> {pid. Some pid \<in> py_int ` set (form_all p (lit ''pid''))}))"

lemma lock_session_scope:
  assumes "kill_session_impl E True pk p u s = (r, s')" and "vs_effects s' \<noteq> vs_effects s"
  shows "within_lock E pk p s s'"
  using assms(1)
proof (cases rule: kill_session_walk)
  case (lock i pid locked)
  obtain q eff where k: "kill_pid (ve_server E 1) i pid (slot_terminate_right u s) = (q, eff)" by fastforce
  then have "vs_effects s' = vs_effects s @ eff"
    using lock(8) by (auto simp: do_kill_session_def Let_def split: sum.splits target_exc.splits bool.splits)
  moreover have "set eff \<subseteq> {Signalled pid}" using kill_pid_effects [OF k] by auto
  ultimately show ?thesis using lock(2,6,7) parse_pid_sound [OF lock(5)] unfolding within_lock_def
    by (intro exI [of _ i] exI [of _ locked] exI [of _ eff]) auto
qed (use assms(2) in auto)

lemma lock_chain_scope:
  assumes "kill_chain_impl E True True pk p u s = (r, s')" and "vs_effects s' \<noteq> vs_effects s"
  shows "within_lock E pk p s s'"
  using assms(1)
proof (cases rule: kill_chain_walk)
  case (mfa i pids s1 action)
  obtain l where l: "current_lock_pids (ve_server E 0) i = Inr l" "set pids \<subseteq> set l" using mfa(6) by blast
  obtain q eff where k: "kill_pids (ve_server E 1) i pids (slot_terminate_right u s1) = (q, eff)" by fastforce
  then have "vs_effects s' = vs_effects s @ eff"
    using mfa(7,8) by (auto simp: do_kill_chain_def Let_def split: sum.splits target_exc.splits if_splits)
  moreover have "set eff \<subseteq> Signalled ` set pids" using kill_pids_effects [OF k] .
  moreover have "Signalled ` set pids \<subseteq>
      Signalled ` (set l \<inter> {pid. Some pid \<in> py_int ` set (form_all p (lit ''pid''))})"
    using l(2) parse_all_sound [OF mfa(4)] by (intro image_mono) blast
  ultimately have "vs_effects s' = vs_effects s @ eff \<and> set eff \<subseteq>
      Signalled ` (set l \<inter> {pid. Some pid \<in> py_int ` set (form_all p (lit ''pid''))})"
    by (meson subset_trans)
  then show ?thesis using mfa(1) l(1) unfolding within_lock_def by blast
qed (use assms(2) in auto)

text \<open>
  C36. The lock-only kills stay within the lock they verify: whatever such a request signals is a PID
  of its form that was blocked or blocking in the snapshot the request itself read.
\<close>

theorem lock_kill_scope:
  assumes "rt = Kill_lock \<or> rt = Lock_chain" and "handle_kill (rt, E, pk, p, b) s = (r, s')"
    and "vs_effects s' \<noteq> vs_effects s"
  shows "\<exists>i locked eff. find_instance (vs_db s) pk = Some i \<and> current_lock_pids (ve_server E 0) i = Inr locked
    \<and> vs_effects s' = vs_effects s @ eff
    \<and> set eff \<subseteq> Signalled ` (set locked \<inter> {pid. Some pid \<in> py_int ` set (form_all p (lit ''pid''))})"
proof -
  have "(rt = Kill_lock \<and> (\<exists>u. kill_session_impl E True pk p u s = (r, s')))
      \<or> (rt = Lock_chain \<and> (\<exists>u. kill_chain_impl E True True pk p u s = (r, s')))"
    using assms by (auto simp: handle_kill_def kill_routes elim!: signed_inE postedE)
  then have "within_lock E pk p s s'" using lock_session_scope lock_chain_scope assms(3) by blast
  then show ?thesis by (simp add: within_lock_def)
qed

lemma kill_request: "\<exists>r s'. handle_kill (Kill_lock, kill_env, 7, kill_form, True) kill_state = (r, s')
    \<and> vs_effects s' = [Signalled 12] \<and> vs_effects s' \<noteq> vs_effects kill_state"
  using kill_request_effects by (metis kill_state_def list.distinct(1) prod.collapse view_state.select_convs(4))

theorem lock_kill_scope_witness:
  "\<exists>r s' i locked. handle_kill (Kill_lock, kill_env, 7, kill_form, True) kill_state = (r, s')
    \<and> vs_effects s' = [Signalled 12] \<and> current_lock_pids (ve_server kill_env 0) i = Inr locked \<and> 12 \<in> set locked"
proof -
  obtain r s' where k: "handle_kill (Kill_lock, kill_env, 7, kill_form, True) kill_state = (r, s')"
    "vs_effects s' = [Signalled 12]" "vs_effects s' \<noteq> vs_effects kill_state" using kill_request by blast
  then obtain i locked eff where l: "current_lock_pids (ve_server kill_env 0) i = Inr locked"
    "vs_effects s' = vs_effects kill_state @ eff" "set eff \<subseteq> Signalled ` set locked"
    using lock_kill_scope [OF _ k(1,3)] by fastforce
  then have "12 \<in> set locked" using k(2) by (auto simp: kill_state_def)
  then show ?thesis using k(1,2) l(1) by blast
qed

section \<open>The audit trail\<close>

text \<open>What a page answer of the acting part of a view says about its audit row.\<close>

definition audited :: "user \<Rightarrow> rds_instance \<Rightarrow> view_state \<Rightarrow> view_state \<Rightarrow> bool" where
  "audited u i s s' \<longleftrightarrow> (\<exists>row. audit_logs (vs_db s') = audit_logs (vs_db s) @ [row] \<and> au_instance row = Some (inst_pk i)
     \<and> au_instance_name row = inst_name i \<and> au_performed_by row = Some (user_pk u))"

lemma audit_logs_notify [simp]: "audit_logs (vs_db (safe_mark_manual_kill E i pids u s)) = audit_logs (vs_db s)"
  by (simp add: safe_mark_manual_kill_def mark_manual_kill_def)

lemma audited_row [simp]:
  "ve_audit_ok E \<Longrightarrow> audit_logs (vs_db (log_audit E (audit_row (Some i) action u pid query result detail) s)) =
     audit_logs (vs_db s) @ [audit_row (Some i) action u pid query result detail]"
  by (simp add: log_audit_def)

lemma audit_row_audited:
  "audit_logs (vs_db s') = audit_logs (vs_db s) @ [audit_row (Some i) action u pid query result detail] \<Longrightarrow> audited u i s s'"
  by (auto simp: audited_def audit_row_def)

lemma acting_audited:
  assumes "ve_audit_ok E" and "a \<noteq> Server_error"
  shows "do_kill_session E u i pid snapshot s = (a, s') \<Longrightarrow> audited u i s s'"
    and "do_kill_chain E u i pids action snapshot s = (a, s') \<Longrightarrow> audited u i s s'"
    and "do_drop_slot E u i name s = (a, s') \<Longrightarrow> audited u i s s'"
    and "do_kill_slot E u i name s = (a, s') \<Longrightarrow> audited u i s s'"
  using assms
  by (auto simp: do_kill_session_def do_kill_chain_def do_drop_slot_def do_kill_slot_def Let_def intro!: audit_row_audited
      split: prod.splits sum.splits target_exc.splits bool.splits if_splits)

lemma handle_killE:
  assumes "handle_kill (rt, E, pk, p, b) s = (r, s')"
  obtains (refused) "s' = s"
    | (session) u lock_only where "request_user (vs_db s) (vs_session s) = Some u"
        "kill_session_impl E lock_only pk p u s = (r, s')"
    | (chain) u lock_only where "request_user (vs_db s) (vs_session s) = Some u"
        "kill_chain_impl E lock_only True pk p u s = (r, s')"
    | (slot) u where "request_user (vs_db s) (vs_session s) = Some u" "kill_replication_slot_impl E pk p u s = (r, s')"
    | (drop) u where "request_user (vs_db s) (vs_session s) = Some u" "drop_slot_impl E pk p u s = (r, s')"
  using assms by (cases rt) (auto simp: handle_kill_def kill_routes elim!: signed_inE postedE)

text \<open>Each of the four actions: unchanged on the target, or audited.\<close>

lemma impl_audited:
  assumes "ve_audit_ok E" and "r \<noteq> Server_error" and "vs_effects s' \<noteq> vs_effects s"
  shows "kill_session_impl E lock_only pk p u s = (r, s') \<Longrightarrow> \<exists>i. find_instance (vs_db s) pk = Some i \<and> audited u i s s'"
    and "kill_chain_impl E lock_only True pk p u s = (r, s') \<Longrightarrow> \<exists>i. find_instance (vs_db s) pk = Some i \<and> audited u i s s'"
    and "kill_replication_slot_impl E pk p u s = (r, s') \<Longrightarrow> \<exists>i. find_instance (vs_db s) pk = Some i \<and> audited u i s s'"
    and "drop_slot_impl E pk p u s = (r, s') \<Longrightarrow> \<exists>i. find_instance (vs_db s) pk = Some i \<and> audited u i s s'"
proof -
  note act = acting_audited [OF assms(1,2)]
  have same: "audited u i s s'" if "audited u i s1 s'" "audit_logs (vs_db s1) = audit_logs (vs_db s)" for i s1
    using that by (simp add: audited_def)
  show "\<exists>i. find_instance (vs_db s) pk = Some i \<and> audited u i s s'"
    if "kill_session_impl E lock_only pk p u s = (r, s')"
    using that by (cases rule: kill_session_walk) (use assms(3) same [OF act(1)] act(1) in blast)+
  show "\<exists>i. find_instance (vs_db s) pk = Some i \<and> audited u i s s'"
    if "kill_chain_impl E lock_only True pk p u s = (r, s')"
    using that by (cases rule: kill_chain_walk) (use assms(3) same [OF act(2)] in blast)+
  show "\<exists>i. find_instance (vs_db s) pk = Some i \<and> audited u i s s'"
    if "kill_replication_slot_impl E pk p u s = (r, s')"
    using that by (cases rule: kill_slot_walk) (use assms(3) act(4) in blast)+
  show "\<exists>i. find_instance (vs_db s) pk = Some i \<and> audited u i s s'"
    if "drop_slot_impl E pk p u s = (r, s')"
    using that by (cases rule: drop_slot_walk) (use assms(3) same [OF act(3)] in blast)+
qed


lemma kill_request_page: "fst (handle_kill (Kill_lock, kill_env, 7, kill_form, True) kill_state) \<noteq> Server_error"
  using kill_state_instance kill_state_operator kill_form_pid demo_locked demo_kill kill_state_user
  by (simp add: handle_kill_def kill_lock_session_def signed_in_def posted_def kill_session_impl_def for_instance_def
      permit_def instance_access_def can_operate_view with_lock_check_def do_kill_session_def kill_env_def demo_user_def
      Let_def)


section \<open>Attribution\<close>

lemma do_kill_session_marks:
  assumes "do_kill_session E u i pid snapshot s = (r, s')" and "vs_effects s' \<noteq> vs_effects s" and "ve_mark_ok E"
  shows "lock_alerts (vs_db s') = lock_alerts (mark_manual_kill i [pid] u (vs_db s))
    \<and> control_tables (vs_db s') = control_tables (vs_db s)"
proof -
  obtain q eff where k: "kill_pid (ve_server E 1) i pid (slot_terminate_right u s) = (q, eff)" by fastforce
  then have "vs_effects s' = vs_effects s @ eff"
    using assms(1) by (auto simp: do_kill_session_def Let_def split: sum.splits target_exc.splits bool.splits)
  then have "q = Inr True" using assms(2) kill_pid_effects [OF k] by (auto split: if_splits)
  then have "s' = forget_cached (activity_key i) (notify_user Notice_success (safe_mark_manual_kill E i [pid] u
      (log_audit E (audit_row (Some i) Kill_session u (Some pid) snapshot Success []) (act_on_target eff s))))"
    using assms(1) k by (simp add: do_kill_session_def Let_def)
  then show ?thesis using assms(3)
    by (simp add: safe_mark_manual_kill_def mark_manual_kill_def log_audit_def act_on_target_def control_tables_def)
qed

lemma monitor_ok_marked:
  assumes "monitor_ok d" and "control_tables d' = control_tables d"
    and "lock_alerts d' = lock_alerts (mark_manual_kill i pids u d)"
  shows "monitor_ok d'"
proof -
  have "wf_table la_pk la_ident la_live (next_pk d) (lock_alerts d)" using assms(1) by (simp add: monitor_ok_def)
  then have "wf_table la_pk la_ident la_live (next_pk d) (lock_alerts (mark_manual_kill i pids u d))"
    unfolding mark_manual_kill_def
    by (auto intro!: wf_table_update_rows simp: la_ident_def la_live_def)
  then show ?thesis using assms control_tables_inst [OF assms(2)] by (simp add: monitor_ok_def)
qed


lemma quiet_check_completes:
  assumes "fetch i = Inr ([], [])" and "\<not> ns_manual_query_alert_enabled (load_settings d)"
  shows "\<exists>d' ps. process_instance sha post fetch i now d = (None, d', ps)"
  using assms
  by (simp add: process_instance_def process_long_queries_def collapse_blocking_def Let_def split: prod.split)


end
