(* ===== verification/Runner_Claims.thy ===== *)
theory Runner_Claims
  imports Query_Runner Kill_Claims
begin

text \<open>The properties of the query runner's routes.\<close>

section \<open>One request after another\<close>

text \<open>
  Executions have unique keys, and those whose statement the target has run are committed; at most
  one commit is on its way, for an execution that is still pending.
\<close>

definition runner_inv :: "view_state \<Rightarrow> int list \<Rightarrow> flying \<Rightarrow> bool" where
  "runner_inv s runs fl \<longleftrightarrow>
     (let xs = query_runner_executions (vs_db s) in
      distinct (map ex_pk xs) \<and> (\<forall>x \<in> set xs. ex_pk x < next_pk (vs_db s))
      \<and> distinct runs \<and> (\<forall>n \<in> set runs. \<exists>x \<in> set xs. ex_pk x = n \<and> ex_status x = Committed)
      \<and> (fl = [] \<or> (\<exists>c. fl = [c] \<and> snd (snd c) \<in> set xs \<and> ex_status (snd (snd c)) = Pending)))"

lemma runner_inv_same: "runner_inv s runs fl \<Longrightarrow> same_executions s s' \<Longrightarrow> runner_inv s' runs fl"
  by (fastforce simp: runner_inv_def same_executions_def Let_def)

text \<open>Resolving a pending execution.\<close>

lemma runner_inv_resolve:
  assumes "runner_inv s runs fl" and "ex \<in> set (query_runner_executions (vs_db s))" and "ex_status ex = Pending"
    and "query_runner_executions (vs_db s') = update_rows (\<lambda>x. ex_pk x = ex_pk ex) f (query_runner_executions (vs_db s))"
    and "next_pk (vs_db s') = next_pk (vs_db s)" and "\<And>x. ex_pk (f x) = ex_pk x"
  shows "runner_inv s' runs []" and "ex_pk ex \<notin> set runs"
    and "(\<And>x. ex_status (f x) = Committed) \<Longrightarrow> runner_inv s' (runs @ [ex_pk ex]) []"
proof -
  let ?xs = "query_runner_executions (vs_db s)"
  have inv: "distinct (map ex_pk ?xs)" "\<forall>x \<in> set ?xs. ex_pk x < next_pk (vs_db s)" "distinct runs"
      "\<forall>n \<in> set runs. \<exists>x \<in> set ?xs. ex_pk x = n \<and> ex_status x = Committed"
    using assms(1) by (auto simp: runner_inv_def Let_def)
  have inj: "x = y" if "x \<in> set ?xs" "y \<in> set ?xs" "ex_pk x = ex_pk y" for x y
    using inv(1) that by (auto simp: distinct_map dest: inj_onD)
  show new: "ex_pk ex \<notin> set runs"
  proof
    assume "ex_pk ex \<in> set runs"
    then obtain x where "x \<in> set ?xs" "ex_pk x = ex_pk ex" "ex_status x = Committed" using inv(4) by blast
    then show False using inj [of x ex] assms(2,3) by simp
  qed
  have pks: "map ex_pk (query_runner_executions (vs_db s')) = map ex_pk ?xs"
    unfolding assms(4) by (rule map_update_rows_same) (rule assms(6))
  have mem: "x \<in> set (query_runner_executions (vs_db s'))" if "x \<in> set ?xs" "ex_pk x \<noteq> ex_pk ex" for x
    using that by (force simp: assms(4) set_update_rows)
  have old: "\<exists>x \<in> set (query_runner_executions (vs_db s')). ex_pk x = n \<and> ex_status x = Committed" if "n \<in> set runs" for n
    using inv(4) mem new that by metis
  have f: "f ex \<in> set (query_runner_executions (vs_db s'))" using assms(2) by (force simp: assms(4) set_update_rows)
  have lt: "\<forall>x \<in> set (query_runner_executions (vs_db s')). ex_pk x < next_pk (vs_db s')"
    using inv(2) assms(5) pks by (metis (mono_tags, lifting) list.set_map imageE imageI)
  show "runner_inv s' runs []" using pks lt old inv(1,3) by (simp add: runner_inv_def Let_def)
  show "runner_inv s' (runs @ [ex_pk ex]) []" if "\<And>x. ex_status (f x) = Committed"
  proof -
    have "\<exists>x \<in> set (query_runner_executions (vs_db s')). ex_pk x = ex_pk ex \<and> ex_status x = Committed"
      using that assms(6) by (intro bexI [OF _ f]) simp
    then show ?thesis using pks lt old inv(1,3) new by (auto simp: runner_inv_def Let_def)
  qed
qed

lemma runner_run_inv: "runner_run False s d runs fl \<Longrightarrow> runner_inv s runs fl"
proof (induction s d runs fl rule: runner_run.induct)
  case (start s d)
  then show ?case by (simp add: runner_inv_def)
next
  case (other s d runs fl s' d')
  then show ?case using runner_inv_same by blast
next
  case (preview s d runs fl E R pk p r s' d')
  from preview_executions [OF preview.hyps(3)] show ?case
  proof
    assume "same_executions s s'"
    then show ?case using preview.IH runner_inv_same by blast
  next
    assume "\<exists>i u st n. query_runner_executions (vs_db s') =
        query_runner_executions (vs_db s) @ [new_execution (next_pk (vs_db s)) i u st n] \<and> next_pk (vs_db s') = next_pk (vs_db s) + 1"
    then obtain x where x: "query_runner_executions (vs_db s') = query_runner_executions (vs_db s) @ [x]"
      "ex_pk x = next_pk (vs_db s)" "next_pk (vs_db s') = next_pk (vs_db s) + 1" by (auto simp: new_execution_def)
    have "fl = []" using preview.hyps(2) by simp
    then show ?case using preview.IH x by (force simp: runner_inv_def Let_def)
  qed
next
  case (discard s d runs fl E pk n r s')
  have fl: "fl = []" using discard.hyps(2) by simp
  from discard_executions [OF discard.hyps(3)] show ?case
  proof
    assume "same_executions s s'"
    then show ?case using discard.IH runner_inv_same by blast
  next
    assume "next_pk (vs_db s') = next_pk (vs_db s) \<and>
     (\<exists>ex \<in> set (query_runner_executions (vs_db s)). ex_pk ex = n \<and> ex_status ex = Pending) \<and>
     query_runner_executions (vs_db s') = update_rows (\<lambda>x. ex_pk x = n)
       (\<lambda>x. x\<lparr>ex_status := Discarded, ex_resolved_at := Some (ve_now E)\<rparr>) (query_runner_executions (vs_db s))"
    then obtain ex where "ex \<in> set (query_runner_executions (vs_db s))" "ex_status ex = Pending"
      "query_runner_executions (vs_db s') = update_rows (\<lambda>x. ex_pk x = ex_pk ex)
       (\<lambda>x. x\<lparr>ex_status := Discarded, ex_resolved_at := Some (ve_now E)\<rparr>) (query_runner_executions (vs_db s))"
      "next_pk (vs_db s') = next_pk (vs_db s)" by blast
    from runner_inv_resolve(1) [OF discard.IH this] show ?case by (simp add: fl)
  qed
next
  case (refused s d runs fl E pk n p r s')
  then show ?case using commit_start_executions(1) runner_inv_same by blast
next
  case (begin_commit s d runs fl E pk n p c s')
  obtain u i ex where c: "c = (u, i, ex)" by (cases c)
  have "fl = []" using begin_commit.hyps(2) by simp
  then show ?case
    using commit_start_executions(2) [OF begin_commit.hyps(3), of u i ex] c
      runner_inv_same [OF begin_commit.IH commit_start_executions(1) [OF begin_commit.hyps(3)]]
    by (simp add: runner_inv_def Let_def)
next
  case (end_commit s d runs as u i ex bs E R r s' d')
  have fl: "as = []" "bs = []" "ex \<in> set (query_runner_executions (vs_db s))" "ex_status ex = Pending"
    using end_commit.IH by (auto simp: runner_inv_def Let_def Cons_eq_append_conv append_eq_Cons_conv)
  note f = commit_finish_executions [OF end_commit.hyps(2)]
  note resolve = runner_inv_resolve [OF end_commit.IH fl(3,4)]
  show ?case
  proof (cases "isl (fst (commit_write_query R i (ex_sql ex) d))")
    case True
    have "runner_inv s runs []" using end_commit.IH by (simp add: runner_inv_def Let_def)
    then have "runner_inv s' runs []" if "same_executions s s'" using that runner_inv_same by blast
    moreover have "runner_inv s' runs []" if "query_runner_executions (vs_db s') = update_rows (\<lambda>x. ex_pk x = ex_pk ex)
       (\<lambda>x. x\<lparr>ex_status := Failed_status, ex_error := e, ex_resolved_at := Some (ve_now E)\<rparr>) (query_runner_executions (vs_db s))" for e
      by (rule resolve(1) [OF that]) (use f in auto)
    ultimately show ?thesis using f True fl(1,2) by auto
  next
    case False
    then obtain n where "query_runner_executions (vs_db s') = update_rows (\<lambda>x. ex_pk x = ex_pk ex)
       (\<lambda>x. x\<lparr>ex_status := Committed, ex_rows_affected := Some n, ex_resolved_at := Some (ve_now E)\<rparr>)
       (query_runner_executions (vs_db s))" using f by auto
    from resolve(3) [OF this] f show ?thesis using False fl(1,2) by simp
  qed
qed


section \<open>A concrete run\<close>

definition runner_db :: app_db where
  "runner_db = auth_db\<lparr>instances := [runner_instance],
     query_runner_grants := [\<lparr>qg_pk = 1, qg_user = 3, qg_instance = 7, qg_granted_by = None\<rparr>]\<rparr>"

definition runner_state :: view_state where
  "runner_state = \<lparr>vs_db = runner_db, vs_session = full_session, vs_notices = [], vs_effects = [], vs_uncached = []\<rparr>"

definition runner_form :: form where
  "runner_form = [(lit ''sql'', demo_sql), (lit ''mfa_code'', lit ''123456'')]"

text \<open>The account may run statements and its code is accepted.\<close>

definition runner_ready :: "view_state \<Rightarrow> bool" where
  "runner_ready s \<longleftrightarrow> find_mfa (vs_db s) 3 = Some demo_profile
     \<and> request_user (vs_db s) (vs_session s) = Some demo_user \<and> find_instance (vs_db s) 7 = Some runner_instance
     \<and> may_run (vs_db s) demo_user runner_instance"

lemma may_run_cong:
  assumes "access_grants d = access_grants d'" "access_scopes d = access_scopes d'"
    "query_runner_grants d = query_runner_grants d'"
  shows "may_run d = may_run d'"
  by (intro ext) (simp only: may_run_def instance_access_def can_view_instance_def can_operate_instance_def
    can_run_queries_def instance_role_def grant_of_def has_scope_def has_grants_def assms)

lemma runner_ready_start: "runner_ready runner_state"
proof -
  have "find_mfa runner_db 3 = Some demo_profile" "find_user runner_db 3 = Some demo_user"
    by (simp_all add: runner_db_def auth_db_def find_mfa_def find_user_def demo_user_def demo_profile_def)
  then show ?thesis
    by (simp add: runner_ready_def runner_state_def request_user_def full_session_def)
      (simp add: runner_db_def auth_db_def demo_db_def empty_db_def find_instance_def runner_instance_def demo_user_def
        may_run_def instance_access_def can_view_instance_def instance_role_def grant_of_def has_scope_def has_grants_def
        can_run_queries_def)
qed

lemma runner_form_eval: "form_text runner_form ''sql'' '''' = demo_sql"
    "py_strip (form_text runner_form ''mfa_code'' '''') = lit ''123456''"
proof -
  have "form_text runner_form ''sql'' '''' = demo_sql" "form_text runner_form ''mfa_code'' '''' = lit ''123456''"
    by (simp_all add: runner_form_def form_text_def form_get_def form_all_def)
  moreover have "py_strip (lit ''123456'') = lit ''123456''" by (simp add: py_strip_def py_isspace_def lit_def)
  ultimately show "form_text runner_form ''sql'' '''' = demo_sql"
    "py_strip (form_text runner_form ''mfa_code'' '''') = lit ''123456''" by simp_all
qed

lemma runner_mfa:
  assumes "runner_ready s"
  shows "\<exists>s1. require_action_mfa kill_env demo_user runner_form i a det True s = Some (True, s1) \<and> runner_ready s1
    \<and> same_executions s s1"
proof -
  let ?s1 = "s\<lparr>vs_session := mark_session_verified 0 (vs_session s), vs_db := save_mfa demo_profile (vs_db s)\<rparr>"
  have run: "require_action_mfa kill_env demo_user runner_form i a det True s = Some (True, ?s1)"
    using assms demo_code_accepted
    by (simp add: require_action_mfa_def require_mfa_for_action_def runner_ready_def runner_form_eval Let_def
        kill_env_def demo_user_def demo_profile_def)
  have "find_mfa (save_mfa demo_profile (vs_db s)) 3 = Some demo_profile"
    by (simp add: find_save_mfa demo_profile_def)
  moreover have "may_run (save_mfa demo_profile (vs_db s)) = may_run (vs_db s)"
    using control_tables_inst [OF control_tables_mfa] by (intro may_run_cong) blast+
  moreover have "users (save_mfa demo_profile (vs_db s)) = users (vs_db s)"
    "instances (save_mfa demo_profile (vs_db s)) = instances (vs_db s)"
    by (simp_all add: save_mfa_def split: option.split)
  then have "request_user (vs_db ?s1) (vs_session ?s1) = request_user (vs_db s) (vs_session s)"
    "find_instance (vs_db ?s1) 7 = find_instance (vs_db s) 7"
    by (auto intro!: request_user_cong find_instance_cong simp: mark_session_verified_def)
  ultimately have "runner_ready ?s1" using assms unfolding runner_ready_def by simp
  moreover have "same_executions s ?s1" by (simp add: same_executions_def save_mfa_def split: option.split)
  ultimately show ?thesis using run by blast
qed

text \<open>Steps that keep the account ready.\<close>

lemma runner_ready_executions:
  assumes "runner_ready s" and "vs_db s' = (vs_db s)\<lparr>query_runner_executions := xs, next_pk := n, audit_logs := l\<rparr>"
    and "vs_session s' = vs_session s"
  shows "runner_ready s'"
proof -
  have "may_run (vs_db s') = may_run (vs_db s)"
    by (rule may_run_cong) (simp_all add: assms(2))
  moreover have "request_user (vs_db s') (vs_session s') = request_user (vs_db s) (vs_session s)"
    "find_instance (vs_db s') 7 = find_instance (vs_db s) 7"
    using assms(2,3) by (auto intro!: request_user_cong find_instance_cong)
  moreover have "find_mfa (vs_db s') 3 = find_mfa (vs_db s) 3" by (simp add: find_mfa_def assms(2))
  ultimately show ?thesis using assms(1) unfolding runner_ready_def by simp
qed

definition demo_execution :: query_runner_execution where
  "demo_execution = new_execution 10 runner_instance demo_user demo_sql 1"

lemma demo_previewed:
  "\<exists>r s. preview_query kill_env demo_runner 7 runner_form runner_state 0 = (r, s, 0) \<and> runner_ready s
     \<and> query_runner_executions (vs_db s) = [demo_execution]"
proof -
  obtain s1 where s1: "require_action_mfa kill_env demo_user runner_form runner_instance Run_query
      (lit ''[preview] '' @ take 200 demo_sql) True runner_state = Some (True, s1)"
      "runner_ready s1" "same_executions runner_state s1"
    using runner_mfa [OF runner_ready_start] by blast
  have e: "query_runner_executions (vs_db s1) = []" "next_pk (vs_db s1) = 10"
    using require_mfa_executions [OF s1(1)]
    by (simp_all add: runner_state_def runner_db_def auth_db_def demo_db_def empty_db_def)
  obtain s where s: "do_preview kill_env demo_runner runner_instance demo_user demo_sql s1 0 = (Detail_page 7, s, 0)"
      "vs_db s = (vs_db s1)\<lparr>query_runner_executions := [demo_execution], next_pk := 11, audit_logs := audit_logs (vs_db s)\<rparr>"
      "vs_session s = vs_session s1"
    using e demo_preview
    by (auto simp: do_preview_def Let_def log_audit_def kill_env_def notify_user_def add_execution_def demo_execution_def
        runner_instance_def new_execution_def)
  have "preview_query kill_env demo_runner 7 runner_form runner_state 0 = (Detail_page 7, s, 0)"
    using runner_ready_start s1(1) s(1) by (simp add: preview_query_def runner_ready_def runner_form_eval Let_def)
  moreover have "query_runner_executions (vs_db s) = [demo_execution]" by (subst s(2)) simp
  ultimately show ?thesis using runner_ready_executions [OF s1(2) s(2,3)] by blast
qed

lemma demo_commit_start:
  assumes "runner_ready s" and "query_runner_executions (vs_db s) = [demo_execution]"
  shows "\<exists>s1. commit_start kill_env 7 10 runner_form s = (Inr (demo_user, runner_instance, demo_execution), s1)
     \<and> runner_ready s1 \<and> query_runner_executions (vs_db s1) = [demo_execution]"
proof -
  obtain s1 where s1: "require_action_mfa kill_env demo_user runner_form runner_instance Run_query
      (lit ''[commit] execution_id='' @ str_int 10) True s = Some (True, s1)" "runner_ready s1" "same_executions s s1"
    using runner_mfa [OF assms(1)] by blast
  have "run_rights 7 10 s = Inr (demo_user, runner_instance, demo_execution)"
    using assms by (simp add: run_rights_def runner_ready_def own_pending_execution_def demo_execution_def new_execution_def)
  then show ?thesis using s1 assms(2) by (simp add: commit_start_def same_executions_def)
qed

lemma demo_commit: "commit_write_query demo_runner runner_instance (ex_sql demo_execution) d = (Inr 1, d + 1)"
  by (simp add: demo_execution_def new_execution_def runner_eval)

lemma demo_commit_finish:
  "\<exists>r s'. commit_finish kill_env demo_runner demo_user runner_instance demo_execution s d = (r, s', d + 1)"
  using demo_commit by (simp add: commit_finish_def)

lemma demo_run_previewed:
  "\<exists>s. runner_run overlap s (0::int) [] [] \<and> runner_ready s \<and> query_runner_executions (vs_db s) = [demo_execution]"
proof -
  have "query_runner_executions (vs_db runner_state) = []"
    by (simp add: runner_state_def runner_db_def auth_db_def demo_db_def empty_db_def)
  then have start: "runner_run overlap runner_state (0::int) [] []" by (rule runner_run.start)
  obtain r s where s: "preview_query kill_env demo_runner 7 runner_form runner_state 0 = (r, s, 0)" "runner_ready s"
      "query_runner_executions (vs_db s) = [demo_execution]" using demo_previewed by blast
  have "runner_run overlap s (0::int) [] []" by (rule runner_run.preview [OF start _ s(1)]) simp
  then show ?thesis using s(2,3) by blast
qed


section \<open>Overlapping commits\<close>

text \<open>
  C39. When two commits of one preview overlap, both pass the check for a pending execution before either
  records its outcome, and the target runs the statement twice.
\<close>

theorem overlapping_commits_run_twice:
  "\<exists>s d. runner_run True s (d::int) [10, 10] [] \<and> d = 2"
proof -
  let ?c = "(demo_user, runner_instance, demo_execution)"
  obtain s where s: "runner_run True s (0::int) [] []" "runner_ready s" "query_runner_executions (vs_db s) = [demo_execution]"
    using demo_run_previewed by blast
  obtain s1 where s1: "commit_start kill_env 7 10 runner_form s = (Inr ?c, s1)" "runner_ready s1"
      "query_runner_executions (vs_db s1) = [demo_execution]"
    using demo_commit_start [OF s(2,3)] by blast
  obtain s2 where s2: "commit_start kill_env 7 10 runner_form s1 = (Inr ?c, s2)"
    using demo_commit_start [OF s1(2,3)] by blast
  obtain r3 s3 where s3: "commit_finish kill_env demo_runner demo_user runner_instance demo_execution s2 0 = (r3, s3, 0 + 1)"
    using demo_commit_finish by blast
  obtain r4 s4 where s4: "commit_finish kill_env demo_runner demo_user runner_instance demo_execution s3 1 = (r4, s4, 1 + 1)"
    using demo_commit_finish by blast
  have pk: "ex_pk demo_execution = 10" by (simp add: demo_execution_def new_execution_def)
  have "runner_run True s1 (0::int) [] ([] @ [?c])" by (rule runner_run.begin_commit [OF s(1) _ s1(1)]) simp
  then have "runner_run True s2 (0::int) [] (([] @ [?c]) @ [?c])" by (rule runner_run.begin_commit [OF _ _ s2]) simp
  then have "runner_run True s2 (0::int) [] ([] @ ?c # [?c])" by simp
  from runner_run.end_commit [OF this s3] have "runner_run True s3 (1::int) [10] ([] @ ?c # [])"
    using demo_commit [of 0] by (simp add: pk)
  from runner_run.end_commit [OF this s4] have "runner_run True s4 (2::int) [10, 10] []"
    using demo_commit [of 1] by (simp add: pk)
  then show ?thesis by blast
qed

end
