(* ===== verification/Registry.thy ===== *)
theory Registry
  imports Requests
begin

text \<open>
  The instance registry: the pages of \<open>monitor/views.py\<close> that register, rename, configure and remove
  instances, and the REST interface with \<open>serializers.py\<close> and \<open>security.py\<close>. The fields that
  the REST framework validated are a record of options; its own field validators, Django's
  \<open>URLValidator\<close> and the widths of the columns are parameters.
\<close>

section \<open>Surroundings\<close>

record 'v registry_env = "'v view_env" +
  re_url_ok :: "pystr \<Rightarrow> bool"
  re_row_ok :: "rds_instance \<Rightarrow> bool"
  re_new_group :: pystr
  re_runner_connect :: "conn_params \<Rightarrow> pystr option"

abbreviation env_fernet :: "('v, 'z) view_env_scheme \<Rightarrow> fernet" where
  "env_fernet E \<equiv> me_fernet (ve_mfa E)"

definition default_port_for_engine :: "pystr \<Rightarrow> int" where
  "default_port_for_engine engine =
     (if engine = lit ''mysql'' \<or> engine = lit ''mariadb'' then 3306
      else if engine = lit ''mssql'' then 1433 else 5432)"

text \<open>\<open>instance.save()\<close> of one registration: a row the database refuses raises \<open>DatabaseError\<close>.\<close>

definition store_instance :: "('v, 'z) registry_env_scheme \<Rightarrow> rds_instance \<Rightarrow> view" where
  "store_instance E i s =
     (if re_row_ok E i then (Detail_page (inst_pk i), notify_user Notice_success (s\<lparr>vs_db := save_instance i (vs_db s)\<rparr>))
      else (Server_error, s))"

definition detail_error :: "rds_instance \<Rightarrow> view" where
  "detail_error i s = (Detail_page (inst_pk i), notify_user Notice_error s)"

definition form_error :: view where
  "form_error s = (Form_again, notify_user Notice_error s)"

section \<open>Adding instances\<close>

definition parse_names :: "pystr \<Rightarrow> pystr list" where
  "parse_names t = filter (\<lambda>n. n \<noteq> []) (map py_strip (split_on 44 (map (\<lambda>c. if c = 10 then 44 else c) t)))"

definition names_field :: "form \<Rightarrow> pystr" where
  "names_field p = (case form_get p (lit ''database_names'') of Some t \<Rightarrow> t | None \<Rightarrow> form_text p ''db_name'' '''')"

definition stripped :: "form \<Rightarrow> string \<Rightarrow> pystr option" where
  "stripped p k = map_option py_strip (form_get p (lit k))"

text \<open>
  The fields all new registrations share, from the form; None stands for a missing required field
  (\<open>KeyError\<close>) or a port that is no number (\<open>ValueError\<close>), which end in the same handler.
\<close>

definition form_template :: "('v, 'z) registry_env_scheme \<Rightarrow> user \<Rightarrow> form \<Rightarrow> rds_instance option" where
  "form_template E u p =
     (let lock = user_is_superuser u \<and> form_flag p ''lock_control_enabled'';
          port = (if form_text p ''port'' '''' \<noteq> [] then py_int (form_text p ''port'' '''')
                  else Some (default_port_for_engine (form_text p ''engine'' '''')))
      in case (stripped p ''name'', stripped p ''db_identifier'', stripped p ''host'', stripped p ''username'', port) of
           (Some name, Some identifier, Some host, Some username, Some port) \<Rightarrow>
             Some \<lparr>inst_pk = 0, inst_name = name, inst_connection_group = re_new_group E,
               inst_engine = form_text p ''engine'' ''postgresql'', inst_db_identifier = identifier,
               inst_region = py_strip (form_text p ''region'' ''us-east-1''), inst_host = host, inst_port = port,
               inst_db_name = [], inst_username = username, inst_lock_control_enabled = lock,
               inst_control_username = (if lock then py_strip (form_text p ''control_username'' '''') else []),
               inst_owner_teams_webhook_url = py_strip (form_text p ''owner_teams_webhook_url'' ''''),
               inst_exclude_from_global_notifications =
                 (user_is_superuser u \<and> form_flag p ''exclude_from_global_notifications''),
               inst_password_encrypted = [], inst_control_password_encrypted = [],
               inst_query_runner_enabled = False, inst_query_runner_username = [],
               inst_query_runner_password_encrypted = [], inst_ssl_required = form_flag p ''ssl_required'',
               inst_is_active = True, inst_added_by = Some (user_pk u)\<rparr>
         | _ \<Rightarrow> None)"

text \<open>The same fields from the registration that is extended; nothing of its query runner is taken over.\<close>

definition source_template :: "rds_instance \<Rightarrow> rds_instance" where
  "source_template src = src\<lparr>inst_pk := 0, inst_db_name := [], inst_password_encrypted := [],
     inst_control_password_encrypted := [], inst_query_runner_enabled := False, inst_query_runner_username := [],
     inst_query_runner_password_encrypted := [], inst_is_active := True\<rparr>"

definition new_registration :: "fernet \<Rightarrow> rds_instance \<Rightarrow> pystr \<Rightarrow> pystr \<Rightarrow> pystr \<Rightarrow> int \<Rightarrow> rds_instance" where
  "new_registration k template password control_password name pk =
     (let i = set_password k password (template\<lparr>inst_pk := pk, inst_db_name := name\<rparr>)
      in if control_password \<noteq> [] then set_control_password k control_password i else i)"

definition insert_instance :: "rds_instance \<Rightarrow> app_db \<Rightarrow> app_db" where
  "insert_instance i d = d\<lparr>instances := instances d @ [i], next_pk := next_pk d + 1\<rparr>"

text \<open>
  The loop inside \<open>transaction.atomic()\<close>; None is a \<open>DatabaseError\<close>. After a failed audit insert the
  transaction is broken: the next insert raises, and when there is none the commit turns into a
  rollback without any exception.
\<close>

fun create_all ::
  "('v, 'z) registry_env_scheme \<Rightarrow> user \<Rightarrow> (pystr \<Rightarrow> int \<Rightarrow> rds_instance) \<Rightarrow> pystr list \<Rightarrow> view_state \<Rightarrow> view_state option" where
  "create_all E u new [] s = Some s"
| "create_all E u new (name # names) s =
     (let i = new name (next_pk (vs_db s)) in
      if \<not> re_row_ok E i then None
      else if \<not> ve_audit_ok E \<and> names \<noteq> [] then None
      else create_all E u new names
             (log_audit E (audit_row (Some i) Add_instance u None [] Success (inst_db_identifier i))
               (s\<lparr>vs_db := insert_instance i (vs_db s)\<rparr>)))"

definition commit_created :: "('v, 'z) registry_env_scheme \<Rightarrow> view_state \<Rightarrow> view_state option \<Rightarrow> response \<times> view_state" where
  "commit_created E s made =
     (case made of
        None \<Rightarrow> form_error s
      | Some s' \<Rightarrow> (List_page, notify_user Notice_success (if ve_audit_ok E then s' else s)))"

definition too_many_names :: "pystr list \<Rightarrow> bool" where
  "too_many_names names \<longleftrightarrow> names = [] \<or> length names > 50"

definition add_fresh :: "('v, 'z) registry_env_scheme \<Rightarrow> user \<Rightarrow> form \<Rightarrow> view" where
  "add_fresh E u p s =
     (let names = parse_names (names_field p);
          lock = user_is_superuser u \<and> form_flag p ''lock_control_enabled'';
          control_username = (if lock then py_strip (form_text p ''control_username'' '''') else []);
          control_password = (if lock then form_text p ''control_password'' '''' else [])
      in if too_many_names names then form_error s
         else if lock \<and> control_username \<noteq> [] \<and> control_password = [] then form_error s
         else case (form_template E u p, form_get p (lit ''password'')) of
             (Some template, Some password) \<Rightarrow>
               commit_created E s (create_all E u (new_registration (env_fernet E) template password control_password) names s)
           | _ \<Rightarrow> form_error s)"

text \<open>
  Adding databases to a registered endpoint. A stored secret that cannot be decrypted raises an
  exception the view does not catch.
\<close>

definition add_to_group :: "('v, 'z) registry_env_scheme \<Rightarrow> user \<Rightarrow> form \<Rightarrow> rds_instance \<Rightarrow> view" where
  "add_to_group E u p src s =
     (let names = parse_names (names_field p);
          lock = inst_lock_control_enabled src;
          stored = (if inst_control_password_encrypted src \<noteq> [] then get_control_password (env_fernet E) src
                    else Some (if lock then form_text p ''control_password'' '''' else []));
          existing = map inst_db_name
            (filter (\<lambda>i. inst_connection_group i = inst_connection_group src) (instances (vs_db s)))
      in case stored of
           None \<Rightarrow> (Server_error, s)
         | Some control_password \<Rightarrow>
             if too_many_names names then form_error s
             else if set names \<inter> set existing \<noteq> {} then form_error s
             else if lock \<and> inst_control_username src \<noteq> [] \<and> control_password = [] then form_error s
             else case get_password (env_fernet E) src of
                 None \<Rightarrow> (Server_error, s)
               | Some password \<Rightarrow>
                   commit_created E s (create_all E u
                     (new_registration (env_fernet E) (source_template src) password control_password) names s))"

definition add_instance_post :: "('v, 'z) registry_env_scheme \<Rightarrow> user \<Rightarrow> form \<Rightarrow> view" where
  "add_instance_post E u p s0 =
     (if form_text p ''extend_instance'' '''' = [] then add_fresh E u p s0
      else case py_int (form_text p ''extend_instance'' '''') of
          None \<Rightarrow> (Server_error, s0)
        | Some pk \<Rightarrow> for_instance pk (\<lambda>src s. permit (instance_access (vs_db s) u src True) (add_to_group E u p src) s) s0)"

text \<open>
  The empty form, or the form filled from a registration to extend or duplicate, whose stored
  password it decrypts.
\<close>

definition add_instance_form :: "('v, 'z) registry_env_scheme \<Rightarrow> user \<Rightarrow> form \<Rightarrow> view" where
  "add_instance_form E u q s0 =
     (let extend = form_text q ''extend'' '''';
          source = (if extend \<noteq> [] then extend else form_text q ''duplicate'' '''')
      in if source = [] then (Add_page, s0)
         else case py_int source of
             None \<Rightarrow> (Server_error, s0)
           | Some pk \<Rightarrow> for_instance pk (\<lambda>src s. permit (instance_access (vs_db s) u src True)
               (\<lambda>s. (if get_password (env_fernet E) src = None then Server_error else Add_page, s)) s) s0)"

definition add_instance :: "('v, 'z) registry_env_scheme \<Rightarrow> form \<Rightarrow> bool \<Rightarrow> view" where
  "add_instance E p is_post = signed_in (\<lambda>u. permit (user_is_staff u)
     (if is_post then add_instance_post E u p else add_instance_form E u p))"

text \<open>What the form is filled with: the secrets only for an Administrator, apart from the password.\<close>

record prefill =
  pf_name :: pystr
  pf_host :: pystr
  pf_port :: int
  pf_database_names :: pystr
  pf_username :: pystr
  pf_lock_control_enabled :: bool
  pf_control_username :: pystr
  pf_owner_teams_webhook_url :: pystr
  pf_password :: "pystr option"

definition add_prefill :: "('v, 'z) registry_env_scheme \<Rightarrow> user \<Rightarrow> bool \<Rightarrow> rds_instance \<Rightarrow> prefill" where
  "add_prefill E u extending src =
     \<lparr>pf_name = inst_name src, pf_host = inst_host src, pf_port = inst_port src,
      pf_database_names = (if extending then [] else inst_db_name src), pf_username = inst_username src,
      pf_lock_control_enabled = (user_is_superuser u \<and> inst_lock_control_enabled src),
      pf_control_username = (if user_is_superuser u \<and> inst_lock_control_enabled src then inst_control_username src else []),
      pf_owner_teams_webhook_url = inst_owner_teams_webhook_url src, pf_password = get_password (env_fernet E) src\<rparr>"

section \<open>Renaming and notifications\<close>

definition in_group :: "rds_instance \<Rightarrow> rds_instance \<Rightarrow> bool" where
  "in_group i j \<longleftrightarrow> inst_connection_group j = inst_connection_group i"

text \<open>The whole connection group is renamed in one transaction with one audit row per member.\<close>

definition do_rename :: "('v, 'z) registry_env_scheme \<Rightarrow> user \<Rightarrow> pystr \<Rightarrow> rds_instance \<Rightarrow> view" where
  "do_rename E u new_name i s =
     (let d = vs_db s;
          siblings = filter (in_group i) (instances d);
          d' = d\<lparr>instances := update_rows (in_group i) (\<lambda>j. j\<lparr>inst_name := new_name\<rparr>) (instances d),
                 audit_logs := audit_logs d @ map (\<lambda>j. audit_row (Some j) Rename_instance u None [] Success
                   (inst_name i @ lit '' -> '' @ new_name)) siblings\<rparr>
      in if \<exists>j \<in> set siblings. \<not> re_row_ok E (j\<lparr>inst_name := new_name\<rparr>) then (Server_error, s)
         else (Detail_page (inst_pk i), notify_user Notice_success (if ve_audit_ok E then s\<lparr>vs_db := d'\<rparr> else s)))"

definition rename_instance :: "('v, 'z) registry_env_scheme \<Rightarrow> int \<Rightarrow> form \<Rightarrow> bool \<Rightarrow> view" where
  "rename_instance E pk p is_post = signed_in (\<lambda>u. posted is_post (permit (user_is_staff u) (for_instance pk
     (\<lambda>i s. permit (instance_access (vs_db s) u i True)
        (let name = py_strip (form_text p ''name'' '''') in if name = [] then detail_error i else do_rename E u name i) s))))"

text \<open>The registration a form of the detail page asks to store; None is a refused form.\<close>

definition webhook_edit :: "('v, 'z) registry_env_scheme \<Rightarrow> user \<Rightarrow> form \<Rightarrow> rds_instance \<Rightarrow> rds_instance option" where
  "webhook_edit E u p i =
     (let url = py_strip (form_text p ''owner_teams_webhook_url'' '''');
          j = i\<lparr>inst_owner_teams_webhook_url := url\<rparr>
      in if length url > 2048 then None
         else if url \<noteq> [] \<and> \<not> re_url_ok E url then None
         else Some (if user_is_superuser u
           then j\<lparr>inst_exclude_from_global_notifications := form_flag p ''exclude_from_global_notifications''\<rparr> else j))"

definition store_edit :: "('v, 'z) registry_env_scheme \<Rightarrow> rds_instance \<Rightarrow> rds_instance option \<Rightarrow> view" where
  "store_edit E i edit = (case edit of None \<Rightarrow> detail_error i | Some j \<Rightarrow> store_instance E j)"

definition update_owner_webhook :: "('v, 'z) registry_env_scheme \<Rightarrow> int \<Rightarrow> form \<Rightarrow> bool \<Rightarrow> view" where
  "update_owner_webhook E pk p is_post = signed_in (\<lambda>u. posted is_post (permit (user_is_staff u) (for_instance pk
     (\<lambda>i s. permit (can_manage_instance_notifications (vs_db s) (Some u) i)
        (store_edit E i (webhook_edit E u p i)) s))))"

section \<open>Credentials\<close>

definition administrator_view :: "int \<Rightarrow> bool \<Rightarrow> (user \<Rightarrow> rds_instance \<Rightarrow> view) \<Rightarrow> view" where
  "administrator_view pk is_post h = signed_in (\<lambda>u. posted is_post (permit (is_administrator u) (for_instance pk
     (\<lambda>i s. permit (instance_access (vs_db s) u i True) (h u i) s))))"

definition control_edit :: "fernet \<Rightarrow> form \<Rightarrow> rds_instance \<Rightarrow> rds_instance option" where
  "control_edit k p i =
     (let enabled = form_flag p ''lock_control_enabled'';
          username = (if enabled then py_strip (form_text p ''control_username'' '''') else []);
          password = (if enabled then form_text p ''control_password'' '''' else []);
          j = i\<lparr>inst_lock_control_enabled := enabled, inst_control_username := username\<rparr>
      in if enabled \<and> username \<noteq> [] \<and> password = []
            \<and> (inst_control_password_encrypted i = [] \<or> \<not> inst_lock_control_enabled i
               \<or> username \<noteq> inst_control_username i)
         then None
         else Some
           (if username = [] then j\<lparr>inst_control_password_encrypted := []\<rparr>
            else if password \<noteq> [] then set_control_password k password j else j))"

definition update_control_credentials :: "('v, 'z) registry_env_scheme \<Rightarrow> int \<Rightarrow> form \<Rightarrow> bool \<Rightarrow> view" where
  "update_control_credentials E pk p is_post = administrator_view pk is_post (\<lambda>u i. store_edit E i (control_edit (env_fernet E) p i))"

definition query_runner_edit :: "fernet \<Rightarrow> form \<Rightarrow> rds_instance \<Rightarrow> rds_instance option" where
  "query_runner_edit k p i =
     (let enabled = form_flag p ''query_runner_enabled'';
          username = (if enabled then py_strip (form_text p ''query_runner_username'' '''') else []);
          password = (if enabled then form_text p ''query_runner_password'' '''' else []);
          j = i\<lparr>inst_query_runner_enabled := enabled, inst_query_runner_username := username\<rparr>
      in if enabled \<and> username = [] then None
         else if enabled \<and> username \<noteq> [] \<and> password = []
            \<and> (inst_query_runner_password_encrypted i = [] \<or> \<not> inst_query_runner_enabled i
               \<or> username \<noteq> inst_query_runner_username i)
         then None
         else Some
           (if username = [] then j\<lparr>inst_query_runner_password_encrypted := []\<rparr>
            else if password \<noteq> [] then set_query_runner_password k password j else j))"

definition update_query_runner_credentials :: "('v, 'z) registry_env_scheme \<Rightarrow> int \<Rightarrow> form \<Rightarrow> bool \<Rightarrow> view" where
  "update_query_runner_credentials E pk p is_post = administrator_view pk is_post (\<lambda>u i. store_edit E i (query_runner_edit (env_fernet E) p i))"

text \<open>The two connection tests open and close a connection; an undecryptable password is not caught.\<close>

definition answer_connection :: "rds_instance \<Rightarrow> target_exc + 'a \<Rightarrow> view" where
  "answer_connection i r s =
     (case r of
        Inr _ \<Rightarrow> (Detail_page (inst_pk i), notify_user Notice_success s)
      | Inl (Conn_err e) \<Rightarrow> detail_error i s
      | Inl _ \<Rightarrow> (Server_error, s))"

definition test_control_connection :: "('v, 'z) registry_env_scheme \<Rightarrow> int \<Rightarrow> bool \<Rightarrow> view" where
  "test_control_connection E pk is_post = administrator_view pk is_post (\<lambda>u i.
     if \<not> inst_lock_control_enabled i then detail_error i
     else answer_connection i (open_connection (ve_server E 0) i))"

definition test_query_runner_connection :: "('v, 'z) registry_env_scheme \<Rightarrow> int \<Rightarrow> bool \<Rightarrow> view" where
  "test_query_runner_connection E pk is_post = administrator_view pk is_post (\<lambda>u i.
     if \<not> inst_query_runner_enabled i then detail_error i
     else answer_connection i
       (case get_query_runner_connection (sv_settings (ve_server E 0)) i of
          Inl e \<Rightarrow> Inl e
        | Inr params \<Rightarrow> (case re_runner_connect E params of Some err \<Rightarrow> Inl (Conn_err err) | None \<Rightarrow> Inr params)))"

text \<open>The connection test of the add form, with the values in the form.\<close>

definition test_form_connection :: "('v, 'z) registry_env_scheme \<Rightarrow> form \<Rightarrow> bool \<Rightarrow> view_state \<Rightarrow> response \<times> (bool \<times> pystr option) option" where
  "test_form_connection E p is_post s =
     (case request_user (vs_db s) (vs_session s) of
        None \<Rightarrow> (Login_page, None)
      | Some u \<Rightarrow>
          if \<not> is_post then (Method_not_allowed, None)
          else if \<not> user_is_staff u then (Forbidden, None)
          else (Page_ok, Some (test_connection (sv_settings (ve_server E 0)) (re_runner_connect E)
            (form_text p ''engine'' ''postgresql'') (form_text p ''host'' '''')
            (if form_text p ''port'' '''' = [] then lit ''5432'' else form_text p ''port'' '''')
            (py_strip (hd (split_on 44 (map (\<lambda>c. if c = 10 then 44 else c) (names_field p)))))
            (form_text p ''username'' '''') (form_text p ''password'' '''') (form_flag p ''ssl_required''))))"

section \<open>Query-runner rights\<close>

definition do_revoke :: "form \<Rightarrow> rds_instance \<Rightarrow> view" where
  "do_revoke p i s =
     (case py_int (form_text p ''grant_id'' '''') of
        None \<Rightarrow> detail_error i s
      | Some g \<Rightarrow>
          let hit = (\<lambda>r. qg_pk r = g \<and> qg_instance r = inst_pk i);
              d = vs_db s;
              s' = s\<lparr>vs_db := d\<lparr>query_runner_grants := filter (\<lambda>r. \<not> hit r) (query_runner_grants d)\<rparr>\<rparr>
          in (Detail_page (inst_pk i),
              if list_ex hit (query_runner_grants d) then notify_user Notice_success s' else s'))"

definition do_grant :: "user \<Rightarrow> form \<Rightarrow> rds_instance \<Rightarrow> view" where
  "do_grant u p i s =
     (let name = py_strip (form_text p ''username'' ''''); d = vs_db s
      in if name = [] then detail_error i s
         else case first_row (\<lambda>x. user_username x = name) (users d) of
             None \<Rightarrow> detail_error i s
           | Some t \<Rightarrow>
               if user_is_superuser t then detail_error i s
               else (Detail_page (inst_pk i), notify_user Notice_success
                 (if \<exists>r \<in> set (query_runner_grants d). qg_user r = user_pk t \<and> qg_instance r = inst_pk i then s
                  else s\<lparr>vs_db := d\<lparr>query_runner_grants := query_runner_grants d @
                         [\<lparr>qg_pk = next_pk d, qg_user = user_pk t, qg_instance = inst_pk i,
                           qg_granted_by = Some (user_pk u)\<rparr>], next_pk := next_pk d + 1\<rparr>\<rparr>)))"

definition query_runner_grant_view :: "int \<Rightarrow> form \<Rightarrow> bool \<Rightarrow> view" where
  "query_runner_grant_view pk p is_post = administrator_view pk is_post (\<lambda>u i.
     if form_text p ''action'' ''grant'' = lit ''revoke'' then do_revoke p i else do_grant u p i)"

section \<open>Removal\<close>

definition do_remove :: "('v, 'z) view_env_scheme \<Rightarrow> user \<Rightarrow> rds_instance \<Rightarrow> view" where
  "do_remove E u i s =
     (let s1 = log_audit E (audit_row (Some i) Remove_instance u None [] Success (inst_db_identifier i)) s
      in (List_page, notify_user Notice_success (s1\<lparr>vs_db := delete_instances {inst_pk i} (vs_db s1)\<rparr>)))"

definition remove_instance :: "('v, 'z) view_env_scheme \<Rightarrow> int \<Rightarrow> form \<Rightarrow> bool \<Rightarrow> view" where
  "remove_instance E pk p is_post = administrator_view pk is_post (\<lambda>u i.
     with_mfa E u p i Remove_instance (inst_db_identifier i) (Detail_page (inst_pk i)) (do_remove E u i))"

text \<open>
  The active registrations of a group, in primary-key order. In the transaction a failed audit row
  makes the deletion raise.
\<close>

definition group_members :: "app_db \<Rightarrow> pystr \<Rightarrow> rds_instance list" where
  "group_members d g = sort_key inst_pk (filter (\<lambda>i. inst_connection_group i = g) (active_instances d))"

definition do_remove_group :: "('v, 'z) view_env_scheme \<Rightarrow> user \<Rightarrow> rds_instance list \<Rightarrow> view" where
  "do_remove_group E u members s =
     (let s1 = fold (\<lambda>i. log_audit E (audit_row (Some i) Remove_instance u None [] Success (inst_db_identifier i))) members s
      in if \<not> ve_audit_ok E then (Server_error, s)
         else (List_page, notify_user Notice_success
                (s1\<lparr>vs_db := delete_instances (set (map inst_pk members)) (vs_db s1)\<rparr>)))"

definition remove_instance_group :: "('v, 'z) view_env_scheme \<Rightarrow> pystr \<Rightarrow> form \<Rightarrow> bool \<Rightarrow> view" where
  "remove_instance_group E g p is_post = signed_in (\<lambda>u. posted is_post (permit (is_administrator u) (\<lambda>s.
     case group_members (vs_db s) g of
       [] \<Rightarrow> (Not_found, s)
     | i # rest \<Rightarrow> with_mfa E u p i Remove_instance (inst_db_identifier i) List_page (do_remove_group E u (i # rest)) s)))"

end
