(* ===== verification/Registry_Api.thy ===== *)
theory Registry_Api
  imports Registry
begin

text \<open>
  The REST interface to the registry: \<open>RDSInstanceViewSet\<close> and \<open>AuditLogViewSet\<close> of
  \<open>monitor/views.py\<close>, \<open>RDSInstanceSerializer\<close> of \<open>serializers.py\<close> and \<open>mask_endpoint\<close> of
  \<open>security.py\<close>.
\<close>

section \<open>Masked endpoints\<close>

definition bullets :: "nat \<Rightarrow> pystr" where
  "bullets n = replicate n 8226"

definition mask_endpoint :: "pystr \<Rightarrow> pystr" where
  "mask_endpoint raw =
     (let v = py_strip raw; parts = split_on 46 v; first = hd parts
      in if v = [] then [8212]
         else if length parts \<ge> 4 \<and> list_all py_isdigit parts then
           join_with [46] (take 2 parts @ [bullets 3, bullets 3])
         else if length parts > 1 then
           take (min 5 (max 2 (length first div 2))) first @ bullets 4 @ [46] @ join_with [46] (tl parts)
         else if length v \<le> 4 then bullets 4
         else take 2 v @ bullets 4 @ drop (length v - 2) v)"

section \<open>Validated data\<close>

record api_data =
  ad_name :: "pystr option"
  ad_engine :: "pystr option"
  ad_db_identifier :: "pystr option"
  ad_region :: "pystr option"
  ad_host :: "pystr option"
  ad_port :: "int option"
  ad_db_name :: "pystr option"
  ad_username :: "pystr option"
  ad_password :: "pystr option"
  ad_lock_control_enabled :: "bool option"
  ad_control_username :: "pystr option"
  ad_control_password :: "pystr option"
  ad_owner_teams_webhook_url :: "pystr option"
  ad_exclude_from_global_notifications :: "bool option"
  ad_ssl_required :: "bool option"
  ad_is_active :: "bool option"

definition given :: "'a option \<Rightarrow> 'a \<Rightarrow> 'a" where
  "given v old = (case v of None \<Rightarrow> old | Some x \<Rightarrow> x)"

text \<open>\<open>setattr\<close> of every validated field but the two passwords.\<close>

definition apply_fields :: "api_data \<Rightarrow> rds_instance \<Rightarrow> rds_instance" where
  "apply_fields v i = i\<lparr>
     inst_name := given (ad_name v) (inst_name i), inst_engine := given (ad_engine v) (inst_engine i),
     inst_db_identifier := given (ad_db_identifier v) (inst_db_identifier i),
     inst_region := given (ad_region v) (inst_region i), inst_host := given (ad_host v) (inst_host i),
     inst_port := given (ad_port v) (inst_port i), inst_db_name := given (ad_db_name v) (inst_db_name i),
     inst_username := given (ad_username v) (inst_username i),
     inst_lock_control_enabled := given (ad_lock_control_enabled v) (inst_lock_control_enabled i),
     inst_control_username := given (ad_control_username v) (inst_control_username i),
     inst_owner_teams_webhook_url := given (ad_owner_teams_webhook_url v) (inst_owner_teams_webhook_url i),
     inst_exclude_from_global_notifications :=
       given (ad_exclude_from_global_notifications v) (inst_exclude_from_global_notifications i),
     inst_ssl_required := given (ad_ssl_required v) (inst_ssl_required i),
     inst_is_active := given (ad_is_active v) (inst_is_active i)\<rparr>"

section \<open>The serializer\<close>

definition blank_instance :: "pystr \<Rightarrow> user \<Rightarrow> int \<Rightarrow> rds_instance" where
  "blank_instance grp u pk =
     \<lparr>inst_pk = pk, inst_name = [], inst_connection_group = grp, inst_engine = lit ''postgresql'',
      inst_db_identifier = [], inst_region = lit ''us-east-1'', inst_host = [], inst_port = 5432, inst_db_name = [],
      inst_username = [], inst_lock_control_enabled = False, inst_control_username = [],
      inst_owner_teams_webhook_url = [], inst_exclude_from_global_notifications = False,
      inst_password_encrypted = [], inst_control_password_encrypted = [], inst_query_runner_enabled = False,
      inst_query_runner_username = [], inst_query_runner_password_encrypted = [], inst_ssl_required = True,
      inst_is_active = True, inst_added_by = Some (user_pk u)\<rparr>"

text \<open>\<open>create\<close>: None is a \<open>ValidationError\<close>.\<close>

definition serializer_create :: "fernet \<Rightarrow> pystr \<Rightarrow> user \<Rightarrow> api_data \<Rightarrow> int \<Rightarrow> rds_instance option" where
  "serializer_create k grp u v0 pk =
     (let v1 = (if user_is_superuser u then v0
                else v0\<lparr>ad_lock_control_enabled := None, ad_control_username := None, ad_control_password := None\<rparr>);
          v = (if given (ad_lock_control_enabled v1) False then v1
               else v1\<lparr>ad_control_username := Some [], ad_control_password := None\<rparr>);
          control_password = given (ad_control_password v) [];
          i = apply_fields v (blank_instance grp u pk);
          j = set_password k (given (ad_password v) []) i
      in if inst_control_username i \<noteq> [] \<and> control_password = [] then None
         else Some (if control_password \<noteq> [] then set_control_password k control_password j else j))"

definition admin_fields_given :: "api_data \<Rightarrow> bool" where
  "admin_fields_given v \<longleftrightarrow>
     ad_lock_control_enabled v \<noteq> None \<or> ad_control_username v \<noteq> None \<or> ad_control_password v \<noteq> None
     \<or> ad_host v \<noteq> None \<or> ad_port v \<noteq> None \<or> ad_engine v \<noteq> None \<or> ad_username v \<noteq> None \<or> ad_db_name v \<noteq> None
     \<or> ad_ssl_required v \<noteq> None \<or> ad_is_active v \<noteq> None \<or> ad_exclude_from_global_notifications v \<noteq> None"

definition connection_changed :: "api_data \<Rightarrow> rds_instance \<Rightarrow> bool" where
  "connection_changed v i \<longleftrightarrow>
     given (ad_host v) (inst_host i) \<noteq> inst_host i \<or> given (ad_port v) (inst_port i) \<noteq> inst_port i
     \<or> given (ad_engine v) (inst_engine i) \<noteq> inst_engine i \<or> given (ad_username v) (inst_username i) \<noteq> inst_username i"

text \<open>
  \<open>update\<close>: None is a \<open>ValidationError\<close>; what was set on the object before is not saved. The test
  for \<open>control_password\<close> in the data comes after it was popped.
\<close>

definition serializer_update :: "fernet \<Rightarrow> app_db \<Rightarrow> user \<Rightarrow> rds_instance \<Rightarrow> api_data \<Rightarrow> rds_instance option" where
  "serializer_update k d u i v0 =
     (let v = v0\<lparr>ad_password := None, ad_control_password := None\<rparr>;
          control_password = given (ad_control_password v0) [];
          i1 = apply_fields v i;
          i2 = (if connection_changed v0 i \<and> ad_control_password v = None
                then i1\<lparr>inst_lock_control_enabled := False, inst_control_username := [],
                        inst_control_password_encrypted := []\<rparr>
                else i1);
          i3 = (if given (ad_password v0) [] \<noteq> [] then set_password k (given (ad_password v0) []) i2 else i2);
          i4 = (if \<not> inst_lock_control_enabled i3
                then i3\<lparr>inst_control_username := [], inst_control_password_encrypted := []\<rparr>
                else if ad_control_username v \<noteq> None \<and> inst_control_username i3 = []
                then i3\<lparr>inst_control_password_encrypted := []\<rparr>
                else i3)
      in if \<not> user_is_superuser u
            \<and> (admin_fields_given v0
               \<or> ad_owner_teams_webhook_url v0 \<noteq> None \<and> \<not> can_manage_instance_notifications d (Some u) i)
         then None
         else if inst_lock_control_enabled i3 \<and> ad_control_username v \<noteq> None \<and> inst_control_username i3 \<noteq> []
              \<and> control_password = []
         then None
         else Some (if control_password \<noteq> [] then set_control_password k control_password i4 else i4))"

text \<open>The fields of a representation that show the endpoint; the write-only fields are not in it.\<close>

record representation =
  rp_pk :: int
  rp_name :: pystr
  rp_host :: pystr
  rp_port :: int
  rp_db_name :: pystr
  rp_username :: pystr
  rp_lock_control_enabled :: bool
  rp_control_username :: pystr
  rp_is_active :: bool

definition to_representation :: "user option \<Rightarrow> rds_instance \<Rightarrow> representation" where
  "to_representation w i =
     \<lparr>rp_pk = inst_pk i, rp_name = inst_name i,
      rp_host = (if (case w of None \<Rightarrow> False | Some u \<Rightarrow> user_is_superuser u) then inst_host i
                 else mask_endpoint (inst_host i)),
      rp_port = inst_port i, rp_db_name = inst_db_name i, rp_username = inst_username i,
      rp_lock_control_enabled = inst_lock_control_enabled i, rp_control_username = inst_control_username i,
      rp_is_active = inst_is_active i\<rparr>"

section \<open>The registry interface\<close>

text \<open>
  Reads answer the representations of the accessible registrations. A creation needs the fields
  without a default; a row the database refuses raises.
\<close>

definition api_list :: "user \<Rightarrow> app_db \<Rightarrow> representation list" where
  "api_list u d = map (to_representation (Some u)) (accessible_instances d u)"

definition required_given :: "api_data \<Rightarrow> bool" where
  "required_given v \<longleftrightarrow> ad_name v \<noteq> None \<and> ad_db_identifier v \<noteq> None \<and> ad_host v \<noteq> None
     \<and> ad_db_name v \<noteq> None \<and> ad_username v \<noteq> None"

definition perform_create :: "('v, 'z) registry_env_scheme \<Rightarrow> user \<Rightarrow> api_data \<Rightarrow> view" where
  "perform_create E u v s =
     (if \<not> required_given v then (Api_error, s)
      else case serializer_create (env_fernet E) (re_new_group E) u v (next_pk (vs_db s)) of
          None \<Rightarrow> (Api_error, s)
        | Some i \<Rightarrow>
            if \<not> re_row_ok E i then (Server_error, s)
            else (Api_ok, log_audit E (audit_row (Some i) Add_instance u None [] Success [])
                   (s\<lparr>vs_db := insert_instance i (vs_db s)\<rparr>)))"

definition api_instance :: "user \<Rightarrow> int \<Rightarrow> (rds_instance \<Rightarrow> view) \<Rightarrow> view" where
  "api_instance u pk h s =
     (case first_row (\<lambda>i. inst_pk i = pk) (accessible_instances (vs_db s) u) of
        None \<Rightarrow> (Not_found, s) | Some i \<Rightarrow> h i s)"

definition perform_update :: "('v, 'z) registry_env_scheme \<Rightarrow> user \<Rightarrow> api_data \<Rightarrow> rds_instance \<Rightarrow> view" where
  "perform_update E u v i s =
     (if \<not> can_operate_instance (vs_db s) (Some u) i then (Forbidden, s)
      else case serializer_update (env_fernet E) (vs_db s) u i v of
          None \<Rightarrow> (Api_error, s)
        | Some j \<Rightarrow>
            if \<not> re_row_ok E j then (Server_error, s)
            else (Api_ok, s\<lparr>vs_db := save_instance j (vs_db s)\<rparr>))"

definition perform_destroy :: "('v, 'z) registry_env_scheme \<Rightarrow> user \<Rightarrow> pystr \<Rightarrow> rds_instance \<Rightarrow> view" where
  "perform_destroy E u code i s =
     (if \<not> is_administrator u then (Forbidden, s)
      else case require_mfa_for_action (ve_mfa E) (ve_now E) u code True (vs_session s) (vs_db s) of
          None \<Rightarrow> (Server_error, s)
        | Some (ok, ss, d) \<Rightarrow>
            let s1 = s\<lparr>vs_session := ss, vs_db := d\<rparr>;
                audit = (\<lambda>result detail. audit_row (Some i) Remove_instance u None [] result detail)
            in if \<not> ok then (Forbidden, log_audit E (audit Failed (lit ''MFA verification required'')) s1)
               else let s2 = log_audit E (audit Success (inst_db_identifier i)) s1
                    in (Api_ok, s2\<lparr>vs_db := delete_instances {inst_pk i} (vs_db s2)\<rparr>))"

datatype api_request =
    Api_get | Api_create api_data | Api_update int api_data | Api_destroy int pystr

definition api_method :: "api_request \<Rightarrow> pystr" where
  "api_method q = (case q of Api_get \<Rightarrow> lit ''GET'' | Api_create v \<Rightarrow> lit ''POST''
     | Api_update pk v \<Rightarrow> lit ''PATCH'' | Api_destroy pk code \<Rightarrow> lit ''DELETE'')"

definition instance_api :: "('v, 'z) registry_env_scheme \<Rightarrow> api_request \<Rightarrow> view" where
  "instance_api E q s =
     (let w = request_user (vs_db s) (vs_session s)
      in if \<not> is_staff_or_read_only (api_method q) w then (Forbidden, s)
         else case w of
             None \<Rightarrow> (Forbidden, s)
           | Some u \<Rightarrow>
               (case q of
                  Api_get \<Rightarrow> (Api_ok, s)
                | Api_create v \<Rightarrow> perform_create E u v s
                | Api_update pk v \<Rightarrow> api_instance u pk (perform_update E u v) s
                | Api_destroy pk code \<Rightarrow> api_instance u pk (perform_destroy E u code) s))"

text \<open>
  The audit interface, for staff: an Administrator reads every row, others those of the
  registrations they can access, which leaves out the rows without one.
\<close>

definition audit_queryset :: "app_db \<Rightarrow> user \<Rightarrow> int option \<Rightarrow> audit_log list" where
  "audit_queryset d u wanted =
     (let visible = (if user_is_superuser u then rev (audit_logs d)
        else filter (\<lambda>l. \<exists>i \<in> set (accessible_instances d u). au_instance l = Some (inst_pk i)) (rev (audit_logs d)))
      in case wanted of None \<Rightarrow> visible | Some pk \<Rightarrow> filter (\<lambda>l. au_instance l = Some pk) visible)"

end
