(* ===== verification/Request_Invariants.thy ===== *)
theory Request_Invariants
  imports Requests
begin

text \<open>
  The interface of a group of views that keeps an invariant of the application database: what each
  request of the group keeps, every sequence of requests keeps.
\<close>

locale kept_by_views =
  fixes handle :: "'r \<Rightarrow> view" and ok :: "'r \<Rightarrow> bool" and inv :: "app_db \<Rightarrow> bool"
  assumes kept: "ok r \<Longrightarrow> inv (vs_db s) \<Longrightarrow> handle r s = (a, s') \<Longrightarrow> inv (vs_db s')"
begin

lemma serve_kept:
  "\<forall>q \<in> set rs. ok (snd q) \<Longrightarrow> inv (vs_db s) \<Longrightarrow> inv (vs_db (serve handle rs s))"
proof (induction rs arbitrary: s)
  case Nil
  then show ?case by simp
next
  case (Cons q rs)
  obtain ss r where q: "q = (ss, r)" by (cases q)
  obtain a s1 where h: "handle r (s\<lparr>vs_session := ss\<rparr>) = (a, s1)" by (cases "handle r (s\<lparr>vs_session := ss\<rparr>)")
  have "inv (vs_db s1)" using kept [OF _ _ h] Cons.prems q by simp
  then show ?case using Cons q h by simp
qed

end

section \<open>What the guards leave alone\<close>

text \<open>
  A guard that refuses leaves the database alone, so an invariant needs to be shown for the guarded
  body only.
\<close>

lemma signed_in_kept:
  "signed_in h s = (r, s') \<Longrightarrow> I (vs_db s) \<Longrightarrow> (\<And>u. h u s = (r, s') \<Longrightarrow> I (vs_db s')) \<Longrightarrow> I (vs_db s')"
  by (erule signed_inE) auto

lemma posted_kept:
  "posted b h s = (r, s') \<Longrightarrow> I (vs_db s) \<Longrightarrow> (h s = (r, s') \<Longrightarrow> I (vs_db s')) \<Longrightarrow> I (vs_db s')"
  by (erule postedE) auto

lemma permit_kept:
  "permit ok h s = (r, s') \<Longrightarrow> I (vs_db s) \<Longrightarrow> (h s = (r, s') \<Longrightarrow> I (vs_db s')) \<Longrightarrow> I (vs_db s')"
  by (erule permitE) auto

lemma for_instance_kept:
  "for_instance pk h s = (r, s') \<Longrightarrow> I (vs_db s) \<Longrightarrow>
   (\<And>i. find_instance (vs_db s) pk = Some i \<Longrightarrow> h i s = (r, s') \<Longrightarrow> I (vs_db s')) \<Longrightarrow> I (vs_db s')"
  by (erule for_instanceE) auto

end
