(* ===== verification/Users_Admin.thy ===== *)
theory Users_Admin
  imports Requests
begin

text \<open>
  The user-management page of \<open>monitor/views.py\<close>: account creation, role changes, and the
  per-instance and replication-slot grants. Django's user manager and password validators are
  parameters.
\<close>

section \<open>Surroundings\<close>

text \<open>
  \<open>validate_password\<close>, the normalisations of \<open>create_user\<close>, and whether the application database
  accepts the new account row (its column widths); a taken username is the model's own check.
\<close>

record 'v users_env = "'v view_env" +
  um_password_ok :: "pystr \<Rightarrow> bool"
  um_normal_username :: "pystr \<Rightarrow> pystr"
  um_normal_email :: "pystr \<Rightarrow> pystr"
  um_row_ok :: "user \<Rightarrow> bool"

definition form_field :: "form \<Rightarrow> string \<Rightarrow> int \<Rightarrow> pystr" where
  "form_field p pre pk = (case form_get p (lit pre @ str_int pk) of None \<Rightarrow> [] | Some v \<Rightarrow> v)"

definition form_int :: "form \<Rightarrow> string \<Rightarrow> int option" where
  "form_int p k = py_int (form_text p k '''')"

definition py_bool :: "bool \<Rightarrow> pystr" where
  "py_bool b = (if b then lit ''True'' else lit ''False'')"

section \<open>The rows of an account\<close>

text \<open>\<open>UserInstanceAccessScope.objects.get_or_create(user=target)\<close>.\<close>

definition ensure_scope :: "int \<Rightarrow> app_db \<Rightarrow> app_db" where
  "ensure_scope pk d =
     (if \<exists>s \<in> set (access_scopes d). us_user s = pk then d
      else d\<lparr>access_scopes := access_scopes d @ [\<lparr>us_user = pk, us_can_manage_global_notifications = False\<rparr>]\<rparr>)"

definition set_slot_access :: "int \<Rightarrow> bool \<Rightarrow> bool \<Rightarrow> app_db \<Rightarrow> app_db" where
  "set_slot_access pk dr tm d = d\<lparr>slot_access :=
     (if \<exists>s \<in> set (slot_access d). sa_user s = pk
      then update_rows (\<lambda>s. sa_user s = pk) (\<lambda>s. s\<lparr>sa_can_drop := dr, sa_can_terminate := tm\<rparr>) (slot_access d)
      else slot_access d @ [\<lparr>sa_user = pk, sa_can_drop = dr, sa_can_terminate = tm\<rparr>])\<rparr>"

definition slot_audit_detail :: "user \<Rightarrow> bool \<Rightarrow> bool \<Rightarrow> pystr" where
  "slot_audit_detail t dr tm =
     lit ''user='' @ user_username t @ lit '' (id='' @ str_int (user_pk t) @ lit ''); drop='' @ py_bool dr
     @ lit ''; terminate='' @ py_bool tm"

text \<open>
  \<open>_save_slot_access\<close>. Both callers run it inside \<open>transaction.atomic()\<close>: when the audit row cannot
  be written the swallowed error still marks the transaction for rollback.
\<close>

definition save_slot_access ::
  "('v, 'z) view_env_scheme \<Rightarrow> user \<Rightarrow> user \<Rightarrow> bool \<Rightarrow> bool \<Rightarrow> view_state \<Rightarrow> view_state" where
  "save_slot_access E u t dr tm s =
     log_audit E (audit_row None Update_slot_permissions u None [] Success (slot_audit_detail t dr tm))
       (s\<lparr>vs_db := set_slot_access (user_pk t) dr tm (vs_db s)\<rparr>)"

definition atomically :: "('v, 'z) view_env_scheme \<Rightarrow> view_state \<Rightarrow> view_state \<Rightarrow> view_state" where
  "atomically E before after = (if ve_audit_ok E then after else before)"

section \<open>Changing a role\<close>

definition change_role :: "user \<Rightarrow> role \<Rightarrow> bool \<Rightarrow> app_db \<Rightarrow> app_db" where
  "change_role t r global d0 =
     (let d = ensure_scope (user_pk t) d0
      in d\<lparr>users := update_rows (\<lambda>u. user_pk u = user_pk t) (\<lambda>u. u\<lparr>user_is_staff := r = Operator\<rparr>) (users d),
           access_scopes := update_rows (\<lambda>s. us_user s = user_pk t)
             (\<lambda>s. s\<lparr>us_can_manage_global_notifications := r = Operator \<and> global\<rparr>) (access_scopes d),
           access_grants := update_rows (\<lambda>g. ua_user g = user_pk t)
             (\<lambda>g. g\<lparr>ua_role := r, ua_can_manage_notifications := r = Operator \<and> ua_can_manage_notifications g\<rparr>)
             (access_grants d),
           slot_access := (if r = Readonly
             then update_rows (\<lambda>s. sa_user s = user_pk t) (\<lambda>s. s\<lparr>sa_can_drop := False, sa_can_terminate := False\<rparr>)
                    (slot_access d)
             else slot_access d)\<rparr>)"

definition target_account :: "form \<Rightarrow> (user \<Rightarrow> view) \<Rightarrow> view" where
  "target_account p h s =
     (case form_int p ''user_id'' of
        None \<Rightarrow> (Forbidden, s)
      | Some pk \<Rightarrow> (case find_user (vs_db s) pk of None \<Rightarrow> (Not_found, s) | Some t \<Rightarrow> h t s))"

definition users_saved :: "app_db \<Rightarrow> view" where
  "users_saved d s = (Users_page, notify_user Notice_success (s\<lparr>vs_db := d\<rparr>))"

definition update_user_role :: "form \<Rightarrow> view" where
  "update_user_role p = target_account p (\<lambda>t s.
     case parse_role (form_text p ''role'' '''') of
       None \<Rightarrow> (Forbidden, s)
     | Some r \<Rightarrow>
         if user_is_superuser t then (Forbidden, s)
         else users_saved (change_role t r (form_flag p ''can_manage_global_notifications'') (vs_db s)) s)"

section \<open>Changing grants\<close>

definition update_slot_access :: "('v, 'z) view_env_scheme \<Rightarrow> user \<Rightarrow> form \<Rightarrow> bool \<Rightarrow> bool \<Rightarrow> view" where
  "update_slot_access E u p dr tm = target_account p (\<lambda>t s.
     if user_is_superuser t \<or> \<not> user_is_staff t then (Forbidden, s)
     else (Users_page, notify_user Notice_success (atomically E s (save_slot_access E u t dr tm s))))"

text \<open>
  The grants a form asks for, in the order of the registrations: the common role when it names one,
  else the role posted for the registration; None when an operator grant is asked for an account
  that is not an operator.
\<close>

fun collect_grants ::
  "bool \<Rightarrow> (rds_instance \<Rightarrow> pystr) \<Rightarrow> (rds_instance \<Rightarrow> role \<Rightarrow> bool) \<Rightarrow> rds_instance list \<Rightarrow>
   (rds_instance \<times> role \<times> bool) list option" where
  "collect_grants staff value notify [] = Some []"
| "collect_grants staff value notify (i # is) =
     (case parse_role (value i) of
        None \<Rightarrow> collect_grants staff value notify is
      | Some r \<Rightarrow>
          if r = Operator \<and> \<not> staff then None
          else map_option (Cons (i, r, notify i r)) (collect_grants staff value notify is))"

definition role_value :: "form \<Rightarrow> string \<Rightarrow> string \<Rightarrow> rds_instance \<Rightarrow> pystr" where
  "role_value p bulk pre i =
     (if parse_role (form_text p bulk '''') \<noteq> None then form_text p bulk '''' else form_field p pre (inst_pk i))"

definition grant_rows :: "int \<Rightarrow> (rds_instance \<times> role \<times> bool) list \<Rightarrow> user_instance_access list" where
  "grant_rows pk specs =
     map (\<lambda>(i, r, n). \<lparr>ua_user = pk, ua_instance = inst_pk i, ua_role = r, ua_can_manage_notifications = n\<rparr>) specs"

definition update_instance_access :: "form \<Rightarrow> view" where
  "update_instance_access p = target_account p (\<lambda>t s.
     if user_is_superuser t then (Forbidden, s)
     else
       case collect_grants (user_is_staff t) (role_value p ''all_instance_role'' ''instance_role_'')
              (\<lambda>i r. user_is_staff t \<and> r = Operator \<and> form_field p ''instance_notifications_'' (inst_pk i) \<noteq> [])
              (active_instances (vs_db s)) of
         None \<Rightarrow> (Forbidden, s)
       | Some specs \<Rightarrow>
           let d = vs_db s
           in users_saved (ensure_scope (user_pk t)
                (d\<lparr>access_grants := filter (\<lambda>g. ua_user g \<noteq> user_pk t) (access_grants d)
                     @ grant_rows (user_pk t) specs\<rparr>)) s)"

section \<open>Creating an account\<close>

text \<open>\<open>create_user\<close>; None is the \<open>IntegrityError\<close> of a taken name or a refused row.\<close>

definition create_user :: "('v, 'z) users_env_scheme \<Rightarrow> pystr \<Rightarrow> pystr \<Rightarrow> bool \<Rightarrow> app_db \<Rightarrow> (user \<times> app_db) option" where
  "create_user E name email staff d =
     (let u = \<lparr>user_pk = next_pk d, user_username = um_normal_username E name, user_email = um_normal_email E email,
               user_is_active = True, user_is_staff = staff, user_is_superuser = False\<rparr>
      in if (\<exists>v \<in> set (users d). user_username v = user_username u) \<or> \<not> um_row_ok E u then None
         else Some (u, d\<lparr>users := users d @ [u], next_pk := next_pk d + 1\<rparr>))"

definition add_scope :: "int \<Rightarrow> bool \<Rightarrow> app_db \<Rightarrow> app_db" where
  "add_scope pk global d =
     d\<lparr>access_scopes := access_scopes d @ [\<lparr>us_user = pk, us_can_manage_global_notifications = global\<rparr>]\<rparr>"

definition add_grants :: "user_instance_access list \<Rightarrow> app_db \<Rightarrow> app_db" where
  "add_grants gs d = d\<lparr>access_grants := access_grants d @ gs\<rparr>"

text \<open>
  The account and its rows in one transaction. Nothing is kept when \<open>create_user\<close> raises. When the
  audit row of the slot rights fails, a following insert of grants raises and with no grants the
  transaction is rolled back after the view answered with success.
\<close>

definition create_account ::
  "('v, 'z) users_env_scheme \<Rightarrow> user \<Rightarrow> pystr \<Rightarrow> pystr \<Rightarrow> bool \<Rightarrow> bool \<Rightarrow> bool \<Rightarrow> bool \<Rightarrow>
   (rds_instance \<times> role \<times> bool) list \<Rightarrow> view" where
  "create_account E admin name email operator global dr tm specs s =
     (case create_user E name email operator (vs_db s) of
        None \<Rightarrow> (Server_error, s)
      | Some (u, d1) \<Rightarrow>
          let s2 = s\<lparr>vs_db := add_scope (user_pk u) (operator \<and> global) d1\<rparr>;
              slots = operator \<and> (dr \<or> tm);
              s3 = (if slots then save_slot_access E admin u dr tm s2 else s2);
              s4 = s3\<lparr>vs_db := add_grants (grant_rows (user_pk u) specs) (vs_db s3)\<rparr>
          in if slots \<and> \<not> ve_audit_ok E \<and> specs \<noteq> [] then (Server_error, s)
             else (Users_page, notify_user Notice_success (if slots then atomically E s s4 else s4)))"

definition users_form_again :: view where
  "users_form_again s = (Page_ok, notify_user Notice_error s)"

definition create_user_form :: "('v, 'z) users_env_scheme \<Rightarrow> user \<Rightarrow> form \<Rightarrow> bool \<Rightarrow> bool \<Rightarrow> view" where
  "create_user_form E admin p dr tm s =
     (let name = py_strip (form_text p ''username'' '''');
          email = py_strip (form_text p ''email'' '''');
          password = form_text p ''password'' '''';
          role = parse_role (form_text p ''role'' ''readonly'');
          operator = (role = Some Operator)
      in if name = [] \<or> password = [] \<or> role = None then users_form_again s
         else if \<not> operator \<and> (dr \<or> tm) then users_form_again s
         else if \<exists>v \<in> set (users (vs_db s)). user_username v = name then users_form_again s
         else if \<not> um_password_ok E password then users_form_again s
         else
           case collect_grants operator (role_value p ''new_all_instance_role'' ''new_instance_role_'')
                  (\<lambda>i r. operator \<and> form_field p ''new_instance_notifications_'' (inst_pk i) \<noteq> [])
                  (active_instances (vs_db s)) of
             None \<Rightarrow> users_form_again s
           | Some specs \<Rightarrow>
               create_account E admin name email operator
                 (form_flag p ''new_can_manage_global_notifications'') dr tm specs s)"

section \<open>The page\<close>

definition user_management_post :: "('v, 'z) users_env_scheme \<Rightarrow> user \<Rightarrow> form \<Rightarrow> view" where
  "user_management_post E u p =
     (let dr = (form_get p (lit ''can_drop_slots'') = Some (lit ''1''));
          tm = (form_get p (lit ''can_terminate_slots'') = Some (lit ''1''));
          action = form_text p ''action'' ''create_user''
      in if action = lit ''update_user_role'' then update_user_role p
         else if action = lit ''update_slot_access'' then update_slot_access E u p dr tm
         else if action = lit ''update_instance_access'' then update_instance_access p
         else if action = lit ''create_user'' then create_user_form E u p dr tm
         else (\<lambda>s. (Forbidden, s)))"

definition user_management :: "('v, 'z) users_env_scheme \<Rightarrow> form \<Rightarrow> bool \<Rightarrow> view" where
  "user_management E p is_post = signed_in (\<lambda>u. permit (is_administrator u)
     (if is_post then user_management_post E u p else (\<lambda>s. (Page_ok, s))))"

text \<open>
  What the page shows of an account: for each active registration the role of its grant and whether
  some grant lets it manage notifications; and the account selected, by default the first.
\<close>

definition access_row :: "app_db \<Rightarrow> user \<Rightarrow> rds_instance \<Rightarrow> rds_instance \<times> role option \<times> bool" where
  "access_row d account i =
     (let gs = filter (\<lambda>g. ua_user g = user_pk account \<and> ua_instance g = inst_pk i) (access_grants d)
      in (i, if gs = [] then None else Some (ua_role (last gs)), list_ex ua_can_manage_notifications gs))"

definition selected_account :: "pystr \<Rightarrow> user list \<Rightarrow> user option" where
  "selected_account user_id accounts =
     (let wanted = (if user_id \<noteq> [] then user_id else case accounts of [] \<Rightarrow> [] | a # _ \<Rightarrow> str_int (user_pk a))
      in first_row (\<lambda>a. str_int (user_pk a) = wanted) accounts)"

section \<open>The invariant\<close>

text \<open>What an account that is neither operator nor Administrator may hold at most.\<close>

definition limited_account :: "app_db \<Rightarrow> int \<Rightarrow> bool" where
  "limited_account d pk \<longleftrightarrow>
     (\<forall>g \<in> set (access_grants d). ua_user g = pk \<longrightarrow> ua_role g = Readonly \<and> \<not> ua_can_manage_notifications g)
     \<and> (\<forall>s \<in> set (slot_access d). sa_user s = pk \<longrightarrow> \<not> sa_can_drop s \<and> \<not> sa_can_terminate s)
     \<and> (\<forall>s \<in> set (access_scopes d). us_user s = pk \<longrightarrow> \<not> us_can_manage_global_notifications s)"

definition accounts_limited :: "app_db \<Rightarrow> bool" where
  "accounts_limited d \<longleftrightarrow>
     (\<forall>u \<in> set (users d). \<not> user_is_staff u \<and> \<not> user_is_superuser u \<longrightarrow> limited_account d (user_pk u))"

definition accounts_keyed :: "app_db \<Rightarrow> bool" where
  "accounts_keyed d \<longleftrightarrow>
     distinct (map user_pk (users d)) \<and> distinct (map user_username (users d))
     \<and> (\<forall>u \<in> set (users d). user_pk u < next_pk d) \<and> (\<forall>g \<in> set (access_grants d). ua_user g < next_pk d)
     \<and> (\<forall>s \<in> set (slot_access d). sa_user s < next_pk d) \<and> (\<forall>s \<in> set (access_scopes d). us_user s < next_pk d)"

definition accounts_ok :: "app_db \<Rightarrow> bool" where
  "accounts_ok d \<longleftrightarrow> grants_scoped d \<and> accounts_keyed d \<and> accounts_limited d"

end
