(* ===== verification/Admin_Claims.thy ===== *)
theory Admin_Claims
  imports Users_Admin Request_Invariants Auth_Claims Target_Claims
begin

text \<open>The properties of the administration pages.\<close>

section \<open>Accounts\<close>

lemma accounts_ok_log [simp]: "accounts_ok (vs_db (log_audit E row s)) = accounts_ok (vs_db s)"
  by (simp add: log_audit_def accounts_ok_def grants_scoped_def accounts_keyed_def accounts_limited_def limited_account_def)

lemmas accounts_defs = accounts_ok_def grants_scoped_def accounts_keyed_def accounts_limited_def limited_account_def

lemma ensure_scope_tables [simp]:
  "users (ensure_scope pk d) = users d" "access_grants (ensure_scope pk d) = access_grants d"
  "slot_access (ensure_scope pk d) = slot_access d" "next_pk (ensure_scope pk d) = next_pk d"
  "\<exists>s \<in> set (access_scopes (ensure_scope pk d)). us_user s = pk"
  by (auto simp: ensure_scope_def)

lemma ensure_scope_scopes:
  "set (access_scopes d) \<subseteq> set (access_scopes (ensure_scope pk d))"
  "s \<in> set (access_scopes (ensure_scope pk d)) \<Longrightarrow>
     s \<in> set (access_scopes d) \<or> us_user s = pk \<and> \<not> us_can_manage_global_notifications s"
  by (auto simp: ensure_scope_def split: if_splits)

text \<open>The conditions on keys, over the keys alone.\<close>

lemma image_update_rows: "(\<And>x. P x \<Longrightarrow> g (f x) = g x) \<Longrightarrow> g ` set (update_rows P f xs) = g ` set xs"
  using map_update_rows_same [of P g f xs] by (metis set_map)

lemma ball_update_rows: "(\<forall>x \<in> set (update_rows P f xs). Q x) \<longleftrightarrow> (\<forall>x \<in> set xs. Q (if P x then f x else x))"
  by (auto simp: update_rows_def)

lemma grants_scoped_image: "grants_scoped d \<longleftrightarrow> ua_user ` set (access_grants d) \<subseteq> us_user ` set (access_scopes d)"
  unfolding grants_scoped_def by (auto simp: image_iff subset_eq) metis+

lemma accounts_keyed_image:
  "accounts_keyed d \<longleftrightarrow>
     distinct (map user_pk (users d)) \<and> distinct (map user_username (users d))
     \<and> user_pk ` set (users d) \<union> ua_user ` set (access_grants d) \<union> sa_user ` set (slot_access d)
         \<union> us_user ` set (access_scopes d) \<subseteq> {..< next_pk d}"
  unfolding accounts_keyed_def by auto

lemma ensure_scope_keys: "us_user ` set (access_scopes (ensure_scope pk d)) = insert pk (us_user ` set (access_scopes d))"
  by (auto simp: ensure_scope_def)

lemma ensure_scope_limited: "limited_account d u \<Longrightarrow> limited_account (ensure_scope pk d) u"
  by (auto simp: limited_account_def dest: ensure_scope_scopes(2))

lemma ensure_scope_ok:
  assumes "accounts_ok d" and "pk < next_pk d"
  shows "accounts_ok (ensure_scope pk d)"
  using assms ensure_scope_limited
  by (auto simp: accounts_ok_def grants_scoped_image accounts_keyed_image accounts_limited_def ensure_scope_keys)

lemma find_user_member: "find_user d pk = Some u \<Longrightarrow> u \<in> set (users d) \<and> user_pk u = pk"
  by (auto simp: find_user_def dest: first_row_Some)

lemma keyed_same: "accounts_keyed d \<Longrightarrow> u \<in> set (users d) \<Longrightarrow> v \<in> set (users d) \<Longrightarrow> user_pk u = user_pk v \<Longrightarrow> u = v"
  by (auto simp: accounts_keyed_def distinct_map inj_on_def)

lemma change_role_ok:
  assumes "accounts_ok d" and "t \<in> set (users d)" and "r = Readonly \<or> r = Operator"
  shows "accounts_ok (change_role t r global d)"
proof -
  let ?e = "ensure_scope (user_pk t) d"
  let ?d = "change_role t r global d"
  have e: "accounts_ok ?e"
    using assms ensure_scope_ok by (auto simp: accounts_ok_def accounts_keyed_def)
  have keys: "ua_user ` set (access_grants ?d) = ua_user ` set (access_grants ?e)"
      "us_user ` set (access_scopes ?d) = us_user ` set (access_scopes ?e)"
      "sa_user ` set (slot_access ?d) = sa_user ` set (slot_access ?e)"
      "user_pk ` set (users ?d) = user_pk ` set (users ?e)" "next_pk ?d = next_pk ?e"
      "map user_pk (users ?d) = map user_pk (users ?e)" "map user_username (users ?d) = map user_username (users ?e)"
    unfolding change_role_def Let_def by (simp_all add: image_update_rows map_update_rows_same)
  have "grants_scoped ?d" "accounts_keyed ?d"
    using e unfolding accounts_ok_def grants_scoped_image accounts_keyed_image keys by simp_all
  moreover have "limited_account ?d (user_pk v)"
    if v: "v \<in> set (users ?d)" "\<not> user_is_staff v" "\<not> user_is_superuser v" for v
  proof (cases "user_pk v = user_pk t")
    case True
    then obtain w where "user_pk w = user_pk t" "v = w\<lparr>user_is_staff := r = Operator\<rparr>"
      using v(1) by (auto simp: change_role_def Let_def set_update_rows split: if_splits)
    then have "r \<noteq> Operator" using v(2) by (cases w) auto
    moreover have "r = Readonly \<or> r = Operator" by (rule assms(3))
    ultimately have "r = Readonly" by (cases r) auto
    then show ?thesis using True by (simp add: limited_account_def change_role_def Let_def ball_update_rows)
  next
    case False
    then have "v \<in> set (users ?e)" using that by (auto simp: change_role_def Let_def set_update_rows split: if_splits)
    then have "limited_account ?e (user_pk v)" using e that by (simp add: accounts_ok_def accounts_limited_def)
    then show ?thesis using False
      by (auto simp: limited_account_def change_role_def Let_def set_update_rows)
  qed
  ultimately show ?thesis unfolding accounts_ok_def accounts_limited_def by blast
qed

lemma parse_role_values: "parse_role x = Some r \<Longrightarrow> r = Readonly \<or> r = Operator"
  by (auto simp: parse_role_def split: if_splits)

lemma set_slot_access_ok:
  assumes "accounts_ok d" and "t \<in> set (users d)" and "user_is_staff t"
  shows "accounts_ok (set_slot_access (user_pk t) dr tm d)"
proof -
  let ?d = "set_slot_access (user_pk t) dr tm d"
  have same: "users ?d = users d" "access_grants ?d = access_grants d" "access_scopes ?d = access_scopes d"
      "next_pk ?d = next_pk d"
    by (simp_all add: set_slot_access_def)
  have keys: "sa_user ` set (slot_access ?d) = insert (user_pk t) (sa_user ` set (slot_access d))"
    by (auto simp: set_slot_access_def image_update_rows image_iff) metis
  have others: "s \<in> set (slot_access d)" if "s \<in> set (slot_access ?d)" "sa_user s \<noteq> user_pk t" for s
    using that by (auto simp: set_slot_access_def set_update_rows split: if_splits)
  have "limited_account ?d (user_pk v)"
    if "v \<in> set (users d)" "\<not> user_is_staff v" "\<not> user_is_superuser v" for v
  proof -
    have "user_pk v \<noteq> user_pk t" using that assms keyed_same [of d v t] by (auto simp: accounts_ok_def)
    moreover have "limited_account d (user_pk v)"
      using that assms(1) by (simp add: accounts_ok_def accounts_limited_def)
    ultimately show ?thesis using others by (auto simp: limited_account_def same)
  qed
  then have "accounts_limited ?d" by (simp add: accounts_limited_def same)
  moreover have "grants_scoped ?d \<and> accounts_keyed ?d"
    using assms by (auto simp: accounts_ok_def grants_scoped_image accounts_keyed_image same keys)
  ultimately show ?thesis by (simp add: accounts_ok_def)
qed

lemma collect_grants_limited:
  assumes "collect_grants staff val notify is = Some specs"
  shows "\<forall>(i, r, n) \<in> set specs. (r = Operator \<longrightarrow> staff) \<and> r \<noteq> Administrator \<and> n = notify i r"
  using assms by (induction "is" arbitrary: specs) (auto split: option.splits if_splits dest: parse_role_values)

lemma regrant:
  "accounts_keyed s \<Longrightarrow> ua_user ` set gs \<subseteq> us_user ` set (access_scopes s) \<Longrightarrow> ua_user ` set gs \<subseteq> {..< next_pk s} \<Longrightarrow>
   grants_scoped (s\<lparr>access_grants := gs\<rparr>) \<and> accounts_keyed (s\<lparr>access_grants := gs\<rparr>)"
  by (simp add: grants_scoped_image accounts_keyed_image)

lemma give_grants_ok:
  assumes s: "accounts_ok s" and t: "t \<in> set (users s)" "user_pk t \<in> us_user ` set (access_scopes s)"
    and specs: "collect_grants (user_is_staff t) val notify is = Some specs"
    and notify: "\<And>i r. notify i r \<Longrightarrow> user_is_staff t"
    and kept: "set kept \<subseteq> set (access_grants s)"
  shows "accounts_ok (s\<lparr>access_grants := kept @ grant_rows (user_pk t) specs\<rparr>)"
proof -
  let ?g = "kept @ grant_rows (user_pk t) specs"
  have new: "ua_user g = user_pk t" if "g \<in> set (grant_rows (user_pk t) specs)" for g
    using that by (auto simp: grant_rows_def)
  have readonly: "ua_role g = Readonly \<and> \<not> ua_can_manage_notifications g"
    if "g \<in> set (grant_rows (user_pk t) specs)" "\<not> user_is_staff t" for g
  proof -
    obtain i r n where spec: "(i, r, n) \<in> set specs" "g = \<lparr>ua_user = user_pk t, ua_instance = inst_pk i, ua_role = r,
        ua_can_manage_notifications = n\<rparr>"
      using \<open>g \<in> _\<close> by (auto simp: grant_rows_def)
    have "(r = Operator \<longrightarrow> user_is_staff t) \<and> r \<noteq> Administrator \<and> n = notify i r"
      using collect_grants_limited [OF specs] spec(1) by auto
    then show ?thesis using notify [of i r] that(2) spec(2) by (cases r) auto
  qed
  have limited: "limited_account (s\<lparr>access_grants := ?g\<rparr>) (user_pk v)"
    if v: "v \<in> set (users s)" "\<not> user_is_staff v" "\<not> user_is_superuser v" for v
  proof -
    have lim: "limited_account s (user_pk v)" using v s by (simp add: accounts_ok_def accounts_limited_def)
    have "v = t \<or> user_pk v \<noteq> user_pk t" using v s t keyed_same [of s v t] by (auto simp: accounts_ok_def)
    then show ?thesis using lim new readonly v kept by (fastforce simp: limited_account_def)
  qed
  have g: "ua_user ` set ?g \<subseteq> insert (user_pk t) (ua_user ` set (access_grants s))" using new kept by auto
  have old: "ua_user ` set (access_grants s) \<subseteq> us_user ` set (access_scopes s)"
      "ua_user ` set (access_grants s) \<subseteq> {..< next_pk s}" "user_pk t \<in> {..< next_pk s}"
    using s t by (auto simp: accounts_ok_def grants_scoped_image accounts_keyed_image)
  have grants: "ua_user ` set ?g \<subseteq> us_user ` set (access_scopes s)"
    by (rule subset_trans [OF g]) (simp only: insert_subset old t simp_thms)
  have keys: "ua_user ` set ?g \<subseteq> {..< next_pk s}"
    by (rule subset_trans [OF g]) (simp only: insert_subset old simp_thms)
  show ?thesis unfolding accounts_ok_def accounts_limited_def
    using regrant [OF _ grants keys] s limited by (simp add: accounts_ok_def)
qed

lemma replace_grants_ok:
  assumes "accounts_ok d" and "t \<in> set (users d)"
    and "collect_grants (user_is_staff t) val notify is = Some specs"
    and "\<And>i r. notify i r \<Longrightarrow> user_is_staff t"
  shows "accounts_ok (ensure_scope (user_pk t)
    (d\<lparr>access_grants := filter (\<lambda>g. ua_user g \<noteq> user_pk t) (access_grants d) @ grant_rows (user_pk t) specs\<rparr>))"
proof -
  have "ensure_scope (user_pk t) (d\<lparr>access_grants := gs\<rparr>) = (ensure_scope (user_pk t) d)\<lparr>access_grants := gs\<rparr>" for gs
    by (simp add: ensure_scope_def)
  moreover have "accounts_ok (ensure_scope (user_pk t) d)"
    using assms(1,2) ensure_scope_ok by (auto simp: accounts_ok_def accounts_keyed_def)
  ultimately show ?thesis
    using give_grants_ok [of "ensure_scope (user_pk t) d" t val notify "is" specs
        "filter (\<lambda>g. ua_user g \<noteq> user_pk t) (access_grants d)"] assms
    by (simp add: ensure_scope_keys)
qed

lemma new_account_ok:
  assumes "accounts_ok d" and "create_user E name email operator d = Some (u, d1)"
  shows "accounts_ok (add_scope (user_pk u) (operator \<and> global) d1)"
    and "u \<in> set (users d1)" and "user_is_staff u = operator"
proof -
  have d1: "d1 = d\<lparr>users := users d @ [u], next_pk := next_pk d + 1\<rparr>" "user_pk u = next_pk d"
      "user_is_staff u = operator" "user_username u \<notin> user_username ` set (users d)"
    using assms(2) by (auto simp: create_user_def Let_def split: if_splits)
  show "u \<in> set (users d1)" "user_is_staff u = operator" using d1 by simp_all
  let ?d = "add_scope (user_pk u) (operator \<and> global) d1"
  have below: "user_pk ` set (users d) \<subseteq> {..< next_pk d}" "ua_user ` set (access_grants d) \<subseteq> {..< next_pk d}"
      "sa_user ` set (slot_access d) \<subseteq> {..< next_pk d}" "us_user ` set (access_scopes d) \<subseteq> {..< next_pk d}"
    using assms(1) by (simp_all add: accounts_ok_def accounts_keyed_image)
  have "accounts_keyed ?d"
    using assms(1) d1(4) unfolding accounts_ok_def accounts_keyed_def
    by (auto simp: d1(1,2) add_scope_def dest: bspec intro: less_imp_le)
  moreover have "grants_scoped ?d"
    using assms(1) by (auto simp: accounts_ok_def grants_scoped_image d1(1,2) add_scope_def)
  moreover have "limited_account ?d (user_pk v)"
    if v: "v \<in> set (users ?d)" "\<not> user_is_staff v" "\<not> user_is_superuser v" for v
  proof (cases "v = u")
    case True
    then show ?thesis using below v d1(3) by (auto simp: limited_account_def d1(1,2) add_scope_def subset_eq)
  next
    case False
    then have "v \<in> set (users d)" using v by (simp add: d1(1) add_scope_def)
    then show ?thesis using below v assms(1)
      by (auto simp: limited_account_def accounts_ok_def accounts_limited_def d1(1,2) add_scope_def subset_eq)
  qed
  ultimately show "accounts_ok ?d" unfolding accounts_ok_def accounts_limited_def by blast
qed

lemma create_account_ok:
  assumes "accounts_ok (vs_db s)" and "create_account E admin name email operator global dr tm specs s = (r, s')"
    and "collect_grants operator val notify is = Some specs" and "\<And>i r. notify i r \<Longrightarrow> operator"
  shows "accounts_ok (vs_db s')"
proof (cases "create_user E name email operator (vs_db s)")
  case None
  then show ?thesis using assms(1,2) by (simp add: create_account_def)
next
  case (Some ud)
  obtain u d1 where ud: "ud = (u, d1)" by (cases ud)
  let ?d = "add_scope (user_pk u) (operator \<and> global) d1"
  note new = new_account_ok(1) [OF assms(1) Some [unfolded ud], of global]
    new_account_ok(2,3) [OF assms(1) Some [unfolded ud]]
  have scope: "user_pk u \<in> us_user ` set (access_scopes ?d)" "u \<in> set (users ?d)"
    using new(2) by (simp_all add: add_scope_def)
  have granted: "accounts_ok (add_grants (grant_rows (user_pk u) specs) d)"
    if "accounts_ok d" "u \<in> set (users d)" "user_pk u \<in> us_user ` set (access_scopes d)" for d
    unfolding add_grants_def
    by (rule give_grants_ok [OF that(1) that(2,3) assms(3) [folded new(3)] _ subset_refl])
       (use assms(4) new(3) in auto)
  have slots: "accounts_ok (add_grants (grant_rows (user_pk u) specs) (set_slot_access (user_pk u) dr tm ?d))" if operator
    by (rule granted) (use set_slot_access_ok [OF new(1) scope(2)] new(3) that scope in \<open>simp_all add: set_slot_access_def\<close>)
  have logged: "add_grants gs (vs_db (log_audit E row s)) = vs_db (log_audit E row (s\<lparr>vs_db := add_grants gs (vs_db s)\<rparr>))"
    for gs row s by (simp add: log_audit_def add_grants_def)
  show ?thesis using assms(1,2) granted [OF new(1) scope(2,1)] slots
    by (auto simp: create_account_def Some ud Let_def save_slot_access_def logged atomically_def split: if_splits)
qed

lemma target_account_kept:
  assumes "target_account p h s = (r, s')" and "accounts_ok (vs_db s)"
    and "\<And>t. t \<in> set (users (vs_db s)) \<Longrightarrow> h t s = (r, s') \<Longrightarrow> accounts_ok (vs_db s')"
  shows "accounts_ok (vs_db s')"
  using assms by (auto simp: target_account_def dest!: find_user_member split: option.splits)

lemma user_management_post_ok:
  assumes "user_management_post E admin p s = (r, s')" and ok: "accounts_ok (vs_db s)"
  shows "accounts_ok (vs_db s')"
proof -
  let ?dr = "form_get p (lit ''can_drop_slots'') = Some (lit ''1'')"
  let ?tm = "form_get p (lit ''can_terminate_slots'') = Some (lit ''1'')"
  consider "update_user_role p s = (r, s')" | "update_slot_access E admin p ?dr ?tm s = (r, s')"
    | "update_instance_access p s = (r, s')" | "create_user_form E admin p ?dr ?tm s = (r, s')" | "s' = s"
    using assms(1) by (auto simp: user_management_post_def Let_def split: if_splits)
  then show ?thesis
  proof cases
    case 1
    then show ?thesis unfolding update_user_role_def
      by (rule target_account_kept [OF _ ok])
         (use ok in \<open>auto simp: users_saved_def dest!: parse_role_values intro!: change_role_ok split: option.splits if_splits\<close>)
  next
    case 2
    then show ?thesis unfolding update_slot_access_def
      by (rule target_account_kept [OF _ ok])
         (use ok in \<open>auto simp: save_slot_access_def atomically_def intro!: set_slot_access_ok split: if_splits\<close>)
  next
    case 3
    then show ?thesis unfolding update_instance_access_def
      by (rule target_account_kept [OF _ ok])
         (use ok in \<open>auto simp: users_saved_def Let_def intro!: replace_grants_ok split: option.splits if_splits\<close>)
  next
    case 4
    then show ?thesis
      using ok by (auto simp: create_user_form_def Let_def users_form_again_def intro: create_account_ok
          split: if_splits option.splits)
  next
    case 5
    then show ?thesis using ok by simp
  qed
qed

type_synonym 'v users_request = "'v users_env \<times> form \<times> bool"

definition handle_users :: "'v users_request \<Rightarrow> view" where
  "handle_users q = (case q of (E, p, b) \<Rightarrow> user_management E p b)"

lemma user_management_ok:
  assumes "handle_users q s = (r, s')" and "accounts_ok (vs_db s)"
  shows "accounts_ok (vs_db s')"
  using assms
  by (cases q) (auto simp: handle_users_def user_management_def elim!: signed_in_kept permit_kept
      intro: user_management_post_ok split: if_splits)

interpretation accounts: kept_by_views handle_users "\<lambda>_. True" accounts_ok
  by unfold_locales (rule user_management_ok)

text \<open>The page does not touch the query-runner rights.\<close>

definition runner_rights :: "view_state \<Rightarrow> query_runner_grant list" where
  "runner_rights s = query_runner_grants (vs_db s)"

lemma runner_rights_simps [simp]:
  "runner_rights (log_audit E row s) = runner_rights s" "runner_rights (notify_user n s) = runner_rights s"
  "runner_rights (snd (users_saved d s)) = query_runner_grants d" "runner_rights (snd (users_form_again s)) = runner_rights s"
  "runner_rights (s\<lparr>vs_db := d\<rparr>) = query_runner_grants d"
  "query_runner_grants (ensure_scope pk d) = query_runner_grants d"
  "query_runner_grants (set_slot_access pk dr tm d) = query_runner_grants d"
  "query_runner_grants (add_scope pk g d) = query_runner_grants d" "query_runner_grants (add_grants gs d) = query_runner_grants d"
  "query_runner_grants (change_role t r g d) = query_runner_grants d"
  by (simp_all add: runner_rights_def log_audit_def users_saved_def users_form_again_def ensure_scope_def
      set_slot_access_def add_scope_def add_grants_def change_role_def Let_def)

lemma save_slot_runner_rights [simp]: "runner_rights (save_slot_access E u t dr tm s) = runner_rights s"
  by (simp add: save_slot_access_def) (simp add: runner_rights_def)

lemma save_slot_grants [simp]: "query_runner_grants (vs_db (save_slot_access E u t dr tm s)) = query_runner_grants (vs_db s)"
  using save_slot_runner_rights [of E u t dr tm s] by (simp only: runner_rights_def)

lemma target_account_runner_rights:
  "(\<And>t. runner_rights (snd (h t s)) = runner_rights s) \<Longrightarrow> runner_rights (snd (target_account p h s)) = runner_rights s"
  by (simp add: target_account_def split: option.split)

lemma create_user_runner_rights: "create_user E n m o' d = Some (u, d1) \<Longrightarrow> query_runner_grants d1 = query_runner_grants d"
  by (auto simp: create_user_def Let_def split: if_splits)

lemma create_account_runner_rights [simp]:
  "runner_rights (snd (create_account E a n m o' g dr tm specs s)) = runner_rights s"
proof (cases "create_user E n m o' (vs_db s)")
  case None
  then show ?thesis by (simp add: create_account_def)
next
  case (Some ud)
  then obtain u d1 where c: "create_user E n m o' (vs_db s) = Some (u, d1)" by (cases ud) simp
  show ?thesis using create_user_runner_rights [OF c]
    unfolding create_account_def c option.case prod.case Let_def atomically_def
    by (simp add: runner_rights_def notify_user_def)
qed

lemma user_action_runner_rights [simp]:
  "runner_rights (snd (update_user_role p s)) = runner_rights s"
  "runner_rights (snd (update_slot_access E u p dr tm s)) = runner_rights s"
  "runner_rights (snd (update_instance_access p s)) = runner_rights s"
proof -
  have s: "query_runner_grants (vs_db s) = runner_rights s" by (simp add: runner_rights_def)
  show "runner_rights (snd (update_user_role p s)) = runner_rights s" unfolding update_user_role_def
    by (rule target_account_runner_rights) (simp add: s split: option.split)
  show "runner_rights (snd (update_slot_access E u p dr tm s)) = runner_rights s" unfolding update_slot_access_def
    by (rule target_account_runner_rights) (simp add: atomically_def)
  show "runner_rights (snd (update_instance_access p s)) = runner_rights s" unfolding update_instance_access_def
    by (rule target_account_runner_rights) (simp add: s Let_def split: option.split)
qed

lemma if_view: "(if b then (h :: view) else k) s = (if b then h s else k s)"
  by simp

lemma rights_if: "runner_rights (snd (if b then x else y)) = r \<longleftrightarrow> (if b then runner_rights (snd x) = r else runner_rights (snd y) = r)"
  by simp

lemma rights_option: "(\<And>x. runner_rights (snd (g x)) = r) \<Longrightarrow> runner_rights (snd f) = r \<Longrightarrow> runner_rights (snd (case z of None \<Rightarrow> f | Some x \<Rightarrow> g x)) = r"
  by (cases z) simp_all

lemma create_user_form_runner_rights [simp]: "runner_rights (snd (create_user_form E u p dr tm s)) = runner_rights s"
  unfolding create_user_form_def Let_def rights_if
  by (intro if_bool_eq_conj [THEN iffD2] conjI impI rights_option create_account_runner_rights runner_rights_simps)

lemma user_management_runner_rights: "runner_rights (snd (handle_users q s)) = runner_rights s"
proof -
  obtain E p b where q: "q = (E, p, b)" by (cases q)
  have "runner_rights (snd (user_management_post E u p s)) = runner_rights s" for u
    unfolding user_management_post_def Let_def
    by (simp only: if_view rights_if user_action_runner_rights create_user_form_runner_rights snd_conv if_cancel)
  then show ?thesis unfolding q handle_users_def prod.case user_management_def signed_in_def permit_def
    by (simp split: option.split)
qed

lemma users_serve_runner_rights:
  "query_runner_grants (vs_db (serve handle_users rs s)) = query_runner_grants (vs_db s)"
proof -
  have "kept_by_views handle_users (\<lambda>_. True) (\<lambda>d. query_runner_grants d = query_runner_grants (vs_db s))"
    by unfold_locales (metis user_management_runner_rights runner_rights_def snd_conv)
  from kept_by_views.serve_kept [OF this, of rs s] show ?thesis by simp
qed

text \<open>
  C13. Accounts that are not operators stay read-only: whatever the user-management page is asked to
  do, by whomever, an account that ends up neither operator nor Administrator can operate no
  instance and manage neither notifications nor replication slots. Its query-runner rights are the
  exception: no request to the page changes them, so a demoted operator keeps them.
\<close>

theorem readonly_accounts_stay_limited:
  assumes "accounts_ok (vs_db s)" and "d = vs_db (serve handle_users rs s)"
    and "u \<in> set (users d)" and "\<not> user_is_staff u" and "\<not> user_is_superuser u"
  shows "accounts_ok d \<and> instance_role d (Some u) i \<in> {None, Some Readonly}
    \<and> \<not> can_manage_instance_notifications d (Some u) i \<and> \<not> can_manage_global_notifications d (Some u)
    \<and> \<not> can_manage_replication_slot d (Some u) action
    \<and> query_runner_grants d = query_runner_grants (vs_db s)"
proof -
  have ok: "accounts_ok d" using accounts.serve_kept [of rs s] assms(1,2) by simp
  then have "limited_account d (user_pk u)" using assms(3-5) by (simp add: accounts_ok_def accounts_limited_def)
  then have "ua_role g = Readonly \<and> \<not> ua_can_manage_notifications g" if "g \<in> set (access_grants d)" "ua_user g = user_pk u" for g
    using that by (auto simp: limited_account_def)
  then show ?thesis using ok assms(2,4,5) grant_of_SomeD [of d u i]
    by (auto simp: instance_role_def can_manage_instance_notifications_def can_manage_global_notifications_def
        can_manage_replication_slot_def users_serve_runner_rights split: option.splits)
qed

definition boss :: user where
  "boss = demo_user\<lparr>user_is_superuser := True\<rparr>"

definition worker :: user where
  "worker = \<lparr>user_pk = 4, user_username = lit ''worker'', user_email = [], user_is_active = True,
     user_is_staff = True, user_is_superuser = False\<rparr>"

definition admin_db :: app_db where
  "admin_db = auth_db\<lparr>users := [boss, worker],
     access_grants := [\<lparr>ua_user = 4, ua_instance = 7, ua_role = Operator, ua_can_manage_notifications = True\<rparr>],
     access_scopes := [\<lparr>us_user = 4, us_can_manage_global_notifications = True\<rparr>],
     slot_access := [\<lparr>sa_user = 4, sa_can_drop = True, sa_can_terminate = True\<rparr>],
     query_runner_grants := [\<lparr>qg_pk = 5, qg_user = 4, qg_instance = 7, qg_granted_by = Some 3\<rparr>]\<rparr>"

definition admin_state :: view_state where
  "admin_state = \<lparr>vs_db = admin_db, vs_session = full_session, vs_notices = [], vs_effects = [], vs_uncached = []\<rparr>"

definition admin_users_env :: "unit users_env" where
  "admin_users_env = \<lparr>ve_mfa = demo_mfa_env, ve_now = 0, ve_server = (\<lambda>_. undefined), ve_audit_ok = True,
     ve_mark_ok = True, um_password_ok = (\<lambda>_. True), um_normal_username = id, um_normal_email = id,
     um_row_ok = (\<lambda>_. True)\<rparr>"

definition demote_form :: form where
  "demote_form = [(lit ''action'', lit ''update_user_role''), (lit ''user_id'', lit ''4''), (lit ''role'', lit ''readonly'')]"

lemmas admin_db_defs = admin_db_def boss_def worker_def auth_db_def demo_user_def demo_db_def empty_db_def

lemma boss_signed_in: "request_user (vs_db (admin_state\<lparr>vs_session := full_session\<rparr>)) full_session = Some boss"
  by (simp add: admin_state_def request_user_def full_session_def find_user_def admin_db_def boss_def demo_user_def)

lemma boss_administrator: "is_administrator boss"
  by (simp add: boss_def demo_user_def is_administrator_def)

lemma demote_parsed: "form_text demote_form ''action'' ''create_user'' = lit ''update_user_role''"
    "form_text demote_form ''user_id'' '''' = lit ''4''" "form_text demote_form ''role'' '''' = lit ''readonly''"
  by (simp_all add: form_text_def form_get_def form_all_def demote_form_def)

lemma demoted: "vs_db (serve handle_users [(full_session, admin_users_env, demote_form, True)] admin_state) =
    change_role worker Readonly (form_flag demote_form ''can_manage_global_notifications'') admin_db"
proof -
  have "py_int (lit ''4'') = Some 4" by (rule py_int_lit) (simp add: digit_eval)
  moreover have "parse_role (lit ''readonly'') = Some Readonly" by (simp add: parse_role_def)
  moreover have "find_user admin_db 4 = Some worker"
    by (simp add: find_user_def admin_db_def boss_def worker_def demo_user_def)
  moreover have "vs_db admin_state = admin_db" by (simp add: admin_state_def)
  ultimately have role: "vs_db (snd (update_user_role demote_form admin_state))
      = change_role worker Readonly (form_flag demote_form ''can_manage_global_notifications'') admin_db"
    by (simp add: demote_parsed update_user_role_def target_account_def form_int_def users_saved_def worker_def)
  have post: "user_management_post admin_users_env boss demote_form = update_user_role demote_form"
    unfolding user_management_post_def Let_def demote_parsed by (simp only: refl if_True)
  have "admin_state\<lparr>vs_session := full_session\<rparr> = admin_state" by (simp add: admin_state_def)
  then show ?thesis using role boss_signed_in boss_administrator
    by (simp add: handle_users_def user_management_def signed_in_def permit_def post admin_state_def)
qed

theorem readonly_accounts_stay_limited_witness:
  "\<exists>d u. d = vs_db (serve handle_users [(full_session, admin_users_env, demote_form, True)] admin_state)
     \<and> can_operate_instance admin_db (Some worker) runner_instance
     \<and> u \<in> set (users d) \<and> user_pk u = 4 \<and> instance_role d (Some u) runner_instance = Some Readonly
     \<and> \<not> can_manage_replication_slot d (Some u) (lit ''drop'') \<and> can_run_queries d (Some u) runner_instance"
proof -
  let ?d = "vs_db (serve handle_users [(full_session, admin_users_env, demote_form, True)] admin_state)"
  let ?u = "worker\<lparr>user_is_staff := False\<rparr>"
  have ok: "accounts_ok (vs_db admin_state)"
    by (simp add: admin_state_def accounts_defs admin_db_defs)
  have u: "?u \<in> set (users ?d)"
    unfolding demoted by (simp add: change_role_def Let_def ensure_scope_def admin_db_def boss_def worker_def demo_user_def
        update_rows_def)
  note r = readonly_accounts_stay_limited [OF ok refl u, of runner_instance "lit ''drop''"]
  have "instance_role ?d (Some ?u) runner_instance = Some Readonly"
    unfolding demoted by (simp add: change_role_def Let_def ensure_scope_def admin_db_def worker_def instance_role_def
        grant_of_def first_row_def update_rows_def runner_instance_def)
  moreover have "can_run_queries ?d (Some ?u) runner_instance"
    using r by (simp add: can_run_queries_def worker_def runner_instance_def admin_state_def admin_db_def)
  moreover have "can_operate_instance admin_db (Some worker) runner_instance"
    by (simp add: can_operate_instance_def instance_role_def grant_of_def worker_def admin_db_def runner_instance_def)
  ultimately show ?thesis using r u by (intro exI [of _ ?d] exI [of _ ?u]) (simp add: worker_def)
qed

end
