(* ===== verification/Registry_Claims.thy ===== *)
theory Registry_Claims
  imports Registry_Api Request_Invariants Admin_Claims Kill_Claims
begin

text \<open>
  The properties of the instance registry: an abstract account of what one request may do to the
  registrations, that every page and every REST call is such a change, and what follows for
  credentials, for operators and for removal.
\<close>

section \<open>Requests\<close>

datatype registry_request =
    Add form | Rename int form | Owner_webhook int form | Control_credentials int form
  | Runner_credentials int form | Test_control int | Test_runner int | Runner_grant int form
  | Remove int form | Remove_group pystr form | Rest api_request

fun registry_view :: "('v, 'z) registry_env_scheme \<Rightarrow> registry_request \<Rightarrow> bool \<Rightarrow> view" where
  "registry_view E (Add p) b = add_instance E p b"
| "registry_view E (Rename pk p) b = rename_instance E pk p b"
| "registry_view E (Owner_webhook pk p) b = update_owner_webhook E pk p b"
| "registry_view E (Control_credentials pk p) b = update_control_credentials E pk p b"
| "registry_view E (Runner_credentials pk p) b = update_query_runner_credentials E pk p b"
| "registry_view E (Test_control pk) b = test_control_connection E pk b"
| "registry_view E (Test_runner pk) b = test_query_runner_connection E pk b"
| "registry_view E (Runner_grant pk p) b = query_runner_grant_view pk p b"
| "registry_view E (Remove pk p) b = remove_instance E pk p b"
| "registry_view E (Remove_group g p) b = remove_instance_group E g p b"
| "registry_view E (Rest q) b = instance_api E q"

section \<open>The abstract registry\<close>

text \<open>
  The stored roles of a registration are coherent: a lock-control name only while lock control is
  enabled and with a password, and for the query runner all three or none.
\<close>

definition credentials_ok :: "rds_instance \<Rightarrow> bool" where
  "credentials_ok i \<longleftrightarrow>
     (inst_control_username i \<noteq> [] \<longrightarrow> inst_lock_control_enabled i \<and> inst_control_password_encrypted i \<noteq> [])
     \<and> (inst_query_runner_enabled i \<longleftrightarrow> inst_query_runner_username i \<noteq> [])
     \<and> (inst_query_runner_enabled i \<longleftrightarrow> inst_query_runner_password_encrypted i \<noteq> [])"

text \<open>
  What of a registration is the Administrator's: all but its labels, its webhook and its password. A
  lock-control role counts only while lock control is enabled.
\<close>

definition protected_part :: "rds_instance \<Rightarrow> rds_instance" where
  "protected_part i = i\<lparr>inst_name := [], inst_db_identifier := [], inst_region := [],
     inst_owner_teams_webhook_url := [], inst_password_encrypted := [],
     inst_control_username := (if inst_lock_control_enabled i then inst_control_username i else []),
     inst_control_password_encrypted := (if inst_lock_control_enabled i then inst_control_password_encrypted i else [])\<rparr>"

definition same_endpoint :: "rds_instance \<Rightarrow> rds_instance \<Rightarrow> bool" where
  "same_endpoint i j \<longleftrightarrow> inst_host j = inst_host i \<and> inst_port j = inst_port i
     \<and> inst_engine j = inst_engine i \<and> inst_username j = inst_username i"

definition edit_allowed :: "fernet \<Rightarrow> user \<Rightarrow> rds_instance \<Rightarrow> rds_instance \<Rightarrow> bool" where
  "edit_allowed k u i j \<longleftrightarrow>
     (user_is_superuser u \<or> protected_part j = protected_part i)
     \<and> (same_endpoint i j \<or> \<not> inst_lock_control_enabled j \<and> inst_control_username j = [])
     \<and> (fernet_ok k \<and> credentials_ok i \<longrightarrow> credentials_ok j)"

text \<open>
  One change of the database from \<open>d\<close> to \<open>d'\<close> by the account \<open>u\<close>, as far as the registrations go:
  nothing; new registrations under fresh keys; one edit; the renaming of a connection group; the
  removal of registrations with all that refers to them, for which an Administrator's code must have
  been accepted and which the audit log names.
\<close>

definition removal_audited :: "app_db \<Rightarrow> user \<Rightarrow> int \<Rightarrow> audit_log list \<Rightarrow> bool" where
  "removal_audited d u pk logs \<longleftrightarrow> (\<exists>row \<in> set logs. au_action row = Remove_instance \<and> au_result row = Success
     \<and> au_performed_by row = Some (user_pk u)
     \<and> (\<exists>i \<in> set (instances d). inst_pk i = pk \<and> au_instance_name row = inst_name i \<and> au_detail row = inst_db_identifier i))"

inductive registry_change :: "('v, 'z) view_env_scheme \<Rightarrow> app_db \<Rightarrow> user \<Rightarrow> app_db \<Rightarrow> bool"
  for E :: "('v, 'z) view_env_scheme" and d :: app_db and u :: user and d' :: app_db where
  unchanged: "instances d' = instances d \<Longrightarrow> registry_change E d u d'"
| added: "instances d' = instances d @ new \<Longrightarrow> user_is_staff u \<Longrightarrow>
    map inst_pk new = map (\<lambda>n. next_pk d + int n) [0..<length new] \<Longrightarrow>
    (fernet_ok (me_fernet (ve_mfa E)) \<longrightarrow> (\<forall>i \<in> set (instances d). credentials_ok i) \<longrightarrow> (\<forall>i \<in> set new. credentials_ok i)) \<Longrightarrow>
    registry_change E d u d'"
| edited: "instances d' = instances (save_instance j d) \<Longrightarrow> user_is_staff u \<Longrightarrow> i \<in> set (instances d) \<Longrightarrow>
    inst_pk j = inst_pk i \<Longrightarrow>
    can_operate_instance d (Some u) i \<or> can_manage_instance_notifications d (Some u) i \<Longrightarrow>
    edit_allowed (me_fernet (ve_mfa E)) u i j \<Longrightarrow> registry_change E d u d'"
| renamed: "instances d' = update_rows (in_group i) (\<lambda>j. j\<lparr>inst_name := name\<rparr>) (instances d) \<Longrightarrow>
    user_is_staff u \<Longrightarrow> can_operate_instance d (Some u) i \<Longrightarrow> registry_change E d u d'"
| removed: "d' = delete_instances pks e \<Longrightarrow> instances e = instances d \<Longrightarrow> lock_alerts e = lock_alerts d \<Longrightarrow>
    is_administrator u \<Longrightarrow> profile_enabled d (user_pk u) \<Longrightarrow> code_accepted (ve_mfa E) (ve_now E) d (user_pk u) code \<Longrightarrow>
    ve_audit_ok E \<longrightarrow> (\<forall>pk \<in> pks. removal_audited d u pk (audit_logs e)) \<Longrightarrow> registry_change E d u d'"

section \<open>Single operations\<close>

lemma instances_log [simp]: "instances (vs_db (log_audit E row s)) = instances (vs_db s)"
    "next_pk (vs_db (log_audit E row s)) = next_pk (vs_db s)"
  by (simp_all add: log_audit_def)

lemma new_registration_fields [simp]:
  "inst_pk (new_registration k t pw cp n pk) = pk"
  "inst_lock_control_enabled (new_registration k t pw cp n pk) = inst_lock_control_enabled t"
  by (simp_all add: new_registration_def Let_def set_password_def set_control_password_def)

lemma new_registration_credentials:
  assumes "fernet_ok k" and "inst_control_username t \<noteq> [] \<longrightarrow> inst_lock_control_enabled t \<and> cp \<noteq> []"
    and "\<not> inst_query_runner_enabled t" "inst_query_runner_username t = []" "inst_query_runner_password_encrypted t = []"
  shows "credentials_ok (new_registration k t pw cp n pk)"
  using assms encrypt_empty_iff [OF assms(1), of cp]
  by (auto simp: new_registration_def Let_def set_password_def set_control_password_def credentials_ok_def)

lemma create_all_rows:
  assumes "create_all E u f names s = Some s'" and "\<And>n pk. inst_pk (f n pk) = pk"
  shows "\<exists>new. instances (vs_db s') = instances (vs_db s) @ new
    \<and> map inst_pk new = map (\<lambda>n. next_pk (vs_db s) + int n) [0..<length new]
    \<and> (\<forall>i \<in> set new. \<exists>n pk. i = f n pk)"
  using assms(1)
proof (induction names arbitrary: s)
  case Nil
  then show ?case by simp
next
  case (Cons name names)
  let ?i = "f name (next_pk (vs_db s))"
  let ?s = "log_audit E (audit_row (Some ?i) Add_instance u None [] Success (inst_db_identifier ?i))
    (s\<lparr>vs_db := insert_instance ?i (vs_db s)\<rparr>)"
  have next_s: "instances (vs_db ?s) = instances (vs_db s) @ [?i]" "next_pk (vs_db ?s) = next_pk (vs_db s) + 1"
    by (simp_all add: insert_instance_def)
  have "create_all E u f names ?s = Some s'" using Cons.prems by (auto simp: Let_def split: if_splits)
  from Cons.IH [OF this] obtain new where new: "instances (vs_db s') = instances (vs_db ?s) @ new"
      "map inst_pk new = map (\<lambda>n. next_pk (vs_db ?s) + int n) [0..<length new]" "\<forall>i \<in> set new. \<exists>n pk. i = f n pk"
    by blast
  have "map inst_pk (?i # new) = map (\<lambda>n. next_pk (vs_db s) + int n) [0..<length (?i # new)]"
    using new(2) assms(2) unfolding next_s(2)
    by (simp add: upt_conv_Cons map_Suc_upt [symmetric] del: upt_Suc)
  then show ?case using new(1,3) next_s(1) by (intro exI [of _ "?i # new"]) auto
qed

lemma form_template_fields:
  assumes "form_template E u p = Some t"
  shows "inst_lock_control_enabled t \<longleftrightarrow> user_is_superuser u \<and> form_flag p ''lock_control_enabled''"
    "inst_control_username t = (if user_is_superuser u \<and> form_flag p ''lock_control_enabled''
       then py_strip (form_text p ''control_username'' '''') else [])"
    "\<not> inst_query_runner_enabled t" "inst_query_runner_username t = []" "inst_query_runner_password_encrypted t = []"
  using assms by (auto simp: form_template_def Let_def split: option.splits)

lemma commit_createdE:
  assumes "commit_created E s made = (r, s')"
  obtains (refused) "vs_db s' = vs_db s" | (created) s1 where "made = Some s1" "vs_db s' = vs_db s1"
  using assms by (auto simp: commit_created_def form_error_def split: option.splits if_splits)

lemma created_change:
  assumes "commit_created E s (create_all E u (new_registration (env_fernet E) t pw cp) names s) = (r, s')"
    and "user_is_staff u"
    and "fernet_ok (env_fernet E) \<Longrightarrow> \<forall>i \<in> set (instances (vs_db s)). credentials_ok i \<Longrightarrow>
      inst_control_username t \<noteq> [] \<longrightarrow> inst_lock_control_enabled t \<and> cp \<noteq> []"
    and "\<not> inst_query_runner_enabled t" "inst_query_runner_username t = []" "inst_query_runner_password_encrypted t = []"
  shows "registry_change E (vs_db s) u (vs_db s')"
  using assms(1)
proof (cases rule: commit_createdE)
  case refused
  then show ?thesis by (intro registry_change.unchanged) simp
next
  case (created s1)
  from create_all_rows [OF created(1)] obtain new where new: "instances (vs_db s1) = instances (vs_db s) @ new"
      "map inst_pk new = map (\<lambda>n. next_pk (vs_db s) + int n) [0..<length new]"
      "\<forall>i \<in> set new. \<exists>n pk. i = new_registration (env_fernet E) t pw cp n pk"
    by auto
  have "\<forall>i \<in> set new. credentials_ok i"
    if "fernet_ok (env_fernet E)" "\<forall>i \<in> set (instances (vs_db s)). credentials_ok i"
    using new(3) new_registration_credentials [OF that(1) assms(3) [OF that] assms(4-6)] by auto
  moreover have "instances (vs_db s') = instances (vs_db s) @ new" using new(1) created(2) by simp
  ultimately show ?thesis by (intro registry_change.added [OF _ assms(2) new(2)] impI) auto
qed

lemma add_fresh_change:
  assumes "add_fresh E u p s = (r, s')" and "user_is_staff u"
  shows "registry_change E (vs_db s) u (vs_db s')"
proof (cases "vs_db s' = vs_db s")
  case True
  then show ?thesis by (intro registry_change.unchanged) simp
next
  case False
  let ?lock = "user_is_superuser u \<and> form_flag p ''lock_control_enabled''"
  let ?cu = "if ?lock then py_strip (form_text p ''control_username'' '''') else []"
  let ?cp = "if ?lock then form_text p ''control_password'' '''' else []"
  obtain t pw where t: "form_template E u p = Some t" "\<not> (?lock \<and> ?cu \<noteq> [] \<and> ?cp = [])"
    and c: "commit_created E s (create_all E u (new_registration (env_fernet E) t pw ?cp) (parse_names (names_field p)) s)
      = (r, s')"
    using assms(1) False unfolding add_fresh_def Let_def form_error_def
    by (auto split: if_splits option.splits)
  show ?thesis
    by (rule created_change [OF c assms(2)]) (use form_template_fields [OF t(1)] t(2) in \<open>auto split: if_splits\<close>)
qed

lemma add_to_group_change:
  assumes "add_to_group E u p src s = (r, s')" and "user_is_staff u" and "src \<in> set (instances (vs_db s))"
  shows "registry_change E (vs_db s) u (vs_db s')"
proof (cases "vs_db s' = vs_db s")
  case True
  then show ?thesis by (intro registry_change.unchanged) simp
next
  case False
  obtain cp pw where t: "\<not> (inst_lock_control_enabled src \<and> inst_control_username src \<noteq> [] \<and> cp = [])"
    and c: "commit_created E s (create_all E u (new_registration (env_fernet E) (source_template src) pw cp)
       (parse_names (names_field p)) s) = (r, s')"
    using assms(1) False unfolding add_to_group_def Let_def form_error_def
    by (auto split: if_splits option.splits)
  show ?thesis
    by (rule created_change [OF c assms(2)])
       (use t assms(3) in \<open>auto simp: source_template_def credentials_ok_def\<close>)
qed

text \<open>Each edit the pages make is an allowed one.\<close>

lemma same_endpoint_refl [simp]: "same_endpoint i i"
  by (simp add: same_endpoint_def)

lemma password_fields [simp]:
  "inst_pk (set_password k r i) = inst_pk i" "inst_host (set_password k r i) = inst_host i"
  "inst_port (set_password k r i) = inst_port i" "inst_engine (set_password k r i) = inst_engine i"
  "inst_username (set_password k r i) = inst_username i"
  "inst_lock_control_enabled (set_password k r i) = inst_lock_control_enabled i"
  "inst_control_username (set_password k r i) = inst_control_username i"
  "inst_control_password_encrypted (set_password k r i) = inst_control_password_encrypted i"
  "inst_query_runner_enabled (set_password k r i) = inst_query_runner_enabled i"
  "inst_query_runner_username (set_password k r i) = inst_query_runner_username i"
  "inst_query_runner_password_encrypted (set_password k r i) = inst_query_runner_password_encrypted i"
  "protected_part (set_password k r i) = protected_part i"
  by (simp_all add: set_password_def protected_part_def)

lemma control_password_fields [simp]:
  "inst_pk (set_control_password k r i) = inst_pk i" "inst_host (set_control_password k r i) = inst_host i"
  "inst_port (set_control_password k r i) = inst_port i" "inst_engine (set_control_password k r i) = inst_engine i"
  "inst_username (set_control_password k r i) = inst_username i"
  "inst_lock_control_enabled (set_control_password k r i) = inst_lock_control_enabled i"
  "inst_control_username (set_control_password k r i) = inst_control_username i"
  "inst_control_password_encrypted (set_control_password k r i) = encrypt_password k r"
  "inst_query_runner_enabled (set_control_password k r i) = inst_query_runner_enabled i"
  "inst_query_runner_username (set_control_password k r i) = inst_query_runner_username i"
  "inst_query_runner_password_encrypted (set_control_password k r i) = inst_query_runner_password_encrypted i"
  by (simp_all add: set_control_password_def)

lemma control_edit_allowed:
  assumes "control_edit k p i = Some j" and "user_is_superuser u"
  shows "inst_pk j = inst_pk i \<and> edit_allowed k u i j"
proof -
  define e where "e = form_flag p ''lock_control_enabled''"
  define n where "n = (if e then py_strip (form_text p ''control_username'' '''') else [])"
  define pw where "pw = (if e then form_text p ''control_password'' '''' else [])"
  define b where "b = i\<lparr>inst_lock_control_enabled := e, inst_control_username := n\<rparr>"
  have kept: "\<not> (e \<and> n \<noteq> [] \<and> pw = [] \<and> (inst_control_password_encrypted i = [] \<or> \<not> inst_lock_control_enabled i
      \<or> n \<noteq> inst_control_username i))"
    and j: "j = (if n = [] then b\<lparr>inst_control_password_encrypted := []\<rparr> else if pw \<noteq> [] then set_control_password k pw b else b)"
    using assms(1) unfolding control_edit_def Let_def e_def [symmetric] n_def [symmetric] pw_def [symmetric] b_def [symmetric]
    by (auto simp only: option.simps split: if_splits)
  have e: "n \<noteq> [] \<Longrightarrow> e" by (simp add: n_def split: if_splits)
  have "inst_pk j = inst_pk i \<and> same_endpoint i j" by (simp add: j b_def same_endpoint_def)
  moreover have "credentials_ok j" if "fernet_ok k" "credentials_ok i"
    using that kept e encrypt_empty_iff [OF that(1), of pw] by (auto simp: j b_def credentials_ok_def)
  ultimately show ?thesis using assms(2) by (simp add: edit_allowed_def)
qed

lemma query_runner_edit_allowed:
  assumes "query_runner_edit k p i = Some j" and "user_is_superuser u"
  shows "inst_pk j = inst_pk i \<and> edit_allowed k u i j"
proof -
  define e where "e = form_flag p ''query_runner_enabled''"
  define n where "n = (if e then py_strip (form_text p ''query_runner_username'' '''') else [])"
  define pw where "pw = (if e then form_text p ''query_runner_password'' '''' else [])"
  define b where "b = i\<lparr>inst_query_runner_enabled := e, inst_query_runner_username := n\<rparr>"
  have kept: "\<not> (e \<and> n = [])" "\<not> (e \<and> n \<noteq> [] \<and> pw = [] \<and> (inst_query_runner_password_encrypted i = []
      \<or> \<not> inst_query_runner_enabled i \<or> n \<noteq> inst_query_runner_username i))"
    and j: "j = (if n = [] then b\<lparr>inst_query_runner_password_encrypted := []\<rparr>
      else if pw \<noteq> [] then set_query_runner_password k pw b else b)"
    using assms(1)
    unfolding query_runner_edit_def Let_def e_def [symmetric] n_def [symmetric] pw_def [symmetric] b_def [symmetric]
    by (auto simp only: option.simps split: if_splits)
  have e: "n \<noteq> [] \<Longrightarrow> e" by (simp add: n_def split: if_splits)
  have "inst_pk j = inst_pk i \<and> same_endpoint i j" by (simp add: j b_def same_endpoint_def set_query_runner_password_def)
  moreover have "credentials_ok j" if "fernet_ok k" "credentials_ok i"
    using that(2) kept e encrypt_empty_iff [OF that(1), of pw]
    by (cases "n = []"; cases "pw = []") (simp_all add: j b_def credentials_ok_def set_query_runner_password_def)
  ultimately show ?thesis using assms(2) by (simp add: edit_allowed_def)
qed

lemma webhook_edit_allowed:
  assumes "webhook_edit E u p i = Some j"
  shows "inst_pk j = inst_pk i \<and> edit_allowed k u i j"
proof -
  have "\<exists>url x. j = i\<lparr>inst_owner_teams_webhook_url := url, inst_exclude_from_global_notifications := x\<rparr>
      \<and> (user_is_superuser u \<or> x = inst_exclude_from_global_notifications i)"
  proof (cases "user_is_superuser u")
    case True
    then show ?thesis using assms unfolding webhook_edit_def Let_def by (auto split: if_splits)
  next
    case False
    then obtain url where "j = i\<lparr>inst_owner_teams_webhook_url := url\<rparr>"
      using assms unfolding webhook_edit_def Let_def by (auto split: if_splits)
    then have "j = i\<lparr>inst_owner_teams_webhook_url := url,
        inst_exclude_from_global_notifications := inst_exclude_from_global_notifications i\<rparr>" by simp
    then show ?thesis by blast
  qed
  then obtain url x where j: "j = i\<lparr>inst_owner_teams_webhook_url := url, inst_exclude_from_global_notifications := x\<rparr>"
    and x: "user_is_superuser u \<or> x = inst_exclude_from_global_notifications i" by blast
  have "protected_part j = protected_part i" if "x = inst_exclude_from_global_notifications i"
    using that by (simp add: j protected_part_def)
  then have "user_is_superuser u \<or> protected_part j = protected_part i" using x by blast
  then show ?thesis by (simp add: edit_allowed_def) (auto simp: j same_endpoint_def credentials_ok_def)
qed

lemma given_simps [simp]: "given None x = x" "given (Some y) x = y"
  by (simp_all add: given_def)

lemma serializer_update_allowed:
  assumes "serializer_update k d u i v = Some j"
  shows "inst_pk j = inst_pk i \<and> edit_allowed k u i j"
proof -
  define cp where "cp = given (ad_control_password v) []"
  define w where "w = v\<lparr>ad_password := None, ad_control_password := None\<rparr>"
  define i1 where "i1 = apply_fields w i"
  define i2 where "i2 = (if connection_changed v i \<and> ad_control_password w = None
    then i1\<lparr>inst_lock_control_enabled := False, inst_control_username := [], inst_control_password_encrypted := []\<rparr> else i1)"
  define i3 where "i3 = (if given (ad_password v) [] \<noteq> [] then set_password k (given (ad_password v) []) i2 else i2)"
  define i4 where "i4 = (if \<not> inst_lock_control_enabled i3
    then i3\<lparr>inst_control_username := [], inst_control_password_encrypted := []\<rparr>
    else if ad_control_username w \<noteq> None \<and> inst_control_username i3 = []
    then i3\<lparr>inst_control_password_encrypted := []\<rparr> else i3)"
  have j: "j = (if cp \<noteq> [] then set_control_password k cp i4 else i4)"
    and given_ok: "\<not> (inst_lock_control_enabled i3 \<and> ad_control_username w \<noteq> None \<and> inst_control_username i3 \<noteq> [] \<and> cp = [])"
    and rights: "user_is_superuser u \<or> \<not> admin_fields_given v"
    using assms unfolding serializer_update_def Let_def cp_def [symmetric] w_def [symmetric] i1_def [symmetric]
      i2_def [symmetric] i3_def [symmetric] i4_def [symmetric]
    by (auto simp only: option.simps split: if_splits)
  have w: "ad_control_password w = None" "ad_control_username w = ad_control_username v" by (simp_all add: w_def)
  have i1: "inst_pk i1 = inst_pk i" "inst_host i1 = given (ad_host v) (inst_host i)"
      "inst_port i1 = given (ad_port v) (inst_port i)" "inst_engine i1 = given (ad_engine v) (inst_engine i)"
      "inst_username i1 = given (ad_username v) (inst_username i)"
      "inst_control_username i1 = given (ad_control_username v) (inst_control_username i)"
      "inst_lock_control_enabled i1 = given (ad_lock_control_enabled v) (inst_lock_control_enabled i)"
      "inst_control_password_encrypted i1 = inst_control_password_encrypted i"
      "inst_query_runner_enabled i1 = inst_query_runner_enabled i"
      "inst_query_runner_username i1 = inst_query_runner_username i"
      "inst_query_runner_password_encrypted i1 = inst_query_runner_password_encrypted i"
    by (simp_all add: i1_def apply_fields_def w_def)
  have "inst_pk j = inst_pk i" "same_endpoint i j \<longleftrightarrow> \<not> connection_changed v i"
    by (auto simp: j i4_def i3_def i2_def i1 same_endpoint_def connection_changed_def)
  moreover have "\<not> inst_lock_control_enabled j \<and> inst_control_username j = []" if "connection_changed v i"
    using that by (simp add: j i4_def i3_def i2_def w)
  moreover have "credentials_ok j" if "fernet_ok k" "credentials_ok i"
  proof -
    have "inst_query_runner_enabled j = inst_query_runner_enabled i"
      "inst_query_runner_username j = inst_query_runner_username i"
      "inst_query_runner_password_encrypted j = inst_query_runner_password_encrypted i"
      by (simp_all add: j i4_def i3_def i2_def i1)
    moreover have "inst_lock_control_enabled j \<and> inst_control_password_encrypted j \<noteq> []" if "inst_control_username j \<noteq> []"
    proof -
      have n: "inst_control_username i4 \<noteq> []" using that by (simp add: j split: if_splits)
      then have on: "inst_lock_control_enabled i3" by (simp add: i4_def split: if_splits)
      then have same: "\<not> connection_changed v i" by (simp add: i3_def i2_def w split: if_splits)
      have "cp \<noteq> [] \<or> inst_control_password_encrypted i4 \<noteq> []"
      proof (cases "ad_control_username w = None")
        case True
        then have "inst_control_username i \<noteq> []"
          using n on same by (simp add: i4_def i3_def i2_def i1 w split: if_splits)
        then have "inst_control_password_encrypted i \<noteq> []" using \<open>credentials_ok i\<close> by (simp add: credentials_ok_def)
        then show ?thesis using True on same by (simp add: i4_def i3_def i2_def i1)
      next
        case False
        then show ?thesis using n on given_ok by (auto simp: i4_def split: if_splits)
      qed
      moreover have "inst_lock_control_enabled i4" using on by (simp add: i4_def)
      ultimately show ?thesis using encrypt_empty_iff [OF \<open>fernet_ok k\<close>, of cp] by (simp add: j)
    qed
    ultimately show ?thesis using \<open>credentials_ok i\<close> by (auto simp: credentials_ok_def)
  qed
  moreover have "protected_part j = protected_part i" if "\<not> user_is_superuser u"
  proof -
    have none: "ad_host v = None" "ad_port v = None" "ad_engine v = None" "ad_username v = None" "ad_db_name v = None"
        "ad_ssl_required v = None" "ad_is_active v = None" "ad_exclude_from_global_notifications v = None"
        "ad_lock_control_enabled v = None" "ad_control_username v = None" "ad_control_password v = None"
      using rights that by (simp_all add: admin_fields_given_def)
    then have same: "\<not> connection_changed v i" "cp = []" "ad_control_username w = None"
      by (simp_all add: connection_changed_def cp_def w)
    have "protected_part i1 = protected_part i"
      using none by (simp add: i1_def apply_fields_def w_def protected_part_def)
    then have "protected_part i3 = protected_part i" using same by (simp add: i3_def i2_def)
    moreover have "protected_part i4 = protected_part i3" using same by (simp add: i4_def protected_part_def)
    ultimately show ?thesis using same by (simp add: j)
  qed
  ultimately show ?thesis unfolding edit_allowed_def by blast
qed

section \<open>Every request is a change of the abstract registry\<close>

lemma find_instance_member: "find_instance d pk = Some i \<Longrightarrow> i \<in> set (instances d) \<and> inst_pk i = pk"
  by (auto simp: find_instance_def dest: first_row_Some)

lemma administrator_viewE:
  assumes "administrator_view pk b h s = (r, s')"
  obtains (refused) "s' = s"
    | (granted) u i where "request_user (vs_db s) (vs_session s) = Some u" "is_administrator u"
        "find_instance (vs_db s) pk = Some i" "can_operate_instance (vs_db s) (Some u) i" "h u i s = (r, s')"
  using assms unfolding administrator_view_def
  by (elim signed_inE postedE permitE for_instanceE) (auto simp: instance_access_def elim!: permitE)

lemma store_edit_change:
  assumes "store_edit E i edit s = (r, s')" and "find_instance (vs_db s) pk = Some i" and "user_is_staff u"
    and "can_operate_instance (vs_db s) (Some u) i \<or> can_manage_instance_notifications (vs_db s) (Some u) i"
    and "\<And>j. edit = Some j \<Longrightarrow> inst_pk j = inst_pk i \<and> edit_allowed (env_fernet E) u i j"
  shows "registry_change E (vs_db s) u (vs_db s')"
proof (cases "vs_db s' = vs_db s")
  case True
  then show ?thesis by (intro registry_change.unchanged) simp
next
  case False
  then obtain j where "edit = Some j" "vs_db s' = save_instance j (vs_db s)"
    using assms(1) by (auto simp: store_edit_def detail_error_def store_instance_def split: option.splits if_splits)
  then show ?thesis
    using registry_change.edited [of "vs_db s'" j "vs_db s" u i E] assms(3-5) find_instance_member [OF assms(2)] by simp
qed

lemma accepted_code:
  assumes "require_mfa_for_action M now u code True ss d = Some (ok, ss', d')"
  shows "instances d' = instances d \<and> lock_alerts d' = lock_alerts d \<and> (ok \<longrightarrow> profile_enabled d (user_pk u) \<and> code_accepted M now d (user_pk u) (py_strip code))"
proof (cases "find_mfa d (user_pk u)")
  case None
  then show ?thesis using assms by (auto simp: require_mfa_for_action_def)
next
  case (Some q)
  show ?thesis
  proof (cases "mfa_enabled q \<and> py_strip code \<noteq> []")
    case False
    then show ?thesis using assms Some by (auto simp: require_mfa_for_action_def Let_def split: if_splits)
  next
    case True
    then obtain b q' where v: "verify_code M now q (py_strip code) True = Some (b, q')"
      using assms Some by (auto simp: require_mfa_for_action_def Let_def split: option.splits)
    have "instances (save_mfa q' d) = instances d" "lock_alerts (save_mfa q' d) = lock_alerts d" by (simp_all add: save_mfa_def split: option.split)
    then show ?thesis using assms Some True v
      by (cases b) (auto simp: require_mfa_for_action_def Let_def profile_enabled_def code_accepted_def split: option.splits)
  qed
qed

lemma delete_instances_instances [simp]:
  "instances (delete_instances pks d) = filter (\<lambda>i. inst_pk i \<notin> pks) (instances d)"
  by (simp add: delete_instances_def)

lemma audit_logs_log: "audit_logs (vs_db (log_audit E row s)) = audit_logs (vs_db s) @ (if ve_audit_ok E then [row] else [])"
    "lock_alerts (vs_db (log_audit E row s)) = lock_alerts (vs_db s)"
  by (simp_all add: log_audit_def)

definition removal_row :: "user \<Rightarrow> rds_instance \<Rightarrow> audit_log" where
  "removal_row u i = audit_row (Some i) Remove_instance u None [] Success (inst_db_identifier i)"

lemma removal_row_audits:
  "removal_row u i \<in> set logs \<Longrightarrow> i \<in> set (instances d) \<Longrightarrow> inst_pk i = pk \<Longrightarrow> removal_audited d u pk logs"
  unfolding removal_audited_def by (rule bexI [of _ "removal_row u i"]) (auto simp: removal_row_def audit_row_def)

lemma fold_log: "instances (vs_db (fold (\<lambda>i. log_audit E (f i)) is s)) = instances (vs_db s)"
    "lock_alerts (vs_db (fold (\<lambda>i. log_audit E (f i)) is s)) = lock_alerts (vs_db s)"
    "ve_audit_ok E \<Longrightarrow> audit_logs (vs_db (fold (\<lambda>i. log_audit E (f i)) is s)) = audit_logs (vs_db s) @ map f is"
  by (induction "is" arbitrary: s) (simp_all add: audit_logs_log)

text \<open>What the body of a removal does when it does anything.\<close>

definition removal_body :: "('v, 'z) view_env_scheme \<Rightarrow> user \<Rightarrow> app_db \<Rightarrow> app_db \<Rightarrow> bool" where
  "removal_body E u d d' \<longleftrightarrow> (\<exists>pks e. d' = delete_instances pks e \<and> instances e = instances d \<and> lock_alerts e = lock_alerts d
     \<and> (ve_audit_ok E \<longrightarrow> (\<forall>pk \<in> pks. removal_audited d u pk (audit_logs e))))"

lemma do_remove_body:
  assumes "do_remove E u i s = (r, s')" and "i \<in> set (instances (vs_db s))"
  shows "removal_body E u (vs_db s) (vs_db s')"
proof -
  let ?e = "vs_db (log_audit E (removal_row u i) s)"
  have "vs_db s' = delete_instances {inst_pk i} ?e"
    using assms(1) by (auto simp: do_remove_def Let_def removal_row_def)
  moreover have "ve_audit_ok E \<longrightarrow> removal_audited (vs_db s) u (inst_pk i) (audit_logs ?e)"
    using assms(2) by (auto simp: audit_logs_log intro: removal_row_audits)
  ultimately show ?thesis unfolding removal_body_def
    by (intro exI [of _ "{inst_pk i}"] exI [of _ ?e]) (simp add: audit_logs_log)
qed

lemma do_remove_group_body:
  assumes "do_remove_group E u members s = (r, s')" and "set members \<subseteq> set (instances (vs_db s))"
  shows "vs_db s' = vs_db s \<or> removal_body E u (vs_db s) (vs_db s')"
proof (cases "ve_audit_ok E")
  case False
  then show ?thesis using assms(1) by (simp add: do_remove_group_def Let_def)
next
  case True
  let ?e = "vs_db (fold (\<lambda>i. log_audit E (removal_row u i)) members s)"
  have "vs_db s' = delete_instances (inst_pk ` set members) ?e"
    using assms(1) True by (auto simp: do_remove_group_def Let_def removal_row_def)
  moreover have "removal_audited (vs_db s) u pk (audit_logs ?e)" if pk: "pk \<in> inst_pk ` set members" for pk
  proof -
    obtain i where i: "i \<in> set members" "inst_pk i = pk" using pk by blast
    show ?thesis by (rule removal_row_audits [of u i]) (use i assms(2) in \<open>auto simp: fold_log(3) [OF True]\<close>)
  qed
  ultimately have "removal_body E u (vs_db s) (vs_db s')" unfolding removal_body_def
    by (intro exI [of _ "inst_pk ` set members"] exI [of _ ?e]) (simp add: fold_log(1,2))
  then show ?thesis by blast
qed

lemma with_mfa_removal:
  assumes "with_mfa E u p i Remove_instance detail refused h s = (r, s')" and "is_administrator u"
    and "\<And>s1. instances (vs_db s1) = instances (vs_db s) \<Longrightarrow> h s1 = (r, s') \<Longrightarrow>
      vs_db s' = vs_db s1 \<or> removal_body E u (vs_db s1) (vs_db s')"
  shows "registry_change E (vs_db s) u (vs_db s')"
  using assms(1)
proof (cases rule: with_mfaE)
  case refused
  then have "instances (vs_db s') = instances (vs_db s)" using control_tables_inst by blast
  then show ?thesis by (rule registry_change.unchanged)
next
  case (accepted s1)
  then have i: "instances (vs_db s1) = instances (vs_db s)" using control_tables_inst by blast
  from assms(3) [OF i accepted(2)] show ?thesis
  proof
    assume "vs_db s' = vs_db s1"
    then show ?thesis using i by (intro registry_change.unchanged) simp
  next
    assume "removal_body E u (vs_db s1) (vs_db s')"
    then obtain pks e where e: "vs_db s' = delete_instances pks e" "instances e = instances (vs_db s)"
        "lock_alerts e = lock_alerts (vs_db s)" "ve_audit_ok E \<longrightarrow> (\<forall>pk \<in> pks. removal_audited (vs_db s) u pk (audit_logs e))"
      unfolding removal_body_def removal_audited_def i accepted(5) by blast
    show ?thesis using accepted(1) registry_change.removed [OF e(1-3) assms(2) _ _ e(4)] unfolding fresh_code_def by blast
  qed
qed

lemma api_instanceE:
  assumes "api_instance u pk h s = (r, s')"
  obtains (refused) "s' = s" | (found) i where "i \<in> set (instances (vs_db s))" "inst_pk i = pk" "h i s = (r, s')"
proof (cases "first_row (\<lambda>i. inst_pk i = pk) (accessible_instances (vs_db s) u)")
  case None
  then show ?thesis using assms refused by (simp add: api_instance_def)
next
  case (Some i)
  then have "i \<in> set (accessible_instances (vs_db s) u)" "inst_pk i = pk" by (auto dest: first_row_Some)
  then have "i \<in> set (instances (vs_db s))" by (auto simp: accessible_instances_def active_instances_def split: if_splits)
  then show ?thesis using Some assms found \<open>inst_pk i = pk\<close> by (simp add: api_instance_def)
qed

lemma apply_fields_runner [simp]:
  "inst_query_runner_enabled (apply_fields v i) = inst_query_runner_enabled i"
  "inst_query_runner_username (apply_fields v i) = inst_query_runner_username i"
  "inst_query_runner_password_encrypted (apply_fields v i) = inst_query_runner_password_encrypted i"
  "inst_pk (apply_fields v i) = inst_pk i"
  "inst_control_username (apply_fields v i) = given (ad_control_username v) (inst_control_username i)"
  "inst_lock_control_enabled (apply_fields v i) = given (ad_lock_control_enabled v) (inst_lock_control_enabled i)"
  by (simp_all add: apply_fields_def)

lemma serializer_create_ok:
  assumes "serializer_create k grp u v pk = Some i"
  shows "inst_pk i = pk \<and> (fernet_ok k \<longrightarrow> credentials_ok i)"
proof -
  define a where "a = (if user_is_superuser u then v
    else v\<lparr>ad_lock_control_enabled := None, ad_control_username := None, ad_control_password := None\<rparr>)"
  define w where "w = (if given (ad_lock_control_enabled a) False then a
    else a\<lparr>ad_control_username := Some [], ad_control_password := None\<rparr>)"
  define cp where "cp = given (ad_control_password w) []"
  define b where "b = apply_fields w (blank_instance grp u pk)"
  define j where "j = set_password k (given (ad_password w) []) b"
  have i: "i = (if cp \<noteq> [] then set_control_password k cp j else j)" and ok: "\<not> (inst_control_username b \<noteq> [] \<and> cp = [])"
    using assms unfolding serializer_create_def Let_def a_def [symmetric] w_def [symmetric] cp_def [symmetric]
      b_def [symmetric] j_def [symmetric]
    by (auto simp only: option.simps split: if_splits)
  have "inst_lock_control_enabled b" if "inst_control_username b \<noteq> []"
    using that by (auto simp: b_def w_def blank_instance_def given_def split: if_splits option.splits)
  moreover have "\<not> inst_query_runner_enabled b" "inst_query_runner_username b = []"
      "inst_query_runner_password_encrypted b = []" "inst_pk b = pk"
    by (simp_all add: b_def blank_instance_def)
  ultimately show ?thesis using ok encrypt_empty_iff [of k cp] by (auto simp: i j_def credentials_ok_def)
qed

lemma rest_change:
  assumes h: "(case a of Api_get \<Rightarrow> (Api_ok, s) | Api_create v \<Rightarrow> perform_create E u v s
        | Api_update pk v \<Rightarrow> api_instance u pk (perform_update E u v) s
        | Api_destroy pk code \<Rightarrow> api_instance u pk (perform_destroy E u code) s) = (r, s')"
    and rights: "is_staff_or_read_only (api_method a) (Some u)"
    and changed: "instances (vs_db s') \<noteq> instances (vs_db s)"
  shows "registry_change E (vs_db s) u (vs_db s')"
proof (cases a)
  case Api_get
  then show ?thesis using h changed by simp
next
  case (Api_create v)
  then obtain i where i: "serializer_create (env_fernet E) (re_new_group E) u v (next_pk (vs_db s)) = Some i"
      "instances (vs_db s') = instances (vs_db s) @ [i]"
    using h changed by (auto simp: perform_create_def insert_instance_def split: if_splits option.splits)
  have "user_is_staff u" using rights Api_create by (simp add: is_staff_or_read_only_def api_method_def safe_methods_def)
  then show ?thesis using serializer_create_ok [OF i(1)] by (intro registry_change.added [OF i(2)]) auto
next
  case (Api_update pk v)
  then have "api_instance u pk (perform_update E u v) s = (r, s')" using h by simp
  then show ?thesis
  proof (cases rule: api_instanceE)
    case refused
    then show ?thesis using changed by simp
  next
    case (found i)
    then obtain j where j: "serializer_update (env_fernet E) (vs_db s) u i v = Some j" "can_operate_instance (vs_db s) (Some u) i"
        "vs_db s' = save_instance j (vs_db s)"
      using changed by (auto simp: perform_update_def split: if_splits option.splits)
    have "user_is_staff u" using rights Api_update by (simp add: is_staff_or_read_only_def api_method_def safe_methods_def)
    then show ?thesis using serializer_update_allowed [OF j(1)] j(2,3) found(1)
      by (intro registry_change.edited [of _ j]) auto
  qed
next
  case (Api_destroy pk code)
  then have "api_instance u pk (perform_destroy E u code) s = (r, s')" using h by simp
  then show ?thesis
  proof (cases rule: api_instanceE)
    case refused
    then show ?thesis using changed by simp
  next
    case (found i)
    then obtain ok ss d where m: "is_administrator u"
        "require_mfa_for_action (ve_mfa E) (ve_now E) u code True (vs_session s) (vs_db s) = Some (ok, ss, d)"
      using changed by (auto simp: perform_destroy_def split: if_splits option.splits)
    note c = accepted_code [OF m(2)]
    have ok: ok using found(3) changed m c by (cases ok) (auto simp: perform_destroy_def Let_def)
    let ?e = "vs_db (log_audit E (removal_row u i) (s\<lparr>vs_session := ss, vs_db := d\<rparr>))"
    have e: "vs_db s' = delete_instances {inst_pk i} ?e" "instances ?e = instances (vs_db s)"
        "lock_alerts ?e = lock_alerts (vs_db s)"
      using found(3) m ok c by (auto simp: perform_destroy_def Let_def removal_row_def audit_logs_log)
    have "ve_audit_ok E \<longrightarrow> (\<forall>pk \<in> {inst_pk i}. removal_audited (vs_db s) u pk (audit_logs ?e))"
      using found(1) by (auto simp: audit_logs_log intro: removal_row_audits)
    then show ?thesis using registry_change.removed [OF e m(1)] c ok by blast
  qed
qed

lemma registry_refines:
  assumes "registry_view E q b s = (r, s')"
  shows "instances (vs_db s') = instances (vs_db s)
    \<or> (\<exists>u. request_user (vs_db s) (vs_session s) = Some u \<and> registry_change E (vs_db s) u (vs_db s'))"
proof (cases "instances (vs_db s') = instances (vs_db s)")
  case False
  have "\<exists>u. request_user (vs_db s) (vs_session s) = Some u \<and> registry_change E (vs_db s) u (vs_db s')"
  proof (cases q)
    case (Add p)
    then obtain u where u: "request_user (vs_db s) (vs_session s) = Some u" "user_is_staff u"
      and h: "(if b then add_instance_post E u p else add_instance_form E u p) s = (r, s')"
      using assms False by (auto simp: add_instance_def elim!: signed_inE permitE)
    have b
    proof (rule ccontr)
      assume "\<not> b"
      then have "s' = s" using h by (auto simp: add_instance_form_def Let_def elim!: for_instanceE permitE split: if_splits option.splits)
      then show False using \<open>instances (vs_db s') \<noteq> instances (vs_db s)\<close> by simp
    qed
    then have "registry_change E (vs_db s) u (vs_db s')"
      using h False u(2)
      by (auto simp: add_instance_post_def dest!: find_instance_member intro: add_fresh_change add_to_group_change
          elim!: for_instanceE permitE split: if_splits option.splits)
    then show ?thesis using u(1) by blast
  next
    case (Rename pk p)
    then obtain u i where u: "request_user (vs_db s) (vs_session s) = Some u" "user_is_staff u"
        "can_operate_instance (vs_db s) (Some u) i"
      and h: "do_rename E u (py_strip (form_text p ''name'' '''')) i s = (r, s')"
      using assms False
      by (auto simp: rename_instance_def Let_def instance_access_def detail_error_def
          elim!: signed_inE postedE permitE for_instanceE split: if_splits)
    then have "instances (vs_db s') = update_rows (in_group i) (\<lambda>j. j\<lparr>inst_name := py_strip (form_text p ''name'' '''')\<rparr>)
        (instances (vs_db s))"
      using h False by (auto simp: do_rename_def Let_def split: if_splits)
    then show ?thesis using u(1) registry_change.renamed [OF _ u(2,3)] by blast
  next
    case (Owner_webhook pk p)
    then obtain u i where u: "request_user (vs_db s) (vs_session s) = Some u" "user_is_staff u"
        "can_manage_instance_notifications (vs_db s) (Some u) i" "find_instance (vs_db s) pk = Some i"
      and h: "store_edit E i (webhook_edit E u p i) s = (r, s')"
      using assms False by (auto simp: update_owner_webhook_def elim!: signed_inE postedE permitE for_instanceE)
    show ?thesis using u(1) store_edit_change [OF h u(4,2)] u(3) webhook_edit_allowed by blast
  next
    case (Control_credentials pk p)
    then have "administrator_view pk b (\<lambda>u i. store_edit E i (control_edit (env_fernet E) p i)) s = (r, s')"
      using assms by (simp add: update_control_credentials_def)
    then show ?thesis
    proof (cases rule: administrator_viewE)
      case refused
      then show ?thesis using False by simp
    next
      case (granted u i)
      then show ?thesis using store_edit_change [OF granted(5,3)] control_edit_allowed by (auto simp: is_administrator_def)
    qed
  next
    case (Runner_credentials pk p)
    then have "administrator_view pk b (\<lambda>u i. store_edit E i (query_runner_edit (env_fernet E) p i)) s = (r, s')"
      using assms by (simp add: update_query_runner_credentials_def)
    then show ?thesis
    proof (cases rule: administrator_viewE)
      case refused
      then show ?thesis using False by simp
    next
      case (granted u i)
      then show ?thesis using store_edit_change [OF granted(5,3)] query_runner_edit_allowed by (auto simp: is_administrator_def)
    qed
  next
    case (Test_control pk)
    then show ?thesis using assms False
      by (auto simp: test_control_connection_def answer_connection_def detail_error_def elim!: administrator_viewE
          split: if_splits sum.splits target_exc.splits)
  next
    case (Test_runner pk)
    then show ?thesis using assms False
      by (auto simp: test_query_runner_connection_def answer_connection_def detail_error_def elim!: administrator_viewE
          split: if_splits sum.splits target_exc.splits)
  next
    case (Runner_grant pk p)
    then show ?thesis using assms False
      by (auto simp: query_runner_grant_view_def do_revoke_def do_grant_def Let_def detail_error_def elim!: administrator_viewE
          split: if_splits option.splits)
  next
    case (Remove pk p)
    then have "administrator_view pk b (\<lambda>u i. with_mfa E u p i Remove_instance (inst_db_identifier i) (Detail_page (inst_pk i))
        (do_remove E u i)) s = (r, s')" using assms by (simp add: remove_instance_def)
    then show ?thesis
    proof (cases rule: administrator_viewE)
      case refused
      then show ?thesis using False by simp
    next
      case (granted u i)
      then have "registry_change E (vs_db s) u (vs_db s')"
        by (intro with_mfa_removal [OF granted(5,2)]) (metis do_remove_body find_instance_member)
      then show ?thesis using granted(1) by blast
    qed
  next
    case (Remove_group g p)
    then obtain u i rest where u: "request_user (vs_db s) (vs_session s) = Some u" "is_administrator u"
      and g: "group_members (vs_db s) g = i # rest"
      and h: "with_mfa E u p i Remove_instance (inst_db_identifier i) List_page (do_remove_group E u (i # rest)) s = (r, s')"
      using assms False
      by (auto simp: remove_instance_group_def elim!: signed_inE postedE permitE split: list.splits)
    have "set (i # rest) \<subseteq> set (instances (vs_db s))"
      unfolding g [symmetric] by (auto simp: group_members_def active_instances_def)
    then have "registry_change E (vs_db s) u (vs_db s')"
      by (intro with_mfa_removal [OF h u(2)]) (metis do_remove_group_body)
    then show ?thesis using u(1) by blast
  next
    case (Rest a)
    then obtain u where u: "request_user (vs_db s) (vs_session s) = Some u"
        "is_staff_or_read_only (api_method a) (Some u)"
      and h: "(case a of Api_get \<Rightarrow> (Api_ok, s) | Api_create v \<Rightarrow> perform_create E u v s
        | Api_update pk v \<Rightarrow> api_instance u pk (perform_update E u v) s
        | Api_destroy pk code \<Rightarrow> api_instance u pk (perform_destroy E u code) s) = (r, s')"
      using assms False by (auto simp: instance_api_def Let_def split: if_splits option.splits)
    show ?thesis using u(1) rest_change [OF h u(2) False] by blast
  qed
  then show ?thesis by blast
qed simp

text \<open>
  C10. Refinement: every page and every REST call of the registry, whatever it is asked, either leaves
  the registrations alone or is one change of the abstract registry, made by the account that is
  signed in.
\<close>

theorem registry_implements_changes:
  "let s' = snd (registry_view E q b s)
   in instances (vs_db s') = instances (vs_db s)
      \<or> (\<exists>u. request_user (vs_db s) (vs_session s) = Some u \<and> registry_change E (vs_db s) u (vs_db s'))"
  using registry_refines [of E q b s] by (cases "registry_view E q b s") simp

section \<open>Credentials\<close>

lemma instances_save_instance: "instances (save_instance j d) = update_rows (\<lambda>i. inst_pk i = inst_pk j) (\<lambda>_. j) (instances d)"
  by (simp add: save_instance_def)

lemma change_keeps_credentials:
  assumes "registry_change E d u d'" and "fernet_ok (me_fernet (ve_mfa E))" and "\<forall>i \<in> set (instances d). credentials_ok i"
  shows "\<forall>i \<in> set (instances d'). credentials_ok i"
  using assms(1)
proof (cases rule: registry_change.cases)
  case (edited j i)
  then have "credentials_ok j" using assms(2,3) by (auto simp: edit_allowed_def)
  then show ?thesis using edited(1) assms(3) by (auto simp: instances_save_instance set_update_rows)
next
  case (renamed i name)
  then show ?thesis using assms(3) by (auto simp: ball_update_rows credentials_ok_def)
qed (use assms in auto)

type_synonym 'v registry_call = "'v registry_env \<times> registry_request \<times> bool"

definition handle_registry :: "'v registry_call \<Rightarrow> view" where
  "handle_registry c = (case c of (E, q, b) \<Rightarrow> registry_view E q b)"

definition cipher_works :: "'v registry_call \<Rightarrow> bool" where
  "cipher_works c \<longleftrightarrow> fernet_ok (env_fernet (fst c))"

interpretation registry: kept_by_views handle_registry cipher_works "\<lambda>d. \<forall>i \<in> set (instances d). credentials_ok i"
proof unfold_locales
  fix c :: "'v registry_call" and s a s'
  assume ok: "cipher_works c" and old: "\<forall>i \<in> set (instances (vs_db s)). credentials_ok i" and h: "handle_registry c s = (a, s')"
  obtain E q b where c: "c = (E, q, b)" by (cases c)
  have "registry_view E q b s = (a, s')" using h by (simp add: handle_registry_def c)
  from registry_refines [OF this] show "\<forall>i \<in> set (instances (vs_db s')). credentials_ok i"
  proof
    assume "\<exists>u. request_user (vs_db s) (vs_session s) = Some u \<and> registry_change E (vs_db s) u (vs_db s')"
    then obtain u where "registry_change E (vs_db s) u (vs_db s')" by blast
    from change_keeps_credentials [OF this] show ?thesis using ok old by (simp add: c cipher_works_def)
  qed (use old in simp)
qed

text \<open>
  C40. The stored database roles stay coherent through any sequence of registry requests: no
  registration ever has a lock-control role while lock control is off or without a password, and a
  query runner is enabled exactly when its role and its password are stored.
\<close>

theorem credentials_stay_coherent:
  assumes "\<forall>c \<in> set rs. cipher_works (snd c)" and "\<forall>i \<in> set (instances (vs_db s)). credentials_ok i"
  shows "\<forall>i \<in> set (instances (vs_db (serve handle_registry rs s))). credentials_ok i"
  using registry.serve_kept [OF assms] .

definition demo_registry_env :: "unit registry_env" where
  "demo_registry_env = \<lparr>ve_mfa = demo_mfa_env, ve_now = 0, ve_server = (\<lambda>_. demo_server), ve_audit_ok = True, ve_mark_ok = True,
     re_url_ok = (\<lambda>_. True), re_row_ok = (\<lambda>_. True), re_new_group = lit ''g2'', re_runner_connect = (\<lambda>_. None)\<rparr>"

definition control_form :: form where
  "control_form = [(lit ''lock_control_enabled'', lit ''on''), (lit ''control_username'', lit ''ctl''),
     (lit ''control_password'', lit ''pw'')]"

lemma boss_state: "request_user admin_db full_session = Some boss" "find_instance admin_db 7 = Some demo_instance"
    "instance_access admin_db boss demo_instance True" "admin_state\<lparr>vs_session := full_session\<rparr> = admin_state"
    "vs_db admin_state = admin_db" "vs_session admin_state = full_session"
proof -
  show "request_user admin_db full_session = Some boss"
    using boss_signed_in by (simp add: admin_state_def)
  show "find_instance admin_db 7 = Some demo_instance"
    by (simp add: find_instance_def admin_db_def auth_db_def demo_db_def)
  show "instance_access admin_db boss demo_instance True"
    by (simp add: instance_access_def can_view_instance_def can_operate_instance_def instance_role_def boss_def demo_user_def)
qed (simp_all add: admin_state_def)

lemma control_saved: "control_edit (me_fernet demo_mfa_env) control_form demo_instance =
    Some (demo_instance\<lparr>inst_lock_control_enabled := True, inst_control_username := lit ''ctl'',
      inst_control_password_encrypted := lit ''pw'' @ [0]\<rparr>)"
proof -
  have "form_text control_form ''control_username'' '''' = lit ''ctl''" "form_text control_form ''control_password'' '''' = lit ''pw''"
    "form_flag control_form ''lock_control_enabled''"
    by (simp_all add: form_flag_def form_text_def form_get_def form_all_def control_form_def)
  moreover have "py_strip (lit ''ctl'') = lit ''ctl''" by (simp add: py_strip_def py_isspace_def lit_def)
  ultimately show ?thesis
    by (simp add: control_edit_def Let_def set_control_password_def encrypt_password_def demo_mfa_env_def)
qed

theorem credentials_stay_coherent_witness:
  "\<exists>i \<in> set (instances (vs_db (serve handle_registry
     [(full_session, demo_registry_env, Control_credentials 7 control_form, True)] admin_state))).
     inst_control_username i = lit ''ctl'' \<and> credentials_ok i"
proof -
  let ?rs = "[(full_session, demo_registry_env, Control_credentials 7 control_form, True)]"
  have old: "\<forall>i \<in> set (instances (vs_db admin_state)). credentials_ok i"
    by (simp add: admin_state_def admin_db_def auth_db_def demo_db_def demo_instance_def credentials_ok_def)
  have ok: "\<forall>c \<in> set ?rs. cipher_works (snd c)"
    using demo_env_ok by (simp add: cipher_works_def demo_registry_env_def)
  have e: "registry_env.re_row_ok demo_registry_env = (\<lambda>_. True)" "ve_mfa demo_registry_env = demo_mfa_env"
    by (simp_all add: demo_registry_env_def)
  have "instances (vs_db (serve handle_registry ?rs admin_state)) =
      [demo_instance\<lparr>inst_lock_control_enabled := True, inst_control_username := lit ''ctl'',
      inst_control_password_encrypted := lit ''pw'' @ [0]\<rparr>]"
    using boss_state boss_administrator control_saved
    by (simp add: handle_registry_def update_control_credentials_def administrator_view_def signed_in_def posted_def
        permit_def for_instance_def store_edit_def store_instance_def e instances_save_instance admin_db_def auth_db_def
        demo_db_def update_rows_def)
  then show ?thesis using credentials_stay_coherent [OF ok old] by auto
qed

section \<open>Operators\<close>

lemma change_by_operator:
  assumes "registry_change E d u d'" and "\<not> user_is_superuser u" and "distinct (map inst_pk (instances d))"
    and "i \<in> set (instances d)"
  shows "\<exists>j \<in> set (instances d'). inst_pk j = inst_pk i \<and> protected_part j = protected_part i"
  using assms(1)
proof (cases rule: registry_change.cases)
  case (edited j k)
  show ?thesis
  proof (cases "inst_pk i = inst_pk k")
    case True
    then have "k = i" using edited(3) assms(3,4) by (auto simp: distinct_map dest: inj_onD)
    then show ?thesis using edited(1,4,6) assms(2,4)
      by (auto simp: instances_save_instance set_update_rows edit_allowed_def)
  next
    case False
    then have "i \<in> set (instances d')" using edited(1,4) assms(4)
      by (force simp: instances_save_instance set_update_rows)
    then show ?thesis by blast
  qed
next
  case (renamed k name)
  show ?thesis unfolding renamed(1)
    by (rule update_rows_related [OF assms(4)]) (simp_all add: protected_part_def)
next
  case removed
  then show ?thesis using assms(2) by (simp add: is_administrator_def)
qed (use assms(4) in auto)

text \<open>
  C12. Only an Administrator decides where stored credentials go: whatever the registry is asked by an
  account that is not one, every registration stays, with its endpoint, database, roles, TLS
  requirement, query runner, status and exclusion as they were.
\<close>

theorem operators_cannot_repoint:
  assumes "request_user (vs_db s) (vs_session s) = Some u" and "\<not> user_is_superuser u"
    and "distinct (map inst_pk (instances (vs_db s)))" and "i \<in> set (instances (vs_db s))"
  shows "\<exists>j \<in> set (instances (vs_db (snd (registry_view E q b s)))).
    inst_pk j = inst_pk i \<and> protected_part j = protected_part i"
proof -
  obtain r s' where v: "registry_view E q b s = (r, s')" by (cases "registry_view E q b s")
  then show ?thesis using registry_refines [OF v] change_by_operator [OF _ assms(2-4)] assms(1,4) by fastforce
qed

definition rename_data :: api_data where
  "rename_data = \<lparr>ad_name = Some (lit ''new''), ad_engine = None, ad_db_identifier = None, ad_region = None,
     ad_host = None, ad_port = None, ad_db_name = None, ad_username = None, ad_password = None,
     ad_lock_control_enabled = None, ad_control_username = None, ad_control_password = None,
     ad_owner_teams_webhook_url = None, ad_exclude_from_global_notifications = None, ad_ssl_required = None,
     ad_is_active = None\<rparr>"

lemma kill_state_listed: "accessible_instances (vs_db kill_state) demo_user = [demo_instance]"
proof -
  have "accessible_instances (vs_db kill_state) demo_user = active_instances (vs_db kill_state)"
    by (simp add: accessible_instances_def kill_state_def kill_db_def auth_db_def demo_db_def empty_db_def has_scope_def
        has_grants_def)
  then show ?thesis by (simp add: active_instances_def kill_state_def kill_db_def auth_db_def demo_db_def demo_instance_def)
qed

theorem operators_cannot_repoint_witness:
  "\<exists>j \<in> set (instances (vs_db (snd (registry_view demo_registry_env (Rest (Api_update 7 rename_data)) True kill_state)))).
     inst_pk j = 7 \<and> inst_name j = lit ''new'' \<and> inst_host j = lit ''db.example.com''"
proof -
  let ?s = "snd (registry_view demo_registry_env (Rest (Api_update 7 rename_data)) True kill_state)"
  have d: "distinct (map inst_pk (instances (vs_db kill_state)))" "demo_instance \<in> set (instances (vs_db kill_state))"
    by (simp_all add: kill_state_def kill_db_def auth_db_def demo_db_def)
  have n: "\<not> user_is_superuser demo_user" by (simp add: demo_user_def)
  have upd: "serializer_update (me_fernet demo_mfa_env) (vs_db kill_state) demo_user demo_instance rename_data
      = Some (demo_instance\<lparr>inst_name := lit ''new''\<rparr>)"
    by (simp add: serializer_update_def Let_def rename_data_def apply_fields_def admin_fields_given_def
        connection_changed_def demo_user_def) (simp add: demo_instance_def)
  have e: "registry_env.re_row_ok demo_registry_env = (\<lambda>_. True)" "ve_mfa demo_registry_env = demo_mfa_env"
    by (simp_all add: demo_registry_env_def)
  have "instances (vs_db ?s) = [demo_instance\<lparr>inst_name := lit ''new''\<rparr>]"
    using kill_state_user kill_state_operator upd kill_state_listed
    by (simp add: instance_api_def Let_def api_method_def is_staff_or_read_only_def safe_methods_def demo_user_def [symmetric]
        api_instance_def perform_update_def e)
       (simp add: demo_user_def instances_save_instance kill_state_def kill_db_def auth_db_def demo_db_def update_rows_def)
  then show ?thesis using operators_cannot_repoint [OF kill_state_user n d, of demo_registry_env "Rest (Api_update 7 rename_data)" True]
    by (auto simp: demo_instance_def)
qed

section \<open>Removal\<close>

lemma removal_audited_deleted:
  assumes "removal_audited d u pk (audit_logs e)"
  shows "removal_audited d u pk (audit_logs (delete_instances pks e))"
proof -
  obtain row i where row: "row \<in> set (audit_logs e)" "au_action row = Remove_instance" "au_result row = Success"
      "au_performed_by row = Some (user_pk u)" "i \<in> set (instances d)" "inst_pk i = pk"
      "au_instance_name row = inst_name i" "au_detail row = inst_db_identifier i"
    using assms by (auto simp: removal_audited_def)
  have "\<exists>row' \<in> set (audit_logs (delete_instances pks e)). au_action row' = au_action row \<and> au_result row' = au_result row
      \<and> au_performed_by row' = au_performed_by row \<and> au_instance_name row' = au_instance_name row \<and> au_detail row' = au_detail row"
    unfolding delete_instances_def by simp (rule update_rows_related [OF row(1)], simp_all)
  then show ?thesis using row unfolding removal_audited_def by metis
qed

text \<open>
  C11. A registration disappears only on the word of an Administrator whose recovery or authenticator code
  was accepted in that request; then its incidents go with it and, unless the audit log could not
  be written, a row of the audit log names the account and the removed registration.
\<close>

theorem removal_authorised:
  assumes "i \<in> set (instances (vs_db s))" and "s' = snd (registry_view E q b s)"
    and "inst_pk i \<notin> inst_pk ` set (instances (vs_db s'))"
  shows "\<exists>u code. request_user (vs_db s) (vs_session s) = Some u \<and> is_administrator u
    \<and> profile_enabled (vs_db s) (user_pk u) \<and> code_accepted (ve_mfa E) (ve_now E) (vs_db s) (user_pk u) code
    \<and> (\<forall>a \<in> set (lock_alerts (vs_db s')). la_instance a \<noteq> inst_pk i)
    \<and> (ve_audit_ok E \<longrightarrow> removal_audited (vs_db s) u (inst_pk i) (audit_logs (vs_db s')))"
proof -
  obtain r where v: "registry_view E q b s = (r, s')" using assms(2) by (cases "registry_view E q b s") simp
  from registry_refines [OF v] obtain u where u: "request_user (vs_db s) (vs_session s) = Some u"
      "registry_change E (vs_db s) u (vs_db s')" using assms(1,3) by auto
  from u(2) show ?thesis
  proof (cases rule: registry_change.cases)
    case (edited j k)
    then have "map inst_pk (instances (vs_db s')) = map inst_pk (instances (vs_db s))"
      unfolding edited(1) instances_save_instance by (intro map_update_rows_same) simp
    then show ?thesis using assms(1,3) by (metis image_eqI set_map)
  next
    case (renamed k name)
    then have "map inst_pk (instances (vs_db s')) = map inst_pk (instances (vs_db s))" by (simp add: map_update_rows_same)
    then show ?thesis using assms(1,3) by (metis image_eqI set_map)
  next
    case (removed pks e code)
    then have "inst_pk i \<in> pks" using assms(1,3) by auto
    then show ?thesis using u(1) removed removal_audited_deleted by (auto simp: delete_instances_def)
  qed (use assms(1,3) in auto)
qed

definition code_form :: form where
  "code_form = [(lit ''mfa_code'', lit ''123456'')]"

lemma boss_code_accepted: "require_action_mfa demo_registry_env boss code_form i a det True admin_state =
    Some (True, admin_state\<lparr>vs_session := mark_session_verified 0 full_session, vs_db := save_mfa demo_profile admin_db\<rparr>)"
proof -
  have "form_text code_form ''mfa_code'' '''' = lit ''123456''"
    by (simp add: code_form_def form_text_def form_get_def form_all_def)
  moreover have "py_strip (lit ''123456'') = lit ''123456''" by (simp add: py_strip_def py_isspace_def lit_def)
  moreover have "find_mfa admin_db 3 = Some demo_profile" by (simp add: admin_db_def auth_db_def find_mfa_def demo_profile_def)
  ultimately show ?thesis using demo_code_accepted
    by (simp add: require_action_mfa_def require_mfa_for_action_def Let_def demo_registry_env_def boss_def demo_user_def
        demo_profile_def admin_state_def)
qed

lemma instance_removed:
  "instances (vs_db (snd (registry_view demo_registry_env (Remove 7 code_form) True admin_state))) = []"
proof -
  have "instances (save_mfa demo_profile admin_db) = [demo_instance]"
    by (simp add: save_mfa_def admin_db_def auth_db_def demo_db_def split: option.split)
  then show ?thesis using boss_state boss_administrator boss_code_accepted
    by (simp add: remove_instance_def administrator_view_def signed_in_def posted_def permit_def for_instance_def
        with_mfa_def do_remove_def Let_def)
qed

theorem removal_authorised_witness:
  "\<exists>u row. is_administrator u
     \<and> row \<in> set (audit_logs (vs_db (snd (registry_view demo_registry_env (Remove 7 code_form) True admin_state))))
     \<and> au_action row = Remove_instance \<and> au_performed_by row = Some (user_pk u) \<and> au_detail row = lit ''orders-db''"
proof -
  let ?s = "snd (registry_view demo_registry_env (Remove 7 code_form) True admin_state)"
  have i: "demo_instance \<in> set (instances (vs_db admin_state))"
    by (simp add: admin_state_def admin_db_def auth_db_def demo_db_def)
  have only: "j = demo_instance" if "j \<in> set (instances (vs_db admin_state))" for j
    using that by (simp add: admin_state_def admin_db_def auth_db_def demo_db_def)
  have "inst_pk demo_instance \<notin> inst_pk ` set (instances (vs_db ?s))" unfolding instance_removed by simp
  from removal_authorised [OF i refl this] obtain u where u: "is_administrator u"
    "removal_audited (vs_db admin_state) u 7 (audit_logs (vs_db ?s))"
    by (auto simp: demo_registry_env_def)
  then obtain row j where row: "row \<in> set (audit_logs (vs_db ?s))" "au_action row = Remove_instance"
      "au_performed_by row = Some (user_pk u)" "j \<in> set (instances (vs_db admin_state))" "au_detail row = inst_db_identifier j"
    unfolding removal_audited_def by blast
  then have "au_detail row = lit ''orders-db''" using only [OF row(4)] by (simp add: demo_instance_def)
  then show ?thesis using u(1) row(1-3) by blast
qed

end
