(* ===== verification/Settings_View.thy ===== *)
theory Settings_View
  imports Requests Reports Webhook
begin

text \<open>
  The settings pages of \<open>monitor/views.py\<close>: the notification settings, the dashboard links, the
  connectivity test, the weekly report on demand and its signed download. Django's \<open>URLValidator\<close>
  and signer, the delivery of a request and the iteration order of Python sets are parameters.
\<close>

record 'v settings_env = "'v view_env" +
  se_url_ok :: "pystr \<Rightarrow> bool"
  se_row_ok :: "notification_settings \<Rightarrow> bool"
  se_link_ok :: "dashboard_link \<Rightarrow> bool"
  se_set_order :: "pystr list \<Rightarrow> pystr list"
  se_post :: "pystr \<Rightarrow> payload \<Rightarrow> post_result"
  se_error_text :: "pystr \<Rightarrow> pystr"
  se_sign :: "pystr \<Rightarrow> pystr"
  se_unsign :: "pystr \<Rightarrow> pystr option"

section \<open>Parsing the form\<close>

text \<open>\<open>strptime\<close> with \<open>%H:%M\<close> on ASCII text: one or two digits each, within range.\<close>

definition clock_field :: "nat \<Rightarrow> pystr \<Rightarrow> nat option" where
  "clock_field bound t =
     (if (length t = 1 \<or> length t = 2) \<and> list_all is_dec t
      then (case int_digits t of None \<Rightarrow> None | Some n \<Rightarrow> if n \<le> bound then Some n else None) else None)"

definition parse_clock :: "pystr \<Rightarrow> int option" where
  "parse_clock t =
     (case split_on 58 t of
        [h, m] \<Rightarrow> (case (clock_field 23 h, clock_field 59 m) of
          (Some a, Some b) \<Rightarrow> Some (seconds (int a * 3600 + int b * 60)) | _ \<Rightarrow> None)
      | _ \<Rightarrow> None)"

text \<open>The names of the excluded users: distinct, sorted by their casefolded text.\<close>

definition listed_users :: "(pystr list \<Rightarrow> pystr list) \<Rightarrow> pystr \<Rightarrow> pystr" where
  "listed_users set_order t =
     join_with [44] (sort_key py_casefold
       (set_order (remdups (filter (\<lambda>n. n \<noteq> []) (map py_strip (split_on 44 t))))))"

definition rstrip_slashes :: "pystr \<Rightarrow> pystr" where
  "rstrip_slashes s = rev (dropWhile (\<lambda>c. c = 47) (rev s))"

definition int_field :: "form \<Rightarrow> string \<Rightarrow> string \<Rightarrow> int option" where
  "int_field p k dflt = py_int (form_text p k dflt)"

definition url_field_ok :: "('v, 'z) settings_env_scheme \<Rightarrow> pystr \<Rightarrow> bool" where
  "url_field_ok E url \<longleftrightarrow> length url \<le> 2048 \<and> (url = [] \<or> se_url_ok E url)"

text \<open>The posted settings over the current ones; None is a \<open>ValueError\<close> of one of the conversions.\<close>

definition posted_settings :: "('v, 'z) settings_env_scheme \<Rightarrow> form \<Rightarrow> notification_settings \<Rightarrow> notification_settings option" where
  "posted_settings E p c =
     (case (int_field p ''threshold_seconds'' ''120'', int_field p ''interval_seconds'' ''30'',
            int_field p ''lock_storm_threshold'' ''100'', int_field p ''weekly_report_day'' ''0'',
            int_field p ''weekly_report_hour'' ''9'', int_field p ''report_retention_days'' ''7'',
            int_field p ''resolved_alert_retention_days'' ''30'',
            parse_clock (form_text p ''notification_start_time'' ''09:00''),
            parse_clock (form_text p ''notification_end_time'' ''21:00''),
            int_field p ''manual_query_threshold_seconds'' ''60'') of
        (Some threshold, Some interval, Some storm, Some day, Some hour, Some report_days, Some retention,
         Some start, Some finish, Some query_threshold) \<Rightarrow>
          Some (c\<lparr>ns_channel_webhook_url := py_strip (form_text p ''channel_webhook_url'' ''''),
            ns_threshold_seconds := threshold, ns_interval_seconds := interval, ns_lock_storm_threshold := storm,
            ns_notification_schedule_enabled := form_flag p ''notification_schedule_enabled'',
            ns_notification_start_time := start, ns_notification_end_time := finish,
            ns_manual_query_alert_enabled := form_flag p ''manual_query_alert_enabled'',
            ns_manual_query_threshold_seconds := query_threshold,
            ns_manual_query_excluded_users := listed_users (se_set_order E) (form_text p ''manual_query_excluded_users'' ''''),
            ns_weekly_report_enabled := form_flag p ''weekly_report_enabled'', ns_weekly_report_day := day,
            ns_weekly_report_hour := hour,
            ns_report_base_url := rstrip_slashes (py_strip (form_text p ''report_base_url'' '''')),
            ns_report_retention_days := report_days, ns_resolved_alert_retention_days := retention\<rparr>)
      | _ \<Rightarrow> None)"

definition settings_refused :: "notification_settings \<Rightarrow> bool" where
  "settings_refused c \<longleftrightarrow>
     ns_threshold_seconds c < 1 \<or> ns_interval_seconds c < 1 \<or> ns_lock_storm_threshold c < 0
     \<or> ns_lock_storm_threshold c > 100000 \<or> ns_weekly_report_day c \<notin> {0..6} \<or> ns_weekly_report_hour c \<notin> {0..23}
     \<or> ns_report_retention_days c \<notin> {2, 3, 7} \<or> ns_resolved_alert_retention_days c < 7
     \<or> ns_resolved_alert_retention_days c > 3650
     \<or> (ns_notification_schedule_enabled c \<and> ns_notification_start_time c = ns_notification_end_time c)
     \<or> ns_manual_query_threshold_seconds c < 1 \<or> length (ns_manual_query_excluded_users c) > 4000"

section \<open>Notification settings\<close>

text \<open>\<open>NotificationSettings.load()\<close> stores the defaults when there is no row yet.\<close>

definition loaded :: "view_state \<Rightarrow> view_state" where
  "loaded s = s\<lparr>vs_db := save_settings (load_settings (vs_db s)) (vs_db s)\<rparr>"

definition settings_again :: view where
  "settings_again s = (Form_again, notify_user Notice_error s)"

text \<open>
  The exclusions are two updates outside a transaction: first every active registration is included
  again, then the posted ones are excluded, which raises when a value passes \<open>isdigit\<close> but not
  \<open>int\<close>.
\<close>

definition include_all :: "app_db \<Rightarrow> app_db" where
  "include_all d = d\<lparr>instances := update_rows inst_is_active
     (\<lambda>i. i\<lparr>inst_exclude_from_global_notifications := False\<rparr>) (instances d)\<rparr>"

definition exclude_some :: "int list \<Rightarrow> app_db \<Rightarrow> app_db" where
  "exclude_some pks d = d\<lparr>instances := update_rows (\<lambda>i. inst_is_active i \<and> inst_pk i \<in> set pks)
     (\<lambda>i. i\<lparr>inst_exclude_from_global_notifications := True\<rparr>) (instances d)\<rparr>"

definition save_exclusions :: "form \<Rightarrow> view" where
  "save_exclusions p s =
     (let d = include_all (vs_db s)
      in case parse_all (filter py_isdigit (form_all p (lit ''excluded_instance_ids''))) of
           None \<Rightarrow> (Server_error, s\<lparr>vs_db := d\<rparr>)
         | Some pks \<Rightarrow> (Settings_page, notify_user Notice_success (s\<lparr>vs_db := exclude_some pks d\<rparr>)))"

definition notification_settings_post :: "('v, 'z) settings_env_scheme \<Rightarrow> user \<Rightarrow> form \<Rightarrow> view" where
  "notification_settings_post E u p s =
     (if \<not> url_field_ok E (py_strip (form_text p ''channel_webhook_url'' '''')) then settings_again s
      else if \<not> url_field_ok E (rstrip_slashes (py_strip (form_text p ''report_base_url'' ''''))) then settings_again s
      else case posted_settings E p (load_settings (vs_db s)) of
          None \<Rightarrow> settings_again s
        | Some c \<Rightarrow>
            if settings_refused c then settings_again s
            else if \<not> se_row_ok E c then (Server_error, s)
            else
              let s1 = s\<lparr>vs_db := save_settings c (vs_db s)\<rparr>
              in if form_get p (lit ''global_scope_submitted'') = Some (lit ''1'') \<and> user_is_superuser u
                 then save_exclusions p s1 else (Settings_page, notify_user Notice_success s1))"

definition notification_settings_view :: "('v, 'z) settings_env_scheme \<Rightarrow> form \<Rightarrow> bool \<Rightarrow> view" where
  "notification_settings_view E p is_post = signed_in (\<lambda>u s.
     permit (can_manage_global_notifications (vs_db s) (Some u))
       (\<lambda>s. if is_post then notification_settings_post E u p (loaded s) else (Page_ok, loaded s)) s)"

section \<open>Dashboard links\<close>

definition link_fields_ok :: "form \<Rightarrow> bool" where
  "link_fields_ok p \<longleftrightarrow>
     py_strip (form_text p ''name'' '''') \<noteq> [] \<and> length (py_strip (form_text p ''name'' '''')) \<le> 100
     \<and> length (py_strip (form_text p ''description'' '''')) \<le> 255
     \<and> length (py_strip (form_text p ''category'' '''')) \<le> 80
     \<and> (case int_field p ''sort_order'' ''0'' of None \<Rightarrow> False | Some n \<Rightarrow> 0 \<le> n)"

text \<open>\<open>_validate_dashboard_url\<close>: None is the \<open>ValueError\<close> of \<open>urlsplit\<close>, which the view does not catch.\<close>

definition dashboard_url_ok :: "('v, 'z) settings_env_scheme \<Rightarrow> pystr \<Rightarrow> bool option" where
  "dashboard_url_ok E url =
     (case urlsplit url of
        None \<Rightarrow> None
      | Some parts \<Rightarrow> Some (up_scheme parts \<in> {lit ''http'', lit ''https''} \<and> truthy (up_hostname parts)
          \<and> \<not> truthy (up_username parts) \<and> \<not> truthy (up_password parts) \<and> se_url_ok E url))"

definition fill_link :: "form \<Rightarrow> dashboard_link \<Rightarrow> dashboard_link" where
  "fill_link p l = l\<lparr>dl_name := py_strip (form_text p ''name'' ''''), dl_url := py_strip (form_text p ''url'' ''''),
     dl_description := py_strip (form_text p ''description'' ''''),
     dl_category := py_strip (form_text p ''category'' ''''),
     dl_sort_order := (case int_field p ''sort_order'' ''0'' of None \<Rightarrow> -1 | Some n \<Rightarrow> n),
     dl_is_active := form_flag p ''is_active''\<rparr>"

definition blank_link :: "user \<Rightarrow> int \<Rightarrow> dashboard_link" where
  "blank_link u pk = \<lparr>dl_pk = pk, dl_name = [], dl_url = [], dl_description = [], dl_category = [], dl_sort_order = 0,
     dl_is_active = True, dl_created_by = Some (user_pk u)\<rparr>"

definition with_link :: "pystr \<Rightarrow> (dashboard_link \<Rightarrow> view) \<Rightarrow> view" where
  "with_link t h s =
     (case py_int t of
        None \<Rightarrow> (Server_error, s)
      | Some pk \<Rightarrow> (case first_row (\<lambda>l. dl_pk l = pk) (dashboard_links (vs_db s)) of
          None \<Rightarrow> (Not_found, s) | Some l \<Rightarrow> h l s))"

definition store_link :: "('v, 'z) settings_env_scheme \<Rightarrow> bool \<Rightarrow> dashboard_link \<Rightarrow> view" where
  "store_link E new l s =
     (let d = vs_db s
      in if \<not> se_link_ok E l then (Server_error, s)
         else (Links_page, notify_user Notice_success (s\<lparr>vs_db :=
           (if new then d\<lparr>dashboard_links := dashboard_links d @ [l], next_pk := next_pk d + 1\<rparr>
            else d\<lparr>dashboard_links := update_rows (\<lambda>k. dl_pk k = dl_pk l) (\<lambda>_. l) (dashboard_links d)\<rparr>)\<rparr>)))"

definition dashboard_links_post :: "('v, 'z) settings_env_scheme \<Rightarrow> user \<Rightarrow> form \<Rightarrow> view" where
  "dashboard_links_post E u p s =
     (if form_text p ''action'' ''save'' = lit ''delete'' then
        (case form_get p (lit ''link_id'') of
           None \<Rightarrow> (Not_found, s)
         | Some t \<Rightarrow> with_link t (\<lambda>l s. (Links_page, notify_user Notice_success (s\<lparr>vs_db :=
             (vs_db s)\<lparr>dashboard_links := filter (\<lambda>k. dl_pk k \<noteq> dl_pk l) (dashboard_links (vs_db s))\<rparr>\<rparr>))) s)
      else if \<not> link_fields_ok p then settings_again s
      else case dashboard_url_ok E (py_strip (form_text p ''url'' '''')) of
          None \<Rightarrow> (Server_error, s)
        | Some False \<Rightarrow> settings_again s
        | Some True \<Rightarrow>
            (if form_text p ''link_id'' '''' = [] then store_link E True (fill_link p (blank_link u (next_pk (vs_db s)))) s
             else with_link (form_text p ''link_id'' '''') (\<lambda>l. store_link E False (fill_link p l)) s))"

definition dashboard_links_view :: "('v, 'z) settings_env_scheme \<Rightarrow> form \<Rightarrow> bool \<Rightarrow> view" where
  "dashboard_links_view E p is_post = signed_in (\<lambda>u.
     if is_post then permit (is_administrator u) (dashboard_links_post E u p)
     else if user_is_superuser u \<and> form_text p ''edit'' '''' \<noteq> []
     then with_link (form_text p ''edit'' '''') (\<lambda>l s. (Page_ok, s))
     else (\<lambda>s. (Page_ok, s)))"

section \<open>The connectivity test and the weekly report\<close>

text \<open>Where the test goes: the stored channel, the stored owner webhook, or the URL of the form.\<close>

definition test_destination :: "form \<Rightarrow> user \<Rightarrow> view_state \<Rightarrow> response + pystr" where
  "test_destination p u s =
     (let destination = form_text p ''destination'' ''Teams'';
          id_text = form_text p ''instance_id'' ''''
      in if destination = lit ''shared channel'' then
           (if can_manage_global_notifications (vs_db s) (Some u) then Inr (ns_channel_webhook_url (load_settings (vs_db s)))
            else Inl Forbidden)
         else if destination = lit ''owner chat'' \<and> id_text \<noteq> [] then
           (case py_int id_text of
              None \<Rightarrow> Inl Server_error
            | Some pk \<Rightarrow> (case find_instance (vs_db s) pk of
                None \<Rightarrow> Inl Not_found
              | Some i \<Rightarrow> if can_manage_instance_notifications (vs_db s) (Some u) i
                  then Inr (inst_owner_teams_webhook_url i) else Inl Forbidden))
         else Inr (py_strip (form_text p ''webhook_url'' '''')))"

definition test_page :: "form \<Rightarrow> response" where
  "test_page p =
     (let next_page = form_text p ''next'' ''''; id_text = form_text p ''instance_id'' ''''
      in if next_page = lit ''notification-settings'' then Settings_page
         else if next_page = lit ''instance-detail'' \<and> id_text \<noteq> [] then
           (if list_all is_dec id_text then (case py_int id_text of None \<Rightarrow> Server_error | Some pk \<Rightarrow> Detail_page pk)
            else Server_error)
         else Add_page)"

definition test_notification :: "('v, 'z) settings_env_scheme \<Rightarrow> form \<Rightarrow> bool \<Rightarrow> view_state \<Rightarrow> (response \<times> view_state) \<times> posts" where
  "test_notification E p is_post s =
     (case request_user (vs_db s) (vs_session s) of
        None \<Rightarrow> ((Login_page, s), [])
      | Some u \<Rightarrow>
          if \<not> is_post then ((Method_not_allowed, s), [])
          else if \<not> user_is_staff u then ((Forbidden, s), [])
          else
            let s = (if form_text p ''destination'' ''Teams'' = lit ''shared channel''
                \<and> can_manage_global_notifications (vs_db s) (Some u) then loaded s else s)
            in (case test_destination p u s of
                Inl refused \<Rightarrow> ((refused, s), [])
              | Inr url \<Rightarrow>
                  let ((ok, detail), sent) = send_test_notification (se_post E) (se_error_text E) url
                        (form_text p ''destination'' ''Teams'')
                  in ((test_page p, notify_user (if ok then Notice_success else Notice_error) s), sent)))"

definition send_weekly_report_now :: "('v, 'z) settings_env_scheme \<Rightarrow> bool \<Rightarrow> view_state \<Rightarrow> (response \<times> view_state) \<times> posts" where
  "send_weekly_report_now E is_post s =
     (case request_user (vs_db s) (vs_session s) of
        None \<Rightarrow> ((Login_page, s), [])
      | Some u \<Rightarrow>
          if \<not> is_post then ((Method_not_allowed, s), [])
          else if \<not> can_manage_global_notifications (vs_db s) (Some u) then ((Forbidden, s), [])
          else let (ok, d, sent) = send_weekly_reports (se_sign E) (se_post E) (ve_now E) (vs_db s)
               in ((Settings_page, notify_user (if ok then Notice_success else Notice_error) (s\<lparr>vs_db := d\<rparr>)), sent))"

text \<open>
  The public download: the signed token, at most seven days old, names the report; the file name and
  the content, or nothing (not found). A signed text is always a report key.
\<close>

definition download_weekly_report :: "('v, 'z) settings_env_scheme \<Rightarrow> pystr \<Rightarrow> app_db \<Rightarrow> (pystr \<times> pystr) option" where
  "download_weekly_report E token d =
     (case se_unsign E token of
        None \<Rightarrow> None
      | Some t \<Rightarrow> (case py_int t of
          None \<Rightarrow> None
        | Some pk \<Rightarrow> (case first_row (\<lambda>r. lr_pk r = pk) (lock_reports d) of
            None \<Rightarrow> None
          | Some r \<Rightarrow> if lr_expires_at r < ve_now E then None else Some (lr_file_name r, lr_csv_content r))))"

end
