(* ===== verification/Settings_Claims.thy ===== *)
theory Settings_Claims
  imports Settings_View Background_Claims Admin_Claims
begin

text \<open>
  The notification settings stay within their limits: every program part that writes them - the
  settings page, the weekly report on demand, the connectivity test and the background monitor - as
  one step relation, and what the rest of the program may rely on.
\<close>

section \<open>The writers of the settings\<close>

inductive settings_step :: "app_db \<Rightarrow> app_db \<Rightarrow> bool" where
  page: "notification_settings_view (E :: unit settings_env) p is_post s = (r, s') \<Longrightarrow> settings_step (vs_db s) (vs_db s')"
| weekly: "send_weekly_report_now (E :: unit settings_env) is_post s = ((r, s'), sent) \<Longrightarrow> settings_step (vs_db s) (vs_db s')"
| test: "test_notification (E :: unit settings_env) p is_post s = ((r, s'), sent) \<Longrightarrow> settings_step (vs_db s) (vs_db s')"
| monitor: "monitor_turn sha sign post fetch clock owner now d = (wait, d', sent) \<Longrightarrow> settings_step d d'"
| other: "settings_row d' = settings_row d \<Longrightarrow> settings_step d d'"

definition settings_ok :: "notification_settings \<Rightarrow> bool" where
  "settings_ok c \<longleftrightarrow> \<not> settings_refused c \<and> ns_notification_start_time c \<in> {0..<day_us}
     \<and> ns_notification_end_time c \<in> {0..<day_us}"

lemma settings_ok_stamps [simp]:
  "settings_ok (c\<lparr>ns_last_cleanup_at := t\<rparr>) = settings_ok c"
  "settings_ok (c\<lparr>ns_last_weekly_report_at := t\<rparr>) = settings_ok c"
  by (simp_all add: settings_ok_def settings_refused_def)

lemma settings_ok_row: "settings_row d' = settings_row d \<Longrightarrow> load_settings d' = load_settings d"
  by (simp add: load_settings_def)

section \<open>The background monitor\<close>

lemma run_checks_settings:
  "run_checks_in_order sha post fetch clock is d = (log, d', ps) \<Longrightarrow> load_settings d' = load_settings d"
proof (induction "is" arbitrary: d d' log ps)
  case Nil
  then show ?case by simp
next
  case (Cons i js)
  obtain e d1 ps1 where p: "process_instance sha post fetch i (clock i) d = (e, d1, ps1)" by (rule prod_cases3)
  obtain log2 d2 ps2 where r: "run_checks_in_order sha post fetch clock js d1 = (log2, d2, ps2)"
    by (rule prod_cases3)
  show ?case using Cons.IH [OF r] Cons.prems process_instance_settings [OF p] by (simp add: p r)
qed

lemma acquire_settings:
  "acquire_monitor_lease owner now d = (r, d') \<Longrightarrow> load_settings d' = load_settings d"
  by (auto simp: acquire_monitor_lease_def Let_def load_settings_def save_settings_def
      split: if_splits option.splits)

lemma send_weekly_settings:
  "send_weekly_reports sign post now d = (ok, d', ps) \<Longrightarrow> load_settings d' = load_settings d"
  using send_weekly_reports_effect(1) [of sign post now d ok d' ps]
  by (auto dest!: same_but_reportsD(3) simp: load_settings_def save_settings_def)

lemma maybe_weekly_settings:
  assumes "maybe_send_weekly_report sign post now d = (sent, d', ps)" and "settings_ok (load_settings d)"
  shows "settings_ok (load_settings d')"
proof -
  obtain ok d1 ps1 where w: "send_weekly_reports sign post now (save_settings (load_settings d) d) = (ok, d1, ps1)"
    by (rule prod_cases3)
  show ?thesis using assms send_weekly_settings [OF w]
    by (auto simp: maybe_send_weekly_report_def Let_def w split: if_splits option.splits)
qed

lemma cleanup_settings:
  "cleanup_monitor_history now d = (r, d') \<Longrightarrow> settings_ok (load_settings d) \<Longrightarrow> settings_ok (load_settings d')"
  by (auto simp: cleanup_monitor_history_def Let_def load_settings_def split: option.splits if_splits)

lemma monitor_turn_settings:
  assumes "monitor_turn sha sign post fetch clock owner now d = (wait, d', sent)" and ok: "settings_ok (load_settings d)"
  shows "settings_ok (load_settings d')"
proof -
  obtain r d1 where a: "acquire_monitor_lease owner now d = (r, d1)" by fastforce
  obtain log d2 ps1 where c: "run_monitor_cycle sha post fetch clock d1 = (log, d2, ps1)" by (rule prod_cases3)
  obtain w d3 ps2 where m: "maybe_send_weekly_report sign post now d2 = (w, d3, ps2)" by (rule prod_cases3)
  obtain n d4 where h: "cleanup_monitor_history now d3 = (n, d4)" by fastforce
  have 1: "load_settings d1 = load_settings d" by (rule acquire_settings [OF a])
  have 2: "load_settings d2 = load_settings d1" using c unfolding run_monitor_cycle_def by (rule run_checks_settings)
  have "settings_ok (load_settings d4)"
    using maybe_weekly_settings [OF m] cleanup_settings [OF h] ok 1 2 by simp
  then show ?thesis using assms 1
    by (auto simp: monitor_turn_def a c m h split: option.splits bool.splits)
qed

section \<open>The pages\<close>

lemma clock_field_bound: "clock_field b t = Some n \<Longrightarrow> n \<le> b"
  by (auto simp: clock_field_def split: if_splits option.splits)

lemma parse_clock_range: "parse_clock t = Some x \<Longrightarrow> x \<in> {0..<day_us}"
  by (auto simp: parse_clock_def seconds_def day_us_def dest!: clock_field_bound split: list.splits option.splits prod.splits)

lemma posted_settings_times:
  "posted_settings E p c = Some c' \<Longrightarrow>
   ns_notification_start_time c' \<in> {0..<day_us} \<and> ns_notification_end_time c' \<in> {0..<day_us}"
  by (auto simp: posted_settings_def simp del: atLeastLessThan_iff dest!: parse_clock_range split: option.splits prod.splits)

lemma load_settings_include [simp]:
  "load_settings (include_all d) = load_settings d" "load_settings (exclude_some pks d) = load_settings d"
  by (simp_all add: include_all_def exclude_some_def load_settings_def)

lemma vs_db_notify [simp]: "vs_db (notify_user n s) = vs_db s"
  by (simp add: notify_user_def)

lemma loaded_settings [simp]: "load_settings (vs_db (loaded s)) = load_settings (vs_db s)"
  by (simp add: loaded_def)

lemma save_exclusions_settings:
  "save_exclusions p s = (r, s') \<Longrightarrow> load_settings (vs_db s') = load_settings (vs_db s)"
  by (auto simp: save_exclusions_def Let_def split: option.splits)

lemma notification_settings_post_ok:
  assumes "notification_settings_post E u p s = (r, s')" and "settings_ok (load_settings (vs_db s))"
  shows "settings_ok (load_settings (vs_db s'))"
proof (cases "posted_settings E p (load_settings (vs_db s))")
  case None
  then show ?thesis using assms by (auto simp: notification_settings_post_def settings_again_def split: if_splits)
next
  case (Some c)
  have "\<not> settings_refused c \<Longrightarrow> settings_ok c" using posted_settings_times [OF Some] by (simp add: settings_ok_def)
  then show ?thesis using assms Some
    by (auto simp: notification_settings_post_def settings_again_def Let_def dest!: save_exclusions_settings split: if_splits)
qed

lemma notification_settings_view_ok:
  "notification_settings_view E p is_post s = (r, s') \<Longrightarrow> settings_ok (load_settings (vs_db s)) \<Longrightarrow>
   settings_ok (load_settings (vs_db s'))"
  by (auto simp: notification_settings_view_def elim!: signed_inE permitE
      dest!: notification_settings_post_ok [where s = "loaded s"] split: if_splits)

lemma test_notification_ok:
  "test_notification E p is_post s = ((r, s'), sent) \<Longrightarrow> load_settings (vs_db s') = load_settings (vs_db s)"
  by (auto simp: test_notification_def Let_def split: option.splits if_splits sum.splits prod.splits)

lemma send_weekly_now_ok:
  "send_weekly_report_now E is_post s = ((r, s'), sent) \<Longrightarrow> load_settings (vs_db s') = load_settings (vs_db s)"
  by (auto simp: send_weekly_report_now_def Let_def dest!: send_weekly_settings split: option.splits if_splits prod.splits)

lemma settings_step_ok: "settings_step d d' \<Longrightarrow> settings_ok (load_settings d) \<Longrightarrow> settings_ok (load_settings d')"
  by (cases rule: settings_step.cases)
     (auto dest: notification_settings_view_ok send_weekly_now_ok test_notification_ok monitor_turn_settings settings_ok_row)

lemma settings_steps_ok: "settings_step\<^sup>*\<^sup>* d d' \<Longrightarrow> settings_ok (load_settings d) \<Longrightarrow> settings_ok (load_settings d')"
  by (induction rule: rtranclp_induct) (auto intro: settings_step_ok)

section \<open>What the limits give\<close>

lemma window_is_proper:
  assumes "settings_ok c" and "ns_notification_schedule_enabled c"
  shows "(\<exists>t. lock_notifications_open c t) \<and> (\<exists>t. \<not> lock_notifications_open c t)"
proof
  let ?s = "ns_notification_start_time c" and ?e = "ns_notification_end_time c"
  have lt: "local_time (x - ist_offset) = x" if "x \<in> {0..<day_us}" for x
    using that by (simp add: local_time_def)
  have r: "?s \<in> {0..<day_us}" "?e \<in> {0..<day_us}" "?s \<noteq> ?e"
    using assms by (auto simp: settings_ok_def settings_refused_def)
  show "\<exists>t. lock_notifications_open c t"
    using r lt [OF r(1)] by (intro exI [of _ "?s - ist_offset"]) (simp add: lock_notifications_open_def Let_def)
  show "\<exists>t. \<not> lock_notifications_open c t"
    using assms(2) r lt [OF r(2)] by (intro exI [of _ "?e - ist_offset"]) (simp add: lock_notifications_open_def Let_def)
qed

lemma cleanup_after_a_week:
  assumes "settings_ok (load_settings d)" and "cleanup_monitor_history now d = (r, d')"
    and "a \<in> set (lock_alerts d) - set (lock_alerts d')"
  shows "\<exists>t. la_resolved_at a = Some t \<and> t < now - days 7"
proof -
  have "past_retention (load_settings d) now (la_resolved_at a)"
    using assms(2,3) by (auto simp: cleanup_monitor_history_def Let_def load_settings_def split: option.splits if_splits)
  then show ?thesis using assms(1)
    by (auto simp: past_retention_def settings_ok_def settings_refused_def days_def split: option.splits)
qed

text \<open>
  C22. The settings stay within their limits: starting from valid settings, no sequence of requests to
  the settings page (whatever is posted), connectivity tests, weekly reports and turns of the
  background monitor ever stores settings that the form would refuse. So a scheduled notification
  window is never empty and never the whole day, the cleanup never removes an incident that was
  resolved in the last seven days, and a report is kept for at most a week.
\<close>

theorem settings_stay_valid:
  assumes "settings_ok (load_settings d)" and "settings_step\<^sup>*\<^sup>* d d'"
  shows "settings_ok (load_settings d')
    \<and> (ns_notification_schedule_enabled (load_settings d') \<longrightarrow>
        (\<exists>t. lock_notifications_open (load_settings d') t) \<and> (\<exists>t. \<not> lock_notifications_open (load_settings d') t))
    \<and> (\<forall>a \<in> set (lock_alerts d') - set (lock_alerts (snd (cleanup_monitor_history now d'))).
        \<exists>t. la_resolved_at a = Some t \<and> t < now - days 7)
    \<and> ns_report_retention_days (load_settings d') \<le> 7"
proof -
  have ok: "settings_ok (load_settings d')" by (rule settings_steps_ok [OF assms(2,1)])
  then have "ns_report_retention_days (load_settings d') \<le> 7" by (auto simp: settings_ok_def settings_refused_def)
  then show ?thesis using ok window_is_proper [OF ok]
      cleanup_after_a_week [OF ok, of now "fst (cleanup_monitor_history now d')" "snd (cleanup_monitor_history now d')"]
    by simp
qed


text \<open>The Administrator schedules the cards and keeps the reports for three days.\<close>

definition schedule_form :: form where
  "schedule_form = [(lit ''notification_schedule_enabled'', lit ''on''), (lit ''report_retention_days'', lit ''3'')]"

definition demo_settings_env :: "unit settings_env" where
  "demo_settings_env = \<lparr>ve_mfa = demo_mfa_env, ve_now = 0, ve_server = (\<lambda>_. undefined), ve_audit_ok = True,
     ve_mark_ok = True, se_url_ok = (\<lambda>_. True), se_row_ok = (\<lambda>_. True), se_link_ok = (\<lambda>_. True),
     se_set_order = (\<lambda>xs. xs), se_post = (\<lambda>_ _. Accepted), se_error_text = (\<lambda>_. []), se_sign = (\<lambda>t. t),
     se_unsign = Some\<rparr>"

lemmas form_eval = form_text_def form_get_def form_all_def schedule_form_def

lemma schedule_numbers:
  "py_int (lit ''120'') = Some 120"
  "py_int (lit ''30'') = Some 30"
  "py_int (lit ''100'') = Some 100"
  "py_int (lit ''0'') = Some 0"
  "py_int (lit ''9'') = Some 9"
  "py_int (lit ''3'') = Some 3"
  "py_int (lit ''60'') = Some 60"
  by (rule py_int_lit, simp add: digit_eval)+

lemma schedule_texts:
  "form_text schedule_form ''threshold_seconds'' ''120'' = lit ''120''"
  "form_text schedule_form ''interval_seconds'' ''30'' = lit ''30''"
  "form_text schedule_form ''lock_storm_threshold'' ''100'' = lit ''100''"
  "form_text schedule_form ''weekly_report_day'' ''0'' = lit ''0''"
  "form_text schedule_form ''weekly_report_hour'' ''9'' = lit ''9''"
  "form_text schedule_form ''report_retention_days'' ''7'' = lit ''3''"
  "form_text schedule_form ''resolved_alert_retention_days'' ''30'' = lit ''30''"
  "form_text schedule_form ''manual_query_threshold_seconds'' ''60'' = lit ''60''"
  by (simp_all add: form_eval lit_def)

lemma schedule_ints:
  "int_field schedule_form ''threshold_seconds'' ''120'' = Some 120"
  "int_field schedule_form ''interval_seconds'' ''30'' = Some 30"
  "int_field schedule_form ''lock_storm_threshold'' ''100'' = Some 100"
  "int_field schedule_form ''weekly_report_day'' ''0'' = Some 0"
  "int_field schedule_form ''weekly_report_hour'' ''9'' = Some 9"
  "int_field schedule_form ''report_retention_days'' ''7'' = Some 3"
  "int_field schedule_form ''resolved_alert_retention_days'' ''30'' = Some 30"
  "int_field schedule_form ''manual_query_threshold_seconds'' ''60'' = Some 60"
  by (simp_all only: int_field_def schedule_texts schedule_numbers)

lemma schedule_times:
  "parse_clock (form_text schedule_form ''notification_start_time'' ''09:00'') = Some (seconds (9 * 3600))"
  "parse_clock (form_text schedule_form ''notification_end_time'' ''21:00'') = Some (seconds (21 * 3600))"
  by (simp_all add: form_eval parse_clock_def lit_def clock_field_def is_dec_def int_digits_def)

lemma schedule_users: "listed_users f (form_text schedule_form ''manual_query_excluded_users'' '''') = listed_users f []"
  "form_flag schedule_form ''notification_schedule_enabled''"
  by (simp_all add: form_eval form_flag_def lit_def)

lemma schedule_posted:
  "\<exists>c'. posted_settings demo_settings_env schedule_form c = Some c' \<and> \<not> settings_refused c'
     \<and> ns_notification_schedule_enabled c' \<and> ns_report_retention_days c' = 3"
proof -
  have "length (listed_users (se_set_order demo_settings_env) []) \<le> 4000"
    by (simp add: listed_users_def demo_settings_env_def py_strip_def)
  then show ?thesis
    by (simp add: posted_settings_def schedule_ints schedule_times schedule_users settings_refused_def seconds_def)
qed

lemma boss_manages: "can_manage_global_notifications d (Some boss)"
  by (simp add: can_manage_global_notifications_def boss_def demo_user_def)

lemma schedule_saved:
  obtains c' s' where "notification_settings_view demo_settings_env schedule_form True admin_state = (Settings_page, s')"
    and "load_settings (vs_db s') = c'" and "ns_notification_schedule_enabled c'" and "ns_report_retention_days c' = 3"
proof -
  let ?s = "loaded admin_state"
  obtain c' where c: "posted_settings demo_settings_env schedule_form (load_settings (vs_db ?s)) = Some c'"
      "\<not> settings_refused c'" "ns_notification_schedule_enabled c'" "ns_report_retention_days c' = 3"
    using schedule_posted by blast
  have url: "url_field_ok demo_settings_env [] "
    by (simp add: url_field_ok_def)
  have again: "form_get schedule_form (lit ''global_scope_submitted'') \<noteq> Some (lit ''1'')" by (simp add: form_eval)
  have blank: "py_strip (form_text schedule_form ''channel_webhook_url'' '''') = []"
    "rstrip_slashes (py_strip (form_text schedule_form ''report_base_url'' '''')) = []"
    by (simp_all add: form_eval lit_def py_strip_def rstrip_slashes_def)
  have "request_user (vs_db admin_state) (vs_session admin_state) = Some boss"
    using boss_signed_in by (simp add: admin_state_def)
  moreover have "notification_settings_post demo_settings_env boss schedule_form ?s =
      (Settings_page, notify_user Notice_success (?s\<lparr>vs_db := save_settings c' (vs_db ?s)\<rparr>))"
    using c(1,2) url again unfolding notification_settings_post_def blank Let_def
    by (simp add: demo_settings_env_def)
  ultimately have v: "notification_settings_view demo_settings_env schedule_form True admin_state =
      (Settings_page, notify_user Notice_success (?s\<lparr>vs_db := save_settings c' (vs_db ?s)\<rparr>))"
    by (simp add: notification_settings_view_def signed_in_def permit_def boss_manages)
  have "load_settings (vs_db (notify_user Notice_success (?s\<lparr>vs_db := save_settings c' (vs_db ?s)\<rparr>))) = c'" by simp
  then show ?thesis by (rule that [OF v _ c(3,4)])
qed

theorem settings_stay_valid_witness:
  "\<exists>c. load_settings (vs_db (snd (notification_settings_view demo_settings_env schedule_form True admin_state))) = c
     \<and> ns_report_retention_days c = 3 \<and> (\<exists>t. lock_notifications_open c t) \<and> (\<exists>t. \<not> lock_notifications_open c t)"
proof -
  obtain c' s' where v: "notification_settings_view demo_settings_env schedule_form True admin_state = (Settings_page, s')"
      "load_settings (vs_db s') = c'" "ns_notification_schedule_enabled c'" "ns_report_retention_days c' = 3"
    by (rule schedule_saved)
  have "settings_ok (load_settings (vs_db admin_state))"
    by (simp add: admin_state_def admin_db_defs demo_settings_def settings_ok_def settings_refused_def load_settings_def
        default_settings_def seconds_def day_us_def lit_def)
  from settings_stay_valid [OF this r_into_rtranclp [where r = settings_step, OF settings_step.page [OF v(1)]]]
  show ?thesis using v by simp
qed

end
