(* ===== verification/Pages.thy ===== *)
theory Pages
  imports Requests Csv_Report
begin

text \<open>
  The read-only pages of \<open>monitor/views.py\<close>: the list of registrations, the cards, the detail page,
  the polled tables with their cache and the two CSV downloads. A page is the context its template
  is rendered with; a request that gets no page is answered with a \<open>response\<close>. The targets, the
  clock and the texts of time stamps are parameters.
\<close>

record 'v pages_env =
  pe_now :: datetime
  pe_ttl :: int
  pe_server :: "rds_instance \<Rightarrow> 'v server"
  pe_overview :: "rds_instance \<Rightarrow> 'v server"
  pe_captured_at :: pystr
  pe_file_stamp :: pystr

section \<open>Guards\<close>

text \<open>\<open>login_required\<close>, \<open>get_object_or_404\<close> and the view check, for a page of one registration.\<close>

definition for_visible :: "app_db \<Rightarrow> session \<Rightarrow> int \<Rightarrow> (user \<Rightarrow> rds_instance \<Rightarrow> response + 'p) \<Rightarrow> response + 'p" where
  "for_visible d ss pk h =
     (case request_user d ss of
        None \<Rightarrow> Inl Login_page
      | Some u \<Rightarrow> (case find_instance d pk of
          None \<Rightarrow> Inl Not_found
        | Some i \<Rightarrow> if instance_access d u i False then h u i else Inl Forbidden))"

lemma for_visibleE:
  assumes "for_visible d ss pk h = Inr p"
  obtains u i where "request_user d ss = Some u" "find_instance d pk = Some i" "can_view_instance d (Some u) i"
    "h u i = Inr p"
  using assms by (auto simp: for_visible_def instance_access_def split: option.splits if_splits)

section \<open>Durations\<close>

definition fmt_duration :: "int option \<Rightarrow> pystr" where
  "fmt_duration x =
     (let s = (case x of None \<Rightarrow> 0 | Some n \<Rightarrow> n)
      in if s < 60 then str_int s @ lit ''s''
         else if s < 3600 then str_int (s div 60) @ lit ''m '' @ pad2 (s mod 60) @ lit ''s''
         else str_int (s div 3600) @ lit ''h '' @ pad2 (s mod 3600 div 60) @ lit ''m'')"

definition with_human_durations :: "('r \<Rightarrow> int option) \<Rightarrow> 'r list \<Rightarrow> ('r \<times> pystr) list" where
  "with_human_durations field rows = map (\<lambda>r. (r, fmt_duration (field r))) rows"

section \<open>The list of registrations\<close>

record instance_group =
  ig_group_id :: pystr
  ig_instance :: rds_instance
  ig_database_count :: nat

definition by_group :: "rds_instance list \<Rightarrow> rds_instance list" where
  "by_group is = sort_key inst_connection_group (sort_key inst_name (sort_key inst_db_name is))"

text \<open>\<open>dict.setdefault(key, []).append(x)\<close> in a loop: the keys in order of first use.\<close>

fun add_member :: "rds_instance \<Rightarrow> (pystr \<times> rds_instance list) list \<Rightarrow> (pystr \<times> rds_instance list) list" where
  "add_member i [] = [(inst_connection_group i, [i])]"
| "add_member i ((g, members) # groups) =
     (if g = inst_connection_group i then (g, members @ [i]) # groups else (g, members) # add_member i groups)"

definition grouped :: "rds_instance list \<Rightarrow> (pystr \<times> rds_instance list) list" where
  "grouped is = fold add_member is []"

record list_page =
  lp_instances :: "rds_instance list"
  lp_groups :: "instance_group list"
  lp_links :: "dashboard_link list"

definition instance_list :: "app_db \<Rightarrow> session \<Rightarrow> response + list_page" where
  "instance_list d ss =
     (case request_user d ss of
        None \<Rightarrow> Inl Login_page
      | Some u \<Rightarrow>
          let is = accessible_instances d u
          in Inr \<lparr>lp_instances = is,
               lp_groups = map (\<lambda>(g, members). \<lparr>ig_group_id = g, ig_instance = hd members,
                 ig_database_count = length members\<rparr>) (grouped (by_group is)),
               lp_links = filter dl_is_active (dashboard_links d)\<rparr>)"

section \<open>Live counts\<close>

definition active_count :: "session_row list \<Rightarrow> int" where
  "active_count rows = int (length (filter (\<lambda>r. py_casefold (text_or (ar_state r) []) = lit ''active'') rows))"

record live_counts =
  lc_total :: int
  lc_active :: int
  lc_idle :: int
  lc_locks :: int

definition live_counts_of :: "session_row list \<times> blocking_row list \<Rightarrow> live_counts" where
  "live_counts_of rows =
     (let total = int (length (fst rows)); active = active_count (fst rows)
      in \<lparr>lc_total = total, lc_active = active, lc_idle = max 0 (total - active), lc_locks = int (length (snd rows))\<rparr>)"

text \<open>What a read gives a page: a connection error becomes its text, any other exception leaves the view.\<close>

definition caught :: "target_exc + 'a \<Rightarrow> response + (pystr + 'a)" where
  "caught r = (case r of Inl (Conn_err e) \<Rightarrow> Inr (Inl e) | Inl _ \<Rightarrow> Inl Server_error | Inr x \<Rightarrow> Inr (Inr x))"

record card_page =
  cp_instance :: rds_instance
  cp_can_operate :: bool
  cp_live :: "pystr + live_counts"

definition instance_card_partial :: "'v pages_env \<Rightarrow> app_db \<Rightarrow> session \<Rightarrow> int \<Rightarrow> response + card_page" where
  "instance_card_partial E d ss pk = for_visible d ss pk (\<lambda>u i.
     case caught (fetch_activity (pe_server E i) i) of
       Inl e \<Rightarrow> Inl e
     | Inr live \<Rightarrow> Inr \<lparr>cp_instance = i, cp_can_operate = can_operate_instance d (Some u) i,
         cp_live = map_sum id live_counts_of live\<rparr>)"

section \<open>The card of a connection group\<close>

record database_item =
  di_instance :: rds_instance
  di_reachable :: bool
  di_counts :: live_counts
  di_error :: "pystr option"

definition no_counts :: live_counts where
  "no_counts = \<lparr>lc_total = 0, lc_active = 0, lc_idle = 0, lc_locks = 0\<rparr>"

definition database_item_of :: "rds_instance \<Rightarrow> pystr + session_row list \<times> blocking_row list \<Rightarrow> database_item" where
  "database_item_of i r =
     (case r of
        Inl e \<Rightarrow> \<lparr>di_instance = i, di_reachable = False, di_counts = no_counts, di_error = Some e\<rparr>
      | Inr rows \<Rightarrow> \<lparr>di_instance = i, di_reachable = True, di_counts = live_counts_of rows, di_error = None\<rparr>)"

fun database_items :: "'v pages_env \<Rightarrow> rds_instance list \<Rightarrow> response + database_item list" where
  "database_items E [] = Inr []"
| "database_items E (i # is) =
     (case caught (fetch_activity (pe_server E i) i) of
        Inl e \<Rightarrow> Inl e
      | Inr r \<Rightarrow> (case database_items E is of Inl e \<Rightarrow> Inl e | Inr items \<Rightarrow> Inr (database_item_of i r # items)))"

datatype health = Critical | Warning | Healthy

definition sum_counts :: "database_item list \<Rightarrow> live_counts" where
  "sum_counts items = \<lparr>lc_total = sum_list (map (\<lambda>x. lc_total (di_counts x)) items),
     lc_active = sum_list (map (\<lambda>x. lc_active (di_counts x)) items),
     lc_idle = sum_list (map (\<lambda>x. lc_idle (di_counts x)) items),
     lc_locks = sum_list (map (\<lambda>x. lc_locks (di_counts x)) items)\<rparr>"

definition group_health :: "database_item list \<Rightarrow> health" where
  "group_health items =
     (if lc_locks (sum_counts items) \<noteq> 0 then Critical
      else if list_ex (\<lambda>x. \<not> di_reachable x) items then Warning else Healthy)"

record group_page =
  gp_instance :: rds_instance
  gp_databases :: "database_item list"
  gp_additional :: "database_item list"
  gp_database_count :: nat
  gp_discovered :: "database_counts list"
  gp_discovery_error :: "pystr option"
  gp_overview :: "server_overview option"
  gp_can_operate :: bool
  gp_aggregate :: live_counts
  gp_status :: health

definition group_page_of :: "app_db \<Rightarrow> user \<Rightarrow> database_item list \<Rightarrow> pystr + server_overview \<Rightarrow> group_page" where
  "group_page_of d u items r =
     (let i = di_instance (hd items); status = group_health items;
          names = map (\<lambda>x. inst_db_name (di_instance x)) items
      in \<lparr>gp_instance = i, gp_databases = take 6 items, gp_additional = drop 6 items,
          gp_database_count = length items,
          gp_discovered = (case r of Inl _ \<Rightarrow> []
            | Inr ov \<Rightarrow> filter (\<lambda>x. dc_name x \<notin> set names) (so_databases ov)),
          gp_discovery_error = (case r of Inl e \<Rightarrow> Some e | Inr _ \<Rightarrow> None),
          gp_overview = (case r of Inl _ \<Rightarrow> None | Inr ov \<Rightarrow> Some ov),
          gp_can_operate = can_operate_instance d (Some u) i, gp_aggregate = sum_counts items,
          gp_status = (case r of Inl _ \<Rightarrow> status | Inr ov \<Rightarrow> if so_locks ov \<noteq> 0 then Critical else status)\<rparr>)"

definition group_instances :: "app_db \<Rightarrow> user \<Rightarrow> pystr \<Rightarrow> rds_instance list" where
  "group_instances d u group_id = sort_key inst_name (sort_key inst_db_name
     (filter (\<lambda>i. inst_connection_group i = group_id) (accessible_instances d u)))"

definition instance_group_card_partial :: "'v pages_env \<Rightarrow> app_db \<Rightarrow> session \<Rightarrow> pystr \<Rightarrow> response + group_page" where
  "instance_group_card_partial E d ss group_id =
     (case request_user d ss of
        None \<Rightarrow> Inl Login_page
      | Some u \<Rightarrow>
          (case group_instances d u group_id of
             [] \<Rightarrow> Inl Not_found
           | i # is \<Rightarrow>
               (case database_items E (i # is) of
                  Inl e \<Rightarrow> Inl e
                | Inr items \<Rightarrow>
                    (case caught (fetch_server_overview (pe_overview E i) i) of
                       Inl e \<Rightarrow> Inl e
                     | Inr r \<Rightarrow> Inr (group_page_of d u items r)))))"

section \<open>The detail page\<close>

record detail_page =
  dp_instance :: rds_instance
  dp_audit_logs :: "audit_log list"
  dp_can_operate :: bool
  dp_can_manage_notifications :: bool
  dp_can_run_queries :: bool
  dp_pending :: "query_runner_execution list option"
  dp_history :: "query_runner_execution list option"
  dp_grants :: "query_runner_grant list option"
  dp_is_administrator :: bool

text \<open>Audit rows and executions are stored in the order of their time and shown newest first.\<close>

definition own_executions :: "app_db \<Rightarrow> user \<Rightarrow> rds_instance \<Rightarrow> query_runner_execution list" where
  "own_executions d u i =
     (let all = filter (\<lambda>x. ex_instance x = inst_pk i) (rev (query_runner_executions d))
      in if user_is_superuser u then all else filter (\<lambda>x. ex_user x = Some (user_pk u)) all)"

definition instance_detail :: "app_db \<Rightarrow> session \<Rightarrow> int \<Rightarrow> response + detail_page" where
  "instance_detail d ss pk = for_visible d ss pk (\<lambda>u i.
     let may_run = can_run_queries d (Some u) i; executions = own_executions d u i
     in Inr \<lparr>dp_instance = i,
          dp_audit_logs = take 25 (rev (filter (\<lambda>l. au_instance l = Some (inst_pk i)) (audit_logs d))),
          dp_can_operate = can_operate_instance d (Some u) i,
          dp_can_manage_notifications = can_manage_instance_notifications d (Some u) i,
          dp_can_run_queries = may_run,
          dp_pending = (if may_run then Some (take 10 (filter (\<lambda>x. ex_status x = Pending) executions)) else None),
          dp_history = (if may_run then Some (take 10 (filter (\<lambda>x. ex_status x \<noteq> Pending) executions)) else None),
          dp_grants = (if user_is_superuser u
            then Some (filter (\<lambda>g. qg_instance g = inst_pk i) (query_runner_grants d)) else None),
          dp_is_administrator = user_is_superuser u\<rparr>)"

section \<open>The polled tables and their cache\<close>

text \<open>
  Django's local-memory cache: a value with the time it expires. A connection error is cached like
  a result; an exception that leaves the view is not.
\<close>

type_synonym 'a cached = "(pystr \<times> 'a \<times> datetime) list"

definition cache_get :: "'a cached \<Rightarrow> datetime \<Rightarrow> pystr \<Rightarrow> 'a option" where
  "cache_get c now k = (case map_of c k of None \<Rightarrow> None | Some (v, expires) \<Rightarrow> if expires \<le> now then None else Some v)"

definition cache_set :: "'a cached \<Rightarrow> datetime \<Rightarrow> int \<Rightarrow> pystr \<Rightarrow> 'a \<Rightarrow> 'a cached" where
  "cache_set c now ttl k v = AList.update k (v, now + seconds ttl) c"

definition cache_delete :: "'a cached \<Rightarrow> pystr \<Rightarrow> 'a cached" where
  "cache_delete c k = AList.delete k c"

text \<open>The pattern of both tables: the cached outcome, or a read whose outcome is cached.\<close>

definition polled ::
  "(pystr \<Rightarrow> 'a) \<Rightarrow> datetime \<Rightarrow> int \<Rightarrow> pystr \<Rightarrow> target_exc + 'a \<Rightarrow> 'a cached \<Rightarrow> (response + 'a) \<times> 'a cached" where
  "polled failed now ttl key read c =
     (case cache_get c now key of
        Some v \<Rightarrow> (Inr v, c)
      | None \<Rightarrow> (case caught read of
          Inl e \<Rightarrow> (Inl e, c)
        | Inr r \<Rightarrow> let v = (case r of Inl e \<Rightarrow> failed e | Inr x \<Rightarrow> x) in (Inr v, cache_set c now ttl key v)))"

type_synonym 'v activity_entry = "(session_row list \<times> blocking_row list \<times> 'v option \<times> 'v list) \<times> pystr option"

record 'v activity_page =
  ap_instance :: rds_instance
  ap_activity :: "(session_row \<times> pystr) list"
  ap_blocking :: "(blocking_row \<times> pystr) list"
  ap_blocking_pids :: "int option set"
  ap_vitals :: "'v option"
  ap_top_tables :: "'v list"
  ap_error :: "pystr option"
  ap_can_operate :: bool

definition activity_page_of :: "app_db \<Rightarrow> user \<Rightarrow> rds_instance \<Rightarrow> 'v activity_entry \<Rightarrow> 'v activity_page" where
  "activity_page_of d u i entry =
     (case entry of ((activity, blocking, vitals, top_tables), err) \<Rightarrow>
        \<lparr>ap_instance = i, ap_activity = with_human_durations ar_duration_seconds activity,
          ap_blocking = with_human_durations br_waiting_seconds blocking,
          ap_blocking_pids = set (map br_blocking_pid blocking), ap_vitals = vitals, ap_top_tables = top_tables,
          ap_error = err, ap_can_operate = can_operate_instance d (Some u) i\<rparr>)"

definition read_entry :: "target_exc + session_row list \<times> blocking_row list \<times> 'v option \<times> 'v list \<Rightarrow> target_exc + 'v activity_entry" where
  "read_entry r = map_sum id (\<lambda>x. (x, None)) r"

definition activity_table_partial ::
  "'v pages_env \<Rightarrow> app_db \<Rightarrow> session \<Rightarrow> int \<Rightarrow> 'v activity_entry cached \<Rightarrow>
   (response + 'v activity_page) \<times> 'v activity_entry cached" where
  "activity_table_partial E d ss pk c =
     (case for_visible d ss pk (\<lambda>u i. Inr (u, i)) of
        Inl e \<Rightarrow> (Inl e, c)
      | Inr (u, i) \<Rightarrow>
          apfst (map_sum id (activity_page_of d u i))
            (polled (\<lambda>e. (([], [], None, []), Some e)) (pe_now E) (pe_ttl E) (activity_key i)
               (read_entry (fetch_activity_with_vitals (pe_server E i) i)) c))"

record slots_page =
  sp_instance :: rds_instance
  sp_slots :: "pg_slot list"
  sp_error :: "pystr option"
  sp_can_drop :: bool
  sp_can_terminate :: bool

definition replication_slots_partial ::
  "'v pages_env \<Rightarrow> app_db \<Rightarrow> session \<Rightarrow> int \<Rightarrow> (pg_slot list \<times> pystr option) cached \<Rightarrow>
   (response + slots_page) \<times> (pg_slot list \<times> pystr option) cached" where
  "replication_slots_partial E d ss pk c =
     (case for_visible d ss pk (\<lambda>u i. Inr (u, i)) of
        Inl e \<Rightarrow> (Inl e, c)
      | Inr (u, i) \<Rightarrow>
          apfst (map_sum id (\<lambda>entry. \<lparr>sp_instance = i, sp_slots = fst entry, sp_error = snd entry,
              sp_can_drop = can_operate_instance d (Some u) i \<and> can_manage_replication_slot d (Some u) (lit ''drop''),
              sp_can_terminate = can_operate_instance d (Some u) i
                \<and> can_manage_replication_slot d (Some u) (lit ''terminate'')\<rparr>))
            (polled (\<lambda>e. ([], Some e)) (pe_now E) (pe_ttl E) (slots_key i)
               (map_sum id (\<lambda>slots. (slots, None)) (fetch_replication_slots (pe_server E i) i)) c))"

section \<open>Downloads\<close>

text \<open>A number or text in a CSV cell; \<open>None\<close> is written as an empty cell.\<close>

definition number_cell :: "int option \<Rightarrow> pystr" where
  "number_cell x = (case x of None \<Rightarrow> [] | Some n \<Rightarrow> str_int n)"

definition locks_cells :: "pystr \<Rightarrow> blocking_row \<Rightarrow> pystr list" where
  "locks_cells captured r = [captured, number_cell (br_blocked_pid r), text_or (br_blocked_user r) [],
     text_or (br_blocked_query r) [], number_cell (br_blocking_pid r), text_or (br_blocking_user r) [],
     text_or (br_blocking_query r) [], number_cell (br_waiting_seconds r)]"

definition locks_header :: "pystr list" where
  "locks_header = map lit [''captured_at'', ''blocked_pid'', ''blocked_user'', ''blocked_query'',
     ''blocking_pid'', ''blocking_user'', ''blocking_query'', ''waiting_seconds'']"

definition sessions_cells :: "pystr \<Rightarrow> session_row \<Rightarrow> pystr list" where
  "sessions_cells captured r = [captured, number_cell (ar_pid r), text_or (ar_usename r) [], text_or (ar_state r) [],
     text_or (sr_wait_event r) [], number_cell (ar_duration_seconds r), text_or (ar_query r) []]"

definition sessions_header :: "pystr list" where
  "sessions_header = map lit [''captured_at'', ''pid'', ''usename'', ''state'', ''wait_event'',
     ''duration_seconds'', ''query'']"

text \<open>The file name and the content; after a connection error the detail page.\<close>

definition download ::
  "'v pages_env \<Rightarrow> app_db \<Rightarrow> session \<Rightarrow> int \<Rightarrow> string \<Rightarrow> (session_row list \<times> blocking_row list \<Rightarrow> pystr list list) \<Rightarrow>
   response + pystr \<times> pystr" where
  "download E d ss pk name rows = for_visible d ss pk (\<lambda>u i.
     case caught (fetch_activity (pe_server E i) i) of
       Inl e \<Rightarrow> Inl e
     | Inr (Inl _) \<Rightarrow> Inl (Detail_page (inst_pk i))
     | Inr (Inr read) \<Rightarrow> Inr (inst_db_identifier i @ lit name @ pe_file_stamp E @ lit ''.csv'', write_csv (rows read)))"

definition download_locks :: "'v pages_env \<Rightarrow> app_db \<Rightarrow> session \<Rightarrow> int \<Rightarrow> response + pystr \<times> pystr" where
  "download_locks E d ss pk = download E d ss pk ''-locks-''
     (\<lambda>(_, blocking). locks_header # map (locks_cells (pe_captured_at E)) blocking)"

definition download_sessions :: "'v pages_env \<Rightarrow> app_db \<Rightarrow> session \<Rightarrow> int \<Rightarrow> response + pystr \<times> pystr" where
  "download_sessions E d ss pk = download E d ss pk ''-sessions-''
     (\<lambda>(activity, _). sessions_header # map (sessions_cells (pe_captured_at E)) activity)"

end
