(* ===== verification/Pages_Claims.thy ===== *)
theory Pages_Claims
  imports Pages Admin_Claims Kill_Claims
begin

text \<open>
  What the read-only pages show: only registrations the account may view, each connection group once
  with all its members, and from the polled tables nothing older than the cache period or than the
  last kill.
\<close>

section \<open>Groups\<close>

lemma map_of_add_member:
  "map_of (add_member i groups) g =
     (if g = inst_connection_group i
      then Some (case map_of groups g of None \<Rightarrow> [i] | Some members \<Rightarrow> members @ [i]) else map_of groups g)"
  by (induction groups) auto

lemma keys_add_member: "fst ` set (add_member i groups) = insert (inst_connection_group i) (fst ` set groups)"
  by (induction i groups rule: add_member.induct) (simp_all add: insert_commute)

lemma distinct_add_member: "distinct (map fst groups) \<Longrightarrow> distinct (map fst (add_member i groups))"
proof (induction groups)
  case (Cons g groups)
  then show ?case using keys_add_member [of i groups] by (cases g) auto
qed simp

lemma fold_add_member:
  assumes "distinct (map fst groups)"
  shows "distinct (map fst (fold add_member is groups))
    \<and> fst ` set (fold add_member is groups) = fst ` set groups \<union> inst_connection_group ` set is
    \<and> (\<forall>g. case_option [] id (map_of (fold add_member is groups) g)
          = case_option [] id (map_of groups g) @ filter (\<lambda>i. inst_connection_group i = g) is)"
  using assms
proof (induction "is" arbitrary: groups)
  case Nil
  then show ?case by simp
next
  case (Cons i js)
  from Cons.IH [OF distinct_add_member [OF Cons.prems, of i]] show ?case
    by (auto simp: map_of_add_member keys_add_member split: option.splits)
qed

lemma grouped_members:
  assumes "(g, members) \<in> set (grouped is)"
  shows "members = filter (\<lambda>i. inst_connection_group i = g) is" and "members \<noteq> []"
proof -
  note f = fold_add_member [of "[]" "is", folded grouped_def, simplified]
  have m: "map_of (grouped is) g = Some members" using f assms by simp
  then show e: "members = filter (\<lambda>i. inst_connection_group i = g) is" using f by (metis option.simps(5) id_apply)
  have "g \<in> inst_connection_group ` set is" using f assms by force
  then show "members \<noteq> []" using e by (auto simp: filter_empty_conv)
qed

lemma set_by_group [simp]: "set (by_group is) = set is"
  by (simp add: by_group_def)

lemma length_filter_by_group: "length (filter P (by_group is)) = length (filter P is)"
  by (simp add: by_group_def filter_sort)

section \<open>What an account may see\<close>

lemma accessible_visible:
  "request_user d ss = Some u \<Longrightarrow> i \<in> set (accessible_instances d u) \<Longrightarrow> can_view_instance d (Some u) i \<and> inst_is_active i"
  using accessible_iff_view [of u i d] request_user_active [of d ss u]
  by (auto simp: accessible_instances_def active_instances_def split: if_splits)

lemma database_item_of_instance [simp]: "di_instance (database_item_of i r) = i"
  by (simp add: database_item_of_def split: sum.splits)

lemma database_items_instances: "database_items E is = Inr items \<Longrightarrow> map di_instance items = is"
  by (induction "is" arbitrary: items) (auto split: sum.splits)

lemma set_group_instances:
  "set (group_instances d u g) = {i \<in> set (accessible_instances d u). inst_connection_group i = g}"
  by (auto simp: group_instances_def)

lemma group_card_instances:
  assumes "instance_group_card_partial E d ss g = Inr p" and "request_user d ss = Some u"
  shows "map di_instance (gp_databases p @ gp_additional p) = group_instances d u g"
proof -
  obtain i js items r where g: "group_instances d u g = i # js" and i: "database_items E (i # js) = Inr items"
      and p: "p = group_page_of d u items r"
    using assms by (auto simp: instance_group_card_partial_def simp del: database_items.simps split: list.splits sum.splits)
  then show ?thesis using database_items_instances [OF i]
    by (simp add: p group_page_of_def Let_def g flip: map_append)
qed

lemma group_card_count: "instance_group_card_partial E d ss g = Inr p \<Longrightarrow>
   gp_database_count p = length (gp_databases p @ gp_additional p)"
  by (auto simp: instance_group_card_partial_def group_page_of_def Let_def simp del: database_items.simps
      split: list.splits sum.splits option.splits)

lemma instance_list_page:
  assumes "instance_list d ss = Inr p" and "request_user d ss = Some u"
  shows "lp_instances p = accessible_instances d u" and "distinct (map ig_group_id (lp_groups p))"
    and "set (map ig_group_id (lp_groups p)) = inst_connection_group ` set (accessible_instances d u)"
    and "g \<in> set (lp_groups p) \<Longrightarrow> ig_instance g \<in> set (group_instances d u (ig_group_id g))"
    and "g \<in> set (lp_groups p) \<Longrightarrow> ig_database_count g = length (group_instances d u (ig_group_id g))"
proof -
  let ?is = "accessible_instances d u"
  have p: "lp_instances p = ?is" "lp_groups p = map (\<lambda>(g, members). \<lparr>ig_group_id = g, ig_instance = hd members,
      ig_database_count = length members\<rparr>) (grouped (by_group ?is))"
    using assms by (auto simp: instance_list_def Let_def)
  have ids: "map ig_group_id (lp_groups p) = map fst (grouped (by_group ?is))" by (auto simp: p(2))
  note f = fold_add_member [of "[]" "by_group ?is", folded grouped_def, simplified]
  show "lp_instances p = ?is" by (rule p(1))
  show "distinct (map ig_group_id (lp_groups p))" using f by (simp add: ids)
  show "set (map ig_group_id (lp_groups p)) = inst_connection_group ` set ?is"
    using f unfolding ids by simp
  assume "g \<in> set (lp_groups p)"
  then obtain c ms where m: "(c, ms) \<in> set (grouped (by_group ?is))" and g: "g = \<lparr>ig_group_id = c, ig_instance = hd ms,
      ig_database_count = length ms\<rparr>"
    by (auto simp: p(2))
  note e = grouped_members [OF m]
  show "ig_database_count g = length (group_instances d u (ig_group_id g))"
    by (simp add: g e(1) group_instances_def length_filter_by_group)
  have "hd ms \<in> set ms" using e(2) by simp
  then show "ig_instance g \<in> set (group_instances d u (ig_group_id g))"
    unfolding set_group_instances using e(1) by (auto simp: g)
qed

lemma own_executionsD:
  "x \<in> set (own_executions d u i) \<Longrightarrow> ex_instance x = inst_pk i \<and> (user_is_superuser u \<or> ex_user x = Some (user_pk u))"
  by (auto simp: own_executions_def Let_def split: if_splits)

lemma detail_page:
  assumes "instance_detail d ss pk = Inr p" and "request_user d ss = Some u"
  shows "can_view_instance d (Some u) (dp_instance p)"
    and "x \<in> set (case_option [] id (dp_pending p)) \<union> set (case_option [] id (dp_history p)) \<Longrightarrow>
      can_run_queries d (Some u) (dp_instance p) \<and> ex_instance x = inst_pk (dp_instance p)
      \<and> (user_is_superuser u \<or> ex_user x = Some (user_pk u))"
    and "l \<in> set (dp_audit_logs p) \<Longrightarrow> au_instance l = Some (inst_pk (dp_instance p))"
  using assms unfolding instance_detail_def
  by (auto elim!: for_visibleE simp: Let_def dest!: in_set_takeD own_executionsD split: if_splits)


text \<open>Two active registrations and an operator who was given one of them.\<close>

definition page_db :: app_db where
  "page_db = admin_db\<lparr>instances := [demo_instance, demo_instance\<lparr>inst_pk := 8\<rparr>]\<rparr>"

definition worker_session :: session where
  "worker_session = full_session\<lparr>ss_user := Some 4\<rparr>"

lemma worker_request: "request_user page_db worker_session = Some worker"
  by (simp add: request_user_def page_db_def worker_session_def find_user_def admin_db_def boss_def demo_user_def worker_def
      full_session_def)


section \<open>The polled table\<close>

text \<open>
  Polls and kills that share the cache: a poll that finds nothing live in the cache reads the target
  and the read is logged; the keys a kill request forgets leave the cache, and the reads made before
  are struck from the log. The database may change between requests, time never runs backwards.
\<close>

record 'v poll_state =
  ps_cache :: "'v activity_entry cached"
  ps_time :: datetime
  ps_reads :: "(int \<times> datetime \<times> 'v activity_entry) list"

definition entry_key :: "int \<Rightarrow> pystr" where
  "entry_key pk = lit ''activity:'' @ str_int pk"

definition entry_read :: "'v pages_env \<Rightarrow> rds_instance \<Rightarrow> 'v activity_entry option" where
  "entry_read E i =
     (case caught (fetch_activity_with_vitals (pe_server E i) i) of
        Inl _ \<Rightarrow> None | Inr (Inl e) \<Rightarrow> Some (([], [], None, []), Some e) | Inr (Inr x) \<Rightarrow> Some (x, None))"

inductive poll_step :: "int \<Rightarrow> 'v poll_state \<Rightarrow> 'v poll_state \<Rightarrow> bool" for ttl where
  poll: "ps_time s \<le> pe_now E \<Longrightarrow> pe_ttl E = ttl \<Longrightarrow> activity_table_partial E d ss pk (ps_cache s) = (r, c') \<Longrightarrow>
    reads = (case (for_visible d ss pk (\<lambda>u i. Inr i), cache_get (ps_cache s) (pe_now E) (entry_key pk)) of
      (Inr i, None) \<Rightarrow> (case entry_read E i of None \<Rightarrow> [] | Some v \<Rightarrow> [(pk, pe_now E, v)]) | _ \<Rightarrow> []) \<Longrightarrow>
    poll_step ttl s \<lparr>ps_cache = c', ps_time = pe_now E, ps_reads = reads @ ps_reads s\<rparr>"
| kill: "handle_kill (q :: unit kill_request) vs = (r, vs') \<Longrightarrow> vs_uncached vs' = vs_uncached vs @ keys \<Longrightarrow>
    poll_step ttl s (s\<lparr>ps_cache := fold (\<lambda>k c. cache_delete c k) keys (ps_cache s),
      ps_reads := filter (\<lambda>x. entry_key (fst x) \<notin> set keys) (ps_reads s)\<rparr>)"

definition poll_inv :: "int \<Rightarrow> 'v poll_state \<Rightarrow> bool" where
  "poll_inv ttl s \<longleftrightarrow> (\<forall>k v e. map_of (ps_cache s) k = Some (v, e) \<longrightarrow>
     (\<exists>pk t. (pk, t, v) \<in> set (ps_reads s) \<and> k = entry_key pk \<and> e = t + seconds ttl \<and> t \<le> ps_time s))"

lemma entry_key_inject [simp]: "entry_key a = entry_key b \<longleftrightarrow> a = b"
  by (simp add: entry_key_def)

lemma activity_key_entry: "find_instance d pk = Some i \<Longrightarrow> activity_key i = entry_key pk"
  by (auto simp: activity_key_def entry_key_def find_instance_def dest: first_row_Some)

lemma map_of_deletes: "map_of (fold (\<lambda>k c. cache_delete c k) keys c) k = (if k \<in> set keys then None else map_of c k)"
  by (induction keys arbitrary: c) (auto simp: cache_delete_def AList.delete_conv')

lemma polled_cases:
  assumes "polled failed now ttl key read c = (r, c')"
  obtains (hit) v where "cache_get c now key = Some v" "r = Inr v" "c' = c"
    | (raised) e where "cache_get c now key = None" "caught read = Inl e" "r = Inl e" "c' = c"
    | (read) x v where "cache_get c now key = None" "caught read = Inr x" "v = case_sum failed id x" "r = Inr v"
        "c' = cache_set c now ttl key v"
  using assms by (auto simp: polled_def Let_def split: option.splits sum.splits)

lemma activity_table_cases:
  assumes "activity_table_partial E d ss pk c = (r, c')"
  obtains (refused) e where "for_visible d ss pk (\<lambda>u i. Inr (u, i)) = Inl e" "r = Inl e" "c' = c"
    | (hit) u i v where "request_user d ss = Some u" "find_instance d pk = Some i" "can_view_instance d (Some u) i"
        "cache_get c (pe_now E) (entry_key pk) = Some v" "r = Inr (activity_page_of d u i v)" "c' = c"
    | (raised) i e where "find_instance d pk = Some i" "entry_read E i = None" "r = Inl e" "c' = c"
    | (read) u i v where "request_user d ss = Some u" "find_instance d pk = Some i" "can_view_instance d (Some u) i"
        "cache_get c (pe_now E) (entry_key pk) = None" "entry_read E i = Some v" "r = Inr (activity_page_of d u i v)"
        "c' = cache_set c (pe_now E) (pe_ttl E) (entry_key pk) v"
proof (cases "for_visible d ss pk (\<lambda>u i. Inr (u, i))")
  case (Inl e)
  then show ?thesis using refused assms by (simp add: activity_table_partial_def)
next
  case (Inr ui)
  obtain u i where v: "request_user d ss = Some u" "find_instance d pk = Some i" "can_view_instance d (Some u) i" "ui = (u, i)"
    using Inr by (auto elim: for_visibleE)
  let ?read = "fetch_activity_with_vitals (pe_server E i) i"
  obtain r' where p: "polled (\<lambda>e. (([], [], None, []), Some e)) (pe_now E) (pe_ttl E) (entry_key pk) (read_entry ?read) c = (r', c')"
      and r: "r = map_sum id (activity_page_of d u i) r'"
    using assms Inr v(4) activity_key_entry [OF v(2)]
    by (auto simp: activity_table_partial_def apfst_def map_prod_def split: prod.splits)
  have read: "entry_read E i = (case caught (read_entry ?read) of Inl _ \<Rightarrow> None
      | Inr x \<Rightarrow> Some (case_sum (\<lambda>e. (([], [], None, []), Some e)) id x))"
    by (auto simp: entry_read_def read_entry_def caught_def split: sum.splits target_exc.splits)
  show ?thesis using p
    by (cases rule: polled_cases) (use v r read in \<open>auto intro: that\<close>)
qed


lemma cache_get_live: "cache_get c now k = Some v \<Longrightarrow> \<exists>e. map_of c k = Some (v, e) \<and> now < e"
  by (auto simp: cache_get_def split: option.splits if_splits)

lemma poll_step_inv: "poll_step ttl s s' \<Longrightarrow> poll_inv ttl s \<Longrightarrow> poll_inv ttl s'"
proof (induction rule: poll_step.induct)
  case (poll s E d ss pk r c' reads)
  have old: "poll_inv ttl \<lparr>ps_cache = ps_cache s, ps_time = pe_now E, ps_reads = reads @ ps_reads s\<rparr>"
    using poll.prems poll.hyps(1) by (fastforce simp: poll_inv_def)
  show ?case using poll.hyps(3)
  proof (cases rule: activity_table_cases)
    case (read u i v)
    then have "reads = [(pk, pe_now E, v)]" using poll.hyps(4) by (simp add: for_visible_def instance_access_def)
    then show ?thesis using old read(7) poll.hyps(2)
      by (auto simp: poll_inv_def cache_set_def AList.update_conv' split: if_splits)
  qed (use old in simp_all)
next
  case (kill q vs r vs' keys s)
  then show ?case by (fastforce simp: poll_inv_def map_of_deletes split: if_splits)
qed

lemma poll_steps_inv: "(poll_step ttl)\<^sup>*\<^sup>* s s' \<Longrightarrow> poll_inv ttl s \<Longrightarrow> poll_inv ttl s'"
  by (induction rule: rtranclp_induct) (auto intro: poll_step_inv)



text \<open>The demo target is read at time 0; five seconds later it is down and the table still shows that read.\<close>

definition page_server :: "bool \<Rightarrow> unit server" where
  "page_server up = \<lparr>sv_settings = demo_db_settings, sv_connect = (\<lambda>_. if up then None else Some (lit ''down'')),
     sv_world = (\<lambda>_. Some demo_catalog), sv_activity_rows = None, sv_lock_rows = None, sv_fallback_lock_rows = None,
     sv_vitals = None, sv_top_tables = None, sv_database_names = None, sv_activity_counts = None, sv_lock_counts = None\<rparr>"

definition page_env :: "bool \<Rightarrow> datetime \<Rightarrow> unit pages_env" where
  "page_env up now = \<lparr>pe_now = now, pe_ttl = 10, pe_server = (\<lambda>_. page_server up), pe_overview = (\<lambda>_. page_server up),
     pe_captured_at = [], pe_file_stamp = []\<rparr>"

definition demo_entry :: "unit activity_entry" where
  "demo_entry = ((activity_query demo_catalog, blocking_query demo_catalog, None, []), None)"

definition polled_state :: "unit poll_state" where
  "polled_state = \<lparr>ps_cache = [(entry_key 7, demo_entry, seconds 10)], ps_time = 0, ps_reads = [(7, 0, demo_entry)]\<rparr>"

lemma page_read: "entry_read (page_env True 0) demo_instance = Some demo_entry"
proof -
  obtain q where "get_connection demo_db_settings demo_instance = Inr q" using demo_connection(1) by blast
  then show ?thesis
    by (simp add: entry_read_def page_env_def fetch_activity_with_vitals_def open_connection_def page_server_def
        read_activity_def caught_def demo_entry_def is_mysql_def is_mssql_def demo_instance_def lit_def)
qed


end
