(* ===== verification/Config.thy ===== *)
theory Config
  imports Webhook
begin

text \<open>
  \<open>config/settings.py\<close> as a function of the process environment: the settings that the rest of the
  program reads, or the exception that keeps the process from starting; the response headers of
  \<open>monitor/middleware.py\<close>; and \<open>monitor/apps.py\<close>, which decides whether a process starts the
  background monitor. The database URL parser and the derived development key are parameters.
\<close>

section \<open>Reading the environment\<close>

type_synonym environ = "pystr \<Rightarrow> pystr option"

definition env_text :: "environ \<Rightarrow> string \<Rightarrow> string \<Rightarrow> pystr" where
  "env_text env k dflt = (case env (lit k) of None \<Rightarrow> lit dflt | Some v \<Rightarrow> v)"

definition env_true :: "environ \<Rightarrow> string \<Rightarrow> string \<Rightarrow> bool" where
  "env_true env k dflt \<longleftrightarrow> py_lower (env_text env k dflt) = lit ''true''"

text \<open>A comma-separated list: stripped items, empty ones left out.\<close>

definition comma_list :: "pystr \<Rightarrow> pystr list" where
  "comma_list t = filter (\<lambda>h. h \<noteq> []) (map py_strip (split_on 44 t))"

section \<open>The settings\<close>

datatype config_exc = Improperly_configured pystr | Value_error

record production_security =
  pr_session_cookie_secure :: bool
  pr_csrf_cookie_secure :: bool
  pr_ssl_redirect :: bool
  pr_hsts_seconds :: int
  pr_hsts_include_subdomains :: bool
  pr_hsts_preload :: bool
  pr_content_type_nosniff :: bool
  pr_referrer_policy :: pystr
  pr_x_frame_options :: pystr

record 'd config =
  cf_debug :: bool
  cf_secret_key :: pystr
  cf_allowed_hosts :: "pystr list"
  cf_database :: 'd
  cf_activity_cache_ttl :: int
  cf_encryption_key :: pystr
  cf_csrf_trusted_origins :: "pystr list"
  cf_use_https :: bool
  cf_allow_http :: bool
  cf_proxy_ssl_header :: "(pystr \<times> pystr) option"
  cf_production :: "production_security option"
  cf_mfa_required :: bool
  cf_webhook_allowed_hosts :: "pystr list"
  cf_db_ssl_mode :: pystr
  cf_db_ssl_root_cert :: pystr

record 'd config_env =
  ce_environ :: environ
  ce_parse_database :: "pystr option \<Rightarrow> 'd option"
  ce_development_key :: pystr

definition or_raise :: "'e \<Rightarrow> 'a option \<Rightarrow> ('a \<Rightarrow> 'e + 'b) \<Rightarrow> 'e + 'b" where
  "or_raise e x h = (case x of None \<Rightarrow> Inl e | Some v \<Rightarrow> h v)"

definition improper :: "bool \<Rightarrow> string \<Rightarrow> (config_exc + 'b) \<Rightarrow> config_exc + 'b" where
  "improper bad why rest = (if bad then Inl (Improperly_configured (lit why)) else rest)"

definition secret_key :: "environ \<Rightarrow> bool \<Rightarrow> pystr" where
  "secret_key env debug =
     (let k = env_text env ''DJANGO_SECRET_KEY'' ''''
      in if k = [] \<and> debug then lit ''local-only-insecure-secret'' else k)"

definition allowed_hosts :: "environ \<Rightarrow> pystr list" where
  "allowed_hosts env =
     (let t = env_text env ''DJANGO_ALLOWED_HOSTS'' '''' in comma_list (if t = [] then lit ''localhost,127.0.0.1'' else t))"

definition encryption_key :: "'d config_env \<Rightarrow> bool \<Rightarrow> pystr" where
  "encryption_key C debug =
     (let k = env_text (ce_environ C) ''ENCRYPTION_KEY'' ''''
      in if k = [] \<and> debug then ce_development_key C else k)"

definition webhook_allowed_hosts :: "environ \<Rightarrow> pystr list" where
  "webhook_allowed_hosts env =
     map py_lower (comma_list (env_text env ''WEBHOOK_ALLOWED_HOSTS'' ''''))"

definition production_settings :: "bool \<Rightarrow> int \<Rightarrow> production_security" where
  "production_settings use_https hsts =
     \<lparr>pr_session_cookie_secure = use_https, pr_csrf_cookie_secure = use_https, pr_ssl_redirect = use_https,
      pr_hsts_seconds = hsts, pr_hsts_include_subdomains = use_https, pr_hsts_preload = use_https,
      pr_content_type_nosniff = True, pr_referrer_policy = lit ''same-origin'', pr_x_frame_options = lit ''DENY''\<rparr>"

text \<open>The module from top to bottom; the checks raise in this order.\<close>

definition load_config :: "'d config_env \<Rightarrow> config_exc + 'd config" where
  "load_config C =
     (let env = ce_environ C; debug = env_true env ''DJANGO_DEBUG'' ''false'';
          use_https = env_true env ''DJANGO_USE_HTTPS'' ''false''; allow_http = env_true env ''DJANGO_ALLOW_HTTP'' ''false'';
          hsts = (if use_https then py_int (env_text env ''DJANGO_HSTS_SECONDS'' ''31536000'') else Some 0)
      in
      improper (secret_key env debug = []) ''DJANGO_SECRET_KEY must be set when DJANGO_DEBUG is false'' (
      improper (env_text env ''DJANGO_ALLOWED_HOSTS'' '''' = [] \<and> \<not> debug)
        ''DJANGO_ALLOWED_HOSTS must list the public hostname in production'' (
      improper (env_text env ''DATABASE_URL'' '''' = [] \<and> \<not> debug) ''DATABASE_URL must be set when DJANGO_DEBUG is false'' (
      or_raise Value_error (ce_parse_database C (env (lit ''DATABASE_URL''))) (\<lambda>database.
      or_raise Value_error (py_int (env_text env ''ACTIVITY_CACHE_TTL'' ''10'')) (\<lambda>ttl.
      improper (encryption_key C debug = [] \<and> \<not> debug) ''ENCRYPTION_KEY must be set when DJANGO_DEBUG is false'' (
      improper (\<not> debug \<and> \<not> use_https \<and> \<not> allow_http)
        ''Set DJANGO_USE_HTTPS=true, or explicitly set DJANGO_ALLOW_HTTP=true for a temporary HTTP deployment'' (
      or_raise Value_error (if debug then Some None else map_option (\<lambda>n. Some (production_settings use_https n)) hsts) (\<lambda>production.
      improper (webhook_allowed_hosts env = [] \<and> \<not> debug) ''WEBHOOK_ALLOWED_HOSTS must be set in production'' (
      Inr \<lparr>cf_debug = debug, cf_secret_key = secret_key env debug, cf_allowed_hosts = allowed_hosts env,
        cf_database = database, cf_activity_cache_ttl = ttl, cf_encryption_key = encryption_key C debug,
        cf_csrf_trusted_origins = comma_list (env_text env ''CSRF_TRUSTED_ORIGINS'' ''''),
        cf_use_https = use_https, cf_allow_http = allow_http,
        cf_proxy_ssl_header = (if use_https then Some (lit ''HTTP_X_FORWARDED_PROTO'', lit ''https'') else None),
        cf_production = production,
        cf_mfa_required = env_true env ''DJANGO_MFA_REQUIRED'' (if debug then ''false'' else ''true''),
        cf_webhook_allowed_hosts = webhook_allowed_hosts env,
        cf_db_ssl_mode = env_text env ''DB_SSL_MODE'' (if debug then ''prefer'' else ''require''),
        cf_db_ssl_root_cert = env_text env ''DB_SSL_ROOT_CERT'' ''''\<rparr>))))))))))"

section \<open>Response headers\<close>

type_synonym headers = "(pystr \<times> pystr) list"

definition set_default :: "pystr \<Rightarrow> pystr \<Rightarrow> headers \<Rightarrow> headers" where
  "set_default k v hs = (if list_ex (\<lambda>h. py_lower (fst h) = py_lower k) hs then hs else hs @ [(k, v)])"

definition content_security_policy :: "pystr \<Rightarrow> pystr" where
  "content_security_policy nonce =
     lit ''default-src 'self'; base-uri 'self'; object-src 'none'; '' @
     lit ''frame-ancestors 'none'; form-action 'self'; '' @
     lit ''script-src 'self' 'nonce-'' @ nonce @ [39] @ lit '' https://unpkg.com; '' @
     lit ''script-src-attr 'unsafe-inline'; '' @
     lit ''style-src 'self' 'nonce-'' @ nonce @ [39] @ lit ''; style-src-attr 'unsafe-inline'; '' @
     lit ''img-src 'self' data:; '' @
     lit ''font-src 'self'; connect-src 'self'; manifest-src 'self'; worker-src 'self'' @ [39]"

definition browser_security_headers :: "pystr \<Rightarrow> headers \<Rightarrow> headers" where
  "browser_security_headers nonce hs =
     fold (\<lambda>(k, v). set_default k v)
       [(lit ''Content-Security-Policy'', content_security_policy nonce),
        (lit ''Permissions-Policy'', lit ''camera=(), geolocation=(), microphone=(), payment=(), usb=()''),
        (lit ''Cross-Origin-Embedder-Policy'', lit ''require-corp''),
        (lit ''Cross-Origin-Resource-Policy'', lit ''same-origin''),
        (lit ''Cross-Origin-Opener-Policy'', lit ''same-origin''),
        (lit ''X-Permitted-Cross-Domain-Policies'', lit ''none'')] hs"

section \<open>Starting the background monitor\<close>

definition ignored_commands :: "pystr list" where
  "ignored_commands = map lit [''check'', ''collectstatic'', ''makemigrations'', ''migrate'', ''monitor_locks'',
     ''showmigrations'', ''shell'', ''test'']"

definition starts_monitor :: "environ \<Rightarrow> pystr list \<Rightarrow> bool" where
  "starts_monitor env argv =
     (if env (lit ''DISABLE_EMBEDDED_LOCK_MONITOR'') = Some (lit ''1'') then False
      else if 1 < length argv \<and> argv ! 1 \<in> set ignored_commands then False
      else if take 1 (drop 1 argv) = [lit ''runserver''] \<and> env (lit ''RUN_MAIN'') \<noteq> Some (lit ''true'') then False
      else True)"

end
