(* ===== verification/Config_Claims.thy ===== *)
theory Config_Claims
  imports Config Auth_Claims Notification_Claims
begin

text \<open>
  What a started production process guarantees: the settings of \<open>config/settings.py\<close> together with
  the webhook sender and the MFA gate that read them.
\<close>

lemma or_raise_Inr: "or_raise e x h = Inr r \<longleftrightarrow> (\<exists>v. x = Some v \<and> h v = Inr r)"
  by (simp add: or_raise_def split: option.split)

lemma improper_Inr: "improper bad why rest = Inr r \<longleftrightarrow> \<not> bad \<and> rest = Inr r"
  by (simp add: improper_def)

lemma env_text_given: "env_text env k '''' \<noteq> [] \<Longrightarrow> env (lit k) = Some (env_text env k '''')"
  by (simp add: env_text_def split: option.splits)

lemma webhook_hosts_nonempty: "h \<in> set (webhook_allowed_hosts env) \<Longrightarrow> h \<noteq> []"
  by (auto simp: webhook_allowed_hosts_def comma_list_def py_lower_def)

lemma load_config_production:
  assumes "load_config C = Inr c" and "\<not> cf_debug c"
  shows "ce_environ C (lit ''DJANGO_SECRET_KEY'') = Some (cf_secret_key c)" "cf_secret_key c \<noteq> []"
    and "ce_environ C (lit ''ENCRYPTION_KEY'') = Some (cf_encryption_key c)" "cf_encryption_key c \<noteq> []"
    and "cf_use_https c \<or> cf_allow_http c"
    and "\<exists>n. cf_production c = Some (production_settings (cf_use_https c) n)"
    and "cf_webhook_allowed_hosts c = webhook_allowed_hosts (ce_environ C)" "cf_webhook_allowed_hosts c \<noteq> []"
    and "cf_mfa_required c = env_true (ce_environ C) ''DJANGO_MFA_REQUIRED'' ''true''"
    and "cf_db_ssl_mode c = env_text (ce_environ C) ''DB_SSL_MODE'' ''require''"
proof -
  note l = assms(1) [unfolded load_config_def Let_def improper_Inr or_raise_Inr]
  have d: "\<not> env_true (ce_environ C) ''DJANGO_DEBUG'' ''false''" using l assms(2) by (elim exE conjE) (simp, metis config.select_convs(1))
  note s = env_text_given [of "ce_environ C" "''DJANGO_SECRET_KEY''"] env_text_given [of "ce_environ C" "''ENCRYPTION_KEY''"]
  show "ce_environ C (lit ''DJANGO_SECRET_KEY'') = Some (cf_secret_key c)" "cf_secret_key c \<noteq> []"
    "ce_environ C (lit ''ENCRYPTION_KEY'') = Some (cf_encryption_key c)" "cf_encryption_key c \<noteq> []"
    using l d s by (auto simp: secret_key_def encryption_key_def Let_def)
  show "cf_use_https c \<or> cf_allow_http c" "\<exists>n. cf_production c = Some (production_settings (cf_use_https c) n)"
    "cf_webhook_allowed_hosts c = webhook_allowed_hosts (ce_environ C)" "cf_webhook_allowed_hosts c \<noteq> []"
    "cf_mfa_required c = env_true (ce_environ C) ''DJANGO_MFA_REQUIRED'' ''true''"
    "cf_db_ssl_mode c = env_text (ce_environ C) ''DB_SSL_MODE'' ''require''"
    using l d by auto
qed

text \<open>
  C25. A production process starts only when it is configured safely: secrets come from the
  environment, plain HTTP was asked for explicitly and otherwise cookies are secure and requests
  redirected, a webhook request leaves only for a configured host or a subdomain of one over HTTPS,
  and unless DJANGO_MFA_REQUIRED says otherwise no gated page is reached without an enrolled
  authenticator.
\<close>

theorem production_is_configured:
  assumes "load_config C = Inr c" and "\<not> cf_debug c"
  shows "(\<exists>k. ce_environ C (lit ''DJANGO_SECRET_KEY'') = Some k \<and> k \<noteq> [] \<and> cf_secret_key c = k)
    \<and> (\<exists>k. ce_environ C (lit ''ENCRYPTION_KEY'') = Some k \<and> k \<noteq> [] \<and> cf_encryption_key c = k)
    \<and> (\<not> cf_allow_http c \<longrightarrow> (\<exists>p. cf_production c = Some p \<and> pr_session_cookie_secure p \<and> pr_csrf_cookie_secure p
        \<and> pr_ssl_redirect p \<and> pr_hsts_include_subdomains p))
    \<and> (\<forall>resolve connect url p r.
        post_webhook \<lparr>ne_allowed_hosts = cf_webhook_allowed_hosts c, ne_getaddrinfo = resolve, ne_open = connect\<rparr> url p = (r, True) \<longrightarrow>
        (\<exists>parts host item. urlsplit url = Some parts \<and> up_scheme parts = lit ''https''
          \<and> webhook_host (the (up_hostname parts)) = host \<and> item \<in> set (cf_webhook_allowed_hosts c) \<and> item \<noteq> []
          \<and> (host = item \<or> endswith host (46 # lstrip_star_dot item))))
    \<and> (ce_environ C (lit ''DJANGO_MFA_REQUIRED'') = None \<longrightarrow>
        (\<forall>path now s d u. request_user d s = Some u \<longrightarrow> mfa_gated_path path \<longrightarrow>
          mfa_gate (cf_mfa_required c) path now s d = Pass \<longrightarrow> profile_enabled d (user_pk u) \<and> session_passed_mfa d s))"
proof (intro conjI impI allI)
  note l = load_config_production [OF assms]
  show "\<exists>k. ce_environ C (lit ''DJANGO_SECRET_KEY'') = Some k \<and> k \<noteq> [] \<and> cf_secret_key c = k"
    "\<exists>k. ce_environ C (lit ''ENCRYPTION_KEY'') = Some k \<and> k \<noteq> [] \<and> cf_encryption_key c = k"
    using l(1-4) by simp_all
  show "\<exists>p. cf_production c = Some p \<and> pr_session_cookie_secure p \<and> pr_csrf_cookie_secure p
      \<and> pr_ssl_redirect p \<and> pr_hsts_include_subdomains p" if "\<not> cf_allow_http c"
    using l(5,6) that by (auto simp: production_settings_def)
  fix resolve connect url p r
  let ?env = "\<lparr>ne_allowed_hosts = cf_webhook_allowed_hosts c, ne_getaddrinfo = resolve, ne_open = connect\<rparr>"
  assume "post_webhook ?env url p = (r, True)"
  then obtain host where h: "webhook_checks ?env url = Some host"
    by (auto simp: post_webhook_def split: option.splits)
  from webhook_checks_Some [OF h] l(8) obtain parts item where
    "urlsplit url = Some parts" "up_scheme parts = lit ''https''" "item \<in> set (cf_webhook_allowed_hosts c)"
    "host = item \<or> endswith host (46 # lstrip_star_dot item)"
    by (auto simp: host_allowed_def list_ex_iff)
  moreover from this h have "webhook_host (the (up_hostname parts)) = host"
    by (auto simp: webhook_checks_def Let_def split: option.splits if_splits)
  ultimately show "\<exists>parts host item. urlsplit url = Some parts \<and> up_scheme parts = lit ''https''
      \<and> webhook_host (the (up_hostname parts)) = host \<and> item \<in> set (cf_webhook_allowed_hosts c) \<and> item \<noteq> []
      \<and> (host = item \<or> endswith host (46 # lstrip_star_dot item))"
    using webhook_hosts_nonempty [of item] l(7) by auto
next
  fix path now s d u
  assume "ce_environ C (lit ''DJANGO_MFA_REQUIRED'') = None" and g: "request_user d s = Some u" "mfa_gated_path path"
    "mfa_gate (cf_mfa_required c) path now s d = Pass"
  then have "cf_mfa_required c" using load_config_production(9) [OF assms]
    by (simp add: env_true_def env_text_def lit_def py_lower_def char_lower_def)
  then show "profile_enabled d (user_pk u)" "session_passed_mfa d s"
    using g by (auto simp: mfa_gate_def Let_def split: if_splits)
qed

text \<open>A production environment that starts.\<close>

definition production_environ :: environ where
  "production_environ k = map_of
     [(lit ''DJANGO_SECRET_KEY'', lit ''s''), (lit ''DJANGO_ALLOWED_HOSTS'', lit ''grid''), (lit ''DATABASE_URL'', lit ''db''),
      (lit ''ENCRYPTION_KEY'', lit ''k''), (lit ''DJANGO_USE_HTTPS'', lit ''true''),
      (lit ''WEBHOOK_ALLOWED_HOSTS'', lit ''Teams'')] k"

definition production_env :: "unit config_env" where
  "production_env = \<lparr>ce_environ = production_environ, ce_parse_database = (\<lambda>_. Some ()), ce_development_key = []\<rparr>"

lemma production_numbers: "py_int (lit ''10'') = Some 10" "py_int (lit ''31536000'') = Some 31536000"
  by (rule py_int_lit, simp add: digit_eval)+

lemma production_texts:
  "env_text production_environ ''DJANGO_DEBUG'' ''false'' = lit ''false''"
  "env_text production_environ ''DJANGO_SECRET_KEY'' '''' = lit ''s''"
  "env_text production_environ ''DJANGO_ALLOWED_HOSTS'' '''' = lit ''grid''"
  "env_text production_environ ''DATABASE_URL'' '''' = lit ''db''"
  "env_text production_environ ''ACTIVITY_CACHE_TTL'' ''10'' = lit ''10''"
  "env_text production_environ ''ENCRYPTION_KEY'' '''' = lit ''k''"
  "env_text production_environ ''DJANGO_USE_HTTPS'' ''false'' = lit ''true''"
  "env_text production_environ ''DJANGO_ALLOW_HTTP'' ''false'' = lit ''false''"
  "env_text production_environ ''DJANGO_HSTS_SECONDS'' ''31536000'' = lit ''31536000''"
  "env_text production_environ ''WEBHOOK_ALLOWED_HOSTS'' '''' = lit ''Teams''"
  "production_environ (lit ''DJANGO_MFA_REQUIRED'') = None"
  by (simp_all add: env_text_def production_environ_def)

lemma production_flags:
  "\<not> env_true production_environ ''DJANGO_DEBUG'' ''false''" "env_true production_environ ''DJANGO_USE_HTTPS'' ''false''"
  "\<not> env_true production_environ ''DJANGO_ALLOW_HTTP'' ''false''"
  by (simp_all add: env_true_def production_texts) (simp_all add: lit_def py_lower_def char_lower_def)

lemma production_hosts: "webhook_allowed_hosts production_environ \<noteq> []"
  by (simp add: webhook_allowed_hosts_def production_texts)
     (simp add: comma_list_def lit_def py_strip_def py_isspace_def)

lemma production_starts:
  obtains c where "load_config production_env = Inr c" "\<not> cf_debug c" "\<not> cf_allow_http c" "cf_secret_key c = lit ''s''"
proof -
  have "\<exists>c. load_config production_env = Inr c \<and> \<not> cf_debug c \<and> \<not> cf_allow_http c \<and> cf_secret_key c = lit ''s''"
    by (simp add: load_config_def Let_def improper_def or_raise_def production_env_def production_flags
        production_hosts production_texts production_numbers secret_key_def encryption_key_def)
  then show ?thesis using that by blast
qed

theorem production_is_configured_witness:
  "\<exists>c. load_config production_env = Inr c \<and> \<not> cf_debug c \<and> cf_secret_key c = lit ''s''
     \<and> (\<exists>p. cf_production c = Some p \<and> pr_session_cookie_secure p)
     \<and> (\<forall>path now s d u. request_user d s = Some u \<longrightarrow> mfa_gated_path path \<longrightarrow>
          mfa_gate (cf_mfa_required c) path now s d = Pass \<longrightarrow> session_passed_mfa d s)"
proof -
  obtain c where c: "load_config production_env = Inr c" "\<not> cf_debug c" "\<not> cf_allow_http c" "cf_secret_key c = lit ''s''"
    by (rule production_starts)
  have "ce_environ production_env (lit ''DJANGO_MFA_REQUIRED'') = None" by (simp add: production_env_def production_texts)
  then show ?thesis using production_is_configured [OF c(1,2)] c by (intro exI [of _ c] conjI) blast+
qed

end
