(* ===== verification/Migrations.thy ===== *)
theory Migrations
  imports Monitor_Props
begin

text \<open>
  The data migrations of \<open>monitor/migrations\<close>: 0012 merges the open incidents of one session pair
  before the unique constraint on open incidents is added, 0013 fills in the fingerprints, 0039
  groups the registrations of one endpoint. The lock table is modelled with the columns it has at
  0012; the columns that later migrations add have their defaults.
\<close>

section \<open>0012: one open incident per session pair\<close>

record old_alert =
  oa_pk :: int
  oa_instance :: int
  oa_alert_key :: pystr
  oa_blocked_pid :: int
  oa_blocking_pid :: int
  oa_blocked_user :: pystr
  oa_blocking_user :: pystr
  oa_blocked_query :: pystr
  oa_blocking_query :: pystr
  oa_waiting_seconds :: int
  oa_observation_count :: int
  oa_first_seen_at :: datetime
  oa_last_seen_at :: datetime
  oa_alerted_at :: "datetime option"
  oa_resolved_at :: "datetime option"

definition pid_key :: "old_alert \<Rightarrow> pystr" where
  "pid_key a = str_int (oa_blocked_pid a) @ 58 # str_int (oa_blocking_pid a)"

definition group_key :: "old_alert \<Rightarrow> int \<times> pystr" where
  "group_key a = (oa_instance a, pid_key a)"

definition earliest :: "datetime option \<Rightarrow> datetime option \<Rightarrow> datetime option" where
  "earliest x y = (case (x, y) of (Some a, Some b) \<Rightarrow> Some (min a b) | (Some a, None) \<Rightarrow> Some a | (None, z) \<Rightarrow> z)"

definition nonempty_or :: "pystr \<Rightarrow> pystr \<Rightarrow> pystr" where
  "nonempty_or new old = (if new \<noteq> [] then new else old)"

text \<open>The details of a later duplicate \<open>a\<close> merged into the kept incident \<open>e\<close>.\<close>

definition merge_alert :: "old_alert \<Rightarrow> old_alert \<Rightarrow> old_alert" where
  "merge_alert a e = e\<lparr>
     oa_last_seen_at := max (oa_last_seen_at e) (oa_last_seen_at a),
     oa_waiting_seconds := max (oa_waiting_seconds e) (oa_waiting_seconds a),
     oa_observation_count := max (oa_observation_count e) (oa_observation_count a),
     oa_alerted_at := earliest (oa_alerted_at e) (oa_alerted_at a),
     oa_blocked_user := nonempty_or (oa_blocked_user a) (oa_blocked_user e),
     oa_blocking_user := nonempty_or (oa_blocking_user a) (oa_blocking_user e),
     oa_blocked_query := nonempty_or (oa_blocked_query a) (oa_blocked_query e),
     oa_blocking_query := nonempty_or (oa_blocking_query a) (oa_blocking_query e)\<rparr>"

text \<open>\<open>save(update_fields=[...])\<close>: only the listed columns of the row are written.\<close>

definition write_merged :: "old_alert \<Rightarrow> old_alert \<Rightarrow> old_alert" where
  "write_merged e r = r\<lparr>
     oa_last_seen_at := oa_last_seen_at e, oa_waiting_seconds := oa_waiting_seconds e,
     oa_observation_count := oa_observation_count e, oa_alerted_at := oa_alerted_at e,
     oa_blocked_user := oa_blocked_user e, oa_blocking_user := oa_blocking_user e,
     oa_blocked_query := oa_blocked_query e, oa_blocking_query := oa_blocking_query e\<rparr>"

type_synonym canonical = "(int \<times> pystr) \<rightharpoonup> old_alert"

definition normalize_step :: "old_alert \<Rightarrow> canonical \<times> old_alert list \<Rightarrow> canonical \<times> old_alert list" where
  "normalize_step a ct = (case ct of (canonical, rows) \<Rightarrow>
     (case canonical (group_key a) of
        None \<Rightarrow>
          (canonical(group_key a \<mapsto> a\<lparr>oa_alert_key := pid_key a\<rparr>),
           if oa_alert_key a \<noteq> pid_key a
           then update_rows (\<lambda>r. oa_pk r = oa_pk a) (\<lambda>r. r\<lparr>oa_alert_key := pid_key a\<rparr>) rows else rows)
      | Some e \<Rightarrow>
          let e' = merge_alert a e
          in (canonical(group_key a \<mapsto> e'),
              filter (\<lambda>r. oa_pk r \<noteq> oa_pk a)
                (update_rows (\<lambda>r. oa_pk r = oa_pk e) (write_merged e') rows))))"

definition oa_live :: "old_alert \<Rightarrow> bool" where
  "oa_live a \<longleftrightarrow> oa_resolved_at a = None"

definition active_alerts :: "old_alert list \<Rightarrow> old_alert list" where
  "active_alerts rows = sort_key oa_first_seen_at (sort_key oa_pk (filter oa_live rows))"

definition normalize_active_alert_keys :: "old_alert list \<Rightarrow> old_alert list" where
  "normalize_active_alert_keys rows = snd (fold normalize_step (active_alerts rows) (Map.empty, rows))"

section \<open>0013: fingerprints\<close>

definition alert_fingerprint :: "(pystr \<Rightarrow> pystr) \<Rightarrow> old_alert \<Rightarrow> pystr" where
  "alert_fingerprint sha256 a = sha256 (join_with [0]
     [str_int (oa_blocked_pid a), str_int (oa_blocking_pid a), oa_blocked_user a, oa_blocking_user a,
      oa_blocked_query a, oa_blocking_query a])"

definition populate_notification_fingerprints :: "(pystr \<Rightarrow> pystr) \<Rightarrow> old_alert list \<Rightarrow> (old_alert \<times> pystr) list" where
  "populate_notification_fingerprints sha256 rows = map (\<lambda>a. (a, alert_fingerprint sha256 a)) rows"

text \<open>The row of the present schema: the columns added since have their defaults.\<close>

definition present_alert :: "old_alert \<Rightarrow> lock_alert" where
  "present_alert a = \<lparr>la_pk = oa_pk a, la_instance = oa_instance a, la_alert_key = oa_alert_key a,
     la_blocked_pid = oa_blocked_pid a, la_blocking_pid = oa_blocking_pid a, la_blocked_user = oa_blocked_user a,
     la_blocking_user = oa_blocking_user a, la_blocked_query = oa_blocked_query a,
     la_blocking_query = oa_blocking_query a, la_waiting_seconds = oa_waiting_seconds a,
     la_first_seen_at = oa_first_seen_at a, la_last_seen_at = oa_last_seen_at a, la_alerted_at = oa_alerted_at a,
     la_resolved_at = oa_resolved_at a, la_clear_reason = No_reason, la_cleared_by = []\<rparr>"

section \<open>0039: connection groups\<close>

definition endpoint_identity :: "rds_instance \<Rightarrow> pystr \<times> pystr \<times> pystr \<times> pystr \<times> pystr \<times> int \<times> pystr" where
  "endpoint_identity i = (inst_name i, inst_engine i, inst_db_identifier i, inst_region i, inst_host i, inst_port i,
     inst_username i)"

text \<open>\<open>uuid4\<close> gives the next of a sequence; a missing group is the empty text.\<close>

fun group_loop ::
  "(nat \<Rightarrow> pystr) \<Rightarrow> nat \<Rightarrow> (pystr \<times> pystr \<times> pystr \<times> pystr \<times> pystr \<times> int \<times> pystr \<rightharpoonup> pystr) \<Rightarrow>
   rds_instance list \<Rightarrow> rds_instance list" where
  "group_loop uuid n groups [] = []"
| "group_loop uuid n groups (i # is) =
     (let own = (if inst_connection_group i \<noteq> [] then inst_connection_group i else uuid n);
          n' = (if inst_connection_group i \<noteq> [] then n else n + 1);
          gid = (case groups (endpoint_identity i) of None \<Rightarrow> own | Some g \<Rightarrow> g)
      in i\<lparr>inst_connection_group := gid\<rparr> # group_loop uuid n' (groups(endpoint_identity i \<mapsto> gid)) is)"

definition group_legacy_instances :: "(nat \<Rightarrow> pystr) \<Rightarrow> rds_instance list \<Rightarrow> rds_instance list" where
  "group_legacy_instances uuid is = group_loop uuid 0 Map.empty (sort_key inst_pk is)"

section \<open>What 0012 achieves\<close>

text \<open>
  After the incidents \<open>done\<close> of the ordered active ones, the table holds the closed incidents and
  those still to come unchanged, and one kept incident for each pair seen so far.
\<close>

definition stands_for :: "old_alert set \<Rightarrow> old_alert \<Rightarrow> bool" where
  "stands_for done e \<longleftrightarrow> oa_alert_key e = pid_key e \<and> oa_live e
     \<and> (\<exists>a \<in> done. group_key a = group_key e \<and> oa_pk a = oa_pk e \<and> oa_first_seen_at a = oa_first_seen_at e)
     \<and> (\<forall>b \<in> done. group_key b = group_key e \<longrightarrow> oa_first_seen_at e \<le> oa_first_seen_at b
          \<and> oa_last_seen_at b \<le> oa_last_seen_at e \<and> oa_waiting_seconds b \<le> oa_waiting_seconds e)"

definition normalize_inv :: "old_alert list \<Rightarrow> old_alert set \<Rightarrow> canonical \<times> old_alert list \<Rightarrow> bool" where
  "normalize_inv rows0 done ct = (case ct of (canonical, rows) \<Rightarrow>
     distinct (map oa_pk rows)
     \<and> set rows = {a \<in> set rows0. \<not> oa_live a \<or> a \<notin> done} \<union> ran canonical
     \<and> dom canonical = group_key ` done
     \<and> (\<forall>k e. canonical k = Some e \<longrightarrow> group_key e = k \<and> stands_for done e))"

lemma ran_replace:
  assumes "c k = Some e" and "\<And>j. c j = Some e \<Longrightarrow> j = k"
  shows "ran (c(k \<mapsto> x)) = insert x (ran c - {e})"
proof (rule set_eqI)
  fix y
  have "y \<in> ran (c(k \<mapsto> x)) \<longleftrightarrow> y = x \<or> (\<exists>j. j \<noteq> k \<and> c j = Some y)" unfolding ran_def by auto
  moreover have "(\<exists>j. j \<noteq> k \<and> c j = Some y) \<longleftrightarrow> y \<in> ran c \<and> y \<noteq> e"
    unfolding ran_def mem_Collect_eq using assms by (metis option.inject)
  ultimately show "y \<in> ran (c(k \<mapsto> x)) \<longleftrightarrow> y \<in> insert x (ran c - {e})" by blast
qed

lemma set_update_row:
  assumes "distinct (map pk rows)" and "a \<in> set rows"
  shows "set (update_rows (\<lambda>r. pk r = pk a) f rows) = insert (f a) (set rows - {a})"
proof -
  have "pk r = pk a \<longleftrightarrow> r = a" if "r \<in> set rows" for r
    using assms that by (auto simp: distinct_map dest: inj_onD)
  then show ?thesis using assms(2) by (auto simp: set_update_rows)
qed

lemma distinct_update_rows:
  "distinct (map pk rows) \<Longrightarrow> (\<And>r. pk (f r) = pk r) \<Longrightarrow> distinct (map pk (update_rows P f rows))"
  by (simp add: map_update_rows_same)

lemma old_alert_keeps [simp]:
  "group_key (a\<lparr>oa_alert_key := k\<rparr>) = group_key a" "oa_live (a\<lparr>oa_alert_key := k\<rparr>) = oa_live a"
  "pid_key (a\<lparr>oa_alert_key := k\<rparr>) = pid_key a"
  "group_key (merge_alert a e) = group_key e" "oa_live (merge_alert a e) = oa_live e"
  "pid_key (merge_alert a e) = pid_key e" "oa_alert_key (merge_alert a e) = oa_alert_key e"
  "oa_pk (merge_alert a e) = oa_pk e" "oa_first_seen_at (merge_alert a e) = oa_first_seen_at e"
  "oa_pk (write_merged e r) = oa_pk r" "write_merged (merge_alert a e) e = merge_alert a e"
  by (simp_all add: group_key_def pid_key_def oa_live_def merge_alert_def write_merged_def)

lemma normalize_step_inv:
  assumes "distinct (map oa_pk rows0)" and "done \<subseteq> set rows0" and "normalize_inv rows0 done ct"
    and "a \<in> set rows0" and "oa_live a" and "a \<notin> done"
    and "\<And>b. b \<in> done \<Longrightarrow> oa_first_seen_at b \<le> oa_first_seen_at a"
  shows "normalize_inv rows0 (insert a done) (normalize_step a ct)"
proof -
  obtain c rows where ct: "ct = (c, rows)" by (cases ct)
  have i: "distinct (map oa_pk rows)" "set rows = {a \<in> set rows0. \<not> oa_live a \<or> a \<notin> done} \<union> ran c"
      "dom c = group_key ` done"
    and k: "\<And>k e. c k = Some e \<Longrightarrow> group_key e = k" and st: "\<And>k e. c k = Some e \<Longrightarrow> stands_for done e"
    using assms(3) by (auto simp: ct normalize_inv_def)
  have a: "a \<in> set rows" using i(2) assms(4,6) by blast
  have pk: "x = y" if "x \<in> set rows0" "y \<in> set rows0" "oa_pk x = oa_pk y" for x y
    using assms(1) that by (auto simp: distinct_map dest: inj_onD)
  have of_done: "\<exists>b \<in> done. oa_pk e = oa_pk b" and live: "oa_live e" if er: "e \<in> ran c" for e
  proof -
    obtain k0 where "c k0 = Some e" using er unfolding ran_def by blast
    from st [OF this] show "\<exists>b \<in> done. oa_pk e = oa_pk b" "oa_live e" unfolding stands_for_def by metis+
  qed
  have fresh: "oa_pk e \<noteq> oa_pk a" if "e \<in> ran c" for e
    using of_done [OF that] pk [OF _ assms(4)] assms(2,6) by (metis subsetD)
  then have "a \<notin> ran c" by blast
  show ?thesis
  proof (cases "c (group_key a)")
    case None
    let ?b = "a\<lparr>oa_alert_key := pid_key a\<rparr>"
    let ?rows = "update_rows (\<lambda>r. oa_pk r = oa_pk a) (\<lambda>r. r\<lparr>oa_alert_key := pid_key a\<rparr>) rows"
    have same: "?b = a" if "oa_alert_key a = pid_key a" using that by (cases a) simp
    have s: "normalize_step a ct = (c(group_key a \<mapsto> ?b), if oa_alert_key a \<noteq> pid_key a then ?rows else rows)"
      by (simp add: normalize_step_def ct None)
    have "set (if oa_alert_key a \<noteq> pid_key a then ?rows else rows) = insert ?b (set rows - {a})"
    proof (cases "oa_alert_key a = pid_key a")
      case True
      then show ?thesis by (simp only: same [OF True] insert_Diff [OF a] simp_thms if_False)
    next
      case False
      then show ?thesis
        by (simp only: set_update_row [OF i(1) a, of "\<lambda>r. r\<lparr>oa_alert_key := pid_key a\<rparr>"] simp_thms if_True)
    qed
    also have "\<dots> = {x \<in> set rows0. \<not> oa_live x \<or> x \<notin> insert a done} \<union> ran (c(group_key a \<mapsto> ?b))"
      using i(2) None \<open>a \<notin> ran c\<close> assms(5) by (auto simp: ran_map_upd)
    finally have rows: "set (if oa_alert_key a \<noteq> pid_key a then ?rows else rows)
      = {x \<in> set rows0. \<not> oa_live x \<or> x \<notin> insert a done} \<union> ran (c(group_key a \<mapsto> ?b))" .
    have none: "group_key b \<noteq> group_key a" if "b \<in> done" for b using None i(3) that by (metis domIff imageI)
    have d: "distinct (map oa_pk (if oa_alert_key a \<noteq> pid_key a then ?rows else rows))"
      using distinct_update_rows [OF i(1)] i(1) by simp
    have "stands_for (insert a done) ?b" using none assms(5) by (auto simp: stands_for_def)
    moreover have "stands_for (insert a done) e" if "c j = Some e" for j e
      using st [OF that] k [OF that] None that by (auto simp: stands_for_def)
    ultimately show ?thesis unfolding s normalize_inv_def prod.case
      using rows d i(3) k by simp
  next
    case (Some e)
    note ke = k [OF Some] and se = st [OF Some]
    let ?e = "merge_alert a e"
    let ?rows = "update_rows (\<lambda>r. oa_pk r = oa_pk e) (write_merged ?e) rows"
    have s: "normalize_step a ct = (c(group_key a \<mapsto> ?e), filter (\<lambda>r. oa_pk r \<noteq> oa_pk a) ?rows)"
      by (simp add: normalize_step_def ct Some Let_def)
    have e: "e \<in> ran c" "e \<in> set rows" using Some i(2) by (auto intro: ranI)
    have u: "set ?rows = insert ?e (set rows - {e})" using set_update_row [OF i(1) e(2)] by simp
    have d: "distinct (map oa_pk ?rows)" using distinct_update_rows [OF i(1)] by simp
    have "oa_pk r = oa_pk a \<longleftrightarrow> r = a" if "r \<in> set ?rows" for r
      using that u i(1) a fresh [OF e(1)] by (auto simp: distinct_map dest: inj_onD)
    then have "set (filter (\<lambda>r. oa_pk r \<noteq> oa_pk a) ?rows) = insert ?e (set rows - {e}) - {a}" using u by auto
    moreover have "ran (c(group_key a \<mapsto> ?e)) = insert ?e (ran c - {e})"
      by (rule ran_replace [of c, OF Some]) (use k ke in metis)
    moreover have "e \<notin> {x \<in> set rows0. \<not> oa_live x \<or> x \<notin> done}"
      using of_done [OF e(1)] live [OF e(1)] pk [of e] assms(2) by blast
    moreover have "?e \<noteq> a" using fresh [OF e(1)] by (metis old_alert_keeps(8))
    ultimately have rows: "set (filter (\<lambda>r. oa_pk r \<noteq> oa_pk a) ?rows)
      = {x \<in> set rows0. \<not> oa_live x \<or> x \<notin> insert a done} \<union> ran (c(group_key a \<mapsto> ?e))"
      using i(2) \<open>a \<notin> ran c\<close> assms(5) by auto
    have d': "distinct (map oa_pk (filter (\<lambda>r. oa_pk r \<noteq> oa_pk a) ?rows))" using d by (rule distinct_map_filter)
    obtain b where b: "b \<in> done" "group_key b = group_key e" "oa_pk b = oa_pk e" "oa_first_seen_at b = oa_first_seen_at e"
      using se by (auto simp: stands_for_def)
    have "oa_first_seen_at e \<le> oa_first_seen_at a" using b(4) assms(7) [OF b(1)] by simp
    then have "stands_for (insert a done) ?e" using se
      by (auto simp: stands_for_def) (auto simp: merge_alert_def max_def)
    moreover have "stands_for (insert a done) e'" if "c j = Some e'" "j \<noteq> group_key a" for j e'
      using st [OF that(1)] k [OF that(1)] that(2) by (auto simp: stands_for_def)
    moreover have "insert (group_key a) (dom c) = group_key ` insert a done" using i(3) by simp
    ultimately show ?thesis unfolding s normalize_inv_def prod.case
      using rows d' k ke by simp
  qed
qed


lemma normalize_fold_inv:
  assumes "distinct (map oa_pk rows0)" and "normalize_inv rows0 done ct" and "done \<subseteq> set rows0"
    and "set xs \<subseteq> set rows0" and "\<forall>x \<in> set xs. oa_live x \<and> x \<notin> done" and "distinct xs"
    and "sorted (map oa_first_seen_at xs)"
    and "\<forall>b \<in> done. \<forall>x \<in> set xs. oa_first_seen_at b \<le> oa_first_seen_at x"
  shows "normalize_inv rows0 (done \<union> set xs) (fold normalize_step xs ct)"
  using assms(2-)
proof (induction xs arbitrary: "done" ct)
  case Nil
  then show ?case by simp
next
  case (Cons x xs)
  have "normalize_inv rows0 (insert x done) (normalize_step x ct)"
    by (rule normalize_step_inv [OF assms(1) Cons.prems(2,1)]) (use Cons.prems in auto)
  from Cons.IH [OF this] have "normalize_inv rows0 (insert x done \<union> set xs) (fold normalize_step xs (normalize_step x ct))"
    using Cons.prems by auto
  then show ?case by simp
qed

lemma sorted_active: "sorted (map oa_first_seen_at (active_alerts rows))"
  by (simp add: active_alerts_def)

lemma set_active [simp]: "set (active_alerts rows) = {a \<in> set rows. oa_live a}"
  by (simp add: active_alerts_def)

lemma normalized:
  assumes "distinct (map oa_pk rows)"
  obtains c where "normalize_inv rows {a \<in> set rows. oa_live a} (c, normalize_active_alert_keys rows)"
proof -
  have d: "distinct rows" using assms by (simp add: distinct_map)
  have i: "normalize_inv rows {} (Map.empty, rows)" using assms by (simp add: normalize_inv_def)
  have "distinct (active_alerts rows)" using d by (simp add: active_alerts_def)
  then have "normalize_inv rows ({} \<union> set (active_alerts rows)) (fold normalize_step (active_alerts rows) (Map.empty, rows))"
    by (intro normalize_fold_inv [OF assms i]) (simp_all add: sorted_active subset_iff)
  then have "normalize_inv rows {a \<in> set rows. oa_live a} (fold normalize_step (active_alerts rows) (Map.empty, rows))"
    by simp
  then show ?thesis using that [of "fst (fold normalize_step (active_alerts rows) (Map.empty, rows))"]
    by (simp add: normalize_active_alert_keys_def)
qed

text \<open>What the loop's invariant says of the table: the open rows are the canonical ones.\<close>

definition merged :: "old_alert list \<Rightarrow> old_alert list \<Rightarrow> (int \<times> pystr \<Rightarrow> old_alert option) \<Rightarrow> bool" where
  "merged rows out c \<longleftrightarrow> distinct (map oa_pk out) \<and> set out = {a \<in> set rows. \<not> oa_live a} \<union> ran c
     \<and> dom c = group_key ` {a \<in> set rows. oa_live a} \<and> (\<forall>k e. c k = Some e \<longrightarrow> group_key e = k)
     \<and> (\<forall>k e. c k = Some e \<longrightarrow> stands_for {a \<in> set rows. oa_live a} e)"

lemma merged_open:
  assumes "merged rows out c"
  shows "b \<in> set out \<and> oa_live b \<longleftrightarrow> c (group_key b) = Some b"
proof
  assume "b \<in> set out \<and> oa_live b"
  then obtain k where "c k = Some b" using assms unfolding merged_def ran_def by blast
  moreover from this have "group_key b = k" using assms unfolding merged_def by blast
  ultimately show "c (group_key b) = Some b" by simp
next
  assume b: "c (group_key b) = Some b"
  then have "b \<in> ran c" by (rule ranI)
  moreover have "stands_for {a \<in> set rows. oa_live a} b" using b assms unfolding merged_def by blast
  ultimately show "b \<in> set out \<and> oa_live b" using assms by (auto simp: merged_def stands_for_def)
qed

lemma merged_stands:
  assumes "merged rows out c" and "b \<in> set out" and "oa_live b"
  shows "stands_for {a \<in> set rows. oa_live a} b"
proof -
  have "c (group_key b) = Some b" using merged_open [OF assms(1), of b] assms(2,3) by blast
  then show ?thesis using assms(1) unfolding merged_def by blast
qed

lemma merged_closed: "merged rows out c \<Longrightarrow> {a \<in> set out. \<not> oa_live a} = {a \<in> set rows. \<not> oa_live a}"
  unfolding merged_def ran_def stands_for_def by blast

lemma merged_one:
  assumes "merged rows out c" and "a \<in> set rows" and "oa_live a"
  shows "\<exists>!b. b \<in> set out \<and> oa_live b \<and> group_key b = group_key a"
proof -
  obtain b where b: "c (group_key a) = Some b" using assms unfolding merged_def by blast
  then have "group_key b = group_key a" using assms(1) unfolding merged_def by blast
  then show ?thesis using b merged_open [OF assms(1)] by (intro ex1I [of _ b]) (metis, metis option.inject)
qed

lemma merged_monitor_ok:
  assumes "merged rows out c" and "\<forall>a \<in> set rows. oa_pk a < n"
  shows "monitor_ok (empty_db\<lparr>lock_alerts := map present_alert out, next_pk := n\<rparr>)"
proof -
  note stands = merged_stands [OF assms(1)]
  have ident: "la_ident (present_alert b) = group_key b" if "b \<in> set out" "oa_live b" for b
    using stands [OF that] by (simp add: stands_for_def la_ident_def present_alert_def group_key_def)
  have live: "la_live (present_alert b) = oa_live b" "la_pk (present_alert b) = oa_pk b" for b
    by (simp_all add: la_live_def oa_live_def present_alert_def)
  have pks: "distinct (map oa_pk out)" using assms(1) by (simp add: merged_def)
  have "inj_on group_key (set (filter oa_live out))"
  proof (rule inj_onI)
    fix x y assume "x \<in> set (filter oa_live out)" "y \<in> set (filter oa_live out)" "group_key x = group_key y"
    then show "x = y" using merged_open [OF assms(1), of x] merged_open [OF assms(1), of y] by simp
  qed
  then have d: "distinct (map group_key (filter oa_live out))" using pks by (simp add: distinct_map)
  have e: "map (\<lambda>b. la_ident (present_alert b)) (filter oa_live out) = map group_key (filter oa_live out)"
    using ident by simp
  have "distinct (map (\<lambda>b. la_ident (present_alert b)) (filter oa_live out))" unfolding e by (rule d)
  moreover have "oa_pk b < n" if "b \<in> set out" for b
  proof (cases "oa_live b")
    case True
    then show ?thesis using stands [OF that] assms(2) by (auto simp: stands_for_def)
  next
    case False
    then have "b \<in> {a \<in> set rows. \<not> oa_live a}" using that merged_closed [OF assms(1)] by blast
    then show ?thesis using assms(2) by blast
  qed
  ultimately show ?thesis
    using pks by (simp add: monitor_ok_def wf_table_def empty_db_def filter_map o_def live comp_def)
qed


text \<open>Two open rows of one pair, the later one longer, and a closed one.\<close>

definition old_row :: "int \<Rightarrow> datetime \<Rightarrow> int \<Rightarrow> datetime option \<Rightarrow> old_alert" where
  "old_row pk seen waiting resolved = \<lparr>oa_pk = pk, oa_instance = 7, oa_alert_key = str_int pk, oa_blocked_pid = 11,
     oa_blocking_pid = 22, oa_blocked_user = [], oa_blocking_user = [], oa_blocked_query = [], oa_blocking_query = [],
     oa_waiting_seconds = waiting, oa_observation_count = 1, oa_first_seen_at = seen, oa_last_seen_at = seen,
     oa_alerted_at = None, oa_resolved_at = resolved\<rparr>"


section \<open>What 0039 achieves\<close>

lemma group_loop_consistent:
  "\<exists>F. (\<forall>k g. groups k = Some g \<longrightarrow> F k = g)
     \<and> (\<forall>j \<in> set (group_loop uuid n groups is). inst_connection_group j = F (endpoint_identity j))"
proof (induction "is" arbitrary: n groups)
  case Nil
  show ?case by (intro exI [of _ "\<lambda>k. the (groups k)"]) simp
next
  case (Cons i js)
  define own where "own = (if inst_connection_group i \<noteq> [] then inst_connection_group i else uuid n)"
  define n' where "n' = (if inst_connection_group i \<noteq> [] then n else n + 1)"
  define gid where "gid = (case groups (endpoint_identity i) of None \<Rightarrow> own | Some g \<Rightarrow> g)"
  obtain F where F: "\<forall>k g. (groups(endpoint_identity i \<mapsto> gid)) k = Some g \<longrightarrow> F k = g"
      "\<forall>j \<in> set (group_loop uuid n' (groups(endpoint_identity i \<mapsto> gid)) js). inst_connection_group j = F (endpoint_identity j)"
    using Cons.IH by blast
  have step: "group_loop uuid n groups (i # js) = i\<lparr>inst_connection_group := gid\<rparr> # group_loop uuid n' (groups(endpoint_identity i \<mapsto> gid)) js"
    by (simp only: group_loop.simps Let_def own_def n'_def gid_def)
  have same: "endpoint_identity (i\<lparr>inst_connection_group := gid\<rparr>) = endpoint_identity i"
    by (simp add: endpoint_identity_def)
  have ext: "F k = g" if "groups k = Some g" for k g
  proof -
    have "(groups(endpoint_identity i \<mapsto> gid)) k = Some g" using that by (auto simp: gid_def)
    then show ?thesis using F(1) by blast
  qed
  have "F (endpoint_identity i) = gid" using F(1) [rule_format, of "endpoint_identity i" gid] by simp
  then show ?case unfolding step using F(2) ext same by (intro exI [of _ F]) simp
qed

text \<open>After 0039 registrations of the same endpoint are in the same group.\<close>

lemma legacy_instances_grouped:
  "i \<in> set (group_legacy_instances uuid is) \<Longrightarrow> j \<in> set (group_legacy_instances uuid is) \<Longrightarrow>
   endpoint_identity i = endpoint_identity j \<Longrightarrow> inst_connection_group i = inst_connection_group j"
  unfolding group_legacy_instances_def using group_loop_consistent [of Map.empty uuid 0 "sort_key inst_pk is"] by metis

end
