(* ===== verification/Engines.thy ===== *)
theory Engines
  imports Catalog
begin

text \<open>
  The catalog statements of \<open>monitor/db.py\<close> for SQL Server, MySQL and MariaDB, over snapshots of the
  system views they read. Each result fills the rows that \<open>Catalog\<close> takes as what the driver
  returns, so \<open>fetch_activity\<close> and \<open>fetch_server_overview\<close> run on these servers as on PostgreSQL.
  Names are compared as they are stored; vitals and table sizes stay with the driver.
\<close>

section \<open>Outer joins\<close>

text \<open>\<open>LEFT JOIN\<close> and \<open>OUTER APPLY\<close>: the matching rows, or one absent row.\<close>

definition outer :: "'a list \<Rightarrow> 'a option list" where
  "outer xs = (if xs = [] then [None] else map Some xs)"

definition coalesce :: "'a option list \<Rightarrow> 'a option" where
  "coalesce xs = (case filter (\<lambda>x. x \<noteq> None) xs of [] \<Rightarrow> None | x # _ \<Rightarrow> x)"

section \<open>SQL Server\<close>

record ms_session =
  mss_session_id :: int
  mss_login_name :: pystr
  mss_host_name :: "pystr option"
  mss_program_name :: "pystr option"
  mss_open_transaction_count :: int
  mss_is_user_process :: bool
  mss_database_id :: int
  mss_last_request_start_time :: "datetime \<times> pystr"

record ms_request =
  msr_session_id :: int
  msr_wait_type :: "pystr option"
  msr_start_time :: "datetime \<times> pystr"
  msr_sql_handle :: "nat option"
  msr_blocking_session_id :: int

record ms_connection =
  msc_session_id :: "int option"
  msc_most_recent_sql_handle :: "nat option"

record ms_database =
  msd_name :: pystr
  msd_database_id :: int
  msd_state :: int

record mssql_catalog =
  msq_now :: datetime
  msq_spid :: int
  msq_db_id :: int
  msq_sessions :: "ms_session list"
  msq_requests :: "ms_request list"
  msq_connections :: "ms_connection list"
  msq_databases :: "ms_database list"
  msq_sql_text :: "nat \<Rightarrow> pystr option"

text \<open>\<open>DATEDIFF(SECOND, a, b)\<close> counts the second boundaries between its arguments.\<close>

definition datediff_second :: "datetime \<Rightarrow> datetime \<Rightarrow> int" where
  "datediff_second a b = b div 1000000 - a div 1000000"

text \<open>\<open>OUTER APPLY sys.dm_exec_sql_text(handle)\<close>: at most one row.\<close>

definition sql_text_of :: "mssql_catalog \<Rightarrow> nat option \<Rightarrow> pystr option" where
  "sql_text_of c h = (case h of None \<Rightarrow> None | Some n \<Rightarrow> msq_sql_text c n)"

definition requests_of :: "mssql_catalog \<Rightarrow> int \<Rightarrow> ms_request list" where
  "requests_of c sid = filter (\<lambda>r. msr_session_id r = sid) (msq_requests c)"

definition connections_of :: "mssql_catalog \<Rightarrow> int \<Rightarrow> ms_connection list" where
  "connections_of c sid = filter (\<lambda>n. msc_session_id n = Some sid) (msq_connections c)"

definition sessions_of :: "mssql_catalog \<Rightarrow> int \<Rightarrow> ms_session list" where
  "sessions_of c sid = filter (\<lambda>s. mss_session_id s = sid) (msq_sessions c)"

definition mssql_session_row ::
  "mssql_catalog \<Rightarrow> ms_session \<times> ms_request option \<times> ms_connection option \<Rightarrow> session_row" where
  "mssql_session_row c src = (case src of (s, r, n) \<Rightarrow>
     let started = (case r of None \<Rightarrow> mss_last_request_start_time s | Some q \<Rightarrow> msr_start_time q);
         own = sql_text_of c (case r of None \<Rightarrow> None | Some q \<Rightarrow> msr_sql_handle q);
         recent = sql_text_of c (case n of None \<Rightarrow> None | Some m \<Rightarrow> msc_most_recent_sql_handle m)
     in \<lparr>ar_pid = Some (mss_session_id s), ar_usename = Some (mss_login_name s),
          ar_application_name = mss_program_name s, ar_client_addr = mss_host_name s,
          ar_state = Some (if r \<noteq> None then lit ''active''
            else if mss_open_transaction_count s > 0 then lit ''idle in transaction'' else lit ''idle''),
          ar_query = coalesce [own, recent, Some []], ar_query_start = Some started,
          ar_duration_seconds = Some (datediff_second (fst started) (msq_now c)),
          sr_wait_event = (case r of None \<Rightarrow> None | Some q \<Rightarrow> msr_wait_type q)\<rparr>)"

definition mssql_activity_query :: "mssql_catalog \<Rightarrow> session_row list" where
  "mssql_activity_query c =
     sort_key (\<lambda>row. case ar_query_start row of None \<Rightarrow> 0 | Some t \<Rightarrow> fst t)
       (map (mssql_session_row c)
         [(s, r, n). s \<leftarrow> msq_sessions c, r \<leftarrow> outer (requests_of c (mss_session_id s)),
            n \<leftarrow> outer (connections_of c (mss_session_id s)),
            mss_is_user_process s \<and> mss_session_id s \<noteq> msq_spid c \<and> mss_database_id s = msq_db_id c
              \<and> (r \<noteq> None \<or> mss_open_transaction_count s > 0)])"

text \<open>
  The joins of the blocking query: a request that waits for another session, its session, the
  session and the connections of the blocker.
\<close>

definition mssql_blocked :: "mssql_catalog \<Rightarrow> (ms_request \<times> ms_session) list" where
  "mssql_blocked c = [(r, sb). r \<leftarrow> msq_requests c, sb \<leftarrow> sessions_of c (msr_session_id r), msr_blocking_session_id r \<noteq> 0]"

definition mssql_blocking_row ::
  "mssql_catalog \<Rightarrow> ms_request \<times> ms_session \<Rightarrow> ms_session option \<Rightarrow> ms_connection option \<Rightarrow> blocking_row" where
  "mssql_blocking_row c p sk ck =
     (let r = fst p;
          blocker = sql_text_of c (case requests_of c (msr_blocking_session_id r) of [] \<Rightarrow> None | q # _ \<Rightarrow> msr_sql_handle q);
          recent = sql_text_of c (case ck of None \<Rightarrow> None | Some n \<Rightarrow> msc_most_recent_sql_handle n)
      in \<lparr>br_blocked_pid = Some (msr_session_id r), br_blocking_pid = Some (msr_blocking_session_id r),
          br_blocked_user = Some (mss_login_name (snd p)), br_blocking_user = map_option mss_login_name sk,
          br_blocked_query = coalesce [sql_text_of c (msr_sql_handle r), Some []],
          br_blocking_query = coalesce [blocker, recent, Some []],
          br_waiting_seconds = Some (datediff_second (fst (msr_start_time r)) (msq_now c))\<rparr>)"

definition mssql_blocking_query :: "mssql_catalog \<Rightarrow> blocking_row list" where
  "mssql_blocking_query c =
     [mssql_blocking_row c p sk ck. p \<leftarrow> mssql_blocked c, mss_database_id (snd p) = msq_db_id c,
        sk \<leftarrow> outer (sessions_of c (msr_blocking_session_id (fst p))),
        ck \<leftarrow> outer (connections_of c (msr_blocking_session_id (fst p)))]"

definition db_name :: "mssql_catalog \<Rightarrow> int \<Rightarrow> pystr option" where
  "db_name c n = map_option msd_name (first_row (\<lambda>d. msd_database_id d = n) (msq_databases c))"

definition mssql_server_databases_query :: "mssql_catalog \<Rightarrow> pystr list" where
  "mssql_server_databases_query c =
     sort (map msd_name (filter (\<lambda>d. msd_database_id d > 4 \<and> msd_state d = 0) (msq_databases c)))"

text \<open>
  The grouped counts, as the dictionaries the code builds by name. A group whose database has gone
  has the name NULL and is never looked up.
\<close>

definition mssql_user_sessions :: "mssql_catalog \<Rightarrow> (ms_session \<times> ms_request option) list" where
  "mssql_user_sessions c =
     [(s, r). s \<leftarrow> msq_sessions c, mss_is_user_process s \<and> mss_database_id s > 4,
        r \<leftarrow> outer (requests_of c (mss_session_id s))]"

definition named :: "mssql_catalog \<Rightarrow> int list \<Rightarrow> (pystr \<times> int) list" where
  "named c ids = concat (map (\<lambda>k. case db_name c k of None \<Rightarrow> [] | Some n \<Rightarrow> [(n, k)]) (remdups ids))"

definition mssql_server_activity_counts_query :: "mssql_catalog \<Rightarrow> (pystr \<times> session_counts) list" where
  "mssql_server_activity_counts_query c =
     (let rows = mssql_user_sessions c in
      map (\<lambda>(n, k). let group = filter (\<lambda>p. mss_database_id (fst p) = k) rows
          in (n, \<lparr>sc_total = int (length group), sc_active = int (length (filter (\<lambda>p. snd p \<noteq> None) group)),
                  sc_idle = int (length (filter (\<lambda>p. snd p = None) group))\<rparr>))
        (named c (map (\<lambda>p. mss_database_id (fst p)) rows)))"

definition mssql_server_lock_counts_query :: "mssql_catalog \<Rightarrow> (pystr \<times> int) list" where
  "mssql_server_lock_counts_query c =
     (let rows = filter (\<lambda>p. mss_database_id (snd p) > 4) (mssql_blocked c) in
      map (\<lambda>(n, k). (n, int (length (filter (\<lambda>p. mss_database_id (snd p) = k) rows))))
        (named c (map (\<lambda>p. mss_database_id (snd p)) rows)))"

text \<open>A server that answers from one snapshot.\<close>

definition mssql_answers :: "mssql_catalog \<Rightarrow> ('v, 'z) server_scheme \<Rightarrow> ('v, 'z) server_scheme" where
  "mssql_answers c V = V\<lparr>sv_activity_rows := Some (mssql_activity_query c), sv_lock_rows := Some (mssql_blocking_query c),
     sv_database_names := Some (mssql_server_databases_query c),
     sv_activity_counts := Some (mssql_server_activity_counts_query c),
     sv_lock_counts := Some (mssql_server_lock_counts_query c)\<rparr>"

section \<open>MySQL and MariaDB\<close>

record my_process =
  myp_id :: int
  myp_user :: pystr
  myp_host :: pystr
  myp_db :: "pystr option"
  myp_command :: pystr
  myp_time :: int
  myp_state :: "pystr option"
  myp_info :: "pystr option"

record my_trx =
  myt_trx_id :: pystr
  myt_thread_id :: int
  myt_started :: datetime

record my_thread =
  myh_thread_id :: int
  myh_processlist_id :: "int option"
  myh_user :: "pystr option"
  myh_db :: "pystr option"
  myh_info :: "pystr option"
  myh_time :: "int option"

record my_data_lock =
  myd_engine_lock_id :: pystr
  myd_thread_id :: int

text \<open>The two lock catalogs are optional: a missing one makes its statement raise.\<close>

record mysql_catalog =
  myq_now :: datetime
  myq_connection_id :: int
  myq_processes :: "my_process list"
  myq_trxs :: "my_trx list"
  myq_innodb_lock_waits :: "(pystr \<times> pystr) list option"
  myq_data_lock_waits :: "(pystr \<times> pystr) list option"
  myq_data_locks :: "my_data_lock list"
  myq_threads :: "my_thread list"

definition mysql_activity_query :: "mysql_catalog \<Rightarrow> pystr \<Rightarrow> session_row list" where
  "mysql_activity_query c database =
     map (\<lambda>p. \<lparr>ar_pid = Some (myp_id p), ar_usename = Some (myp_user p), ar_application_name = None,
            ar_client_addr = Some (myp_host p),
            ar_state = Some (if myp_command p = lit ''Sleep'' then lit ''idle'' else lit ''active''),
            ar_query = myp_info p, ar_query_start = None, ar_duration_seconds = Some (myp_time p),
            sr_wait_event = myp_state p\<rparr>)
       (sort_key (\<lambda>p. - myp_time p)
         (filter (\<lambda>p. myp_db p = Some database \<and> myp_id p \<noteq> myq_connection_id c \<and> myp_command p \<noteq> lit ''Sleep'')
           (myq_processes c)))"

definition processes_of :: "mysql_catalog \<Rightarrow> int \<Rightarrow> my_process list" where
  "processes_of c n = filter (\<lambda>p. myp_id p = n) (myq_processes c)"

text \<open>The condition on the blocked process makes its outer join an inner one.\<close>

definition mysql_lock_query :: "mysql_catalog \<Rightarrow> pystr \<Rightarrow> blocking_row list option" where
  "mysql_lock_query c database = map_option (\<lambda>waits.
     [\<lparr>br_blocked_pid = Some (myt_thread_id w), br_blocking_pid = Some (myt_thread_id b),
        br_blocked_user = map_option myp_user bp, br_blocking_user = map_option myp_user kp,
        br_blocked_query = (case bp of None \<Rightarrow> None | Some p \<Rightarrow> myp_info p),
        br_blocking_query = (case kp of None \<Rightarrow> None | Some p \<Rightarrow> myp_info p),
        br_waiting_seconds = Some ((myq_now c - myt_started w) div 1000000)\<rparr>.
        (requesting, blocking) \<leftarrow> waits, w \<leftarrow> filter (\<lambda>t. myt_trx_id t = requesting) (myq_trxs c),
        b \<leftarrow> filter (\<lambda>t. myt_trx_id t = blocking) (myq_trxs c),
        bp \<leftarrow> outer (processes_of c (myt_thread_id w)), kp \<leftarrow> outer (processes_of c (myt_thread_id b)),
        (case bp of None \<Rightarrow> False | Some p \<Rightarrow> myp_db p = Some database)]) (myq_innodb_lock_waits c)"

definition threads_of_lock :: "mysql_catalog \<Rightarrow> pystr \<Rightarrow> my_thread list" where
  "threads_of_lock c lock_id =
     [t. l \<leftarrow> filter (\<lambda>l. myd_engine_lock_id l = lock_id) (myq_data_locks c),
        t \<leftarrow> filter (\<lambda>t. myh_thread_id t = myd_thread_id l) (myq_threads c)]"

definition mysql_performance_lock_query :: "mysql_catalog \<Rightarrow> pystr \<Rightarrow> blocking_row list option" where
  "mysql_performance_lock_query c database = map_option (\<lambda>waits.
     [\<lparr>br_blocked_pid = myh_processlist_id w, br_blocking_pid = myh_processlist_id b,
        br_blocked_user = myh_user w, br_blocking_user = myh_user b,
        br_blocked_query = myh_info w, br_blocking_query = myh_info b, br_waiting_seconds = myh_time w\<rparr>.
        (requesting, blocking) \<leftarrow> waits, w \<leftarrow> threads_of_lock c requesting, b \<leftarrow> threads_of_lock c blocking,
        myh_db w = Some database]) (myq_data_lock_waits c)"

definition mysql_answers :: "mysql_catalog \<Rightarrow> pystr \<Rightarrow> ('v, 'z) server_scheme \<Rightarrow> ('v, 'z) server_scheme" where
  "mysql_answers c database V = V\<lparr>sv_activity_rows := Some (mysql_activity_query c database),
     sv_lock_rows := mysql_lock_query c database,
     sv_fallback_lock_rows := mysql_performance_lock_query c database\<rparr>"

section \<open>Facts\<close>

lemma length_outer: "length xs \<le> 1 \<Longrightarrow> length (outer xs) = 1"
  by (cases xs) (auto simp: outer_def)

lemma map_of_named:
  assumes "db_name c k = Some n" and "\<And>j. db_name c j = Some n \<Longrightarrow> j = k"
  shows "map_of (map (\<lambda>(n, k). (n, f k)) (named c ids)) n = (if k \<in> set ids then Some (f k) else None)"
proof -
  have "map_of (map (\<lambda>(n, k). (n, f k)) (concat (map (\<lambda>k. case db_name c k of None \<Rightarrow> [] | Some n \<Rightarrow> [(n, k)]) xs))) n
      = (if k \<in> set xs then Some (f k) else None)" for xs
  proof (induction xs)
    case (Cons x xs)
    show ?case
    proof (cases "x = k")
      case True
      then show ?thesis using assms(1) by simp
    next
      case False
      then have "db_name c x \<noteq> Some n" using assms(2) by blast
      then show ?thesis using Cons False by (cases "db_name c x") auto
    qed
  qed simp
  from this [of "remdups ids"] show ?thesis by (simp add: named_def)
qed

lemma length_joined:
  assumes "\<And>p. length (A p) = 1" and "\<And>p. length (B p) = 1"
  shows "length (concat (map (\<lambda>p. if P p then concat (map (\<lambda>x. map (g p x) (B p)) (A p)) else []) ps)) = length (filter P ps)"
proof (induction ps)
  case (Cons p ps)
  obtain x y where "A p = [x]" "B p = [y]" using assms by (metis One_nat_def length_0_conv length_Suc_conv)
  then show ?case using Cons by simp
qed simp

definition sessions_unique :: "mssql_catalog \<Rightarrow> bool" where
  "sessions_unique c \<longleftrightarrow> (\<forall>n. length (sessions_of c n) \<le> 1 \<and> length (connections_of c n) \<le> 1)
     \<and> distinct (map msd_name (msq_databases c)) \<and> distinct (map msd_database_id (msq_databases c))"

lemma mssql_blocking_rows:
  assumes "sessions_unique c"
  shows "length (mssql_blocking_query (c\<lparr>msq_db_id := k\<rparr>))
     = length (filter (\<lambda>p. mss_database_id (snd p) = k) (mssql_blocked c))"
proof -
  have same: "mssql_blocked (c\<lparr>msq_db_id := k\<rparr>) = mssql_blocked c" "sessions_of (c\<lparr>msq_db_id := k\<rparr>) n = sessions_of c n"
    "connections_of (c\<lparr>msq_db_id := k\<rparr>) n = connections_of c n" for n
    by (simp_all add: mssql_blocked_def sessions_of_def connections_of_def)
  have one: "length (outer (sessions_of c n)) = 1" "length (outer (connections_of c n)) = 1" for n
    using assms by (simp_all add: sessions_unique_def length_outer)
  show ?thesis using one unfolding mssql_blocking_query_def same
    by (subst length_joined [symmetric, where A = "\<lambda>p. outer (sessions_of c (msr_blocking_session_id (fst p)))"
          and B = "\<lambda>p. outer (connections_of c (msr_blocking_session_id (fst p)))"
          and g = "mssql_blocking_row (c\<lparr>msq_db_id := k\<rparr>)"]) (simp_all add: map_concat o_def cong: if_cong)
qed

lemma first_row_key:
  assumes "distinct (map f xs)" and "x \<in> set xs"
  shows "first_row (\<lambda>d. f d = f x) xs = Some x"
proof (cases "first_row (\<lambda>d. f d = f x) xs")
  case None
  then show ?thesis using assms(2) by (auto simp: first_row_None)
next
  case (Some y)
  then have "y \<in> set xs" "f y = f x" by (auto dest: first_row_Some)
  then show ?thesis using assms Some by (auto simp: distinct_map dest: inj_onD)
qed

lemma db_nameE:
  assumes "db_name c k = Some n"
  obtains e where "e \<in> set (msq_databases c)" "msd_name e = n" "msd_database_id e = k"
  using assms by (auto simp: db_name_def dest!: first_row_Some)

lemma db_name_unique:
  assumes "sessions_unique c" and "db_name c k = Some n" and "db_name c j = Some n"
  shows "j = k"
proof -
  obtain a where a: "a \<in> set (msq_databases c)" "msd_name a = n" "msd_database_id a = k" using assms(2) by (rule db_nameE)
  obtain b where b: "b \<in> set (msq_databases c)" "msd_name b = n" "msd_database_id b = j" using assms(3) by (rule db_nameE)
  have "inj_on msd_name (set (msq_databases c))" using assms(1) by (simp add: sessions_unique_def distinct_map)
  then have "a = b" using a(1,2) b(1,2) by (metis inj_onD)
  then show ?thesis using a(3) b(3) by simp
qed

text \<open>
  On SQL Server too the lock counts of the overview are the numbers of rows of the blocking query,
  database by database, as long as no session has several connections.
\<close>

lemma mssql_overview_counts_blocking_rows:
  assumes "is_mssql i" and "\<not> is_mysql i" and "sessions_unique c"
    and "fetch_server_overview (mssql_answers c V) i = Inr ov" and "db \<in> set (so_databases ov)"
  shows "\<exists>k. db_name c k = Some (dc_name db)
    \<and> dc_locks db = int (length (mssql_blocking_query (c\<lparr>msq_db_id := k\<rparr>)))"
proof -
  let ?locks = "mssql_server_lock_counts_query c"
  have n: "dc_name db \<in> set (mssql_server_databases_query c)"
    and l: "dc_locks db = (case map_of ?locks (dc_name db) of None \<Rightarrow> 0 | Some k \<Rightarrow> k)"
    using assms by (auto simp: fetch_server_overview_def mssql_answers_def databases_from_counts_def Let_def split: sum.splits)
  obtain e where e: "e \<in> set (msq_databases c)" "msd_name e = dc_name db" "msd_database_id e > 4"
    using n by (auto simp: mssql_server_databases_query_def)
  have "first_row (\<lambda>d. msd_database_id d = msd_database_id e) (msq_databases c) = Some e"
    by (rule first_row_key [OF _ e(1)]) (use assms(3) in \<open>simp add: sessions_unique_def\<close>)
  then have k: "db_name c (msd_database_id e) = Some (dc_name db)" using e(2) by (simp add: db_name_def)
  let ?k = "msd_database_id e"
  have "map_of ?locks (dc_name db) = (if ?k \<in> (\<lambda>p. mss_database_id (snd p)) ` {p \<in> set (mssql_blocked c). mss_database_id (snd p) > 4}
      then Some (int (length (filter (\<lambda>p. mss_database_id (snd p) = ?k)
        (filter (\<lambda>p. mss_database_id (snd p) > 4) (mssql_blocked c))))) else None)"
    unfolding mssql_server_lock_counts_query_def Let_def
    by (subst map_of_named [OF k db_name_unique [OF assms(3) k]]) simp_all
  moreover have "filter (\<lambda>p. mss_database_id (snd p) = ?k) (filter (\<lambda>p. mss_database_id (snd p) > 4) (mssql_blocked c))
      = filter (\<lambda>p. mss_database_id (snd p) = ?k) (mssql_blocked c)"
    using e(3) by (auto intro: filter_cong)
  moreover have "?k \<in> (\<lambda>p. mss_database_id (snd p)) ` {p \<in> set (mssql_blocked c). mss_database_id (snd p) > 4}
      \<longleftrightarrow> filter (\<lambda>p. mss_database_id (snd p) = ?k) (mssql_blocked c) \<noteq> []"
    using e(3) by (force simp: filter_empty_conv simp del: split_paired_Ex split_paired_All)
  ultimately have "dc_locks db = int (length (filter (\<lambda>p. mss_database_id (snd p) = ?k) (mssql_blocked c)))"
    unfolding l by (simp only: split: if_split) simp
  then show ?thesis using k mssql_blocking_rows [OF assms(3), of ?k] by auto
qed

text \<open>
  A blocker with two connections, as multiple active result sets give it, appears twice in the rows
  and once in the count.
\<close>

definition mars_catalog :: mssql_catalog where
  "mars_catalog = \<lparr>msq_now = 0, msq_spid = 1, msq_db_id = 5,
     msq_sessions = map (\<lambda>n. \<lparr>mss_session_id = n, mss_login_name = lit ''u'', mss_host_name = None, mss_program_name = None,
       mss_open_transaction_count = 1, mss_is_user_process = True, mss_database_id = 5,
       mss_last_request_start_time = (0, [])\<rparr>) [11, 12],
     msq_requests = [\<lparr>msr_session_id = 12, msr_wait_type = None, msr_start_time = (0, []), msr_sql_handle = None,
       msr_blocking_session_id = 11\<rparr>],
     msq_connections = replicate 2 \<lparr>msc_session_id = Some 11, msc_most_recent_sql_handle = None\<rparr>,
     msq_databases = [\<lparr>msd_name = lit ''orders'', msd_database_id = 5, msd_state = 0\<rparr>], msq_sql_text = (\<lambda>_. None)\<rparr>"

lemma connections_multiply_lock_rows:
  "length (mssql_blocking_query mars_catalog) = 2 \<and> map snd (mssql_server_lock_counts_query mars_catalog) = [1]"
  by (simp add: mars_catalog_def mssql_blocking_query_def mssql_blocked_def sessions_of_def connections_of_def outer_def
      mssql_server_lock_counts_query_def Let_def named_def db_name_def numeral_2_eq_2)

end
