(* ===== verification/Schema.thy ===== *)
theory Schema
  imports Prelude "HOL-Library.AList" "HOL-Library.Multiset"
begin

text \<open>
  The language of the files under \<open>monitor/migrations\<close> and of the class bodies of
  \<open>monitor/models.py\<close>: fields with their keyword arguments, models with their \<open>Meta\<close> options, the
  migration operations and what each makes of a schema, refused operations included, and the cells a
  column admits. \<open>Schema_History\<close> holds the migrations and the declared models written in it.
\<close>

section \<open>Fields and models\<close>

text \<open>The arguments a field is declared with; \<open>Ref\<close> is a name of the program that is not called there.\<close>

datatype arg = Bool bool | Number int | Text string | Ref string | Time_of_day nat nat
  | Choices "(arg \<times> string) list"

datatype field_kind = BigAutoField | BooleanField | CharField | EmailField | URLField | TextField | IntegerField
  | PositiveIntegerField | PositiveSmallIntegerField | DateTimeField | TimeField | JSONField | UUIDField
  | ForeignKey | OneToOneField

record column =
  f_kind :: field_kind
  f_args :: "(string \<times> arg) list"

definition field :: "field_kind \<Rightarrow> (string \<times> arg) list \<Rightarrow> column" where
  "field k args = \<lparr>f_kind = k, f_args = args\<rparr>"

definition f_arg :: "column \<Rightarrow> string \<Rightarrow> arg option" where
  "f_arg c = map_of (f_args c)"

definition flagged :: "column \<Rightarrow> string \<Rightarrow> bool" where
  "flagged c k \<longleftrightarrow> f_arg c k = Some (Bool True)"

record index =
  ix_name :: string
  ix_fields :: "string list"

text \<open>A unique constraint by its name: its fields and the condition of a partial one.\<close>

type_synonym constraint = "string \<times> string list \<times> (string \<times> arg) option"

definition unique :: "string \<Rightarrow> string list \<Rightarrow> (string \<times> arg) option \<Rightarrow> constraint" where
  "unique n fs cond = (n, fs, cond)"

record meta =
  mt_ordering :: "string list"
  mt_verbose_name :: string
  mt_verbose_name_plural :: string
  mt_indexes :: "index list"
  mt_constraints :: "constraint list"

definition no_meta :: meta where
  "no_meta = \<lparr>mt_ordering = [], mt_verbose_name = [], mt_verbose_name_plural = [], mt_indexes = [], mt_constraints = []\<rparr>"

record model =
  md_fields :: "(string \<times> column) list"
  md_meta :: meta

text \<open>A schema: the models by their lower-case name, as the migration state keeps them.\<close>

type_synonym schema = "(string \<times> model) list"

definition lower_char :: "char \<Rightarrow> char" where
  "lower_char c = (case map_of (zip ''ABCDEFGHIJKLMNOPQRSTUVWXYZ'' ''abcdefghijklmnopqrstuvwxyz'') c of
     None \<Rightarrow> c | Some l \<Rightarrow> l)"

definition lower :: "string \<Rightarrow> string" where
  "lower = List.map lower_char"

definition label :: "string \<Rightarrow> string" where
  "label name = ''monitor.'' @ lower name"

definition column_of :: "schema \<Rightarrow> string \<Rightarrow> string \<Rightarrow> column option" where
  "column_of s m f = (case map_of s m of None \<Rightarrow> None | Some md \<Rightarrow> map_of (md_fields md) f)"

section \<open>Operations and migrations\<close>

datatype operation =
    CreateModel string "(string \<times> column) list" meta
  | AddField string string column
  | AlterField string string column
  | RemoveField string string
  | AddIndex string index
  | RenameIndex string string string
  | AddConstraint string constraint
  | RunPython string

datatype dependency = On string | On_user_model

record migration =
  mg_name :: string
  mg_dependencies :: "dependency list"
  mg_operations :: "operation list"

datatype schema_error = Unknown_model string | Duplicate_model string | Unknown_field string string
  | Duplicate_field string string | Unknown_index string | Duplicate_name string | Unresolved string
  | Missing_dependency string

definition on_model :: "string \<Rightarrow> (model \<Rightarrow> schema_error + model) \<Rightarrow> schema \<Rightarrow> schema_error + schema" where
  "on_model m h s = (case map_of s m of None \<Rightarrow> Inl (Unknown_model m)
     | Some md \<Rightarrow> (case h md of Inl e \<Rightarrow> Inl e | Inr md' \<Rightarrow> Inr (AList.update m md' s)))"

text \<open>The targets of a model's relations are the user model or models that exist.\<close>

definition resolves :: "string list \<Rightarrow> column \<Rightarrow> bool" where
  "resolves names c \<longleftrightarrow> (case f_arg c ''to'' of None \<Rightarrow> True
     | Some t \<Rightarrow> t = Ref ''settings.AUTH_USER_MODEL'' \<or> t \<in> (\<lambda>m. Text (''monitor.'' @ m)) ` set names)"

definition add_field :: "string \<Rightarrow> string \<Rightarrow> column \<Rightarrow> model \<Rightarrow> schema_error + model" where
  "add_field m f c md = (if map_of (md_fields md) f \<noteq> None then Inl (Duplicate_field m f)
     else Inr (md\<lparr>md_fields := md_fields md @ [(f, c)]\<rparr>))"

definition alter_field :: "string \<Rightarrow> string \<Rightarrow> column \<Rightarrow> model \<Rightarrow> schema_error + model" where
  "alter_field m f c md = (if map_of (md_fields md) f = None then Inl (Unknown_field m f)
     else Inr (md\<lparr>md_fields := AList.update f c (md_fields md)\<rparr>))"

definition remove_field :: "string \<Rightarrow> string \<Rightarrow> model \<Rightarrow> schema_error + model" where
  "remove_field m f md = (if map_of (md_fields md) f = None then Inl (Unknown_field m f)
     else Inr (md\<lparr>md_fields := AList.delete f (md_fields md)\<rparr>))"

definition change_meta :: "(meta \<Rightarrow> schema_error + meta) \<Rightarrow> model \<Rightarrow> schema_error + model" where
  "change_meta h md = (case h (md_meta md) of Inl e \<Rightarrow> Inl e | Inr mt \<Rightarrow> Inr (md\<lparr>md_meta := mt\<rparr>))"

definition add_index :: "index \<Rightarrow> meta \<Rightarrow> schema_error + meta" where
  "add_index ix mt = (if ix_name ix \<in> ix_name ` set (mt_indexes mt) then Inl (Duplicate_name (ix_name ix))
     else Inr (mt\<lparr>mt_indexes := mt_indexes mt @ [ix]\<rparr>))"

definition rename_index :: "string \<Rightarrow> string \<Rightarrow> meta \<Rightarrow> schema_error + meta" where
  "rename_index old new mt = (if old \<notin> ix_name ` set (mt_indexes mt) then Inl (Unknown_index old)
     else Inr (mt\<lparr>mt_indexes := List.map (\<lambda>ix. if ix_name ix = old then ix\<lparr>ix_name := new\<rparr> else ix) (mt_indexes mt)\<rparr>))"

definition add_constraint :: "constraint \<Rightarrow> meta \<Rightarrow> schema_error + meta" where
  "add_constraint c mt = (if fst c \<in> fst ` set (mt_constraints mt) then Inl (Duplicate_name (fst c))
     else Inr (mt\<lparr>mt_constraints := mt_constraints mt @ [c]\<rparr>))"

text \<open>\<open>RunPython\<close> changes rows, not the schema; its functions are in \<open>Migrations\<close>.\<close>

fun apply_operation :: "operation \<Rightarrow> schema \<Rightarrow> schema_error + schema" where
  "apply_operation (CreateModel name fs mt) s =
     (if map_of s (lower name) \<noteq> None then Inl (Duplicate_model name)
      else let s' = s @ [(lower name, \<lparr>md_fields = fs, md_meta = mt\<rparr>)] in
        if list_all (\<lambda>f. resolves (List.map fst s') (snd f)) fs then Inr s' else Inl (Unresolved name))"
| "apply_operation (AddField m f c) s =
     (if resolves (List.map fst s) c then on_model m (add_field m f c) s else Inl (Unresolved f))"
| "apply_operation (AlterField m f c) s =
     (if resolves (List.map fst s) c then on_model m (alter_field m f c) s else Inl (Unresolved f))"
| "apply_operation (RemoveField m f) s = on_model m (remove_field m f) s"
| "apply_operation (AddIndex m ix) s = on_model m (change_meta (add_index ix)) s"
| "apply_operation (RenameIndex m old new) s = on_model m (change_meta (rename_index old new)) s"
| "apply_operation (AddConstraint m c) s = on_model m (change_meta (add_constraint c)) s"
| "apply_operation (RunPython code) s = Inr s"

fun apply_operations :: "operation list \<Rightarrow> schema \<Rightarrow> schema_error + schema" where
  "apply_operations [] s = Inr s"
| "apply_operations (op # ops) s =
     (case apply_operation op s of Inl e \<Rightarrow> Inl e | Inr s' \<Rightarrow> apply_operations ops s')"

text \<open>The names a migration needs applied before it; the user model belongs to another application.\<close>

fun needs :: "dependency list \<Rightarrow> string list" where
  "needs [] = []"
| "needs (On n # ds) = n # needs ds"
| "needs (On_user_model # ds) = needs ds"

text \<open>Applying migrations in an order, each only once those it depends on are applied.\<close>

fun migrate :: "migration list \<Rightarrow> string list \<Rightarrow> schema \<Rightarrow> schema_error + schema" where
  "migrate [] applied s = Inr s"
| "migrate (mg # mgs) applied s =
     (if \<not> list_all (\<lambda>n. n \<in> set applied) (needs (mg_dependencies mg)) then Inl (Missing_dependency (mg_name mg))
      else case apply_operations (mg_operations mg) s of Inl e \<Rightarrow> Inl e
        | Inr s' \<Rightarrow> migrate mgs (mg_name mg # applied) s')"

section \<open>What a schema says\<close>

text \<open>
  The meaning of a schema, free of the order in which fields, arguments, indexes and constraints
  are written, and of the index names, which the framework derives when none is given.
\<close>

definition column_spec :: "column \<Rightarrow> field_kind \<times> (string \<Rightarrow> arg option)" where
  "column_spec c = (f_kind c, f_arg c)"

definition meta_spec :: "meta \<Rightarrow> string list \<times> string \<times> string \<times> string list set \<times> (string \<Rightarrow> (string list \<times> (string \<times> arg) option) option)" where
  "meta_spec mt = (mt_ordering mt, mt_verbose_name mt, mt_verbose_name_plural mt, ix_fields ` set (mt_indexes mt),
     map_of (mt_constraints mt))"

definition model_spec where
  "model_spec md = (map_option column_spec \<circ> map_of (md_fields md), meta_spec (md_meta md))"

definition schema_spec where
  "schema_spec s = map_option model_spec \<circ> map_of s"

text \<open>The executable comparisons.\<close>

definition agree :: "('v \<Rightarrow> 'w \<Rightarrow> bool) \<Rightarrow> (string \<times> 'v) list \<Rightarrow> (string \<times> 'w) list \<Rightarrow> bool" where
  "agree R xs ys \<longleftrightarrow> list_all (\<lambda>k. case map_of xs k of None \<Rightarrow> False
     | Some v \<Rightarrow> (case map_of ys k of None \<Rightarrow> False | Some w \<Rightarrow> R v w)) (List.map fst xs @ List.map fst ys)"

lemma agree_spec:
  assumes "\<And>v w. R v w \<Longrightarrow> g v = h w" and "agree R xs ys"
  shows "map_option g \<circ> map_of xs = map_option h \<circ> map_of ys"
proof
  fix k
  show "(map_option g \<circ> map_of xs) k = (map_option h \<circ> map_of ys) k"
  proof (cases "k \<in> fst ` set xs \<union> fst ` set ys")
    case True
    then have "k \<in> set (List.map fst xs @ List.map fst ys)" by simp
    then obtain v w where "map_of xs k = Some v" "map_of ys k = Some w" "R v w"
      using assms(2) unfolding agree_def list_all_iff by (force split: option.splits)
    then show ?thesis using assms(1) by simp
  next
    case False
    then have "map_of xs k = None" "map_of ys k = None" by (simp_all add: map_of_eq_None_iff)
    then show ?thesis by simp
  qed
qed

definition same_column :: "column \<Rightarrow> column \<Rightarrow> bool" where
  "same_column c d \<longleftrightarrow> f_kind c = f_kind d \<and> agree (=) (f_args c) (f_args d)"

definition same_meta :: "meta \<Rightarrow> meta \<Rightarrow> bool" where
  "same_meta a b \<longleftrightarrow> mt_ordering a = mt_ordering b \<and> mt_verbose_name a = mt_verbose_name b
     \<and> mt_verbose_name_plural a = mt_verbose_name_plural b
     \<and> list_all (\<lambda>x. x \<in> set (List.map ix_fields (mt_indexes b))) (List.map ix_fields (mt_indexes a))
     \<and> list_all (\<lambda>x. x \<in> set (List.map ix_fields (mt_indexes a))) (List.map ix_fields (mt_indexes b))
     \<and> agree (=) (mt_constraints a) (mt_constraints b)"

definition same_model :: "model \<Rightarrow> model \<Rightarrow> bool" where
  "same_model a b \<longleftrightarrow> agree same_column (md_fields a) (md_fields b) \<and> same_meta (md_meta a) (md_meta b)"

lemma same_column_spec: "same_column c d \<Longrightarrow> column_spec c = column_spec d"
  using agree_spec [of "(=)" "\<lambda>x. x" "\<lambda>x. x" "f_args c" "f_args d"]
  by (simp add: same_column_def column_spec_def f_arg_def option.map_ident o_def)

lemma same_meta_spec: "same_meta a b \<Longrightarrow> meta_spec a = meta_spec b"
  using agree_spec [of "(=)" "\<lambda>x. x" "\<lambda>x. x" "mt_constraints a" "mt_constraints b"]
  by (auto simp: same_meta_def meta_spec_def list_all_iff option.map_ident o_def)

lemma same_model_spec: "same_model a b \<Longrightarrow> model_spec a = model_spec b"
  by (auto simp: same_model_def model_spec_def intro: agree_spec same_column_spec same_meta_spec)

section \<open>One model's history\<close>

text \<open>
  An operation changes one model at most, so what becomes of a model depends on the operations on it
  alone. The lemmas below take a schema apart along its models and back.
\<close>

fun op_model :: "operation \<Rightarrow> string option" where
  "op_model (CreateModel name fs mt) = Some (lower name)"
| "op_model (AddField m f c) = Some m"
| "op_model (AlterField m f c) = Some m"
| "op_model (RemoveField m f) = Some m"
| "op_model (AddIndex m ix) = Some m"
| "op_model (RenameIndex m old new) = Some m"
| "op_model (AddConstraint m c) = Some m"
| "op_model (RunPython code) = None"

fun on_one :: "(model \<Rightarrow> schema_error + model) \<Rightarrow> string \<Rightarrow> model option \<Rightarrow> schema_error + model option" where
  "on_one h m None = Inl (Unknown_model m)"
| "on_one h m (Some md) = (case h md of Inl e \<Rightarrow> Inl e | Inr md' \<Rightarrow> Inr (Some md'))"

fun apply_to_model :: "operation \<Rightarrow> model option \<Rightarrow> schema_error + model option" where
  "apply_to_model (CreateModel name fs mt) r =
     (if r \<noteq> None then Inl (Duplicate_model name) else Inr (Some \<lparr>md_fields = fs, md_meta = mt\<rparr>))"
| "apply_to_model (AddField m f c) r = on_one (add_field m f c) m r"
| "apply_to_model (AlterField m f c) r = on_one (alter_field m f c) m r"
| "apply_to_model (RemoveField m f) r = on_one (remove_field m f) m r"
| "apply_to_model (AddIndex m ix) r = on_one (change_meta (add_index ix)) m r"
| "apply_to_model (RenameIndex m old new) r = on_one (change_meta (rename_index old new)) m r"
| "apply_to_model (AddConstraint m c) r = on_one (change_meta (add_constraint c)) m r"
| "apply_to_model (RunPython code) r = Inr r"

fun model_history :: "string \<Rightarrow> operation list \<Rightarrow> model option \<Rightarrow> schema_error + model option" where
  "model_history m [] r = Inr r"
| "model_history m (op # ops) r = (if op_model op = Some m then
     (case apply_to_model op r of Inl e \<Rightarrow> Inl e | Inr r' \<Rightarrow> model_history m ops r') else model_history m ops r)"

text \<open>The relations of the operations, given the models that exist before them.\<close>

fun op_resolves :: "string list \<Rightarrow> operation \<Rightarrow> bool" where
  "op_resolves names (CreateModel name fs mt) = list_all (\<lambda>f. resolves (lower name # names) (snd f)) fs"
| "op_resolves names (AddField m f c) = resolves names c"
| "op_resolves names (AlterField m f c) = resolves names c"
| "op_resolves names op = True"

definition op_names :: "string list \<Rightarrow> operation \<Rightarrow> string list" where
  "op_names names op = (case op of CreateModel name fs mt \<Rightarrow> lower name # names | _ \<Rightarrow> names)"

fun relations_resolve :: "string list \<Rightarrow> operation list \<Rightarrow> bool" where
  "relations_resolve names [] = True"
| "relations_resolve names (op # ops) \<longleftrightarrow> op_resolves names op \<and> relations_resolve (op_names names op) ops"

lemma resolves_cong: "set a = set b \<Longrightarrow> resolves a c = resolves b c"
  by (auto simp: resolves_def split: option.splits)

lemma op_resolves_cong: "set a = set b \<Longrightarrow> op_resolves a op = op_resolves b op"
  by (cases op) (auto simp: list_all_iff resolves_cong [of a b] resolves_cong [of "x # a" "x # b" for x])

lemma on_model_Inr:
  "on_model m h s = Inr s' \<longleftrightarrow> (\<exists>md md'. map_of s m = Some md \<and> h md = Inr md' \<and> s' = AList.update m md' s)"
  by (auto simp: on_model_def split: option.splits sum.splits)

lemma on_one_Inr: "on_one h m r = Inr r' \<longleftrightarrow> (\<exists>md md'. r = Some md \<and> h md = Inr md' \<and> r' = Some md')"
  by (cases r) (auto split: sum.splits)

lemma map_of_append_new: "map_of s k = None \<Longrightarrow> map_of (s @ [(k, v)]) = (map_of s)(k \<mapsto> v)"
  by (rule ext) (simp add: map_add_def split: option.split)

text \<open>The three kinds of operations: creating a model, running code, and changing a model.\<close>

lemma operation_cases:
  obtains (create) name fs mt where "op = CreateModel name fs mt"
    | (code) c where "op = RunPython c"
    | (change) k h e where "op_model op = Some k"
        "\<And>s. apply_operation op s = (if op_resolves (List.map fst s) op then on_model k h s else Inl e)"
        "apply_to_model op = on_one h k" "\<And>names. op_names names op = names"
proof (cases op)
  case (CreateModel name fs mt)
  then show ?thesis by (rule create)
next
  case (AddField m f c)
  then show ?thesis
    by (intro change [of m "add_field m f c" "Unresolved f"]) (auto simp: op_names_def)
next
  case (AlterField m f c)
  then show ?thesis
    by (intro change [of m "alter_field m f c" "Unresolved f"]) (auto simp: op_names_def)
next
  case (RemoveField m f)
  then show ?thesis by (intro change [of m "remove_field m f"]) (auto simp: op_names_def)
next
  case (AddIndex m ix)
  then show ?thesis by (intro change [of m "change_meta (add_index ix)"]) (auto simp: op_names_def)
next
  case (RenameIndex m old new)
  then show ?thesis by (intro change [of m "change_meta (rename_index old new)"]) (auto simp: op_names_def)
next
  case (AddConstraint m c)
  then show ?thesis by (intro change [of m "change_meta (add_constraint c)"]) (auto simp: op_names_def)
next
  case (RunPython c)
  then show ?thesis by (rule code)
qed

lemma apply_operation_model:
  assumes "apply_operation op s = Inr s'"
  shows "op_model op = Some m \<Longrightarrow> apply_to_model op (map_of s m) = Inr (map_of s' m)"
    and "op_model op \<noteq> Some m \<Longrightarrow> map_of s' m = map_of s m"
proof -
  have "(op_model op = Some m \<longrightarrow> apply_to_model op (map_of s m) = Inr (map_of s' m))
      \<and> (op_model op \<noteq> Some m \<longrightarrow> map_of s' m = map_of s m)"
  proof (cases op rule: operation_cases)
    case (create name fs mt)
    then show ?thesis using assms by (auto simp: map_of_append_new Let_def simp del: map_of_append split: if_splits)
  next
    case (code c)
    then show ?thesis using assms by simp
  next
    case (change k h e)
    then obtain md md' where "map_of s k = Some md" "h md = Inr md'" "s' = AList.update k md' s"
      using assms by (auto simp: on_model_Inr split: if_splits)
    then show ?thesis using change(1,3) by (auto simp: update_conv')
  qed
  then show "op_model op = Some m \<Longrightarrow> apply_to_model op (map_of s m) = Inr (map_of s' m)"
    and "op_model op \<noteq> Some m \<Longrightarrow> map_of s' m = map_of s m" by blast+
qed

lemma apply_operations_model:
  "apply_operations ops s = Inr s' \<Longrightarrow> model_history m ops (map_of s m) = Inr (map_of s' m)"
proof (induction ops arbitrary: s)
  case Nil
  then show ?case by simp
next
  case (Cons op ops)
  obtain s1 where s1: "apply_operation op s = Inr s1" "apply_operations ops s1 = Inr s'"
    using Cons.prems by (auto split: sum.splits)
  show ?case
  proof (cases "op_model op = Some m")
    case True
    then show ?thesis using apply_operation_model(1) [OF s1(1) True] Cons.IH [OF s1(2)] by simp
  next
    case False
    then show ?thesis using apply_operation_model(2) [OF s1(1) False] Cons.IH [OF s1(2)] by simp
  qed
qed

text \<open>Operations succeed when they do on every model they mention and their relations resolve.\<close>

lemma apply_operation_progress:
  assumes "op_resolves names op" and "set names = fst ` set s"
    and "\<And>m. op_model op = Some m \<Longrightarrow> \<exists>r. apply_to_model op (map_of s m) = Inr r"
  shows "\<exists>s'. apply_operation op s = Inr s' \<and> set (op_names names op) = fst ` set s'"
proof (cases op rule: operation_cases)
  case (create name fs mt)
  have fresh: "map_of s (lower name) = None" using assms(3) create by (auto split: if_splits)
  let ?s = "s @ [(lower name, \<lparr>md_fields = fs, md_meta = mt\<rparr>)]"
  have "resolves (lower name # names) c = resolves (List.map fst ?s) c" for c
    using assms(2) by (intro resolves_cong) auto
  then have "list_all (\<lambda>f. resolves (List.map fst ?s) (snd f)) fs"
    using assms(1) create by simp
  then show ?thesis using create fresh assms(2) by (simp add: Let_def op_names_def)
next
  case (code c)
  then show ?thesis using assms(2) by (simp add: op_names_def)
next
  case (change k h e)
  obtain md md' where md: "map_of s k = Some md" "h md = Inr md'"
    using assms(3) [OF change(1)] by (auto simp: change(3) on_one_Inr)
  have k: "k \<in> fst ` set s" using md(1) by (metis domI dom_map_of_conv_image_fst)
  have "op_resolves (List.map fst s) op"
    using assms(1,2) op_resolves_cong [of names "List.map fst s" op] by simp
  then have "apply_operation op s = Inr (AList.update k md' s)" using change(2) md by (simp add: on_model_Inr)
  moreover have "fst ` set (AList.update k md' s) = fst ` set s"
    using k by (simp add: dom_update insert_absorb)
  ultimately show ?thesis using assms(2) change(4) by simp
qed

lemma apply_operations_progress:
  assumes "relations_resolve names ops" and "set names = fst ` set s"
    and "\<And>m. \<exists>r. model_history m ops (map_of s m) = Inr r"
  shows "\<exists>s'. apply_operations ops s = Inr s'"
  using assms
proof (induction ops arbitrary: names s)
  case Nil
  then show ?case by simp
next
  case (Cons op ops)
  have one: "\<exists>r. apply_to_model op (map_of s m) = Inr r" if "op_model op = Some m" for m
    using Cons.prems(3) [of m] that by (auto split: sum.splits)
  obtain s1 where s1: "apply_operation op s = Inr s1" "set (op_names names op) = fst ` set s1"
    using apply_operation_progress [OF _ Cons.prems(2) one] Cons.prems(1) by auto
  have "\<exists>r. model_history m ops (map_of s1 m) = Inr r" for m
  proof (cases "op_model op = Some m")
    case True
    then show ?thesis using Cons.prems(3) [of m] apply_operation_model(1) [OF s1(1) True] by simp
  next
    case False
    then show ?thesis using Cons.prems(3) [of m] apply_operation_model(2) [OF s1(1) False] by simp
  qed
  then show ?case using Cons.IH [OF _ s1(2)] Cons.prems(1) s1(1) by simp
qed

lemma apply_operations_append:
  "apply_operations (xs @ ys) s = (case apply_operations xs s of Inl e \<Rightarrow> Inl e | Inr s' \<Rightarrow> apply_operations ys s')"
  by (induction xs arbitrary: s) (auto split: sum.splits)

lemma model_history_append:
  "model_history m (xs @ ys) r = (case model_history m xs r of Inl e \<Rightarrow> Inl e | Inr r' \<Rightarrow> model_history m ys r')"
  by (induction xs arbitrary: r) (auto split: sum.splits)

lemma model_history_filter: "model_history m (filter (\<lambda>op. op_model op = Some m) ops) r = model_history m ops r"
  by (induction ops arbitrary: r) (auto split: sum.splits)

section \<open>Migrations in order\<close>

definition all_operations :: "migration list \<Rightarrow> operation list" where
  "all_operations mgs = concat (List.map mg_operations mgs)"

fun dependencies_met :: "migration list \<Rightarrow> string list \<Rightarrow> bool" where
  "dependencies_met [] applied = True"
| "dependencies_met (mg # mgs) applied \<longleftrightarrow> list_all (\<lambda>n. n \<in> set applied) (needs (mg_dependencies mg))
     \<and> dependencies_met mgs (mg_name mg # applied)"

lemma migrate_Inr:
  "migrate mgs applied s = Inr s' \<longleftrightarrow> dependencies_met mgs applied \<and> apply_operations (all_operations mgs) s = Inr s'"
proof (induction mgs applied s rule: migrate.induct)
  case (1 applied s)
  then show ?case by (simp add: all_operations_def)
next
  case (2 mg mgs applied s)
  then show ?case by (cases "apply_operations (mg_operations mg) s")
      (auto simp: all_operations_def apply_operations_append)
qed

lemma dependencies_met_nth:
  assumes "dependencies_met mgs applied" and "i < length mgs" and "n \<in> set (needs (mg_dependencies (mgs ! i)))"
  shows "n \<in> set applied \<union> mg_name ` set (take i mgs)"
  using assms
proof (induction mgs arbitrary: applied i)
  case Nil
  then show ?case by simp
next
  case (Cons mg mgs)
  show ?case
  proof (cases i)
    case 0
    then show ?thesis using Cons.prems by (auto simp: list_all_iff)
  next
    case (Suc j)
    then show ?thesis using Cons.IH [of "mg_name mg # applied" j] Cons.prems by auto
  qed
qed

text \<open>Migrations that each need the one before them can be applied in one order only.\<close>

lemma chain_order:
  assumes "mset p = mset mgs" and "distinct (List.map mg_name mgs)" and "dependencies_met p []"
    and chain: "\<And>i. Suc i < length mgs \<Longrightarrow> mg_name (mgs ! i) \<in> set (needs (mg_dependencies (mgs ! Suc i)))"
  shows "p = mgs"
proof -
  have len: "length p = length mgs" using assms(1) by (metis size_mset)
  have dp: "distinct p" using assms(1,2) by (metis distinct_map mset_eq_imp_distinct_iff)
  have dm: "distinct mgs" using assms(2) by (simp add: distinct_map)
  have name: "a = b" if "a < length mgs" "b < length mgs" "mg_name (mgs ! a) = mg_name (mgs ! b)" for a b
    using that assms(2) nth_eq_iff_index_eq [of "List.map mg_name mgs" a b] by simp
  have "p ! i = mgs ! i" if "i < length mgs" for i
    using that
  proof (induction i rule: less_induct)
    case (less i)
    have pre: "take i p = take i mgs" by (rule nth_take_lemma) (use less len in auto)
    have "p ! i \<in> set mgs" using less.prems len mset_eq_setD [OF assms(1)] by (metis nth_mem)
    then obtain j where j: "j < length mgs" "p ! i = mgs ! j" by (metis in_set_conv_nth)
    have "i \<le> j"
    proof (rule ccontr)
      assume "\<not> i \<le> j"
      then have "p ! j = p ! i" using less.IH [of j] j by simp
      then show False using dp \<open>\<not> i \<le> j\<close> less.prems len j(1) by (simp add: nth_eq_iff_index_eq)
    qed
    moreover have "j \<le> i"
    proof (cases j)
      case (Suc k)
      then have "mg_name (mgs ! k) \<in> set (needs (mg_dependencies (p ! i)))" using chain j by simp
      then have "mg_name (mgs ! k) \<in> mg_name ` set (take i mgs)"
        using dependencies_met_nth [OF assms(3)] less.prems len pre by fastforce
      then obtain l where "l < i" "mg_name (mgs ! k) = mg_name (mgs ! l)"
        by (auto simp: in_set_conv_nth)
      then show ?thesis using name [of k l] Suc j(1) less.prems by simp
    qed simp
    ultimately show ?case using j(2) by simp
  qed
  then show ?thesis using len by (simp add: list_eq_iff_nth_eq)
qed

end
