(* ===== verification/Schema_History.thy ===== *)
theory Schema_History
  imports Schema
begin

text \<open>
  The forty-two migrations of \<open>monitor/migrations\<close>, one definition per file in the order of their
  numbers, and the models \<open>monitor/models.py\<close> declares, one definition per class.
\<close>

section \<open>The migrations\<close>

definition migration_0001 :: migration where
  "migration_0001 = \<lparr>mg_name = ''0001_initial'',
    mg_dependencies = [On_user_model],
    mg_operations = [
      CreateModel ''RDSInstance'' [
         (''id'', field BigAutoField [(''auto_created'', Bool True), (''primary_key'', Bool True),
           (''serialize'', Bool False), (''verbose_name'', Text ''ID'')]),
         (''name'', field CharField [(''help_text'', Text ''Friendly display name''), (''max_length'', Number 100)]),
         (''db_identifier'', field CharField [(''help_text'', Text ''RDS DBInstanceIdentifier''),
           (''max_length'', Number 255)]),
         (''region'', field CharField [(''default'', Text ''us-east-1''), (''max_length'', Number 32)]),
         (''host'', field CharField [(''help_text'', Text ''RDS endpoint address''), (''max_length'', Number 255)]),
         (''port'', field PositiveIntegerField [(''default'', Number 5432)]),
         (''db_name'', field CharField [(''max_length'', Number 255)]),
         (''username'', field CharField [(''help_text'', Text ''DB login username''), (''max_length'', Number 255)]),
         (''password_encrypted'', field CharField [(''help_text'', Text ''Fernet-encrypted DB login password''),
           (''max_length'', Number 512)]),
         (''ssl_required'', field BooleanField [(''default'', Bool True),
           (''help_text'', Text ''Uncheck for local/dev Postgres without SSL'')]),
         (''is_active'', field BooleanField [(''default'', Bool True)]),
         (''created_at'', field DateTimeField [(''auto_now_add'', Bool True)]),
         (''added_by'', field ForeignKey [(''blank'', Bool True), (''null'', Bool True),
           (''on_delete'', Ref ''SET_NULL''), (''to'', Ref ''settings.AUTH_USER_MODEL'')])]
         (no_meta\<lparr>mt_ordering := [''name'']\<rparr>),
      CreateModel ''AuditLog'' [
         (''id'', field BigAutoField [(''auto_created'', Bool True), (''primary_key'', Bool True),
           (''serialize'', Bool False), (''verbose_name'', Text ''ID'')]),
         (''instance_name'', field CharField [(''blank'', Bool True), (''max_length'', Number 100)]),
         (''action'', field CharField [(''choices'', Choices [(Text ''kill_session'', ''Kill session''),
           (Text ''add_instance'', ''Add instance''), (Text ''remove_instance'', ''Remove instance'')]),
           (''max_length'', Number 32)]),
         (''target_pid'', field IntegerField [(''blank'', Bool True), (''null'', Bool True)]),
         (''target_query'', field TextField [(''blank'', Bool True)]),
         (''performed_at'', field DateTimeField [(''auto_now_add'', Bool True)]),
         (''result'', field CharField [(''choices'', Choices [(Text ''success'', ''Success''),
           (Text ''failed'', ''Failed'')]), (''max_length'', Number 16)]),
         (''detail'', field TextField [(''blank'', Bool True)]),
         (''performed_by'', field ForeignKey [(''blank'', Bool True), (''null'', Bool True),
           (''on_delete'', Ref ''SET_NULL''), (''to'', Ref ''settings.AUTH_USER_MODEL'')]),
         (''instance'', field ForeignKey [(''blank'', Bool True), (''null'', Bool True),
           (''on_delete'', Ref ''SET_NULL''), (''related_name'', Text ''audit_logs''),
           (''to'', Text ''monitor.rdsinstance'')])]
         (no_meta\<lparr>mt_ordering := [''-performed_at'']\<rparr>)]\<rparr>"

definition migration_0002 :: migration where
  "migration_0002 = \<lparr>mg_name = ''0002_alter_auditlog_action'',
    mg_dependencies = [On ''0001_initial''],
    mg_operations = [
      AlterField ''auditlog'' ''action'' (field CharField [(''choices'',
        Choices [(Text ''kill_session'', ''Kill session''), (Text ''kill_chain'', ''Kill blocking chain''),
        (Text ''add_instance'', ''Add instance''), (Text ''remove_instance'', ''Remove instance''),
        (Text ''rename_instance'', ''Rename instance'')]), (''max_length'', Number 32)])]\<rparr>"

definition migration_0003 :: migration where
  "migration_0003 = \<lparr>mg_name = ''0003_alter_auditlog_action'',
    mg_dependencies = [On ''0002_alter_auditlog_action''],
    mg_operations = [
      AlterField ''auditlog'' ''action'' (field CharField [(''choices'',
        Choices [(Text ''kill_session'', ''Kill session''), (Text ''kill_chain'', ''Kill blocking chain''),
        (Text ''bulk_kill'', ''Bulk kill selected''), (Text ''add_instance'', ''Add instance''),
        (Text ''remove_instance'', ''Remove instance''), (Text ''rename_instance'', ''Rename instance'')]),
        (''max_length'', Number 32)])]\<rparr>"

definition migration_0004 :: migration where
  "migration_0004 = \<lparr>mg_name = ''0004_alter_auditlog_action'',
    mg_dependencies = [On ''0003_alter_auditlog_action''],
    mg_operations = [
      AlterField ''auditlog'' ''action'' (field CharField [(''choices'',
        Choices [(Text ''kill_session'', ''Kill session''), (Text ''kill_chain'', ''Kill blocking chain''),
        (Text ''bulk_kill'', ''Bulk kill selected''),
        (Text ''kill_replication_slot'', ''Kill replication slot backend''),
        (Text ''drop_replication_slot'', ''Drop replication slot''), (Text ''add_instance'', ''Add instance''),
        (Text ''remove_instance'', ''Remove instance''), (Text ''rename_instance'', ''Rename instance'')]),
        (''max_length'', Number 32)])]\<rparr>"

definition migration_0005 :: migration where
  "migration_0005 = \<lparr>mg_name = ''0005_lockalert_owner_email'',
    mg_dependencies = [On ''0004_alter_auditlog_action''],
    mg_operations = [
      AddField ''rdsinstance'' ''owner_email'' (field EmailField [(''blank'', Bool True),
        (''help_text'', Text ''Receives lock alerts for this database''), (''max_length'', Number 254)]),
      CreateModel ''LockAlert'' [
         (''id'', field BigAutoField [(''auto_created'', Bool True), (''primary_key'', Bool True),
           (''serialize'', Bool False), (''verbose_name'', Text ''ID'')]),
         (''alert_key'', field CharField [(''max_length'', Number 255)]),
         (''blocked_pid'', field IntegerField []),
         (''blocking_pid'', field IntegerField []),
         (''blocked_query'', field TextField [(''blank'', Bool True)]),
         (''blocking_query'', field TextField [(''blank'', Bool True)]),
         (''first_seen_at'', field DateTimeField []),
         (''last_seen_at'', field DateTimeField []),
         (''alerted_at'', field DateTimeField [(''blank'', Bool True), (''null'', Bool True)]),
         (''resolved_at'', field DateTimeField [(''blank'', Bool True), (''null'', Bool True)]),
         (''instance'', field ForeignKey [(''on_delete'', Ref ''CASCADE''),
           (''related_name'', Text ''lock_alerts''), (''to'', Text ''monitor.rdsinstance'')])]
         (no_meta\<lparr>mt_indexes := [\<lparr>ix_name = ''monitor_loc_instanc_2c14bc_idx'', ix_fields = [''instance'', ''resolved_at'']\<rparr>, \<lparr>ix_name = ''monitor_loc_alert_k_9dd7e9_idx'', ix_fields = [''alert_key'']\<rparr>]\<rparr>)]\<rparr>"

definition migration_0006 :: migration where
  "migration_0006 = \<lparr>mg_name = ''0006_owner_teams_webhook'',
    mg_dependencies = [On ''0005_lockalert_owner_email''],
    mg_operations = [
      AddField ''rdsinstance'' ''owner_teams_webhook_url'' (field URLField [(''blank'', Bool True),
        (''help_text'', Text ''Teams Workflow webhook for this database owner'')]),
      RemoveField ''rdsinstance'' ''owner_email'']\<rparr>"

definition migration_0007 :: migration where
  "migration_0007 = \<lparr>mg_name = ''0007_notificationsettings'',
    mg_dependencies = [On ''0006_owner_teams_webhook''],
    mg_operations = [
      CreateModel ''NotificationSettings'' [
         (''id'', field BigAutoField [(''auto_created'', Bool True), (''primary_key'', Bool True),
           (''serialize'', Bool False), (''verbose_name'', Text ''ID'')]),
         (''channel_webhook_url'', field URLField [(''blank'', Bool True),
           (''help_text'', Text ''Shared Teams channel Workflow webhook'')]),
         (''threshold_seconds'', field PositiveIntegerField [(''default'', Number 120)]),
         (''interval_seconds'', field PositiveIntegerField [(''default'', Number 30)]),
         (''updated_at'', field DateTimeField [(''auto_now'', Bool True)])]
         (no_meta\<lparr>mt_verbose_name := ''Notification settings'',
           mt_verbose_name_plural := ''Notification settings''\<rparr>)]\<rparr>"

definition migration_0008 :: migration where
  "migration_0008 = \<lparr>mg_name = ''0008_monitorlease'',
    mg_dependencies = [On ''0007_notificationsettings''],
    mg_operations = [
      CreateModel ''MonitorLease'' [
         (''id'', field BigAutoField [(''auto_created'', Bool True), (''primary_key'', Bool True),
           (''serialize'', Bool False), (''verbose_name'', Text ''ID'')]),
         (''owner_id'', field CharField [(''blank'', Bool True), (''max_length'', Number 64)]),
         (''lease_until'', field DateTimeField [(''blank'', Bool True), (''null'', Bool True)])]
         no_meta]\<rparr>"

definition migration_0009 :: migration where
  "migration_0009 = \<lparr>mg_name = ''0009_lockalert_details'',
    mg_dependencies = [On ''0008_monitorlease''],
    mg_operations = [
      AddField ''lockalert'' ''blocked_user'' (field CharField [(''blank'', Bool True), (''max_length'', Number 255)]),
      AddField ''lockalert'' ''blocking_user'' (field CharField [(''blank'', Bool True),
        (''max_length'', Number 255)]),
      AddField ''lockalert'' ''last_notified_at'' (field DateTimeField [(''blank'', Bool True),
        (''null'', Bool True)]),
      AddField ''lockalert'' ''waiting_seconds'' (field PositiveIntegerField [(''default'', Number 0)])]\<rparr>"

definition migration_0010 :: migration where
  "migration_0010 = \<lparr>mg_name = ''0010_repeat_interval'',
    mg_dependencies = [On ''0009_lockalert_details''],
    mg_operations = [
      AddField ''notificationsettings'' ''repeat_interval_seconds''
        (field PositiveIntegerField [(''default'', Number 600)])]\<rparr>"

definition migration_0011 :: migration where
  "migration_0011 = \<lparr>mg_name = ''0011_single_incident_notifications'',
    mg_dependencies = [On ''0010_repeat_interval''],
    mg_operations = [
      RemoveField ''notificationsettings'' ''repeat_interval_seconds'',
      RemoveField ''lockalert'' ''last_notified_at'',
      AddField ''lockalert'' ''observation_count'' (field PositiveIntegerField [(''default'', Number 1)])]\<rparr>"

definition migration_0012 :: migration where
  "migration_0012 = \<lparr>mg_name = ''0012_normalize_active_lock_alerts'',
    mg_dependencies = [On ''0011_single_incident_notifications''],
    mg_operations = [
      RunPython ''normalize_active_alert_keys'',
      AddConstraint ''lockalert''
        (unique ''unique_active_lock_alert'' [''instance'', ''alert_key''] (Some (''resolved_at__isnull'', Bool True)))]\<rparr>"

definition migration_0013 :: migration where
  "migration_0013 = \<lparr>mg_name = ''0013_lock_alert_lifecycle_details'',
    mg_dependencies = [On ''0012_normalize_active_lock_alerts''],
    mg_operations = [
      AddField ''lockalert'' ''last_notified_fingerprint'' (field CharField [(''blank'', Bool True),
        (''max_length'', Number 64)]),
      RunPython ''populate_notification_fingerprints'',
      RemoveField ''lockalert'' ''observation_count'']\<rparr>"

definition migration_0014 :: migration where
  "migration_0014 = \<lparr>mg_name = ''0014_lock_notification_state'',
    mg_dependencies = [On ''0013_lock_alert_lifecycle_details''],
    mg_operations = [
      RemoveField ''lockalert'' ''last_notified_fingerprint'',
      CreateModel ''LockNotificationState'' [
         (''id'', field BigAutoField [(''auto_created'', Bool True), (''primary_key'', Bool True),
           (''serialize'', Bool False), (''verbose_name'', Text ''ID'')]),
         (''last_fingerprint'', field CharField [(''blank'', Bool True), (''max_length'', Number 64)]),
         (''last_active_keys'', field JSONField [(''default'', Ref ''list'')]),
         (''last_sent_at'', field DateTimeField [(''blank'', Bool True), (''null'', Bool True)]),
         (''instance'', field OneToOneField [(''on_delete'', Ref ''CASCADE''),
           (''related_name'', Text ''lock_notification_state''), (''to'', Text ''monitor.rdsinstance'')])]
         no_meta]\<rparr>"

definition migration_0015 :: migration where
  "migration_0015 = \<lparr>mg_name = ''0015_control_credentials'',
    mg_dependencies = [On ''0014_lock_notification_state''],
    mg_operations = [
      AddField ''rdsinstance'' ''control_password_encrypted'' (field CharField [(''blank'', Bool True),
        (''help_text'', Text ''Fernet-encrypted control role password''), (''max_length'', Number 512)]),
      AddField ''rdsinstance'' ''control_username'' (field CharField [(''blank'', Bool True),
        (''help_text'', Text ''Optional dedicated monitoring/kill role; falls back to DB login username''),
        (''max_length'', Number 255)])]\<rparr>"

definition migration_0016 :: migration where
  "migration_0016 = \<lparr>mg_name = ''0016_webhook_url_length'',
    mg_dependencies = [On ''0015_control_credentials''],
    mg_operations = [
      AlterField ''notificationsettings'' ''channel_webhook_url'' (field URLField [(''blank'', Bool True),
        (''help_text'', Text ''Shared Teams channel Workflow webhook''), (''max_length'', Number 2048)]),
      AlterField ''rdsinstance'' ''owner_teams_webhook_url'' (field URLField [(''blank'', Bool True),
        (''help_text'', Text ''Teams Workflow webhook for this database owner''), (''max_length'', Number 2048)])]\<rparr>"

definition migration_0017 :: migration where
  "migration_0017 = \<lparr>mg_name = ''0017_weekly_lock_reports'',
    mg_dependencies = [On ''0016_webhook_url_length''],
    mg_operations = [
      AddField ''notificationsettings'' ''last_weekly_report_at'' (field DateTimeField [(''blank'', Bool True),
        (''null'', Bool True)]),
      AddField ''notificationsettings'' ''report_base_url'' (field URLField [(''blank'', Bool True),
        (''help_text'', Text ''Public dashboard URL used to create signed CSV links for Teams''),
        (''max_length'', Number 2048)]),
      AddField ''notificationsettings'' ''weekly_report_day''
        (field PositiveSmallIntegerField [(''default'', Number 0),
        (''help_text'', Text ''0=Monday through 6=Sunday'')]),
      AddField ''notificationsettings'' ''weekly_report_enabled'' (field BooleanField [(''default'', Bool False)]),
      AddField ''notificationsettings'' ''weekly_report_hour''
        (field PositiveSmallIntegerField [(''default'', Number 9), (''help_text'', Text ''Hour in IST, 0-23'')]),
      CreateModel ''LockReport'' [
         (''id'', field BigAutoField [(''auto_created'', Bool True), (''primary_key'', Bool True),
           (''serialize'', Bool False), (''verbose_name'', Text ''ID'')]),
         (''file_name'', field CharField [(''max_length'', Number 255)]),
         (''csv_content'', field TextField []),
         (''created_at'', field DateTimeField [(''auto_now_add'', Bool True)]),
         (''expires_at'', field DateTimeField [])]
         (no_meta\<lparr>mt_indexes := [\<lparr>ix_name = ''monitor_loc_expires_ed1911_idx'', ix_fields = [''expires_at'']\<rparr>]\<rparr>)]\<rparr>"

definition migration_0018 :: migration where
  "migration_0018 = \<lparr>mg_name = ''0018_retention_cleanup'',
    mg_dependencies = [On ''0017_weekly_lock_reports''],
    mg_operations = [
      AddField ''notificationsettings'' ''last_cleanup_at'' (field DateTimeField [(''blank'', Bool True),
        (''null'', Bool True)]),
      AddField ''notificationsettings'' ''resolved_alert_retention_days''
        (field PositiveIntegerField [(''default'', Number 30),
        (''help_text'', Text ''Days to keep resolved lock incidents in the dashboard database'')])]\<rparr>"

definition migration_0019 :: migration where
  "migration_0019 = \<lparr>mg_name = ''0019_lock_clear_attribution'',
    mg_dependencies = [On ''0018_retention_cleanup''],
    mg_operations = [
      AddField ''lockalert'' ''clear_reason'' (field CharField [(''blank'', Bool True), (''max_length'', Number 32)]),
      AddField ''lockalert'' ''cleared_by'' (field CharField [(''blank'', Bool True), (''max_length'', Number 150)])]\<rparr>"

definition migration_0020 :: migration where
  "migration_0020 = \<lparr>mg_name = ''0020_usermfa'',
    mg_dependencies = [On ''0019_lock_clear_attribution''],
    mg_operations = [
      CreateModel ''UserMFA'' [
         (''id'', field BigAutoField [(''auto_created'', Bool True), (''primary_key'', Bool True),
           (''serialize'', Bool False), (''verbose_name'', Text ''ID'')]),
         (''secret_encrypted'', field CharField [(''blank'', Bool True), (''max_length'', Number 512)]),
         (''backup_codes'', field JSONField [(''default'', Ref ''list'')]),
         (''pending_backup_codes_encrypted'', field CharField [(''blank'', Bool True), (''max_length'', Number 2048)]),
         (''enabled'', field BooleanField [(''default'', Bool False)]),
         (''confirmed_at'', field DateTimeField [(''blank'', Bool True), (''null'', Bool True)]),
         (''created_at'', field DateTimeField [(''auto_now_add'', Bool True)]),
         (''updated_at'', field DateTimeField [(''auto_now'', Bool True)]),
         (''user'', field OneToOneField [(''on_delete'', Ref ''CASCADE''),
           (''related_name'', Text ''mfa_profile''), (''to'', Ref ''settings.AUTH_USER_MODEL'')])]
         (no_meta\<lparr>mt_verbose_name := ''User MFA'', mt_verbose_name_plural := ''User MFA''\<rparr>)]\<rparr>"

definition migration_0021 :: migration where
  "migration_0021 = \<lparr>mg_name = ''0021_notification_schedule'',
    mg_dependencies = [On ''0020_usermfa''],
    mg_operations = [
      AddField ''notificationsettings'' ''notification_schedule_enabled''
        (field BooleanField [(''default'', Bool False),
        (''help_text'', Text ''Only send lock notifications during the configured IST window'')]),
      AddField ''notificationsettings'' ''notification_start_time'' (field TimeField [(''default'', Time_of_day 9 0)]),
      AddField ''notificationsettings'' ''notification_end_time'' (field TimeField [(''default'', Time_of_day 21 0)])]\<rparr>"

definition migration_0022 :: migration where
  "migration_0022 = \<lparr>mg_name = ''0022_long_query_alerts'',
    mg_dependencies = [On ''0021_notification_schedule''],
    mg_operations = [
      AddField ''notificationsettings'' ''manual_query_alert_enabled''
        (field BooleanField [(''default'', Bool False),
        (''help_text'', Text ''Alert when non-excluded users run active queries beyond the threshold'')]),
      AddField ''notificationsettings'' ''manual_query_threshold_seconds''
        (field PositiveIntegerField [(''default'', Number 60)]),
      AddField ''notificationsettings'' ''manual_query_excluded_users''
        (field TextField [(''default'', Text ''applms,applos''),
        (''help_text'', Text ''Comma-separated database usernames excluded from long-query alerts'')]),
      CreateModel ''LongQueryAlert'' [
         (''id'', field BigAutoField [(''auto_created'', Bool True), (''primary_key'', Bool True),
           (''serialize'', Bool False), (''verbose_name'', Text ''ID'')]),
         (''alert_key'', field CharField [(''max_length'', Number 255)]),
         (''pid'', field IntegerField []),
         (''username'', field CharField [(''blank'', Bool True), (''max_length'', Number 255)]),
         (''application_name'', field CharField [(''blank'', Bool True), (''max_length'', Number 255)]),
         (''client_addr'', field CharField [(''blank'', Bool True), (''max_length'', Number 255)]),
         (''query'', field TextField [(''blank'', Bool True)]),
         (''query_start'', field DateTimeField [(''blank'', Bool True), (''null'', Bool True)]),
         (''duration_seconds'', field PositiveIntegerField [(''default'', Number 0)]),
         (''first_seen_at'', field DateTimeField []),
         (''last_seen_at'', field DateTimeField []),
         (''alerted_at'', field DateTimeField [(''blank'', Bool True), (''null'', Bool True)]),
         (''resolved_at'', field DateTimeField [(''blank'', Bool True), (''null'', Bool True)]),
         (''instance'', field ForeignKey [(''on_delete'', Ref ''CASCADE''),
           (''related_name'', Text ''long_query_alerts''), (''to'', Text ''monitor.rdsinstance'')])]
         no_meta,
      AddIndex ''longqueryalert'' \<lparr>ix_name = ''monitor_lon_instanc_1d4b17_idx'', ix_fields = [''instance'', ''resolved_at'']\<rparr>,
      AddIndex ''longqueryalert'' \<lparr>ix_name = ''monitor_lon_alert_k_7c95a4_idx'', ix_fields = [''alert_key'']\<rparr>,
      AddConstraint ''longqueryalert''
        (unique ''unique_active_long_query_alert'' [''instance'', ''alert_key''] (Some (''resolved_at__isnull'', Bool True)))]\<rparr>"

definition migration_0023 :: migration where
  "migration_0023 = \<lparr>mg_name = ''0023_rename_long_query_indexes'',
    mg_dependencies = [On ''0022_long_query_alerts''],
    mg_operations = [
      RenameIndex ''longqueryalert''
        ''monitor_lon_instanc_1d4b17_idx'' ''monitor_lon_instanc_1f191b_idx'',
      RenameIndex ''longqueryalert''
        ''monitor_lon_alert_k_7c95a4_idx'' ''monitor_lon_alert_k_8f6dcb_idx'']\<rparr>"

definition migration_0024 :: migration where
  "migration_0024 = \<lparr>mg_name = ''0024_replication_slot_access'',
    mg_dependencies = [On ''0023_rename_long_query_indexes'', On_user_model],
    mg_operations = [
      CreateModel ''ReplicationSlotAccess'' [
         (''id'', field BigAutoField [(''auto_created'', Bool True), (''primary_key'', Bool True),
           (''serialize'', Bool False), (''verbose_name'', Text ''ID'')]),
         (''can_drop'', field BooleanField [(''default'', Bool False)]),
         (''can_terminate'', field BooleanField [(''default'', Bool False)]),
         (''user'', field OneToOneField [(''on_delete'', Ref ''CASCADE''),
           (''related_name'', Text ''replication_slot_access''), (''to'', Ref ''settings.AUTH_USER_MODEL'')])]
         no_meta,
      AlterField ''auditlog'' ''action'' (field CharField [(''choices'',
        Choices [(Text ''kill_session'', ''Kill session''), (Text ''kill_chain'', ''Kill blocking chain''),
        (Text ''bulk_kill'', ''Bulk kill selected''),
        (Text ''kill_replication_slot'', ''Kill replication slot backend''),
        (Text ''drop_replication_slot'', ''Drop replication slot''), (Text ''add_instance'', ''Add instance''),
        (Text ''remove_instance'', ''Remove instance''), (Text ''rename_instance'', ''Rename instance''),
        (Text ''update_slot_permissions'', ''Update replication-slot permissions'')]), (''max_length'', Number 32)])]\<rparr>"

definition migration_0025 :: migration where
  "migration_0025 = \<lparr>mg_name = ''0025_instance_global_notification_exclusion'',
    mg_dependencies = [On ''0024_replication_slot_access''],
    mg_operations = [
      AddField ''rdsinstance'' ''exclude_from_global_notifications''
        (field BooleanField [(''default'', Bool False),
        (''help_text'', Text ''Do not send real-time lock/query alerts to the shared/global Teams channel; weekly reports remain included'')])]\<rparr>"

definition migration_0026 :: migration where
  "migration_0026 = \<lparr>mg_name = ''0026_update_global_notification_exclusion_help'',
    mg_dependencies = [On ''0025_instance_global_notification_exclusion''],
    mg_operations = [
      AlterField ''rdsinstance'' ''exclude_from_global_notifications''
        (field BooleanField [(''default'', Bool False),
        (''help_text'', Text ''Do not send real-time lock/query alerts to the shared/global Teams channel; weekly reports remain included'')])]\<rparr>"

definition migration_0027 :: migration where
  "migration_0027 = \<lparr>mg_name = ''0027_dashboardlink'',
    mg_dependencies = [On ''0026_update_global_notification_exclusion_help'', On_user_model],
    mg_operations = [
      CreateModel ''DashboardLink'' [
         (''id'', field BigAutoField [(''auto_created'', Bool True), (''primary_key'', Bool True),
           (''serialize'', Bool False), (''verbose_name'', Text ''ID'')]),
         (''name'', field CharField [(''max_length'', Number 100)]),
         (''url'', field URLField [(''max_length'', Number 2048)]),
         (''description'', field CharField [(''blank'', Bool True), (''max_length'', Number 255)]),
         (''category'', field CharField [(''blank'', Bool True), (''max_length'', Number 80)]),
         (''sort_order'', field PositiveIntegerField [(''default'', Number 0)]),
         (''is_active'', field BooleanField [(''default'', Bool True)]),
         (''created_at'', field DateTimeField [(''auto_now_add'', Bool True)]),
         (''updated_at'', field DateTimeField [(''auto_now'', Bool True)]),
         (''created_by'', field ForeignKey [(''blank'', Bool True), (''null'', Bool True),
           (''on_delete'', Ref ''SET_NULL''), (''related_name'', Text ''created_dashboard_links''),
           (''to'', Ref ''settings.AUTH_USER_MODEL'')])]
         (no_meta\<lparr>mt_ordering := [''sort_order'', ''name'']\<rparr>)]\<rparr>"

definition migration_0028 :: migration where
  "migration_0028 = \<lparr>mg_name = ''0028_report_retention_days'',
    mg_dependencies = [On ''0027_dashboardlink''],
    mg_operations = [
      AddField ''notificationsettings'' ''report_retention_days''
        (field PositiveSmallIntegerField [(''choices'', Choices [(Number 2, ''2 days''), (Number 3, ''3 days''),
        (Number 7, ''7 days'')]), (''default'', Number 7),
        (''help_text'', Text ''Days to keep generated weekly report CSV payloads in the database'')])]\<rparr>"

definition migration_0029 :: migration where
  "migration_0029 = \<lparr>mg_name = ''0029_lock_storm_alerts'',
    mg_dependencies = [On ''0028_report_retention_days''],
    mg_operations = [
      AddField ''notificationsettings'' ''lock_storm_threshold''
        (field PositiveIntegerField [(''default'', Number 100),
        (''help_text'', Text ''Send one compact alert when this many active PID pairs are detected; 0 disables it'')]),
      AddField ''locknotificationstate'' ''storm_active'' (field BooleanField [(''default'', Bool False)])]\<rparr>"

definition migration_0030 :: migration where
  "migration_0030 = \<lparr>mg_name = ''0030_user_instance_access'',
    mg_dependencies = [On ''0029_lock_storm_alerts'', On_user_model],
    mg_operations = [
      CreateModel ''UserInstanceAccess'' [
         (''id'', field BigAutoField [(''auto_created'', Bool True), (''primary_key'', Bool True),
           (''serialize'', Bool False), (''verbose_name'', Text ''ID'')]),
         (''role'', field CharField [(''choices'', Choices [(Text ''readonly'', ''Read-only''),
           (Text ''operator'', ''Operator'')]), (''max_length'', Number 16)]),
         (''created_at'', field DateTimeField [(''auto_now_add'', Bool True)]),
         (''instance'', field ForeignKey [(''on_delete'', Ref ''CASCADE''),
           (''related_name'', Text ''user_access_grants''), (''to'', Text ''monitor.rdsinstance'')]),
         (''user'', field ForeignKey [(''on_delete'', Ref ''CASCADE''),
           (''related_name'', Text ''instance_access_grants''), (''to'', Ref ''settings.AUTH_USER_MODEL'')])]
         (no_meta\<lparr>mt_ordering := [''instance__name'']\<rparr>),
      AddConstraint ''userinstanceaccess''
        (unique ''unique_user_instance_access'' [''user'', ''instance''] None)]\<rparr>"

definition migration_0031 :: migration where
  "migration_0031 = \<lparr>mg_name = ''0031_user_instance_access_scope'',
    mg_dependencies = [On ''0030_user_instance_access'', On_user_model],
    mg_operations = [
      CreateModel ''UserInstanceAccessScope'' [
         (''id'', field BigAutoField [(''auto_created'', Bool True), (''primary_key'', Bool True),
           (''serialize'', Bool False), (''verbose_name'', Text ''ID'')]),
         (''configured_at'', field DateTimeField [(''auto_now'', Bool True)]),
         (''user'', field OneToOneField [(''on_delete'', Ref ''CASCADE''),
           (''related_name'', Text ''instance_access_scope''), (''to'', Ref ''settings.AUTH_USER_MODEL'')])]
         no_meta]\<rparr>"

definition migration_0032 :: migration where
  "migration_0032 = \<lparr>mg_name = ''0032_lock_control_enabled'',
    mg_dependencies = [On ''0031_user_instance_access_scope''],
    mg_operations = [
      AddField ''rdsinstance'' ''lock_control_enabled'' (field BooleanField [(''default'', Bool False),
        (''help_text'', Text ''Allow the dedicated lock-control credentials to be used; Administrator-only setting'')])]\<rparr>"

definition migration_0033 :: migration where
  "migration_0033 = \<lparr>mg_name = ''0033_rdsinstance_engine'',
    mg_dependencies = [On ''0032_lock_control_enabled''],
    mg_operations = [
      AddField ''rdsinstance'' ''engine'' (field CharField [(''choices'',
        Choices [(Text ''postgresql'', ''PostgreSQL''), (Text ''mysql'', ''MySQL''),
        (Text ''mariadb'', ''MariaDB'')]), (''default'', Text ''postgresql''), (''max_length'', Number 16)])]\<rparr>"

definition migration_0034 :: migration where
  "migration_0034 = \<lparr>mg_name = ''0034_userinstanceaccess_can_manage_notifications'',
    mg_dependencies = [On ''0033_rdsinstance_engine''],
    mg_operations = [
      AddField ''userinstanceaccess'' ''can_manage_notifications'' (field BooleanField [(''default'', Bool False),
        (''help_text'', Text ''Allow this operator to change the instance Teams notification settings'')])]\<rparr>"

definition migration_0035 :: migration where
  "migration_0035 = \<lparr>mg_name = ''0035_alter_userinstanceaccess_notification_permission'',
    mg_dependencies = [On ''0034_userinstanceaccess_can_manage_notifications''],
    mg_operations = [
      AlterField ''userinstanceaccess'' ''can_manage_notifications''
        (field BooleanField [(''default'', Bool False),
        (''help_text'', Text ''Allow this operator to disable global Teams notifications for the instance'')])]\<rparr>"

definition migration_0036 :: migration where
  "migration_0036 = \<lparr>mg_name = ''0036_global_notification_permission'',
    mg_dependencies = [On ''0035_alter_userinstanceaccess_notification_permission''],
    mg_operations = [
      AddField ''userinstanceaccessscope'' ''can_manage_global_notifications''
        (field BooleanField [(''default'', Bool False),
        (''help_text'', Text ''Allow this operator to manage global notification settings'')])]\<rparr>"

definition migration_0037 :: migration where
  "migration_0037 = \<lparr>mg_name = ''0037_owner_webhook_permission_help'',
    mg_dependencies = [On ''0036_global_notification_permission''],
    mg_operations = [
      AlterField ''userinstanceaccess'' ''can_manage_notifications''
        (field BooleanField [(''default'', Bool False),
        (''help_text'', Text ''Allow this operator to manage the instance owner Teams webhook'')])]\<rparr>"

definition migration_0038 :: migration where
  "migration_0038 = \<lparr>mg_name = ''0038_rdsinstance_connection_group'',
    mg_dependencies = [On ''0037_owner_webhook_permission_help''],
    mg_operations = [
      AddField ''rdsinstance'' ''connection_group'' (field UUIDField [(''default'', Ref ''uuid.uuid4''),
        (''editable'', Bool False), (''db_index'', Bool True)])]\<rparr>"

definition migration_0039 :: migration where
  "migration_0039 = \<lparr>mg_name = ''0039_group_legacy_instances'',
    mg_dependencies = [On ''0038_rdsinstance_connection_group''],
    mg_operations = [
      RunPython ''group_legacy_instances'']\<rparr>"

definition migration_0040 :: migration where
  "migration_0040 = \<lparr>mg_name = ''0040_alter_rdsinstance_engine'',
    mg_dependencies = [On ''0039_group_legacy_instances''],
    mg_operations = [
      AlterField ''rdsinstance'' ''engine'' (field CharField [(''choices'',
        Choices [(Text ''postgresql'', ''PostgreSQL''), (Text ''mysql'', ''MySQL''),
        (Text ''mariadb'', ''MariaDB''), (Text ''mssql'', ''MSSQL'')]), (''default'', Text ''postgresql''),
        (''max_length'', Number 16)])]\<rparr>"

definition migration_0041 :: migration where
  "migration_0041 = \<lparr>mg_name = ''0041_rdsinstance_query_runner_enabled_and_more'',
    mg_dependencies = [On ''0040_alter_rdsinstance_engine'', On_user_model],
    mg_operations = [
      AddField ''rdsinstance'' ''query_runner_enabled'' (field BooleanField [(''default'', Bool False),
        (''help_text'', Text ''Allow the dedicated query-runner credentials to execute ad-hoc INSERT/UPDATE statements; Administrator-only setting'')]),
      AddField ''rdsinstance'' ''query_runner_password_encrypted'' (field CharField [(''blank'', Bool True),
        (''help_text'', Text ''Fernet-encrypted query-runner role password''), (''max_length'', Number 512)]),
      AddField ''rdsinstance'' ''query_runner_username'' (field CharField [(''blank'', Bool True),
        (''help_text'', Text ''Dedicated DB role used only for ad-hoc INSERT/UPDATE execution''),
        (''max_length'', Number 255)]),
      AlterField ''auditlog'' ''action'' (field CharField [(''choices'',
        Choices [(Text ''kill_session'', ''Kill session''), (Text ''kill_chain'', ''Kill blocking chain''),
        (Text ''bulk_kill'', ''Bulk kill selected''),
        (Text ''kill_replication_slot'', ''Kill replication slot backend''),
        (Text ''drop_replication_slot'', ''Drop replication slot''), (Text ''add_instance'', ''Add instance''),
        (Text ''remove_instance'', ''Remove instance''), (Text ''rename_instance'', ''Rename instance''),
        (Text ''update_slot_permissions'', ''Update replication-slot permissions''),
        (Text ''run_query'', ''Run query'')]), (''max_length'', Number 32)]),
      CreateModel ''QueryRunnerGrant'' [
         (''id'', field BigAutoField [(''auto_created'', Bool True), (''primary_key'', Bool True),
           (''serialize'', Bool False), (''verbose_name'', Text ''ID'')]),
         (''created_at'', field DateTimeField [(''auto_now_add'', Bool True)]),
         (''granted_by'', field ForeignKey [(''blank'', Bool True), (''null'', Bool True),
           (''on_delete'', Ref ''SET_NULL''), (''related_name'', Text ''+''),
           (''to'', Ref ''settings.AUTH_USER_MODEL'')]),
         (''instance'', field ForeignKey [(''on_delete'', Ref ''CASCADE''),
           (''related_name'', Text ''query_runner_grants''), (''to'', Text ''monitor.rdsinstance'')]),
         (''user'', field ForeignKey [(''on_delete'', Ref ''CASCADE''),
           (''related_name'', Text ''query_runner_grants''), (''to'', Ref ''settings.AUTH_USER_MODEL'')])]
         (no_meta\<lparr>mt_ordering := [''instance__name''],
           mt_constraints := [unique ''unique_user_query_runner_grant'' [''user'', ''instance''] None]\<rparr>)]\<rparr>"

definition migration_0042 :: migration where
  "migration_0042 = \<lparr>mg_name = ''0042_queryrunnerexecution'',
    mg_dependencies = [On ''0041_rdsinstance_query_runner_enabled_and_more'', On_user_model],
    mg_operations = [
      CreateModel ''QueryRunnerExecution'' [
         (''id'', field BigAutoField [(''auto_created'', Bool True), (''primary_key'', Bool True),
           (''serialize'', Bool False), (''verbose_name'', Text ''ID'')]),
         (''sql'', field TextField []),
         (''status'', field CharField [(''choices'', Choices [(Text ''pending'', ''Pending commit''),
           (Text ''committed'', ''Committed''), (Text ''discarded'', ''Discarded''),
           (Text ''failed'', ''Failed'')]), (''default'', Text ''pending''), (''max_length'', Number 16)]),
         (''rows_affected'', field IntegerField [(''blank'', Bool True), (''null'', Bool True)]),
         (''error'', field TextField [(''blank'', Bool True)]),
         (''previewed_at'', field DateTimeField [(''auto_now_add'', Bool True)]),
         (''resolved_at'', field DateTimeField [(''blank'', Bool True), (''null'', Bool True)]),
         (''instance'', field ForeignKey [(''on_delete'', Ref ''CASCADE''),
           (''related_name'', Text ''query_runner_executions''), (''to'', Text ''monitor.rdsinstance'')]),
         (''user'', field ForeignKey [(''blank'', Bool True), (''null'', Bool True),
           (''on_delete'', Ref ''SET_NULL''), (''related_name'', Text ''query_runner_executions''),
           (''to'', Ref ''settings.AUTH_USER_MODEL'')])]
         (no_meta\<lparr>mt_ordering := [''-previewed_at'']\<rparr>)]\<rparr>"

definition migrations :: "migration list" where
  "migrations = [
    migration_0001, migration_0002, migration_0003, migration_0004, migration_0005, migration_0006,
    migration_0007, migration_0008, migration_0009, migration_0010, migration_0011, migration_0012,
    migration_0013, migration_0014, migration_0015, migration_0016, migration_0017, migration_0018,
    migration_0019, migration_0020, migration_0021, migration_0022, migration_0023, migration_0024,
    migration_0025, migration_0026, migration_0027, migration_0028, migration_0029, migration_0030,
    migration_0031, migration_0032, migration_0033, migration_0034, migration_0035, migration_0036,
    migration_0037, migration_0038, migration_0039, migration_0040, migration_0041, migration_0042]"

section \<open>The declared models\<close>

text \<open>
  Every model gets the primary key of \<open>DEFAULT_AUTO_FIELD\<close>; a relation to a class of the application is
  one to its label, and the constants of a class body are written out where they are used.
\<close>

definition default_id :: "string \<times> column" where
  "default_id = (''id'', field BigAutoField [(''auto_created'', Bool True), (''primary_key'', Bool True),
     (''serialize'', Bool False), (''verbose_name'', Text ''ID'')])"

definition declare_model :: "string \<Rightarrow> (string \<times> column) list \<Rightarrow> meta \<Rightarrow> string \<times> model" where
  "declare_model name fs mt = (lower name, \<lparr>md_fields = default_id # fs, md_meta = mt\<rparr>)"

definition declared_rds_instance :: "string \<times> model" where
  "declared_rds_instance = declare_model ''RDSInstance'' [
      (''name'', field CharField [(''max_length'', Number 100), (''help_text'', Text ''Friendly display name'')]),
      (''connection_group'', field UUIDField [(''default'', Ref ''uuid.uuid4''), (''editable'', Bool False),
        (''db_index'', Bool True)]),
      (''engine'', field CharField [(''max_length'', Number 16),
        (''choices'', Choices [(Text ''postgresql'', ''PostgreSQL''), (Text ''mysql'', ''MySQL''),
        (Text ''mariadb'', ''MariaDB''), (Text ''mssql'', ''MSSQL'')]), (''default'', Text ''postgresql'')]),
      (''db_identifier'', field CharField [(''max_length'', Number 255),
        (''help_text'', Text ''RDS DBInstanceIdentifier'')]),
      (''region'', field CharField [(''max_length'', Number 32), (''default'', Text ''us-east-1'')]),
      (''host'', field CharField [(''max_length'', Number 255), (''help_text'', Text ''RDS endpoint address'')]),
      (''port'', field PositiveIntegerField [(''default'', Number 5432)]),
      (''db_name'', field CharField [(''max_length'', Number 255)]),
      (''username'', field CharField [(''max_length'', Number 255), (''help_text'', Text ''DB login username'')]),
      (''lock_control_enabled'', field BooleanField [(''default'', Bool False),
        (''help_text'', Text ''Allow the dedicated lock-control credentials to be used; Administrator-only setting'')]),
      (''control_username'', field CharField [(''max_length'', Number 255), (''blank'', Bool True),
        (''help_text'', Text ''Optional dedicated monitoring/kill role; falls back to DB login username'')]),
      (''owner_teams_webhook_url'', field URLField [(''max_length'', Number 2048), (''blank'', Bool True),
        (''help_text'', Text ''Teams Workflow webhook for this database owner'')]),
      (''exclude_from_global_notifications'', field BooleanField [(''default'', Bool False),
        (''help_text'', Text ''Do not send real-time lock/query alerts to the shared/global Teams channel; weekly reports remain included'')]),
      (''password_encrypted'', field CharField [(''max_length'', Number 512),
        (''help_text'', Text ''Fernet-encrypted DB login password'')]),
      (''control_password_encrypted'', field CharField [(''max_length'', Number 512), (''blank'', Bool True),
        (''help_text'', Text ''Fernet-encrypted control role password'')]),
      (''query_runner_enabled'', field BooleanField [(''default'', Bool False),
        (''help_text'', Text ''Allow the dedicated query-runner credentials to execute ad-hoc INSERT/UPDATE statements; Administrator-only setting'')]),
      (''query_runner_username'', field CharField [(''max_length'', Number 255), (''blank'', Bool True),
        (''help_text'', Text ''Dedicated DB role used only for ad-hoc INSERT/UPDATE execution'')]),
      (''query_runner_password_encrypted'', field CharField [(''max_length'', Number 512), (''blank'', Bool True),
        (''help_text'', Text ''Fernet-encrypted query-runner role password'')]),
      (''ssl_required'', field BooleanField [(''default'', Bool True),
        (''help_text'', Text ''Uncheck for local/dev Postgres without SSL'')]),
      (''is_active'', field BooleanField [(''default'', Bool True)]),
      (''added_by'', field ForeignKey [(''to'', Ref ''settings.AUTH_USER_MODEL''),
        (''on_delete'', Ref ''SET_NULL''), (''null'', Bool True), (''blank'', Bool True)]),
      (''created_at'', field DateTimeField [(''auto_now_add'', Bool True)])]
    (no_meta\<lparr>mt_ordering := [''name'']\<rparr>)"

definition declared_query_runner_grant :: "string \<times> model" where
  "declared_query_runner_grant = declare_model ''QueryRunnerGrant'' [
      (''user'', field ForeignKey [(''to'', Ref ''settings.AUTH_USER_MODEL''), (''on_delete'', Ref ''CASCADE''),
        (''related_name'', Text ''query_runner_grants'')]),
      (''instance'', field ForeignKey [(''to'', Text (label ''RDSInstance'')), (''on_delete'', Ref ''CASCADE''),
        (''related_name'', Text ''query_runner_grants'')]),
      (''granted_by'', field ForeignKey [(''to'', Ref ''settings.AUTH_USER_MODEL''),
        (''on_delete'', Ref ''SET_NULL''), (''null'', Bool True), (''blank'', Bool True),
        (''related_name'', Text ''+'')]),
      (''created_at'', field DateTimeField [(''auto_now_add'', Bool True)])]
    (no_meta\<lparr>mt_ordering := [''instance__name''],
      mt_constraints := [unique ''unique_user_query_runner_grant'' [''user'', ''instance''] None]\<rparr>)"

definition declared_query_runner_execution :: "string \<times> model" where
  "declared_query_runner_execution = declare_model ''QueryRunnerExecution'' [
      (''instance'', field ForeignKey [(''to'', Text (label ''RDSInstance'')), (''on_delete'', Ref ''CASCADE''),
        (''related_name'', Text ''query_runner_executions'')]),
      (''user'', field ForeignKey [(''to'', Ref ''settings.AUTH_USER_MODEL''), (''on_delete'', Ref ''SET_NULL''),
        (''null'', Bool True), (''blank'', Bool True), (''related_name'', Text ''query_runner_executions'')]),
      (''sql'', field TextField []),
      (''status'', field CharField [(''max_length'', Number 16),
        (''choices'', Choices [(Text ''pending'', ''Pending commit''), (Text ''committed'', ''Committed''),
        (Text ''discarded'', ''Discarded''), (Text ''failed'', ''Failed'')]), (''default'', Text ''pending'')]),
      (''rows_affected'', field IntegerField [(''null'', Bool True), (''blank'', Bool True)]),
      (''error'', field TextField [(''blank'', Bool True)]),
      (''previewed_at'', field DateTimeField [(''auto_now_add'', Bool True)]),
      (''resolved_at'', field DateTimeField [(''null'', Bool True), (''blank'', Bool True)])]
    (no_meta\<lparr>mt_ordering := [''-previewed_at'']\<rparr>)"

definition declared_user_instance_access :: "string \<times> model" where
  "declared_user_instance_access = declare_model ''UserInstanceAccess'' [
      (''user'', field ForeignKey [(''to'', Ref ''settings.AUTH_USER_MODEL''), (''on_delete'', Ref ''CASCADE''),
        (''related_name'', Text ''instance_access_grants'')]),
      (''instance'', field ForeignKey [(''to'', Text (label ''RDSInstance'')), (''on_delete'', Ref ''CASCADE''),
        (''related_name'', Text ''user_access_grants'')]),
      (''role'', field CharField [(''max_length'', Number 16),
        (''choices'', Choices [(Text ''readonly'', ''Read-only''), (Text ''operator'', ''Operator'')])]),
      (''can_manage_notifications'', field BooleanField [(''default'', Bool False),
        (''help_text'', Text ''Allow this operator to manage the instance owner Teams webhook'')]),
      (''created_at'', field DateTimeField [(''auto_now_add'', Bool True)])]
    (no_meta\<lparr>mt_ordering := [''instance__name''],
      mt_constraints := [unique ''unique_user_instance_access'' [''user'', ''instance''] None]\<rparr>)"

definition declared_user_instance_access_scope :: "string \<times> model" where
  "declared_user_instance_access_scope = declare_model ''UserInstanceAccessScope'' [
      (''user'', field OneToOneField [(''to'', Ref ''settings.AUTH_USER_MODEL''),
        (''on_delete'', Ref ''CASCADE''), (''related_name'', Text ''instance_access_scope'')]),
      (''can_manage_global_notifications'', field BooleanField [(''default'', Bool False),
        (''help_text'', Text ''Allow this operator to manage global notification settings'')]),
      (''configured_at'', field DateTimeField [(''auto_now'', Bool True)])]
    no_meta"

definition declared_audit_log :: "string \<times> model" where
  "declared_audit_log = declare_model ''AuditLog'' [
      (''instance'', field ForeignKey [(''to'', Text (label ''RDSInstance'')), (''on_delete'', Ref ''SET_NULL''),
        (''null'', Bool True), (''blank'', Bool True), (''related_name'', Text ''audit_logs'')]),
      (''instance_name'', field CharField [(''max_length'', Number 100), (''blank'', Bool True)]),
      (''action'', field CharField [(''max_length'', Number 32),
        (''choices'', Choices [(Text ''kill_session'', ''Kill session''),
        (Text ''kill_chain'', ''Kill blocking chain''), (Text ''bulk_kill'', ''Bulk kill selected''),
        (Text ''kill_replication_slot'', ''Kill replication slot backend''),
        (Text ''drop_replication_slot'', ''Drop replication slot''), (Text ''add_instance'', ''Add instance''),
        (Text ''remove_instance'', ''Remove instance''), (Text ''rename_instance'', ''Rename instance''),
        (Text ''update_slot_permissions'', ''Update replication-slot permissions''),
        (Text ''run_query'', ''Run query'')])]),
      (''target_pid'', field IntegerField [(''null'', Bool True), (''blank'', Bool True)]),
      (''target_query'', field TextField [(''blank'', Bool True)]),
      (''performed_by'', field ForeignKey [(''to'', Ref ''settings.AUTH_USER_MODEL''),
        (''on_delete'', Ref ''SET_NULL''), (''null'', Bool True), (''blank'', Bool True)]),
      (''performed_at'', field DateTimeField [(''auto_now_add'', Bool True)]),
      (''result'', field CharField [(''max_length'', Number 16),
        (''choices'', Choices [(Text ''success'', ''Success''), (Text ''failed'', ''Failed'')])]),
      (''detail'', field TextField [(''blank'', Bool True)])]
    (no_meta\<lparr>mt_ordering := [''-performed_at'']\<rparr>)"

definition declared_lock_alert :: "string \<times> model" where
  "declared_lock_alert = declare_model ''LockAlert'' [
      (''instance'', field ForeignKey [(''to'', Text (label ''RDSInstance'')), (''on_delete'', Ref ''CASCADE''),
        (''related_name'', Text ''lock_alerts'')]),
      (''alert_key'', field CharField [(''max_length'', Number 255)]),
      (''blocked_pid'', field IntegerField []),
      (''blocking_pid'', field IntegerField []),
      (''blocked_user'', field CharField [(''max_length'', Number 255), (''blank'', Bool True)]),
      (''blocking_user'', field CharField [(''max_length'', Number 255), (''blank'', Bool True)]),
      (''blocked_query'', field TextField [(''blank'', Bool True)]),
      (''blocking_query'', field TextField [(''blank'', Bool True)]),
      (''waiting_seconds'', field PositiveIntegerField [(''default'', Number 0)]),
      (''first_seen_at'', field DateTimeField []),
      (''last_seen_at'', field DateTimeField []),
      (''alerted_at'', field DateTimeField [(''null'', Bool True), (''blank'', Bool True)]),
      (''resolved_at'', field DateTimeField [(''null'', Bool True), (''blank'', Bool True)]),
      (''clear_reason'', field CharField [(''max_length'', Number 32), (''blank'', Bool True)]),
      (''cleared_by'', field CharField [(''max_length'', Number 150), (''blank'', Bool True)])]
    (no_meta\<lparr>mt_indexes := [\<lparr>ix_name = [], ix_fields = [''instance'', ''resolved_at'']\<rparr>, \<lparr>ix_name = [], ix_fields = [''alert_key'']\<rparr>], mt_constraints := [unique ''unique_active_lock_alert'' [''instance'', ''alert_key''] (Some (''resolved_at__isnull'', Bool True))]\<rparr>)"

definition declared_lock_notification_state :: "string \<times> model" where
  "declared_lock_notification_state = declare_model ''LockNotificationState'' [
      (''instance'', field OneToOneField [(''to'', Text (label ''RDSInstance'')),
        (''on_delete'', Ref ''CASCADE''), (''related_name'', Text ''lock_notification_state'')]),
      (''last_fingerprint'', field CharField [(''max_length'', Number 64), (''blank'', Bool True)]),
      (''last_active_keys'', field JSONField [(''default'', Ref ''list'')]),
      (''last_sent_at'', field DateTimeField [(''null'', Bool True), (''blank'', Bool True)]),
      (''storm_active'', field BooleanField [(''default'', Bool False)])]
    no_meta"

definition declared_notification_settings :: "string \<times> model" where
  "declared_notification_settings = declare_model ''NotificationSettings'' [
      (''channel_webhook_url'', field URLField [(''max_length'', Number 2048), (''blank'', Bool True),
        (''help_text'', Text ''Shared Teams channel Workflow webhook'')]),
      (''threshold_seconds'', field PositiveIntegerField [(''default'', Number 120)]),
      (''interval_seconds'', field PositiveIntegerField [(''default'', Number 30)]),
      (''lock_storm_threshold'', field PositiveIntegerField [(''default'', Number 100),
        (''help_text'', Text ''Send one compact alert when this many active PID pairs are detected; 0 disables it'')]),
      (''notification_schedule_enabled'', field BooleanField [(''default'', Bool False),
        (''help_text'', Text ''Only send lock notifications during the configured IST window'')]),
      (''notification_start_time'', field TimeField [(''default'', Time_of_day 9 0)]),
      (''notification_end_time'', field TimeField [(''default'', Time_of_day 21 0)]),
      (''manual_query_alert_enabled'', field BooleanField [(''default'', Bool False),
        (''help_text'', Text ''Alert when non-excluded users run active queries beyond the threshold'')]),
      (''manual_query_threshold_seconds'', field PositiveIntegerField [(''default'', Number 60)]),
      (''manual_query_excluded_users'', field TextField [(''default'', Text ''applms,applos''),
        (''help_text'', Text ''Comma-separated database usernames excluded from long-query alerts'')]),
      (''weekly_report_enabled'', field BooleanField [(''default'', Bool False)]),
      (''weekly_report_day'', field PositiveSmallIntegerField [(''default'', Number 0),
        (''help_text'', Text ''0=Monday through 6=Sunday'')]),
      (''weekly_report_hour'', field PositiveSmallIntegerField [(''default'', Number 9),
        (''help_text'', Text ''Hour in IST, 0-23'')]),
      (''report_base_url'', field URLField [(''max_length'', Number 2048), (''blank'', Bool True),
        (''help_text'', Text ''Public dashboard URL used to create signed CSV links for Teams'')]),
      (''report_retention_days'', field PositiveSmallIntegerField [(''default'', Number 7),
        (''choices'', Choices [(Number 2, ''2 days''), (Number 3, ''3 days''), (Number 7, ''7 days'')]),
        (''help_text'', Text ''Days to keep generated weekly report CSV payloads in the database'')]),
      (''resolved_alert_retention_days'', field PositiveIntegerField [(''default'', Number 30),
        (''help_text'', Text ''Days to keep resolved lock incidents in the dashboard database'')]),
      (''last_cleanup_at'', field DateTimeField [(''null'', Bool True), (''blank'', Bool True)]),
      (''last_weekly_report_at'', field DateTimeField [(''null'', Bool True), (''blank'', Bool True)]),
      (''updated_at'', field DateTimeField [(''auto_now'', Bool True)])]
    (no_meta\<lparr>mt_verbose_name := ''Notification settings'',
      mt_verbose_name_plural := ''Notification settings''\<rparr>)"

definition declared_dashboard_link :: "string \<times> model" where
  "declared_dashboard_link = declare_model ''DashboardLink'' [
      (''name'', field CharField [(''max_length'', Number 100)]),
      (''url'', field URLField [(''max_length'', Number 2048)]),
      (''description'', field CharField [(''max_length'', Number 255), (''blank'', Bool True)]),
      (''category'', field CharField [(''max_length'', Number 80), (''blank'', Bool True)]),
      (''sort_order'', field PositiveIntegerField [(''default'', Number 0)]),
      (''is_active'', field BooleanField [(''default'', Bool True)]),
      (''created_by'', field ForeignKey [(''to'', Ref ''settings.AUTH_USER_MODEL''),
        (''on_delete'', Ref ''SET_NULL''), (''null'', Bool True), (''blank'', Bool True),
        (''related_name'', Text ''created_dashboard_links'')]),
      (''created_at'', field DateTimeField [(''auto_now_add'', Bool True)]),
      (''updated_at'', field DateTimeField [(''auto_now'', Bool True)])]
    (no_meta\<lparr>mt_ordering := [''sort_order'', ''name'']\<rparr>)"

definition declared_replication_slot_access :: "string \<times> model" where
  "declared_replication_slot_access = declare_model ''ReplicationSlotAccess'' [
      (''user'', field OneToOneField [(''to'', Ref ''settings.AUTH_USER_MODEL''),
        (''on_delete'', Ref ''CASCADE''), (''related_name'', Text ''replication_slot_access'')]),
      (''can_drop'', field BooleanField [(''default'', Bool False)]),
      (''can_terminate'', field BooleanField [(''default'', Bool False)])]
    no_meta"

definition declared_user_mfa :: "string \<times> model" where
  "declared_user_mfa = declare_model ''UserMFA'' [
      (''user'', field OneToOneField [(''to'', Ref ''settings.AUTH_USER_MODEL''),
        (''on_delete'', Ref ''CASCADE''), (''related_name'', Text ''mfa_profile'')]),
      (''secret_encrypted'', field CharField [(''max_length'', Number 512), (''blank'', Bool True)]),
      (''backup_codes'', field JSONField [(''default'', Ref ''list'')]),
      (''pending_backup_codes_encrypted'', field CharField [(''max_length'', Number 2048), (''blank'', Bool True)]),
      (''enabled'', field BooleanField [(''default'', Bool False)]),
      (''confirmed_at'', field DateTimeField [(''null'', Bool True), (''blank'', Bool True)]),
      (''created_at'', field DateTimeField [(''auto_now_add'', Bool True)]),
      (''updated_at'', field DateTimeField [(''auto_now'', Bool True)])]
    (no_meta\<lparr>mt_verbose_name := ''User MFA'', mt_verbose_name_plural := ''User MFA''\<rparr>)"

definition declared_long_query_alert :: "string \<times> model" where
  "declared_long_query_alert = declare_model ''LongQueryAlert'' [
      (''instance'', field ForeignKey [(''to'', Text (label ''RDSInstance'')), (''on_delete'', Ref ''CASCADE''),
        (''related_name'', Text ''long_query_alerts'')]),
      (''alert_key'', field CharField [(''max_length'', Number 255)]),
      (''pid'', field IntegerField []),
      (''username'', field CharField [(''max_length'', Number 255), (''blank'', Bool True)]),
      (''application_name'', field CharField [(''max_length'', Number 255), (''blank'', Bool True)]),
      (''client_addr'', field CharField [(''max_length'', Number 255), (''blank'', Bool True)]),
      (''query'', field TextField [(''blank'', Bool True)]),
      (''query_start'', field DateTimeField [(''null'', Bool True), (''blank'', Bool True)]),
      (''duration_seconds'', field PositiveIntegerField [(''default'', Number 0)]),
      (''first_seen_at'', field DateTimeField []),
      (''last_seen_at'', field DateTimeField []),
      (''alerted_at'', field DateTimeField [(''null'', Bool True), (''blank'', Bool True)]),
      (''resolved_at'', field DateTimeField [(''null'', Bool True), (''blank'', Bool True)])]
    (no_meta\<lparr>mt_indexes := [\<lparr>ix_name = [], ix_fields = [''instance'', ''resolved_at'']\<rparr>, \<lparr>ix_name = [], ix_fields = [''alert_key'']\<rparr>], mt_constraints := [unique ''unique_active_long_query_alert'' [''instance'', ''alert_key''] (Some (''resolved_at__isnull'', Bool True))]\<rparr>)"

definition declared_lock_report :: "string \<times> model" where
  "declared_lock_report = declare_model ''LockReport'' [
      (''file_name'', field CharField [(''max_length'', Number 255)]),
      (''csv_content'', field TextField []),
      (''created_at'', field DateTimeField [(''auto_now_add'', Bool True)]),
      (''expires_at'', field DateTimeField [])]
    (no_meta\<lparr>mt_indexes := [\<lparr>ix_name = [], ix_fields = [''expires_at'']\<rparr>]\<rparr>)"

definition declared_monitor_lease :: "string \<times> model" where
  "declared_monitor_lease = declare_model ''MonitorLease'' [
      (''owner_id'', field CharField [(''max_length'', Number 64), (''blank'', Bool True)]),
      (''lease_until'', field DateTimeField [(''null'', Bool True), (''blank'', Bool True)])]
    no_meta"

definition declared_schema :: schema where
  "declared_schema = [
    declared_rds_instance, declared_query_runner_grant, declared_query_runner_execution,
    declared_user_instance_access, declared_user_instance_access_scope, declared_audit_log,
    declared_lock_alert, declared_lock_notification_state, declared_notification_settings,
    declared_dashboard_link, declared_replication_slot_access, declared_user_mfa,
    declared_long_query_alert, declared_lock_report, declared_monitor_lease]"

end
