(* ===== verification/Schema_Values.thy ===== *)
theory Schema_Values
  imports Schema
begin

text \<open>
  The cells a column admits, the changes of a column that keep every admitted cell admitted, and what
  a history of such changes means for the rows stored before it.
\<close>

datatype cell = Null | Truth bool | Whole int | Chars string | Moment int | Clock nat nat | Json string | Uuid int

fun arg_cell :: "arg \<Rightarrow> cell option" where
  "arg_cell (Bool b) = Some (Truth b)"
| "arg_cell (Number n) = Some (Whole n)"
| "arg_cell (Text t) = Some (Chars t)"
| "arg_cell (Time_of_day h m) = Some (Clock h m)"
| "arg_cell (Ref n) = None"
| "arg_cell (Choices cs) = None"

text \<open>The declared length of a text column, with the framework's defaults for addresses.\<close>

definition length_limit :: "column \<Rightarrow> int" where
  "length_limit c = (case f_arg c ''max_length'' of Some (Number n) \<Rightarrow> n
     | _ \<Rightarrow> if f_kind c = EmailField then 254 else if f_kind c = URLField then 200 else 0)"

definition kind_admits :: "column \<Rightarrow> cell \<Rightarrow> bool" where
  "kind_admits c v = (case f_kind c of
       BigAutoField \<Rightarrow> (case v of Whole i \<Rightarrow> - (2 ^ 63) \<le> i \<and> i < 2 ^ 63 | _ \<Rightarrow> False)
     | BooleanField \<Rightarrow> (case v of Truth b \<Rightarrow> True | _ \<Rightarrow> False)
     | CharField \<Rightarrow> (case v of Chars t \<Rightarrow> int (length t) \<le> length_limit c | _ \<Rightarrow> False)
     | EmailField \<Rightarrow> (case v of Chars t \<Rightarrow> int (length t) \<le> length_limit c | _ \<Rightarrow> False)
     | URLField \<Rightarrow> (case v of Chars t \<Rightarrow> int (length t) \<le> length_limit c | _ \<Rightarrow> False)
     | TextField \<Rightarrow> (case v of Chars t \<Rightarrow> True | _ \<Rightarrow> False)
     | IntegerField \<Rightarrow> (case v of Whole i \<Rightarrow> - (2 ^ 31) \<le> i \<and> i < 2 ^ 31 | _ \<Rightarrow> False)
     | PositiveIntegerField \<Rightarrow> (case v of Whole i \<Rightarrow> 0 \<le> i \<and> i < 2 ^ 31 | _ \<Rightarrow> False)
     | PositiveSmallIntegerField \<Rightarrow> (case v of Whole i \<Rightarrow> 0 \<le> i \<and> i < 2 ^ 15 | _ \<Rightarrow> False)
     | DateTimeField \<Rightarrow> (case v of Moment t \<Rightarrow> True | _ \<Rightarrow> False)
     | TimeField \<Rightarrow> (case v of Clock h m \<Rightarrow> h < 24 \<and> m < 60 | _ \<Rightarrow> False)
     | JSONField \<Rightarrow> (case v of Json t \<Rightarrow> True | _ \<Rightarrow> False)
     | UUIDField \<Rightarrow> (case v of Uuid n \<Rightarrow> 0 \<le> n \<and> n < 2 ^ 128 | _ \<Rightarrow> False)
     | ForeignKey \<Rightarrow> (case v of Whole i \<Rightarrow> True | _ \<Rightarrow> False)
     | OneToOneField \<Rightarrow> (case v of Whole i \<Rightarrow> True | _ \<Rightarrow> False))"

fun choice_args :: "arg option \<Rightarrow> arg list option" where
  "choice_args (Some (Choices cs)) = Some (List.map fst cs)"
| "choice_args _ = None"

definition choices_admit :: "column \<Rightarrow> cell \<Rightarrow> bool" where
  "choices_admit c v = (case choice_args (f_arg c ''choices'') of None \<Rightarrow> True
     | Some as \<Rightarrow> Some v \<in> arg_cell ` set as)"

definition admits :: "column \<Rightarrow> cell \<Rightarrow> bool" where
  "admits c v \<longleftrightarrow> (if v = Null then flagged c ''null'' else kind_admits c v \<and> choices_admit c v)"

text \<open>A change of a column that keeps what it admits, decided on the declarations.\<close>

definition widens :: "column \<Rightarrow> column \<Rightarrow> bool" where
  "widens c d \<longleftrightarrow> f_kind c = f_kind d \<and> (flagged c ''null'' \<longrightarrow> flagged d ''null'')
     \<and> length_limit c \<le> length_limit d
     \<and> (case choice_args (f_arg d ''choices'') of None \<Rightarrow> True
        | Some new \<Rightarrow> (case choice_args (f_arg c ''choices'') of None \<Rightarrow> False
            | Some old \<Rightarrow> list_all (\<lambda>a. a \<in> set new) old))"

lemma widens_admits:
  assumes "widens c d" and "admits c v"
  shows "admits d v"
proof (cases "v = Null")
  case True
  then show ?thesis using assms by (simp add: widens_def admits_def)
next
  case False
  have "kind_admits d v"
    using assms False by (auto simp: widens_def admits_def kind_admits_def split: field_kind.splits cell.splits)
  moreover have "choices_admit d v"
    using assms False by (auto simp: widens_def admits_def choices_admit_def list_all_iff split: option.splits)
  ultimately show ?thesis using False by (simp add: admits_def)
qed

text \<open>
  What a new column puts into the rows that exist: its default, else null where the column allows it,
  else the empty text of a column that may be blank. A callable default makes a value, \<open>uuid.uuid4\<close>
  the given one.
\<close>

definition fill :: "int \<Rightarrow> column \<Rightarrow> cell option" where
  "fill u c = (case f_arg c ''default'' of
       Some (Ref r) \<Rightarrow> if r = ''uuid.uuid4'' then Some (Uuid u) else if r = ''list'' then Some (Json ''[]'') else None
     | Some a \<Rightarrow> arg_cell a
     | None \<Rightarrow> if flagged c ''null'' then Some Null
         else if flagged c ''blank'' \<and> f_kind c \<in> {CharField, EmailField, URLField, TextField} then Some (Chars []) else None)"

text \<open>
  One pass over the operations on a model: it gives the model's final form, if every operation
  succeeds, every altered column is widened, and only the given columns are removed.
\<close>

fun op_keeps :: "(string \<times> string) list \<Rightarrow> operation \<Rightarrow> model option \<Rightarrow> bool" where
  "op_keeps dropped (AlterField m f c) (Some md) =
     (case map_of (md_fields md) f of None \<Rightarrow> False | Some c0 \<Rightarrow> widens c0 c)"
| "op_keeps dropped (RemoveField m f) r = ((m, f) \<in> set dropped)"
| "op_keeps dropped op r = True"

fun kept_history :: "(string \<times> string) list \<Rightarrow> string \<Rightarrow> operation list \<Rightarrow> model option \<Rightarrow> model option option" where
  "kept_history dropped m [] r = Some r"
| "kept_history dropped m (op # ops) r = (if op_model op = Some m then
     (if op_keeps dropped op r then
        (case apply_to_model op r of Inl e \<Rightarrow> None | Inr r' \<Rightarrow> kept_history dropped m ops r') else None)
     else kept_history dropped m ops r)"

lemma kept_history_model: "kept_history dropped m ops r = Some r' \<Longrightarrow> model_history m ops r = Inr r'"
  by (induction ops arbitrary: r) (auto split: if_splits sum.splits)

lemma kept_history_append:
  "kept_history dropped m (xs @ ys) r =
     (case kept_history dropped m xs r of None \<Rightarrow> None | Some r' \<Rightarrow> kept_history dropped m ys r')"
  by (induction xs arbitrary: r) (auto split: sum.splits)

lemma kept_history_filter:
  "kept_history dropped m (filter (\<lambda>op. op_model op = Some m) ops) r = kept_history dropped m ops r"
  by (induction ops arbitrary: r) (auto split: sum.splits)

lemma apply_to_model_keeps:
  assumes "apply_to_model op (Some md) = Inr r" and "op_keeps dropped op (Some md)" and "op_model op = Some m"
    and "map_of (md_fields md) f = Some c" and "admits c v" and "(m, f) \<notin> set dropped"
  obtains md' c' where "r = Some md'" and "map_of (md_fields md') f = Some c'" and "admits c' v"
proof (cases op)
  case (AddField m' f' c')
  then show ?thesis
    using assms that [of "md\<lparr>md_fields := md_fields md @ [(f', c')]\<rparr>" c]
    by (auto simp: add_field_def map_add_Some_iff split: if_splits)
next
  case (AlterField m' f' c')
  then have r: "r = Some (md\<lparr>md_fields := AList.update f' c' (md_fields md)\<rparr>)"
    using assms(1) by (auto simp: alter_field_def split: if_splits)
  show ?thesis
  proof (cases "f = f'")
    case True
    then have "admits c' v" using AlterField assms(2,4,5) by (auto intro: widens_admits)
    then show ?thesis using r True by (intro that) (auto simp: update_conv')
  next
    case False
    then show ?thesis using that [OF r] assms(4,5) by (simp add: update_conv')
  qed
next
  case (RemoveField m' f')
  then have "f \<noteq> f'" using assms(2,3,6) by auto
  then show ?thesis
    using RemoveField assms(1,4,5) that [of "md\<lparr>md_fields := AList.delete f' (md_fields md)\<rparr>" c]
    by (auto simp: remove_field_def delete_conv' split: if_splits)
next
  case (AddIndex m' ix)
  then show ?thesis using assms that by (auto simp: change_meta_def split: sum.splits)
next
  case (RenameIndex m' old new)
  then show ?thesis using assms that by (auto simp: change_meta_def split: sum.splits)
next
  case (AddConstraint m' u)
  then show ?thesis using assms that by (auto simp: change_meta_def split: sum.splits)
qed (use assms in auto)

lemma kept_history_keeps:
  assumes "kept_history dropped m ops (Some md) = Some r"
    and "map_of (md_fields md) f = Some c" and "admits c v" and "(m, f) \<notin> set dropped"
  obtains md' c' where "r = Some md'" and "map_of (md_fields md') f = Some c'" and "admits c' v"
  using assms
proof (induction ops arbitrary: md c thesis)
  case Nil
  show ?case by (rule Nil.prems(1) [where md' = md and c' = c]) (use Nil.prems in simp_all)
next
  case (Cons op ops)
  show ?case
  proof (cases "op_model op = Some m")
    case True
    then obtain r1 where r1: "op_keeps dropped op (Some md)" "apply_to_model op (Some md) = Inr r1"
        "kept_history dropped m ops r1 = Some r"
      using Cons.prems(2) by (auto split: if_splits sum.splits)
    from apply_to_model_keeps [OF r1(2,1) True Cons.prems(3-5)] obtain md1 c1 where
      "r1 = Some md1" "map_of (md_fields md1) f = Some c1" "admits c1 v" .
    then show ?thesis using Cons.IH [where md = md1 and c = c1] Cons.prems(1,5) r1(3) by blast
  next
    case False
    then show ?thesis using Cons.IH [where md = md and c = c] Cons.prems by auto
  qed
qed

lemma admits_spec: "column_spec c = column_spec d \<Longrightarrow> admits c v = admits d v"
  by (simp add: column_spec_def admits_def kind_admits_def choices_admit_def length_limit_def flagged_def
      split: field_kind.splits cell.splits)

end
