(* ===== verification/Schema_Claims.thy ===== *)
theory Schema_Claims
  imports Schema_History Schema_Values
begin

text \<open>
  What the migrations of \<open>Schema_History\<close> make of an empty database: the models that \<open>monitor/models.py\<close>
  declares, in the only order they can be applied in, and without losing a stored value except in the
  columns removed on purpose. The history is evaluated model by model.
\<close>

section \<open>Evaluating the history\<close>

text \<open>The columns that a migration removes.\<close>

definition dropped_columns :: "(string \<times> string) list" where
  "dropped_columns = [(''rdsinstance'', ''owner_email''), (''notificationsettings'', ''repeat_interval_seconds''),
     (''lockalert'', ''last_notified_at''), (''lockalert'', ''observation_count''),
     (''lockalert'', ''last_notified_fingerprint'')]"

definition operations_on :: "string \<Rightarrow> operation list" where
  "operations_on m = concat (List.map (\<lambda>mg. filter (\<lambda>op. op_model op = Some m) (mg_operations mg)) migrations)"

lemma operations_on: "operations_on m = filter (\<lambda>op. op_model op = Some m) (all_operations migrations)"
  by (simp add: operations_on_def all_operations_def filter_concat o_def)

definition matches :: "string \<Rightarrow> string \<times> model \<Rightarrow> bool" where
  "matches m d \<longleftrightarrow> fst d = m \<and> (case kept_history dropped_columns m (operations_on m) None of
     Some (Some md) \<Rightarrow> same_model md (snd d) | _ \<Rightarrow> False)"

lemma declared_rds_instance_history: "matches ''rdsinstance'' declared_rds_instance" by code_simp
lemma declared_query_runner_grant_history: "matches ''queryrunnergrant'' declared_query_runner_grant" by code_simp
lemma declared_query_runner_execution_history: "matches ''queryrunnerexecution'' declared_query_runner_execution" by code_simp
lemma declared_user_instance_access_history: "matches ''userinstanceaccess'' declared_user_instance_access" by code_simp
lemma declared_user_instance_access_scope_history: "matches ''userinstanceaccessscope'' declared_user_instance_access_scope" by code_simp
lemma declared_audit_log_history: "matches ''auditlog'' declared_audit_log" by code_simp
lemma declared_lock_alert_history: "matches ''lockalert'' declared_lock_alert" by code_simp
lemma declared_lock_notification_state_history: "matches ''locknotificationstate'' declared_lock_notification_state" by code_simp
lemma declared_notification_settings_history: "matches ''notificationsettings'' declared_notification_settings" by code_simp
lemma declared_dashboard_link_history: "matches ''dashboardlink'' declared_dashboard_link" by code_simp
lemma declared_replication_slot_access_history: "matches ''replicationslotaccess'' declared_replication_slot_access" by code_simp
lemma declared_user_mfa_history: "matches ''usermfa'' declared_user_mfa" by code_simp
lemma declared_long_query_alert_history: "matches ''longqueryalert'' declared_long_query_alert" by code_simp
lemma declared_lock_report_history: "matches ''lockreport'' declared_lock_report" by code_simp
lemma declared_monitor_lease_history: "matches ''monitorlease'' declared_monitor_lease" by code_simp

lemma declared_histories: "\<forall>d \<in> set declared_schema. matches (fst d) d"
  using declared_rds_instance_history declared_query_runner_grant_history
    declared_query_runner_execution_history declared_user_instance_access_history
    declared_user_instance_access_scope_history declared_audit_log_history declared_lock_alert_history
    declared_lock_notification_state_history declared_notification_settings_history
    declared_dashboard_link_history declared_replication_slot_access_history declared_user_mfa_history
    declared_long_query_alert_history declared_lock_report_history declared_monitor_lease_history
  by (simp add: declared_schema_def matches_def)

definition model_names :: "string list" where
  "model_names = [''rdsinstance'', ''queryrunnergrant'', ''queryrunnerexecution'', ''userinstanceaccess'', ''userinstanceaccessscope'',
     ''auditlog'', ''lockalert'', ''locknotificationstate'', ''notificationsettings'', ''dashboardlink'',
     ''replicationslotaccess'', ''usermfa'', ''longqueryalert'', ''lockreport'', ''monitorlease'']"

lemma declared_names: "List.map fst declared_schema = model_names"
  by code_simp

lemma mentions: "list_all (\<lambda>mg. list_all (\<lambda>op. case op_model op of None \<Rightarrow> True
    | Some m \<Rightarrow> m \<in> set model_names) (mg_operations mg)) migrations"
  by code_simp

lemma relations: "relations_resolve [] (all_operations migrations)"
  by code_simp

lemma dependencies: "dependencies_met migrations []"
  by code_simp

lemma names_distinct: "distinct (List.map mg_name migrations)" by code_simp

lemma chained: "list_all (\<lambda>p. mg_name (fst p) \<in> set (needs (mg_dependencies (snd p)))) (zip migrations (tl migrations))"
  by code_simp

section \<open>The migrations build the models\<close>

lemma model_final:
  "\<exists>r. model_history m (all_operations migrations) None = Inr r
     \<and> kept_history dropped_columns m (all_operations migrations) None = Some r
     \<and> (case map_of declared_schema m of None \<Rightarrow> r = None
        | Some md \<Rightarrow> (\<exists>md'. r = Some md' \<and> same_model md' md))"
proof (cases "map_of declared_schema m")
  case None
  then have "m \<notin> set model_names" by (metis declared_names map_of_eq_None_iff list.set_map)
  then have "operations_on m = []"
    using mentions by (auto simp: operations_on_def list_all_iff filter_empty_conv split: option.splits)
  then have "model_history m (all_operations migrations) None = Inr None"
    "kept_history dropped_columns m (all_operations migrations) None = Some None"
    by (metis operations_on model_history_filter model_history.simps(1),
        metis operations_on kept_history_filter kept_history.simps(1))
  then show ?thesis using None by simp
next
  case (Some md)
  then have "(m, md) \<in> set declared_schema" by (rule map_of_SomeD)
  then have "matches m (m, md)" using declared_histories by force
  then obtain md' where md': "kept_history dropped_columns m (operations_on m) None = Some (Some md')" "same_model md' md"
    by (auto simp: matches_def split: option.splits)
  then have "kept_history dropped_columns m (all_operations migrations) None = Some (Some md')"
    by (simp add: operations_on kept_history_filter)
  then show ?thesis using kept_history_model md'(2) Some by auto
qed

lemma migrations_succeed: "\<exists>s. migrate migrations [] [] = Inr s"
proof -
  have "\<exists>s. apply_operations (all_operations migrations) [] = Inr s"
    by (rule apply_operations_progress [OF relations]) (use model_final in auto)
  then show ?thesis using dependencies by (simp add: migrate_Inr)
qed

lemma migrated_spec:
  assumes "migrate migrations [] [] = Inr s"
  shows "schema_spec s = schema_spec declared_schema"
proof -
  have "schema_spec s m = schema_spec declared_schema m" for m
  proof -
    have h: "model_history m (all_operations migrations) None = Inr (map_of s m)"
      using assms apply_operations_model [of "all_operations migrations" "[]" s m] by (simp add: migrate_Inr)
    show ?thesis
      using model_final [of m] same_model_spec
      by (auto simp: h schema_spec_def split: option.splits)
  qed
  then show ?thesis by (rule ext)
qed

text \<open>
  C9. The migrations build the models: applied to an empty database they succeed, whatever order they
  are applied in that respects their dependencies it is the order of their numbers, and the schema
  they leave is the one the models declare, in its fields with their arguments, ordering,
  names, indexes and constraints.
\<close>

theorem migrations_build_the_models:
  assumes "mset p = mset migrations" and "dependencies_met p []"
  shows "p = migrations \<and> (\<exists>s. migrate p [] [] = Inr s \<and> schema_spec s = schema_spec declared_schema)"
proof -
  have "p = migrations"
  proof (rule chain_order [OF assms(1) names_distinct assms(2)])
    fix i assume "Suc i < length migrations"
    then have "(migrations ! i, migrations ! Suc i) \<in> set (zip migrations (tl migrations))"
      by (auto simp: in_set_zip nth_tl intro!: exI [of _ i])
    then show "mg_name (migrations ! i) \<in> set (needs (mg_dependencies (migrations ! Suc i)))"
      using chained by (auto simp: list_all_iff)
  qed
  then show ?thesis using migrations_succeed migrated_spec by blast
qed

theorem migrations_build_the_models_witness:
  "\<exists>s. migrate migrations [] [] = Inr s \<and> schema_spec s = schema_spec declared_schema"
  using migrations_build_the_models [OF refl dependencies] by blast

section \<open>Stored values survive\<close>

lemma migrate_prefix:
  assumes "migrate (take k migrations) [] [] = Inr s"
  shows "kept_history dropped_columns m (all_operations (drop k migrations)) (map_of s m) \<noteq> None"
    and "kept_history dropped_columns m (all_operations (drop k migrations)) (map_of s m) =
       kept_history dropped_columns m (all_operations migrations) None"
proof -
  have split: "all_operations migrations = all_operations (take k migrations) @ all_operations (drop k migrations)"
    by (metis all_operations_def append_take_drop_id concat_append map_append)
  have "model_history m (all_operations (take k migrations)) None = Inr (map_of s m)"
    using assms apply_operations_model [of "all_operations (take k migrations)" "[]" s m] by (simp add: migrate_Inr)
  moreover obtain r where r: "kept_history dropped_columns m (all_operations migrations) None = Some r"
    using model_final by blast
  then obtain r1 where "kept_history dropped_columns m (all_operations (take k migrations)) None = Some r1"
      "kept_history dropped_columns m (all_operations (drop k migrations)) r1 = Some r"
    by (auto simp: split kept_history_append split: option.splits)
  ultimately show "kept_history dropped_columns m (all_operations (drop k migrations)) (map_of s m) \<noteq> None"
    "kept_history dropped_columns m (all_operations (drop k migrations)) (map_of s m) =
       kept_history dropped_columns m (all_operations migrations) None"
    using kept_history_model r by fastforce+
qed

text \<open>A column that is added has a value for the rows that exist, which it admits.\<close>

definition op_fills :: "operation \<Rightarrow> bool" where
  "op_fills op = (case op of AddField m f c \<Rightarrow> (case fill 0 c of None \<Rightarrow> False | Some v \<Rightarrow> admits c v) | _ \<Rightarrow> True)"

lemma added_columns_filled: "list_all (\<lambda>mg. list_all op_fills (mg_operations mg)) migrations"
  by code_simp

text \<open>
  C27. Upgrading loses no stored value: whatever version a database is at, a value that a column admits
  there is one that the column of the declared model admits, unless the column is one of the five
  that a migration removes.
\<close>

theorem upgrades_keep_stored_values:
  assumes "migrate (take k migrations) [] [] = Inr s" and "column_of s m f = Some c" and "admits c v"
    and "(m, f) \<notin> set dropped_columns"
  shows "\<exists>c'. column_of declared_schema m f = Some c' \<and> admits c' v"
proof -
  obtain md where md: "map_of s m = Some md" "map_of (md_fields md) f = Some c"
    using assms(2) by (auto simp: column_of_def split: option.splits)
  obtain r where r: "kept_history dropped_columns m (all_operations (drop k migrations)) (Some md) = Some r"
      "kept_history dropped_columns m (all_operations migrations) None = Some r"
    using migrate_prefix [OF assms(1), of m] md(1) by fastforce
  obtain md' c' where c': "r = Some md'" "map_of (md_fields md') f = Some c'" "admits c' v"
    by (rule kept_history_keeps [OF r(1) md(2) assms(3,4)])
  obtain md1 where md1: "map_of declared_schema m = Some md1" "same_model md' md1"
    using model_final [of m] r(2) c'(1) by (auto split: option.splits)
  have "map_option column_spec (map_of (md_fields md') f) = map_option column_spec (map_of (md_fields md1) f)"
    using same_model_spec [OF md1(2)] by (simp add: model_spec_def fun_eq_iff)
  then obtain c1 where c1: "map_of (md_fields md1) f = Some c1" "column_spec c' = column_spec c1"
    using c'(2) by (cases "map_of (md_fields md1) f") auto
  have "admits c1 v" using c'(3) by (simp only: admits_spec [OF c1(2)])
  then show ?thesis using md1(1) c1(1) by (simp add: column_of_def)
qed

text \<open>A kill audited under the first migration.\<close>

lemma first_migration: "(case migrate (take 1 migrations) [] [] of Inl e \<Rightarrow> False
    | Inr s \<Rightarrow> (case column_of s ''auditlog'' ''action'' of None \<Rightarrow> False | Some c \<Rightarrow> admits c (Chars ''kill_session'')))"
  by code_simp

theorem upgrades_keep_stored_values_witness:
  "\<exists>s c c'. migrate (take 1 migrations) [] [] = Inr s \<and> column_of s ''auditlog'' ''action'' = Some c
     \<and> admits c (Chars ''kill_session'') \<and> column_of declared_schema ''auditlog'' ''action'' = Some c'
     \<and> admits c' (Chars ''kill_session'')"
proof -
  obtain s c where s: "migrate (take 1 migrations) [] [] = Inr s" "column_of s ''auditlog'' ''action'' = Some c"
      "admits c (Chars ''kill_session'')"
    using first_migration by (auto split: sum.splits option.splits)
  have "(''auditlog'', ''action'') \<notin> set dropped_columns" by (simp add: dropped_columns_def)
  from upgrades_keep_stored_values [OF s this] show ?thesis using s by blast
qed

end
