(* ===== verification/Routes.thy ===== *)
theory Routes
  imports Auth
begin

text \<open>
  The URL tables of \<open>config/urls.py\<close> and \<open>monitor/urls.py\<close>: which view a request path reaches and
  with which arguments, what path a view's name is reversed to, and the way of a request through the
  gate, the tables and the decorators of the view. The admin site and the REST router bring tables of
  their own, which are parameters; the path converters are those of the framework's documentation.
\<close>

section \<open>Patterns\<close>

text \<open>A pattern is split at its slashes; a converter stands for one whole part between slashes.\<close>

datatype part = Fixed string | Int_part string | Str_part string | Uuid_part string

datatype argument = Int_value int | Str_value pystr | Uuid_value pystr

definition parse_part :: "string \<Rightarrow> part" where
  "parse_part s =
     (if take 5 s = ''<int:'' then Int_part (butlast (drop 5 s))
      else if take 5 s = ''<str:'' then Str_part (butlast (drop 5 s))
      else if take 6 s = ''<uuid:'' then Uuid_part (butlast (drop 6 s))
      else Fixed s)"

definition parse_pattern :: "string \<Rightarrow> part list" where
  "parse_pattern s = map parse_part (split_on (CHR ''/'') s)"

definition hex_char :: "nat \<Rightarrow> bool" where
  "hex_char c \<longleftrightarrow> is_dec c \<or> (97 \<le> c \<and> c \<le> 102)"

definition is_uuid :: "pystr \<Rightarrow> bool" where
  "is_uuid s \<longleftrightarrow> map length (split_on 45 s) = [8, 4, 4, 4, 12] \<and> list_all (list_all hex_char) (split_on 45 s)"

definition decimal :: "pystr \<Rightarrow> int option" where
  "decimal s = (if s \<noteq> [] \<and> list_all is_dec s then map_option int (int_digits s) else None)"

fun match_part :: "part \<Rightarrow> pystr \<Rightarrow> (string \<times> argument) list option" where
  "match_part (Fixed w) s = (if s = lit w then Some [] else None)"
| "match_part (Int_part n) s = map_option (\<lambda>i. [(n, Int_value i)]) (decimal s)"
| "match_part (Str_part n) s = (if s \<noteq> [] then Some [(n, Str_value s)] else None)"
| "match_part (Uuid_part n) s = (if is_uuid s then Some [(n, Uuid_value s)] else None)"

fun match_parts :: "part list \<Rightarrow> pystr list \<Rightarrow> (string \<times> argument) list option" where
  "match_parts [] [] = Some []"
| "match_parts (p # ps) (s # ss) = (case match_part p s of None \<Rightarrow> None
     | Some a \<Rightarrow> map_option ((@) a) (match_parts ps ss))"
| "match_parts _ _ = None"

text \<open>Reversing: the text of each argument in its place; a name without its argument is an error.\<close>

fun write_part :: "(string \<times> argument) list \<Rightarrow> part \<Rightarrow> pystr option" where
  "write_part as (Fixed w) = Some (lit w)"
| "write_part as (Int_part n) = (case map_of as n of
     Some (Int_value i) \<Rightarrow> if 0 \<le> i then Some (str_int i) else None | _ \<Rightarrow> None)"
| "write_part as (Str_part n) = (case map_of as n of
     Some (Str_value s) \<Rightarrow> if s \<noteq> [] \<and> 47 \<notin> set s then Some s else None | _ \<Rightarrow> None)"
| "write_part as (Uuid_part n) = (case map_of as n of
     Some (Uuid_value s) \<Rightarrow> if is_uuid s then Some s else None | _ \<Rightarrow> None)"

fun write_parts :: "(string \<times> argument) list \<Rightarrow> part list \<Rightarrow> pystr list option" where
  "write_parts as [] = Some []"
| "write_parts as (p # ps) = (case write_part as p of None \<Rightarrow> None
     | Some s \<Rightarrow> map_option ((#) s) (write_parts as ps))"

section \<open>The tables\<close>

datatype view_name =
    Admin_login_redirect | Admin_urls | Healthz_view | Robots_txt_view | Sitemap_xml_view | Service_worker_view
    | Manifest_view | Login_view | Logout_view | Mfa_verify_view | Api_urls | Instance_list_view
    | Add_instance_view | Test_connection_view | Test_control_connection_view | Notification_settings_view
    | Test_notification_view | Send_weekly_report_now_view | User_management_view | Dashboard_links_view
    | Mfa_setup_view | Download_weekly_report_view | Instance_detail_view | Instance_card_partial_view
    | Instance_group_card_partial_view | Activity_table_partial_view | Replication_slots_partial_view
    | Kill_replication_slot_view | Drop_replication_slot_view | Download_locks_view | Download_sessions_view
    | Kill_lock_session_view | Kill_lock_chain_view | Kill_session_view | Kill_chain_view | Rename_instance_view
    | Update_owner_webhook_view | Update_control_credentials_view | Update_query_runner_credentials_view
    | Test_query_runner_connection_view | Query_runner_grant_view | Preview_query_view | Commit_query_view
    | Discard_query_view | Remove_instance_view | Remove_instance_group_view

text \<open>A row of a table: a page with its pattern and name, or a prefix with a table of its own.\<close>

datatype route = Page string view_name string | Included string view_name

definition config_urlpatterns :: "route list" where
  "config_urlpatterns = [
     Page ''admin/login/'' Admin_login_redirect '''',
     Included ''admin/'' Admin_urls,
     Page ''healthz'' Healthz_view ''healthz'',
     Page ''robots.txt'' Robots_txt_view ''robots-txt'',
     Page ''sitemap.xml'' Sitemap_xml_view ''sitemap-xml'',
     Page ''sw.js'' Service_worker_view ''service-worker'',
     Page ''manifest.webmanifest'' Manifest_view ''pwa-manifest'',
     Page ''login/'' Login_view ''login'',
     Page ''logout/'' Logout_view ''logout'',
     Page ''mfa/verify/'' Mfa_verify_view ''mfa-verify'']"

definition monitor_urlpatterns :: "route list" where
  "monitor_urlpatterns = [
     Included ''api/'' Api_urls,
     Page '''' Instance_list_view ''instance-list'',
     Page ''instances/add/'' Add_instance_view ''instance-add'',
     Page ''instances/test-connection/'' Test_connection_view ''instance-test-connection'',
     Page ''instances/<int:pk>/test-control-connection/'' Test_control_connection_view ''instance-test-control-connection'',
     Page ''settings/notifications/'' Notification_settings_view ''notification-settings'',
     Page ''settings/notifications/test/'' Test_notification_view ''test-notification'',
     Page ''settings/notifications/weekly-report/'' Send_weekly_report_now_view ''send-weekly-report-now'',
     Page ''settings/users/'' User_management_view ''user-management'',
     Page ''settings/dashboards/'' Dashboard_links_view ''dashboard-links'',
     Page ''settings/security/mfa/'' Mfa_setup_view ''mfa-setup'',
     Page ''reports/weekly/<str:token>/'' Download_weekly_report_view ''download-weekly-report'',
     Page ''instances/<int:pk>/'' Instance_detail_view ''instance-detail'',
     Page ''instances/<int:pk>/card/'' Instance_card_partial_view ''instance-card'',
     Page ''instances/group/<uuid:group_id>/card/'' Instance_group_card_partial_view ''instance-group-card'',
     Page ''instances/<int:pk>/activity/'' Activity_table_partial_view ''instance-activity'',
     Page ''instances/<int:pk>/replication-slots/'' Replication_slots_partial_view ''instance-replication-slots'',
     Page ''instances/<int:pk>/replication-slots/kill/'' Kill_replication_slot_view ''instance-kill-replication-slot'',
     Page ''instances/<int:pk>/replication-slots/drop/'' Drop_replication_slot_view ''instance-drop-replication-slot'',
     Page ''instances/<int:pk>/locks/download/'' Download_locks_view ''instance-locks-download'',
     Page ''instances/<int:pk>/sessions/download/'' Download_sessions_view ''instance-sessions-download'',
     Page ''instances/<int:pk>/locks/kill/'' Kill_lock_session_view ''instance-kill-lock'',
     Page ''instances/<int:pk>/locks/kill-chain/'' Kill_lock_chain_view ''instance-kill-lock-chain'',
     Page ''instances/<int:pk>/kill/'' Kill_session_view ''instance-kill'',
     Page ''instances/<int:pk>/kill-chain/'' Kill_chain_view ''instance-kill-chain'',
     Page ''instances/<int:pk>/rename/'' Rename_instance_view ''instance-rename'',
     Page ''instances/<int:pk>/owner-webhook/'' Update_owner_webhook_view ''instance-owner-webhook'',
     Page ''instances/<int:pk>/control-credentials/'' Update_control_credentials_view ''instance-control-credentials'',
     Page ''instances/<int:pk>/query-runner/credentials/'' Update_query_runner_credentials_view ''instance-query-runner-credentials'',
     Page ''instances/<int:pk>/query-runner/test-connection/'' Test_query_runner_connection_view ''instance-test-query-runner-connection'',
     Page ''instances/<int:pk>/query-runner/grant/'' Query_runner_grant_view ''instance-query-runner-grant'',
     Page ''instances/<int:pk>/query-runner/preview/'' Preview_query_view ''instance-query-runner-preview'',
     Page ''instances/<int:pk>/query-runner/commit/<int:execution_id>/'' Commit_query_view ''instance-query-runner-commit'',
     Page ''instances/<int:pk>/query-runner/discard/<int:execution_id>/'' Discard_query_view ''instance-query-runner-discard'',
     Page ''instances/<int:pk>/remove/'' Remove_instance_view ''instance-remove'',
     Page ''instances/group/<uuid:group_id>/remove/'' Remove_instance_group_view ''instance-group-remove'']"

definition urlpatterns :: "route list" where
  "urlpatterns = config_urlpatterns @ monitor_urlpatterns"

section \<open>Resolving and reversing\<close>

text \<open>
  \<open>inner v rest\<close> says whether the table included as \<open>v\<close> has a row for the parts after its prefix; a
  prefix whose table has none is passed over.
\<close>

fun match_route :: "(view_name \<Rightarrow> pystr list \<Rightarrow> bool) \<Rightarrow> route \<Rightarrow> pystr list \<Rightarrow> (view_name \<times> (string \<times> argument) list) option" where
  "match_route inner (Page p v n) ss = map_option (Pair v) (match_parts (parse_pattern p) ss)"
| "match_route inner (Included p v) ss =
     (let ps = butlast (parse_pattern p) in
      if length ps < length ss \<and> match_parts ps (take (length ps) ss) = Some [] \<and> inner v (drop (length ps) ss)
      then Some (v, []) else None)"

fun first_match :: "(view_name \<Rightarrow> pystr list \<Rightarrow> bool) \<Rightarrow> route list \<Rightarrow> pystr list \<Rightarrow> (view_name \<times> (string \<times> argument) list) option" where
  "first_match inner [] ss = None"
| "first_match inner (r # rs) ss = (case match_route inner r ss of None \<Rightarrow> first_match inner rs ss | Some x \<Rightarrow> Some x)"

text \<open>A request path begins with a slash, which belongs to no pattern.\<close>

definition resolve :: "(view_name \<Rightarrow> pystr list \<Rightarrow> bool) \<Rightarrow> pystr \<Rightarrow> (view_name \<times> (string \<times> argument) list) option" where
  "resolve inner path = (case path of [] \<Rightarrow> None
     | c # rest \<Rightarrow> if c = 47 then first_match inner urlpatterns (split_on 47 rest) else None)"

fun reverse_in :: "string \<Rightarrow> (string \<times> argument) list \<Rightarrow> route list \<Rightarrow> pystr option" where
  "reverse_in n as [] = None"
| "reverse_in n as (Page p v m # rs) = (if m = n \<and> n \<noteq> [] then
     map_option (\<lambda>ss. 47 # join_with [47] ss) (write_parts as (parse_pattern p)) else reverse_in n as rs)"
| "reverse_in n as (Included p v # rs) = reverse_in n as rs"

definition reverse_url :: "string \<Rightarrow> (string \<times> argument) list \<Rightarrow> pystr option" where
  "reverse_url n as = reverse_in n as urlpatterns"

section \<open>Decorators and the way of a request\<close>

datatype http_method = Get | Head | Post | Put | Patch | Delete

text \<open>
  The views without \<open>login_required\<close>: those of signing in and out, the public files, the signed
  report, and the two tables with permission checks of their own.
\<close>

definition open_views :: "view_name list" where
  "open_views = [Admin_login_redirect, Admin_urls, Healthz_view, Robots_txt_view, Sitemap_xml_view,
     Service_worker_view, Manifest_view, Login_view, Logout_view, Mfa_verify_view, Api_urls, Download_weekly_report_view]"

definition post_only_views :: "view_name list" where
  "post_only_views = [
     Test_notification_view, Send_weekly_report_now_view, Kill_replication_slot_view,
     Drop_replication_slot_view, Kill_session_view, Kill_lock_session_view, Kill_chain_view,
     Kill_lock_chain_view, Test_connection_view, Test_control_connection_view, Rename_instance_view,
     Update_owner_webhook_view, Update_control_credentials_view, Update_query_runner_credentials_view,
     Test_query_runner_connection_view, Query_runner_grant_view, Preview_query_view, Commit_query_view,
     Discard_query_view, Remove_instance_view, Remove_instance_group_view]"

definition form_views :: "view_name list" where
  "form_views = [User_management_view, Dashboard_links_view, Mfa_setup_view, Mfa_verify_view]"

definition method_allowed :: "view_name \<Rightarrow> http_method \<Rightarrow> bool" where
  "method_allowed v m \<longleftrightarrow> (if v \<in> set post_only_views then m = Post
     else if v \<in> set form_views then m \<in> {Get, Post} else True)"

datatype served = Gate_answer gate | Not_found_page | To_login_page | Wrong_method
  | Served view_name "(string \<times> argument) list"

text \<open>\<open>login_required\<close> is the outer decorator, so an unauthenticated request is sent to the login first.\<close>

definition answer_request ::
  "bool \<Rightarrow> (view_name \<Rightarrow> pystr list \<Rightarrow> bool) \<Rightarrow> pystr \<Rightarrow> http_method \<Rightarrow> datetime \<Rightarrow> session \<Rightarrow> app_db \<Rightarrow> served" where
  "answer_request mfa_required inner path m now s d =
     (case mfa_gate mfa_required path now s d of
        Pass \<Rightarrow>
          (case resolve inner path of
             None \<Rightarrow> Not_found_page
           | Some (v, as) \<Rightarrow>
               if v \<notin> set open_views \<and> request_user d s = None then To_login_page
               else if \<not> method_allowed v m then Wrong_method
               else Served v as)
      | g \<Rightarrow> Gate_answer g)"

section \<open>Reading back what was written\<close>

lemma nat_digits_decimal: "decimal (nat_digits n) = Some (int n)"
  using nat_digits_dec by (auto simp: decimal_def int_digits_nat_digits list_all_iff)

lemma decimal_str_int: "0 \<le> i \<Longrightarrow> decimal (str_int i) = Some i"
  using nat_digits_decimal [of "nat i"] by (simp add: str_int_def)

text \<open>The arguments a pattern takes, as they come back from a match.\<close>

fun part_args :: "(string \<times> argument) list \<Rightarrow> part \<Rightarrow> (string \<times> argument) list" where
  "part_args as (Fixed w) = []"
| "part_args as (Int_part n) = (case map_of as n of None \<Rightarrow> [] | Some a \<Rightarrow> [(n, a)])"
| "part_args as (Str_part n) = (case map_of as n of None \<Rightarrow> [] | Some a \<Rightarrow> [(n, a)])"
| "part_args as (Uuid_part n) = (case map_of as n of None \<Rightarrow> [] | Some a \<Rightarrow> [(n, a)])"

lemma match_write_part: "write_part as p = Some s \<Longrightarrow> match_part p s = Some (part_args as p)"
  by (cases p) (auto simp: decimal_str_int split: option.splits argument.splits if_splits)

lemma match_write_parts:
  "write_parts as ps = Some ss \<Longrightarrow> match_parts ps ss = Some (concat (map (part_args as) ps))"
  by (induction ps arbitrary: ss) (auto simp: match_write_part split: option.splits)

lemma set_split_on: "x \<in> set s \<Longrightarrow> x \<noteq> c \<Longrightarrow> \<exists>w \<in> set (split_on c s). x \<in> set w"
  by (induction s) (auto split: list.splits)

lemma is_uuid_no_slash: "is_uuid s \<Longrightarrow> 47 \<notin> set s"
proof
  assume u: "is_uuid s" "47 \<in> set s"
  then obtain w where "w \<in> set (split_on 45 s)" "47 \<in> set w" using set_split_on [of 47 s 45] by auto
  then have "hex_char 47" using u(1) unfolding is_uuid_def list_all_iff by blast
  then show False by (simp add: hex_char_def is_dec_def)
qed

text \<open>No part that is written contains a slash, so the path splits into what was joined.\<close>

definition fixed_ok :: "part \<Rightarrow> bool" where
  "fixed_ok p = (case p of Fixed w \<Rightarrow> CHR ''/'' \<notin> set w | _ \<Rightarrow> True)"

lemma lit_no_slash: "CHR ''/'' \<notin> set w \<Longrightarrow> 47 \<notin> set (lit w)"
proof
  assume w: "CHR ''/'' \<notin> set w" "47 \<in> set (lit w)"
  then obtain c :: char where "c \<in> set w" "of_char c = (47 :: nat)" by (auto simp: lit_def)
  moreover have "of_char (CHR ''/'') = (47 :: nat)" by simp
  ultimately have "c = CHR ''/''" by (metis of_char_eq_iff)
  then show False using w(1) \<open>c \<in> set w\<close> by simp
qed

lemma write_part_no_slash: "write_part as p = Some s \<Longrightarrow> fixed_ok p \<Longrightarrow> 47 \<notin> set s"
  using str_int_chars is_uuid_no_slash lit_no_slash
  by (cases p) (fastforce simp: fixed_ok_def is_dec_def split: option.splits argument.splits if_splits)+

lemma write_parts_no_slash:
  "write_parts as ps = Some ss \<Longrightarrow> list_all fixed_ok ps \<Longrightarrow> \<forall>s \<in> set ss. 47 \<notin> set s"
  by (induction ps arbitrary: ss) (auto dest: write_part_no_slash split: option.splits)

section \<open>Rows that cannot take each other's paths\<close>

fun apart_part :: "part \<Rightarrow> part \<Rightarrow> bool" where
  "apart_part (Fixed a) (Fixed b) = (a \<noteq> b)"
| "apart_part (Fixed a) q = (match_part q (lit a) = None)"
| "apart_part p (Fixed b) = (match_part p (lit b) = None)"
| "apart_part p q = False"

fun apart :: "part list \<Rightarrow> part list \<Rightarrow> bool" where
  "apart [] [] = False"
| "apart (p # ps) (q # qs) = (if apart_part p q then True else apart ps qs)"
| "apart (p # ps) [] = True"
| "apart [] (q # qs) = True"

lemma apart_part: "apart_part p q \<Longrightarrow> match_part p s \<noteq> None \<Longrightarrow> match_part q s = None"
  by (cases p; cases q) (auto split: if_splits)

lemma match_parts_length: "match_parts ps ss = Some as \<Longrightarrow> length ps = length ss"
  by (induction ps ss arbitrary: as rule: match_parts.induct) (auto split: option.splits)

lemma apart_match: "apart ps qs \<Longrightarrow> match_parts ps ss \<noteq> None \<Longrightarrow> match_parts qs ss = None"
proof (induction ps qs arbitrary: ss rule: apart.induct)
  case (2 p ps q qs)
  obtain s ss' a where a: "ss = s # ss'" "match_part p s = Some a" "match_parts ps ss' \<noteq> None"
    using "2.prems"(2) by (cases ss) (auto split: option.splits)
  show ?case
  proof (cases "apart_part p q")
    case True
    then show ?thesis using apart_part [of p q s] a by simp
  next
    case False
    then have "match_parts qs ss' = None" using "2.IH" [OF False _ a(3)] "2.prems"(1) by simp
    then show ?thesis using a(1) by (auto split: option.splits)
  qed
next
  case (3 p ps)
  then show ?case by (cases ss) auto
next
  case (4 q qs)
  then show ?case by (cases ss) auto
qed simp

lemma match_parts_take: "match_parts ps ss \<noteq> None \<Longrightarrow> match_parts (take k ps) (take k ss) \<noteq> None"
proof (induction ps ss arbitrary: k rule: match_parts.induct)
  case (2 p ps s ss)
  then show ?case by (cases k) (auto split: option.splits)
qed auto

text \<open>A row with its pattern taken apart: what it skips, and whether a name belongs to it.\<close>

datatype row = Whole_row "part list" bool | Prefix_row "part list"

fun parse_row :: "route \<Rightarrow> row" where
  "parse_row (Page p v n) = Whole_row (parse_pattern p) (n \<noteq> [])"
| "parse_row (Included p v) = Prefix_row (butlast (parse_pattern p))"

fun skips :: "part list \<Rightarrow> row \<Rightarrow> bool" where
  "skips ps (Whole_row qs named) = apart ps qs"
| "skips ps (Prefix_row qs) = (length ps \<le> length qs \<or> apart (take (length qs) ps) qs)"

lemma skips_match:
  assumes "skips ps (parse_row r)" and "match_parts ps ss \<noteq> None"
  shows "match_route inner r ss = None"
proof (cases r)
  case (Page p v n)
  then show ?thesis using assms apart_match by simp
next
  case (Included p v)
  have "length ps = length ss" using assms(2) match_parts_length by blast
  then show ?thesis
    using Included assms apart_match [OF _ match_parts_take [OF assms(2)]] by (auto simp: Let_def)
qed

fun separated :: "row list \<Rightarrow> row list \<Rightarrow> bool" where
  "separated before [] = True"
| "separated before (Whole_row ps named # rs) \<longleftrightarrow> (named \<longrightarrow> list_all (skips ps) before)
     \<and> list_all fixed_ok ps \<and> separated (Whole_row ps named # before) rs"
| "separated before (Prefix_row ps # rs) \<longleftrightarrow> separated (Prefix_row ps # before) rs"

lemma separated_split:
  assumes "separated before (xs @ Whole_row ps True # ys)"
  shows "\<forall>r \<in> set before \<union> set xs. skips ps r" and "list_all fixed_ok ps"
proof -
  have "(\<forall>r \<in> set before \<union> set xs. skips ps r) \<and> list_all fixed_ok ps"
    using assms
  proof (induction xs arbitrary: before)
    case Nil
    then show ?case by (simp add: list_all_iff)
  next
    case (Cons x xs)
    then show ?case using Cons.IH [of "x # before"] by (cases x) auto
  qed
  then show "\<forall>r \<in> set before \<union> set xs. skips ps r" and "list_all fixed_ok ps" by blast+
qed

lemma tables_separated: "separated [] (map parse_row urlpatterns)"
  by code_simp

lemma first_match_skip:
  "\<forall>r \<in> set xs. match_route inner r ss = None \<Longrightarrow> first_match inner (xs @ rs) ss = first_match inner rs ss"
  by (induction xs) auto

text \<open>The row a name belongs to.\<close>

fun row_named :: "string \<Rightarrow> route list \<Rightarrow> (string \<times> view_name) option" where
  "row_named n [] = None"
| "row_named n (Page p v m # rs) = (if m = n \<and> n \<noteq> [] then Some (p, v) else row_named n rs)"
| "row_named n (Included p v # rs) = row_named n rs"

lemma reverse_in_row:
  assumes "reverse_in n as rs = Some path"
  obtains xs p v ys ss where "rs = xs @ Page p v n # ys" and "n \<noteq> []" and "row_named n rs = Some (p, v)"
    and "write_parts as (parse_pattern p) = Some ss" and "path = 47 # join_with [47] ss"
proof -
  have "\<exists>xs p v ys ss. rs = xs @ Page p v n # ys \<and> n \<noteq> [] \<and> row_named n rs = Some (p, v)
      \<and> write_parts as (parse_pattern p) = Some ss \<and> path = 47 # join_with [47] ss"
    using assms
  proof (induction rs)
    case Nil
    then show ?case by simp
  next
    case (Cons r rs)
    show ?case
    proof (cases "\<exists>p v. r = Page p v n \<and> n \<noteq> []")
      case True
      then obtain p v where r: "r = Page p v n" "n \<noteq> []" by blast
      then obtain ss where "write_parts as (parse_pattern p) = Some ss" "path = 47 # join_with [47] ss"
        using Cons.prems by auto
      then show ?thesis using r by (intro exI [of _ "[]"] exI [of _ p] exI [of _ v] exI [of _ rs] exI [of _ ss]) simp
    next
      case False
      then have *: "reverse_in n as rs = Some path" "row_named n (r # rs) = row_named n rs"
        using Cons.prems by (cases r; auto split: if_splits)+
      then show ?thesis using Cons.IH by (metis append_Cons)
    qed
  qed
  then show ?thesis using that by blast
qed

lemma parse_pattern_not_Nil [simp]: "parse_pattern p \<noteq> []"
  by (simp add: parse_pattern_def)

lemma resolve_reverse:
  assumes "reverse_url n as = Some path" and "row_named n urlpatterns = Some (p, v)"
  shows "resolve inner path = Some (v, concat (map (part_args as) (parse_pattern p)))"
proof -
  obtain xs p' v' ys ss where r: "urlpatterns = xs @ Page p' v' n # ys" "n \<noteq> []"
      "row_named n urlpatterns = Some (p', v')" "write_parts as (parse_pattern p') = Some ss" "path = 47 # join_with [47] ss"
    using reverse_in_row [OF assms(1) [unfolded reverse_url_def]] by metis
  have eq: "p' = p" "v' = v" using r(3) assms(2) by simp_all
  have "separated [] (map parse_row xs @ Whole_row (parse_pattern p') True # map parse_row ys)"
    using tables_separated r(2) by (simp add: r(1))
  note sep = separated_split [OF this]
  have m: "match_parts (parse_pattern p) ss = Some (concat (map (part_args as) (parse_pattern p)))"
    using match_write_parts [OF r(4)] eq by simp
  have "ss \<noteq> []" using match_parts_length [OF m] by force
  then have "split_on 47 (join_with [47] ss) = ss"
    using split_join [of ss 47] write_parts_no_slash [OF r(4) sep(2)] by simp
  moreover have "\<forall>r \<in> set xs. match_route inner r ss = None"
    using sep(1) skips_match [of "parse_pattern p" _ ss] m eq(1) by simp
  then have "first_match inner urlpatterns ss = Some (v, concat (map (part_args as) (parse_pattern p)))"
    using m eq by (simp add: r(1) first_match_skip)
  ultimately show ?thesis using r(5) by (simp add: resolve_def)
qed

end
