(* ===== verification/Routes_Claims.thy ===== *)
theory Routes_Claims
  imports Routes Auth_Claims
begin

text \<open>
  What the URL tables guarantee together with the gate: a name reverses to a path that reaches its
  own view, a view beyond the public ones is reached only with a second factor, and a redirect of the
  gate ends at a page.
\<close>

section \<open>Names and paths\<close>

text \<open>
  C24. Reversing and resolving: the path that a view's name is reversed to resolves to that view with the
  arguments it was reversed with, whatever the included tables hold; no row takes another's path.
\<close>

theorem reversed_path_resolves:
  assumes "reverse_url n as = Some path" and "row_named n urlpatterns = Some (p, v)"
  shows "resolve inner path = Some (v, concat (map (part_args as) (parse_pattern p)))"
  by (rule resolve_reverse [OF assms])

text \<open>Nothing behind the included prefixes, for the examples.\<close>

definition no_inner :: "view_name \<Rightarrow> pystr list \<Rightarrow> bool" where
  "no_inner v ss = False"

text \<open>The commit of execution 12 of registration 7.\<close>

lemma commit_url: "reverse_url ''instance-query-runner-commit'' [(''pk'', Int_value 7), (''execution_id'', Int_value 12)] =
    Some (lit ''/instances/7/query-runner/commit/12/'')"
  by (simp add: reverse_url_def urlpatterns_def config_urlpatterns_def monitor_urlpatterns_def parse_pattern_def
      parse_part_def digit_eval)

lemma commit_row: "row_named ''instance-query-runner-commit'' urlpatterns =
    Some (''instances/<int:pk>/query-runner/commit/<int:execution_id>/'', Commit_query_view)"
  by code_simp

theorem reversed_path_resolves_witness:
  "resolve no_inner (lit ''/instances/7/query-runner/commit/12/'') =
     Some (Commit_query_view, [(''pk'', Int_value 7), (''execution_id'', Int_value 12)])"
  using reversed_path_resolves [OF commit_url commit_row, of no_inner]
  by (simp add: parse_pattern_def parse_part_def)

section \<open>Paths outside the gate\<close>

definition starts_apart :: "string \<Rightarrow> route \<Rightarrow> bool" where
  "starts_apart w r = (case (case r of Page p v n \<Rightarrow> parse_pattern p | Included p v \<Rightarrow> butlast (parse_pattern p)) of
     Fixed u # ps \<Rightarrow> u \<noteq> w | _ \<Rightarrow> False)"

lemma match_fixed_first: "u \<noteq> w \<Longrightarrow> match_parts (Fixed u # ps) (take k (lit w # ss)) = None"
  by (cases k) auto

lemma starts_apart: "starts_apart w r \<Longrightarrow> match_route inner r (lit w # ss) = None"
  by (cases r) (auto simp: starts_apart_def Let_def match_fixed_first split: list.splits part.splits)

lemma first_match_apart: "list_all (starts_apart w) rs \<Longrightarrow> first_match inner rs (lit w # ss) = None"
  by (induction rs) (auto simp: starts_apart)

lemma nothing_static: "list_all (starts_apart ''static'') urlpatterns"
  by code_simp

lemma admin_rows: "list_all (starts_apart ''admin'') (drop 2 urlpatterns)"
  by code_simp

lemma split_on_prefix: "c \<notin> set w \<Longrightarrow> split_on c (w @ xs) = (case split_on c xs of [] \<Rightarrow> [w] | v # vs \<Rightarrow> (w @ v) # vs)"
  by (induction w) (auto split: list.splits)

lemma split_on_first: "split_on c xs = w # v # ws \<Longrightarrow> \<exists>ys. xs = w @ c # ys"
proof (induction xs arbitrary: w)
  case Nil
  then show ?case by simp
next
  case (Cons x xs)
  show ?case
  proof (cases "x = c")
    case True
    then show ?thesis using Cons.prems by (intro exI [of _ xs]) simp
  next
    case False
    then obtain w' where "w = x # w'" "split_on c xs = w' # v # ws"
      using Cons.prems by (auto split: list.splits)
    then show ?thesis using Cons.IH by fastforce
  qed
qed

lemma startswith_append: "startswith s p \<Longrightarrow> \<exists>t. s = p @ t"
  unfolding startswith_def by (metis append_take_drop_id)

fun row_view :: "route \<Rightarrow> view_name" where
  "row_view (Page p v n) = v"
| "row_view (Included p v) = v"

lemma match_route_view: "match_route inner r ss = Some (v, as) \<Longrightarrow> row_view r = v"
  by (cases r) (auto simp: Let_def split: if_splits)

lemma first_match_row: "first_match inner rs ss = Some x \<Longrightarrow> \<exists>r \<in> set rs. match_route inner r ss = Some x"
  by (induction rs) (auto split: option.splits)

lemma startswith_prefix: "startswith s (p @ q) \<Longrightarrow> startswith s p"
  by (drule startswith_append) (auto simp: startswith_def)

text \<open>Where a path beginning with \<open>/admin/\<close> can lead, and that nothing else leads to the admin site.\<close>

lemma admin_paths:
  assumes "startswith path (lit ''/admin/'')" and "resolve inner path = Some (v, as)"
  shows "v \<in> {Admin_login_redirect, Admin_urls}"
proof -
  obtain t where "path = lit ''/admin/'' @ t" using startswith_append assms(1) by blast
  then have path: "path = 47 # lit ''admin'' @ 47 # t" by (simp add: lit_def)
  have "47 \<notin> set (lit ''admin'')" by (simp add: lit_def)
  then have "split_on 47 (lit ''admin'' @ 47 # t) = lit ''admin'' # split_on 47 t" by (rule split_on_append_sep)
  then have "first_match inner urlpatterns (lit ''admin'' # split_on 47 t) = Some (v, as)"
    using assms(2) by (simp add: path resolve_def)
  moreover have "urlpatterns = Page ''admin/login/'' Admin_login_redirect [] # Included ''admin/'' Admin_urls # drop 2 urlpatterns"
    by (simp add: urlpatterns_def config_urlpatterns_def)
  ultimately have "first_match inner (Page ''admin/login/'' Admin_login_redirect [] # Included ''admin/'' Admin_urls # drop 2 urlpatterns)
      (lit ''admin'' # split_on 47 t) = Some (v, as)" by metis
  then show ?thesis
    using match_route_view [of inner] first_match_apart [OF admin_rows, of inner "split_on 47 t"]
    by (simp del: match_route.simps split: option.splits) fastforce+
qed

lemma two_parts: "1 < length xs \<Longrightarrow> \<exists>a b cs. xs = a # b # cs"
  by (cases xs rule: list.exhaust; cases "tl xs" rule: list.exhaust) auto

lemma admin_urls_row: "list_all (\<lambda>r. row_view r = Admin_urls \<longrightarrow> r = Included ''admin/'' Admin_urls) urlpatterns"
  by code_simp

lemma admin_urls_path:
  assumes "resolve inner path = Some (Admin_urls, as)"
  shows "startswith path (lit ''/admin/'')"
proof -
  obtain rest where rest: "path = 47 # rest" "first_match inner urlpatterns (split_on 47 rest) = Some (Admin_urls, as)"
    using assms by (auto simp: resolve_def split: list.splits if_splits)
  then obtain r where r: "r \<in> set urlpatterns" "match_route inner r (split_on 47 rest) = Some (Admin_urls, as)"
    using first_match_row by blast
  then have "r = Included ''admin/'' Admin_urls"
    using admin_urls_row match_route_view [OF r(2)] by (simp add: list_all_iff)
  then have m: "1 < length (split_on 47 rest)" "match_parts [Fixed ''admin''] (take 1 (split_on 47 rest)) = Some []"
    using r(2) by (simp_all add: parse_pattern_def parse_part_def Let_def split: if_splits)
  obtain w v ws where e: "split_on 47 rest = w # v # ws"
    using two_parts [OF m(1)] by blast
  have "w = lit ''admin''" using m(2) by (simp add: e split: if_splits)
  moreover obtain ys where "rest = w @ 47 # ys" using split_on_first [OF e] by blast
  ultimately show ?thesis using rest(1) by (simp add: startswith_def lit_def)
qed

text \<open>The views that a path outside the gate can reach.\<close>

definition sign_in_views :: "view_name list" where
  "sign_in_views = [Login_view, Logout_view, Mfa_verify_view, Mfa_setup_view, Admin_login_redirect]"

lemma exempt_resolve:
  "resolve inner (lit ''/login/'') = Some (Login_view, [])"
  "resolve inner (lit ''/logout/'') = Some (Logout_view, [])"
  "resolve inner (lit ''/mfa/verify/'') = Some (Mfa_verify_view, [])"
  "resolve inner (lit ''/settings/security/mfa/'') = Some (Mfa_setup_view, [])"
  by (code_simp, code_simp, code_simp, code_simp)

lemma ungated_views:
  assumes "resolve inner path = Some (v, as)" and "\<not> mfa_gated_path path"
  shows "v \<in> set sign_in_views
     \<or> v = Admin_urls \<and> (startswith path (lit ''/admin/login'') \<or> startswith path (lit ''/admin/logout''))"
proof -
  consider (exempt) "path \<in> mfa_exempt_paths" | (static) "startswith path (lit ''/static/'')"
    | (admin) "startswith path (lit ''/admin/login'') \<or> startswith path (lit ''/admin/logout'')"
    using assms(2) by (auto simp: mfa_gated_path_def)
  then show ?thesis
  proof cases
    case exempt
    then show ?thesis using assms(1) by (auto simp: mfa_exempt_paths_def exempt_resolve sign_in_views_def)
  next
    case static
    then obtain t where "path = lit ''/static/'' @ t" using startswith_append by blast
    then have path: "path = 47 # lit ''static'' @ 47 # t" by (simp add: lit_def)
    have "47 \<notin> set (lit ''static'')" by (simp add: lit_def)
    then have "split_on 47 (lit ''static'' @ 47 # t) = lit ''static'' # split_on 47 t" by (rule split_on_append_sep)
    then have "resolve inner path = None" by (simp add: path resolve_def first_match_apart [OF nothing_static])
    then show ?thesis using assms(1) by simp
  next
    case admin
    then have "startswith path (lit ''/admin/'' @ lit ''login'') \<or> startswith path (lit ''/admin/'' @ lit ''logout'')"
      by (simp add: lit_def)
    then have "startswith path (lit ''/admin/'')" using startswith_prefix by blast
    then show ?thesis using admin_paths [OF _ assms(1)] admin by (auto simp: sign_in_views_def)
  qed
qed

section \<open>Nothing beyond the public views without the second factor\<close>

lemma answered_Served:
  assumes "answer_request mfa_required inner path m now s d = Served v as"
  shows "mfa_gate mfa_required path now s d = Pass" and "resolve inner path = Some (v, as)"
    and "v \<in> set open_views \<or> request_user d s \<noteq> None" and "method_allowed v m"
  using assms by (auto simp: answer_request_def split: gate.splits option.splits if_splits)

text \<open>How a request came to the view it is served by.\<close>

lemma served_verified:
  assumes "issued E s pr" and "answer_request True inner path m now s d = Served v as"
  shows "(request_user d s = None \<and> v \<in> set open_views)
     \<or> (\<exists>x. request_user d s = Some x \<and> (v \<in> set sign_in_views
          \<or> v = Admin_urls \<and> (startswith path (lit ''/admin/login'') \<or> startswith path (lit ''/admin/logout''))
          \<or> profile_enabled d (user_pk x) \<and> user_is_active x \<and> user_pk x \<in> pr
            \<and> (v = Admin_urls \<longrightarrow> has_recent_session_verification now s)))"
proof (cases "request_user d s")
  case None
  then show ?thesis using answered_Served(3) [OF assms(2)] by simp
next
  case (Some x)
  note sv = answered_Served [OF assms(2)]
  show ?thesis
  proof (cases "mfa_gated_path path")
    case True
    note g = mfa_gate_sound [OF assms(1) Some True sv(1)]
    have "v = Admin_urls \<Longrightarrow> admin_path path"
      using admin_urls_path sv(2) True by (auto simp: admin_path_def mfa_gated_path_def)
    then show ?thesis using g Some by blast
  next
    case False
    then show ?thesis using ungated_views [OF sv(2) False] Some by blast
  qed
qed

text \<open>
  C2. With MFA required, a request with any session the server ever issued, replayed or not, reaches a
  view only in one of these ways: without an account, and the view is a public one; or with an
  account, and the view belongs to signing in, or the path is one of the admin site's own sign-in
  paths, or the account is enrolled and one of its own codes was accepted on the way to this
  session, for the admin site within the last 300 seconds.
\<close>

theorem views_need_second_factor:
  assumes "issued E s pr" and "answer_request True inner path m now s d = Served v as"
  shows "(request_user d s = None \<and> v \<in> set open_views)
     \<or> (\<exists>x. request_user d s = Some x \<and> (v \<in> set sign_in_views
          \<or> v = Admin_urls \<and> (startswith path (lit ''/admin/login'') \<or> startswith path (lit ''/admin/logout''))
          \<or> profile_enabled d (user_pk x) \<and> user_is_active x \<and> user_pk x \<in> pr
            \<and> (v = Admin_urls \<longrightarrow> has_recent_session_verification now s)))"
  by (rule served_verified [OF assms])

theorem views_need_second_factor_witness:
  "\<exists>pr. issued demo_mfa_env full_session pr \<and> 3 \<in> pr
     \<and> answer_request True no_inner (lit ''/'') Get (seconds 200) full_session auth_db = Served Instance_list_view []"
proof -
  obtain pr where i: "issued demo_mfa_env full_session pr" using full_session_issued by blast
  have u: "request_user auth_db full_session = Some demo_user"
    by (simp add: request_user_def full_session_def demo_user_def)
  have sv: "answer_request True no_inner (lit ''/'') Get (seconds 200) full_session auth_db = Served Instance_list_view []"
    by code_simp
  have v: "Instance_list_view \<notin> set sign_in_views" "Instance_list_view \<noteq> Admin_urls" by (simp_all add: sign_in_views_def)
  from views_need_second_factor [OF i sv] have "user_pk demo_user \<in> pr" using u v by simp
  then show ?thesis using i sv by (auto simp: demo_user_def)
qed

section \<open>The gate's redirects\<close>

definition gate_target :: "gate \<Rightarrow> pystr option" where
  "gate_target g = (case g of Pass \<Rightarrow> None | Redirect_setup \<Rightarrow> reverse_url ''mfa-setup'' []
     | Logout_redirect \<Rightarrow> reverse_url ''login'' [])"

lemma gate_targets:
  "gate_target Redirect_setup = Some (lit ''/settings/security/mfa/'')"
  "gate_target Logout_redirect = Some (lit ''/login/'')"
  by (simp_all add: gate_target_def reverse_url_def urlpatterns_def config_urlpatterns_def monitor_urlpatterns_def
      parse_pattern_def parse_part_def lit_def)

lemma targets_pass:
  "mfa_gate mfa_required (lit ''/settings/security/mfa/'') now s d = Pass"
  "mfa_gate mfa_required (lit ''/login/'') now s d = Pass"
proof -
  have "\<not> mfa_gated_path (lit ''/settings/security/mfa/'')" "\<not> mfa_gated_path (lit ''/login/'')"
    "\<not> admin_path (lit ''/settings/security/mfa/'')" "\<not> admin_path (lit ''/login/'')" by code_simp+
  then show "mfa_gate mfa_required (lit ''/settings/security/mfa/'') now s d = Pass"
    "mfa_gate mfa_required (lit ''/login/'') now s d = Pass"
    by (simp_all add: mfa_gate_def Let_def split: option.splits)
qed

text \<open>
  C29. A redirect of the gate ends at a page: the account it sends to the enrollment is served the
  enrollment page there, and a session it has logged out is served the login page, whatever else
  holds, so no request is redirected in a circle.
\<close>

theorem gate_redirects_end:
  assumes "mfa_gate mfa_required path now s d = g" and "g \<noteq> Pass"
    and "s' = (if g = Redirect_setup then s else empty_session)"
  shows "\<exists>target v. gate_target g = Some target \<and> answer_request mfa_required inner target Get now s' d = Served v []
     \<and> v = (if g = Redirect_setup then Mfa_setup_view else Login_view)"
proof (cases g)
  case Redirect_setup
  then have "request_user d s \<noteq> None" using assms(1) by (auto simp: mfa_gate_def split: option.splits)
  then have "answer_request mfa_required inner (lit ''/settings/security/mfa/'') Get now s d = Served Mfa_setup_view []"
    using targets_pass(1) exempt_resolve(4)
    by (auto simp: answer_request_def method_allowed_def post_only_views_def form_views_def)
  then show ?thesis using Redirect_setup assms(3) gate_targets(1) by simp
next
  case Logout_redirect
  have "answer_request mfa_required inner (lit ''/login/'') Get now empty_session d = Served Login_view []"
    using targets_pass(2) exempt_resolve(1)
    by (auto simp: answer_request_def open_views_def method_allowed_def post_only_views_def form_views_def)
  then show ?thesis using Logout_redirect assms(3) gate_targets(2) by simp
qed (use assms(2) in simp)

lemma unenrolled_gate: "mfa_gate True (lit ''/'') (seconds 200) full_session (auth_db\<lparr>mfa_profiles := []\<rparr>) = Redirect_setup"
  by code_simp

theorem gate_redirects_end_witness:
  "\<exists>target. gate_target Redirect_setup = Some target
     \<and> answer_request True no_inner target Get (seconds 200) full_session (auth_db\<lparr>mfa_profiles := []\<rparr>) = Served Mfa_setup_view []"
proof -
  from gate_redirects_end [OF unenrolled_gate _ refl, of no_inner] show ?thesis by simp
qed

end
