(* ===== verification/Pwa.thy ===== *)
theory Pwa
  imports Prelude
begin

text \<open>
  The installable parts of \<open>monitor/pwa.py\<close> and the plain answers of \<open>config/urls.py\<close>: the web
  manifest, the headers of the files every visitor gets, and the service worker, the script that
  browsers run for the site. The worker is a state machine over the browser's caches, taken one event
  at a time: storing a copy belongs to the fetch event that started it.
\<close>

section \<open>Answers\<close>

record reply =
  rp_content_type :: string
  rp_headers :: "(string \<times> string) list"

definition service_worker_reply :: reply where
  "service_worker_reply = \<lparr>rp_content_type = ''application/javascript'',
     rp_headers = [(''Cache-Control'', ''no-cache, no-store, must-revalidate''), (''Service-Worker-Allowed'', ''/'')]\<rparr>"

definition manifest_reply :: reply where
  "manifest_reply = \<lparr>rp_content_type = ''application/manifest+json'',
     rp_headers = [(''Cache-Control'', ''no-cache, no-store, must-revalidate'')]\<rparr>"

definition robots_reply :: reply where
  "robots_reply = \<lparr>rp_content_type = ''text/plain'',
     rp_headers = [(''Cache-Control'', ''no-cache, no-store, must-revalidate'')]\<rparr>"

definition sitemap_reply :: reply where
  "sitemap_reply = \<lparr>rp_content_type = ''application/xml'',
     rp_headers = [(''Cache-Control'', ''no-cache, no-store, must-revalidate'')]\<rparr>"

record icon =
  ic_src :: string
  ic_sizes :: string
  ic_type :: string
  ic_purpose :: string

record web_manifest =
  wm_name :: string
  wm_short_name :: string
  wm_description :: string
  wm_start_url :: string
  wm_scope :: string
  wm_display :: string
  wm_background_color :: string
  wm_theme_color :: string
  wm_orientation :: string
  wm_icons :: "icon list"

definition manifest :: web_manifest where
  "manifest = \<lparr>wm_name = ''HealthGrid Database Observability'', wm_short_name = ''HealthGrid'',
     wm_description = ''Database lock and session observability dashboard.'', wm_start_url = ''/'', wm_scope = ''/'',
     wm_display = ''standalone'', wm_background_color = ''#f4f5f7'', wm_theme_color = ''#2563eb'', wm_orientation = ''any'',
     wm_icons = [
       \<lparr>ic_src = ''/static/monitor/pwa/icon-192.svg'', ic_sizes = ''192x192'', ic_type = ''image/svg+xml'', ic_purpose = ''any maskable''\<rparr>,
       \<lparr>ic_src = ''/static/monitor/pwa/icon-512.svg'', ic_sizes = ''512x512'', ic_type = ''image/svg+xml'', ic_purpose = ''any maskable''\<rparr>]\<rparr>"

section \<open>The service worker\<close>

record web_request =
  wr_method :: string
  wr_origin :: string
  wr_path :: pystr
  wr_query :: pystr

record web_response =
  ws_ok :: bool
  ws_body :: pystr

text \<open>
  The caches of the site by name, in the order they were created, each from requests to responses. A
  response depends on the request alone, so matching is by equality.
\<close>

type_synonym web_caches = "(string \<times> (web_request \<times> web_response) list) list"

definition cache_name :: string where
  "cache_name = ''healthgrid-static-v2''"

text \<open>\<open>activate\<close> deletes every cache but the current one.\<close>

definition activate_worker :: "web_caches \<Rightarrow> web_caches" where
  "activate_worker cs = filter (\<lambda>c. fst c = cache_name) cs"

text \<open>\<open>caches.open\<close> creates a missing cache, \<open>cache.put\<close> replaces an entry.\<close>

fun put_entry :: "web_request \<Rightarrow> web_response \<Rightarrow> (web_request \<times> web_response) list \<Rightarrow> (web_request \<times> web_response) list" where
  "put_entry r x [] = [(r, x)]"
| "put_entry r x ((r', x') # es) = (if r' = r then (r, x) # es else (r', x') # put_entry r x es)"

fun put_cache :: "string \<Rightarrow> web_request \<Rightarrow> web_response \<Rightarrow> web_caches \<Rightarrow> web_caches" where
  "put_cache n r x [] = [(n, [(r, x)])]"
| "put_cache n r x ((m, es) # cs) = (if m = n then (m, put_entry r x es) # cs else (m, es) # put_cache n r x cs)"

text \<open>\<open>caches.match\<close> asks the caches in order.\<close>

fun match_caches :: "web_caches \<Rightarrow> web_request \<Rightarrow> web_response option" where
  "match_caches [] r = None"
| "match_caches ((n, es) # cs) r = (case map_of es r of None \<Rightarrow> match_caches cs r | Some x \<Rightarrow> Some x)"

definition intercepted :: "string \<Rightarrow> web_request \<Rightarrow> bool" where
  "intercepted own r \<longleftrightarrow> \<not> (wr_method r \<noteq> ''GET'' \<or> wr_origin r \<noteq> own \<or> \<not> startswith (wr_path r) (lit ''/static/''))"

text \<open>
  The fetch event: a request that is not intercepted is left to the browser; the others go to the
  network, whose answer is None when it is unavailable.
\<close>

datatype fetched = Left_to_browser | Answered "web_response option"

definition fetch_event :: "string \<Rightarrow> web_response option \<Rightarrow> web_request \<Rightarrow> web_caches \<Rightarrow> fetched \<times> web_caches" where
  "fetch_event own network r cs =
     (if \<not> intercepted own r then (Left_to_browser, cs)
      else case network of
          Some x \<Rightarrow> (Answered (Some x), if ws_ok x then put_cache cache_name r x cs else cs)
        | None \<Rightarrow> (Answered (match_caches cs r), cs))"

datatype worker_event = Activate | Fetch "web_response option" web_request

fun worker_step :: "string \<Rightarrow> worker_event \<Rightarrow> web_caches \<Rightarrow> web_caches" where
  "worker_step own Activate cs = activate_worker cs"
| "worker_step own (Fetch network r) cs = snd (fetch_event own network r cs)"

definition run_worker :: "string \<Rightarrow> worker_event list \<Rightarrow> web_caches \<Rightarrow> web_caches" where
  "run_worker own es cs = fold (worker_step own) es cs"

section \<open>What the caches hold\<close>

text \<open>The last good network answer to a request in a run of events.\<close>

fun last_good :: "string \<Rightarrow> web_request \<Rightarrow> worker_event list \<Rightarrow> web_response option \<Rightarrow> web_response option" where
  "last_good own r [] x = x"
| "last_good own r (Activate # es) x = last_good own r es x"
| "last_good own r (Fetch network r' # es) x = last_good own r es
     (if r' = r \<and> intercepted own r then (case network of Some y \<Rightarrow> if ws_ok y then Some y else x | None \<Rightarrow> x) else x)"

lemma map_of_put_entry: "map_of (put_entry r x es) = (map_of es)(r \<mapsto> x)"
  by (induction es) auto

text \<open>A cache state of one cache at most: what a worker that started empty keeps.\<close>

definition single_cache :: "web_caches \<Rightarrow> bool" where
  "single_cache cs \<longleftrightarrow> cs = [] \<or> (\<exists>es. cs = [(cache_name, es)])"

lemma single_cache_step: "single_cache cs \<Longrightarrow> single_cache (worker_step own e cs)"
  by (cases e) (auto simp: single_cache_def activate_worker_def fetch_event_def split: option.splits)

lemma activate_single: "single_cache cs \<Longrightarrow> activate_worker cs = cs"
  by (auto simp: single_cache_def activate_worker_def)

lemma match_put_single:
  "single_cache cs \<Longrightarrow> match_caches (put_cache cache_name r x cs) = (match_caches cs)(r \<mapsto> x)"
  by (auto simp: single_cache_def map_of_put_entry fun_eq_iff split: option.splits)

lemma match_step:
  assumes "single_cache cs"
  shows "match_caches (worker_step own e cs) r = last_good own r [e] (match_caches cs r)"
  using assms by (cases e) (auto simp: activate_single fetch_event_def match_put_single split: option.splits)

lemma last_good_Cons: "last_good own r (e # es) x = last_good own r es (last_good own r [e] x)"
  by (cases e) simp_all

lemma run_worker_match:
  "single_cache cs \<Longrightarrow> match_caches (run_worker own es cs) r = last_good own r es (match_caches cs r)"
proof (induction es arbitrary: cs)
  case Nil
  then show ?case by (simp add: run_worker_def)
next
  case (Cons e es)
  then show ?case
    using Cons.IH [OF single_cache_step [OF Cons.prems, of own e]] match_step [OF Cons.prems, of own e r]
    by (simp add: run_worker_def last_good_Cons [of own r e es])
qed

lemma last_good_Some:
  "last_good own r es y = Some x \<Longrightarrow> y = Some x \<or> intercepted own r \<and> ws_ok x \<and> Fetch (Some x) r \<in> set es"
  by (induction own r es y rule: last_good.induct) (auto split: if_splits option.splits)

lemma activate_distinct: "distinct (map fst cs) \<Longrightarrow> single_cache (activate_worker cs)"
proof (induction cs)
  case Nil
  then show ?case by (simp add: single_cache_def activate_worker_def)
next
  case (Cons c cs)
  show ?case
  proof (cases "fst c = cache_name")
    case True
    then have "filter (\<lambda>c. fst c = cache_name) cs = []"
      using Cons.prems by (force simp: filter_empty_conv)
    then show ?thesis using True by (cases c) (simp add: single_cache_def activate_worker_def)
  next
    case False
    then show ?thesis using Cons by (simp add: activate_worker_def)
  qed
qed


text \<open>A stylesheet fetched once, then offline; the cache of an older version held another copy.\<close>

definition css :: web_request where
  "css = \<lparr>wr_method = ''GET'', wr_origin = ''https://grid'', wr_path = lit ''/static/monitor/app.css'', wr_query = []\<rparr>"


end
