(* ===== verification/Admin_Site.thy ===== *)
theory Admin_Site
  imports Models
begin

text \<open>
  What \<open>monitor/admin.py\<close> registers with the admin site: which of the framework's four permissions each
  class leaves, the fields it makes read-only, and what a request of the site can do to the tables.
  The account's own model permissions are a parameter.
\<close>

datatype admin_class = RDSInstanceAdmin | AuditLogAdmin | DashboardLinkAdmin

datatype admin_permission = View_permission | Add_permission | Change_permission | Delete_permission

text \<open>The overridden \<open>has_delete_permission\<close> and \<open>has_add_permission\<close>; the others ask the account.\<close>

definition has_permission :: "(admin_class \<Rightarrow> admin_permission \<Rightarrow> bool) \<Rightarrow> admin_class \<Rightarrow> admin_permission \<Rightarrow> bool" where
  "has_permission account c p =
     (if c = RDSInstanceAdmin \<and> p = Delete_permission then False
      else if c = AuditLogAdmin \<and> p = Add_permission then False
      else account c p)"

text \<open>
  Every field of an audit row, named here by its place, is read-only, so a posted change of one keeps the
  stored row.
\<close>

definition audit_readonly :: "audit_log \<Rightarrow> audit_log \<Rightarrow> audit_log" where
  "audit_readonly stored posted = stored"

datatype admin_request =
    Add_instance rds_instance | Change_instance rds_instance | Delete_instances "int set"
  | Add_audit audit_log | Change_audit nat audit_log | Delete_audits "nat set"
  | Add_link dashboard_link | Change_link dashboard_link | Delete_links "int set"

fun request_needs :: "admin_request \<Rightarrow> admin_class \<times> admin_permission" where
  "request_needs (Add_instance i) = (RDSInstanceAdmin, Add_permission)"
| "request_needs (Change_instance i) = (RDSInstanceAdmin, Change_permission)"
| "request_needs (Delete_instances pks) = (RDSInstanceAdmin, Delete_permission)"
| "request_needs (Add_audit a) = (AuditLogAdmin, Add_permission)"
| "request_needs (Change_audit n a) = (AuditLogAdmin, Change_permission)"
| "request_needs (Delete_audits ns) = (AuditLogAdmin, Delete_permission)"
| "request_needs (Add_link l) = (DashboardLinkAdmin, Add_permission)"
| "request_needs (Change_link l) = (DashboardLinkAdmin, Change_permission)"
| "request_needs (Delete_links pks) = (DashboardLinkAdmin, Delete_permission)"

fun perform_request :: "admin_request \<Rightarrow> app_db \<Rightarrow> app_db" where
  "perform_request (Add_instance i) d =
     d\<lparr>instances := instances d @ [i\<lparr>inst_pk := next_pk d\<rparr>], next_pk := next_pk d + 1\<rparr>"
| "perform_request (Change_instance i) d = save_instance i d"
| "perform_request (Delete_instances pks) d = delete_instances pks d"
| "perform_request (Add_audit a) d = d\<lparr>audit_logs := audit_logs d @ [a], next_pk := next_pk d + 1\<rparr>"
| "perform_request (Change_audit n a) d =
     (if n < length (audit_logs d)
      then d\<lparr>audit_logs := (audit_logs d)[n := audit_readonly (audit_logs d ! n) a]\<rparr> else d)"
| "perform_request (Delete_audits ns) d =
     d\<lparr>audit_logs := map snd (filter (\<lambda>r. fst r \<notin> ns) (enumerate 0 (audit_logs d)))\<rparr>"
| "perform_request (Add_link l) d =
     d\<lparr>dashboard_links := dashboard_links d @ [l\<lparr>dl_pk := next_pk d\<rparr>], next_pk := next_pk d + 1\<rparr>"
| "perform_request (Change_link l) d =
     d\<lparr>dashboard_links := update_rows (\<lambda>r. dl_pk r = dl_pk l) (\<lambda>_. l) (dashboard_links d)\<rparr>"
| "perform_request (Delete_links pks) d = d\<lparr>dashboard_links := filter (\<lambda>r. dl_pk r \<notin> pks) (dashboard_links d)\<rparr>"

definition admin_request :: "(admin_class \<Rightarrow> admin_permission \<Rightarrow> bool) \<Rightarrow> admin_request \<Rightarrow> app_db \<Rightarrow> app_db" where
  "admin_request account r d = (if case_prod (has_permission account) (request_needs r) then perform_request r d else d)"

definition admin_run :: "(admin_class \<Rightarrow> admin_permission \<Rightarrow> bool) \<Rightarrow> admin_request list \<Rightarrow> app_db \<Rightarrow> app_db" where
  "admin_run account rs d = fold (admin_request account) rs d"

lemma admin_request_keeps:
  "inst_pk ` set (instances d) \<subseteq> inst_pk ` set (instances (admin_request account r d))"
  "set (audit_logs (admin_request account r d)) \<subseteq> set (audit_logs d)"
  by (cases r; auto simp: admin_request_def has_permission_def save_instance_def audit_readonly_def set_update_rows
      in_set_enumerate_eq)+

text \<open>
  The admin site, whatever permissions its account has, never removes a registration (which needs the
  dashboard's MFA) and never adds or rewrites an audit row. It can delete audit rows.
\<close>

lemma admin_site_keeps:
  "inst_pk ` set (instances d) \<subseteq> inst_pk ` set (instances (admin_run account rs d))
   \<and> set (audit_logs (admin_run account rs d)) \<subseteq> set (audit_logs d)"
proof (induction rs arbitrary: d)
  case Nil
  then show ?case by (simp add: admin_run_def)
next
  case (Cons r rs)
  have "admin_run account (r # rs) d = admin_run account rs (admin_request account r d)" by (simp add: admin_run_def)
  then show ?case
    using subset_trans [OF admin_request_keeps(1) conjunct1 [OF Cons.IH]]
      subset_trans [OF conjunct2 [OF Cons.IH] admin_request_keeps(2)] by metis
qed

end
