(* ===== verification/Loops.thy ===== *)
theory Loops
  imports Background
begin

text \<open>
  The two loops that repeat the checks: \<open>handle\<close> of the management command, which returns after one
  pass with \<open>--once\<close> and otherwise runs until an exception leaves it, and \<open>monitor_loop\<close> of the
  embedded thread, which catches every exception. What each round meets is a function of its number:
  the clock, the targets, the webhooks, and whether the application database answers.
\<close>

record round_world =
  rw_sha :: "pystr \<Rightarrow> pystr"
  rw_sign :: "pystr \<Rightarrow> pystr"
  rw_post :: "pystr \<Rightarrow> payload \<Rightarrow> post_result"
  rw_fetch :: "rds_instance \<Rightarrow> monitor_exc + activity_row list \<times> blocking_row list"
  rw_clock :: "rds_instance \<Rightarrow> datetime"
  rw_now :: datetime
  rw_instances_ok :: bool
  rw_settings_ok :: bool

section \<open>The management command\<close>

datatype command_exit = Returned | Raised

text \<open>
  One pass: the query of the registrations stands outside the handlers, each check inside; the
  settings are read, and created when missing, only without an explicit interval.
\<close>

definition command_pass :: "round_world \<Rightarrow> app_db \<Rightarrow> app_db \<times> posts" where
  "command_pass w d =
     (let (_, d1, ps) = run_checks_in_order (rw_sha w) (rw_post w) (rw_fetch w) (rw_clock w)
        (sort_key inst_name (active_instances d)) d in (d1, ps))"

text \<open>The seconds a round sleeps, at least one.\<close>

definition command_sleep :: "int option \<Rightarrow> app_db \<Rightarrow> int" where
  "command_sleep interval d = max 1 (case interval of None \<Rightarrow> ns_interval_seconds (load_settings d) | Some i \<Rightarrow> i)"

partial_function (option) command_loop ::
  "bool \<Rightarrow> int option \<Rightarrow> (nat \<Rightarrow> round_world) \<Rightarrow> nat \<Rightarrow> int list \<Rightarrow> app_db \<Rightarrow> (command_exit \<times> int list \<times> app_db) option" where
  "command_loop once interval W k sleeps d =
     (if \<not> rw_instances_ok (W k) then Some (Raised, sleeps, d)
      else let d1 = fst (command_pass (W k) d) in
        if once then Some (Returned, sleeps, d1)
        else if interval = None \<and> \<not> rw_settings_ok (W k) then Some (Raised, sleeps, d1)
        else command_loop once interval W (Suc k) (sleeps @ [command_sleep interval d1])
          (if interval = None then save_settings (load_settings d1) d1 else d1))"

text \<open>A round that an exception leaves.\<close>

definition round_raises :: "int option \<Rightarrow> round_world \<Rightarrow> bool" where
  "round_raises interval w \<longleftrightarrow> \<not> rw_instances_ok w \<or> interval = None \<and> \<not> rw_settings_ok w"

section \<open>The embedded loop\<close>

text \<open>
  One round of \<open>monitor_loop\<close>: when the database is unavailable, the exception is logged and the
  round sleeps as for an interval of 30.
\<close>

definition loop_round :: "pystr \<Rightarrow> round_world \<Rightarrow> app_db \<Rightarrow> int \<times> app_db \<times> posts" where
  "loop_round owner w d =
     (if rw_instances_ok w \<and> rw_settings_ok w
      then monitor_turn (rw_sha w) (rw_sign w) (rw_post w) (rw_fetch w) (rw_clock w) owner (rw_now w) d
      else (max 5 30, d, []))"

text \<open>The loop has no end: what it has done after a number of rounds.\<close>

fun loop_rounds :: "pystr \<Rightarrow> (nat \<Rightarrow> round_world) \<Rightarrow> nat \<Rightarrow> app_db \<Rightarrow> int list \<times> app_db \<times> posts" where
  "loop_rounds owner W 0 d = ([], d, [])"
| "loop_rounds owner W (Suc k) d =
     (let (sleeps, d1, ps) = loop_rounds owner W k d; (sl, d2, ps2) = loop_round owner (W k) d1
      in (sleeps @ [sl], d2, ps @ ps2))"

section \<open>When the command ends\<close>

lemma command_once:
  "command_loop True interval W k sleeps d =
     Some (if rw_instances_ok (W k) then (Returned, sleeps, fst (command_pass (W k) d)) else (Raised, sleeps, d))"
  by (subst command_loop.simps) (simp add: Let_def)

lemma command_continues:
  "\<not> round_raises interval (W k) \<Longrightarrow>
   command_loop False interval W k sleeps d = command_loop False interval W (Suc k)
     (sleeps @ [command_sleep interval (fst (command_pass (W k) d))])
     (if interval = None then save_settings (load_settings (fst (command_pass (W k) d))) (fst (command_pass (W k) d))
      else fst (command_pass (W k) d))"
  by (subst command_loop.simps) (auto simp: Let_def round_raises_def)

lemma command_raises:
  "round_raises interval (W k) \<Longrightarrow> \<exists>d'. command_loop False interval W k sleeps d = Some (Raised, sleeps, d')"
  by (subst command_loop.simps) (auto simp: Let_def round_raises_def)

text \<open>It ends at the first round that raises: after so many rounds, each slept for a second at least.\<close>

lemma command_ends:
  assumes "round_raises interval (W (k + n))" and "\<forall>j < n. \<not> round_raises interval (W (k + j))"
  shows "\<exists>sl d'. command_loop False interval W k sleeps d = Some (Raised, sleeps @ sl, d')
     \<and> length sl = n \<and> (\<forall>x \<in> set sl. 1 \<le> x)"
  using assms
proof (induction n arbitrary: k sleeps d)
  case 0
  then show ?case using command_raises [of interval W k sleeps d] by auto
next
  case (Suc n)
  let ?d = "fst (command_pass (W k) d)"
  have go: "\<not> round_raises interval (W k)" using Suc.prems(2) by fastforce
  have "round_raises interval (W (Suc k + n))" "\<forall>j < n. \<not> round_raises interval (W (Suc k + j))"
    using Suc.prems by auto
  from Suc.IH [OF this, of "sleeps @ [command_sleep interval ?d]"] obtain sl d' where
    "command_loop False interval W k sleeps d = Some (Raised, (sleeps @ [command_sleep interval ?d]) @ sl, d')"
    "length sl = n" "\<forall>x \<in> set sl. 1 \<le> x"
    unfolding command_continues [where W = W and k = k and interval = interval and sleeps = sleeps and d = d, OF go] by blast
  then show ?case by (intro exI [of _ "command_sleep interval ?d # sl"]) (auto simp: command_sleep_def)
qed

text \<open>Without such a round it does not return: a result would need one.\<close>

lemma command_needs_round:
  assumes "command_loop once interval W k sleeps d = Some r"
  shows "once \<or> (\<exists>j \<ge> k. round_raises interval (W j))"
proof (rule command_loop.raw_induct
    [where P = "\<lambda>once interval W k sleeps d r. once \<or> (\<exists>j \<ge> k. round_raises interval (W j))", OF _ assms])
  fix loop once interval W k sleeps d and r :: "command_exit \<times> int list \<times> app_db"
  assume ih: "\<And>once interval W k sleeps d r. loop once interval W k sleeps d = Some r \<Longrightarrow>
      once \<or> (\<exists>j \<ge> k. round_raises interval (W j))"
    and body: "(if \<not> rw_instances_ok (W k) then Some (Raised, sleeps, d)
      else let d1 = fst (command_pass (W k) d) in
        if once then Some (Returned, sleeps, d1)
        else if interval = None \<and> \<not> rw_settings_ok (W k) then Some (Raised, sleeps, d1)
        else loop once interval W (Suc k) (sleeps @ [command_sleep interval d1])
          (if interval = None then save_settings (load_settings d1) d1 else d1)) = Some r"
  show "once \<or> (\<exists>j \<ge> k. round_raises interval (W j))"
  proof (cases "once \<or> round_raises interval (W k)")
    case False
    then have "\<exists>s' d'. loop once interval W (Suc k) s' d' = Some r"
      using body by (auto simp: round_raises_def Let_def split: if_splits)
    then have "\<exists>j \<ge> Suc k. round_raises interval (W j)" using ih False by blast
    then show ?thesis using Suc_leD by blast
  qed auto
qed


text \<open>The database stops answering after one round, with nothing registered.\<close>

definition short_world :: "nat \<Rightarrow> round_world" where
  "short_world k = \<lparr>rw_sha = (\<lambda>x. x), rw_sign = (\<lambda>x. x), rw_post = (\<lambda>_ _. Accepted), rw_fetch = (\<lambda>_. Inr ([], [])),
     rw_clock = (\<lambda>_. 0), rw_now = 0, rw_instances_ok = (k = 0), rw_settings_ok = True\<rparr>"


section \<open>The embedded loop does not end\<close>

lemma monitor_turn_sleeps: "5 \<le> fst (monitor_turn sha sign post fetch clock owner now d)"
  by (auto simp: monitor_turn_def Let_def split: prod.splits option.splits bool.splits)

lemma loop_round_sleeps: "5 \<le> fst (loop_round owner w d)"
  by (simp add: loop_round_def monitor_turn_sleeps)

lemma loop_rounds_sleeps:
  "loop_rounds owner W k d = (sleeps, d', ps) \<Longrightarrow> length sleeps = k \<and> (\<forall>x \<in> set sleeps. 5 \<le> x)"
proof (induction k arbitrary: sleeps d' ps)
  case 0
  then show ?case by simp
next
  case (Suc k)
  obtain sl1 d1 ps1 where p: "loop_rounds owner W k d = (sl1, d1, ps1)" by (rule prod_cases3)
  have "sleeps = sl1 @ [fst (loop_round owner (W k) d1)]"
    using Suc.prems by (auto simp: p split: prod.splits)
  then show ?case using Suc.IH [OF p] loop_round_sleeps by auto
qed

end
