(* ===== verification/End_To_End.thy ===== *)
theory End_To_End
  imports Routes_Claims Kill_Claims
begin

text \<open>
  A request to a target action on its whole way: the gate, the URL tables, the decorators, the view
  with its guards, and the target. The theories of the parts meet here.
\<close>

text \<open>The views that act on a target, as the routes of \<open>Kills\<close>.\<close>

definition kill_route_of :: "view_name \<Rightarrow> kill_route option" where
  "kill_route_of v =
     (if v = Kill_session_view then Some Kill else if v = Kill_lock_session_view then Some Kill_lock
      else if v = Kill_chain_view then Some Chain else if v = Kill_lock_chain_view then Some Lock_chain
      else if v = Kill_replication_slot_view then Some Slot_kill
      else if v = Drop_replication_slot_view then Some Slot_drop else None)"

text \<open>What a request does on a target: None when it is answered before such a view, or by another.\<close>

definition web_action ::
  "(view_name \<Rightarrow> pystr list \<Rightarrow> bool) \<Rightarrow> 'v view_env \<Rightarrow> pystr \<Rightarrow> http_method \<Rightarrow> datetime \<Rightarrow> form \<Rightarrow>
   view_state \<Rightarrow> (kill_route \<times> int \<times> response \<times> view_state) option" where
  "web_action inner E path m now p s =
     (case answer_request True inner path m now (vs_session s) (vs_db s) of
        Served v as \<Rightarrow>
          (case kill_route_of v of
             None \<Rightarrow> None
           | Some rt \<Rightarrow> (case map_of as ''pk'' of
               Some (Int_value pk) \<Rightarrow> (let (r, s') = kill_view rt E pk p (m = Post) s in Some (rt, pk, r, s'))
             | _ \<Rightarrow> None))
      | _ \<Rightarrow> None)"

lemma kill_route_of_Some:
  "kill_route_of v = Some rt \<Longrightarrow> v \<notin> set open_views \<and> v \<notin> set sign_in_views \<and> v \<noteq> Admin_urls"
  by (auto simp: kill_route_of_def open_views_def sign_in_views_def split: if_splits)

text \<open>
  C3. From the address bar to the target: with MFA required, a request that makes something happen on a
  target is a POST whose path resolves to an acting view, presented with a session on the way to
  which the account's own code was accepted; the account is active, enrolled and an operator of the
  registration named in the path, and has what the route asks for besides.
\<close>

theorem target_action_end_to_end:
  assumes "issued M (vs_session s) pr" and "web_action inner E path m now p s = Some (rt, pk, r, s')"
    and "vs_effects s' \<noteq> vs_effects s"
  shows "m = Post \<and> (\<exists>v as u i. resolve inner path = Some (v, as) \<and> kill_route_of v = Some rt
    \<and> map_of as ''pk'' = Some (Int_value pk)
    \<and> request_user (vs_db s) (vs_session s) = Some u \<and> user_is_active u \<and> user_pk u \<in> pr
    \<and> profile_enabled (vs_db s) (user_pk u) \<and> find_instance (vs_db s) pk = Some i
    \<and> can_operate_instance (vs_db s) (Some u) i \<and> route_right rt E (vs_db s) u p)"
proof -
  obtain v as where v: "answer_request True inner path m now (vs_session s) (vs_db s) = Served v as"
      "kill_route_of v = Some rt" "map_of as ''pk'' = Some (Int_value pk)" "kill_view rt E pk p (m = Post) s = (r, s')"
    using assms(2) by (auto simp: web_action_def split: served.splits option.splits argument.splits prod.splits)
  have "handle_kill (rt, E, pk, p, m = Post) s = (r, s')" using v(4) by (simp add: handle_kill_def)
  then have "may_act s (rt, E, pk, p, m = Post)" using unauthorised_kill assms(3) by blast
  then obtain u i where ui: "m = Post" "request_user (vs_db s) (vs_session s) = Some u" "find_instance (vs_db s) pk = Some i"
      "can_operate_instance (vs_db s) (Some u) i" "route_right rt E (vs_db s) u p"
    by (auto simp: may_act_def)
  have "profile_enabled (vs_db s) (user_pk u) \<and> user_is_active u \<and> user_pk u \<in> pr"
    using served_verified [OF assms(1) v(1)] kill_route_of_Some [OF v(2)] ui(2) by auto
  then show ?thesis using ui v(2,3) answered_Served(2) [OF v(1)] by blast
qed

text \<open>The lock kill of backend 12 of registration 7, as an operator sends it.\<close>

lemma kill_path_answered:
  "answer_request True no_inner (lit ''/instances/7/locks/kill/'') Post (seconds 200) full_session (vs_db kill_state) =
     Served Kill_lock_session_view [(''pk'', Int_value 7)]"
  by code_simp

theorem target_action_end_to_end_witness:
  "\<exists>r s' pr. web_action no_inner kill_env (lit ''/instances/7/locks/kill/'') Post (seconds 200) kill_form kill_state =
      Some (Kill_lock, 7, r, s') \<and> vs_effects s' = [Signalled 12] \<and> issued demo_mfa_env full_session pr \<and> 3 \<in> pr"
proof -
  obtain pr where i: "issued demo_mfa_env full_session pr" using full_session_issued by blast
  have ses: "vs_session kill_state = full_session" by (simp add: kill_state_def)
  obtain r s' where k: "handle_kill (Kill_lock, kill_env, 7, kill_form, True) kill_state = (r, s')"
      and e: "vs_effects s' \<noteq> vs_effects kill_state" and eff: "vs_effects s' = [Signalled 12]"
    using kill_request by auto
  have w: "web_action no_inner kill_env (lit ''/instances/7/locks/kill/'') Post (seconds 200) kill_form kill_state =
      Some (Kill_lock, 7, r, s')"
    using k by (simp add: web_action_def ses kill_path_answered kill_route_of_def handle_kill_def)
  from target_action_end_to_end [OF i [folded ses] w e] have "user_pk demo_user \<in> pr"
    using kill_state_user by auto
  then show ?thesis using w eff i by (auto simp: demo_user_def)
qed

end
