(* ===== verification/Spec2Isabelle.thy ===== *)
theory Spec2Isabelle
  imports Permissions Monitor_Claims Background_Claims Notification_Claims Auth_Claims Runner_Claims Registry_Claims Settings_Claims Pages_Claims Config_Claims Migrations Engines
    Schema_Claims Routes_Claims Pwa Admin_Site Loops End_To_End
begin

text \<open>
  HealthGrid: a verification development of its Python code.

  The program. HealthGrid is a Django application that watches registered databases. A background
  thread (\<open>monitor/background.py\<close>) takes a lease in the application database and, while it holds it,
  checks every active registration (\<open>monitor/management/commands/monitor_locks.py\<close>): it reads the
  sessions and locks of the target through \<open>monitor/db.py\<close>, keeps an incident table up to date and
  sends cards through \<open>monitor/notifications.py\<close>. The web views (\<open>monitor/views.py\<close>,
  \<open>monitor/auth_views.py\<close>, the REST view sets with \<open>monitor/serializers.py\<close>) register targets, show
  them, terminate sessions, drop replication slots and run single INSERT or UPDATE statements;
  \<open>monitor/permissions.py\<close> decides who may do what, and \<open>monitor/mfa.py\<close> with
  \<open>monitor/middleware.py\<close> insists on a second factor. \<open>config/settings.py\<close> reads the environment.

  The state. One record \<open>app_db\<close> (\<open>Models\<close>) holds the tables of \<open>monitor/models.py\<close> as lists of records,
  in primary-key order, with one shared sequence \<open>next_pk\<close>. A view takes a \<open>view_state\<close> (\<open>Requests\<close>),
  the database, the session, the messages, the statements that reached targets and the cache keys
  that were dropped, and gives a response and the next state. Python strings are lists of code
  points (\<open>pystr\<close>), Python integers are \<open>int\<close>, IPv4 and IPv6 addresses are words, times are \<open>int\<close>
  microseconds; \<open>None\<close> is an option. Exceptions are values: \<open>monitor_exc\<close>, \<open>target_exc\<close>,
  \<open>config_exc\<close>, or the response \<open>Server_error\<close> for one that leaves a view.

  The theories, in the order of their imports.
  \<^item> \<open>Prelude\<close>: strings, \<open>int()\<close> and \<open>str()\<close>, splitting and joining, \<open>update_rows\<close> and \<open>first_row\<close> for
    queries. \<open>Models\<close>: the data model and the stored secrets. \<open>Permissions\<close>: every predicate of
    \<open>permissions.py\<close> and how they relate. \<open>Fixtures\<close>: the example data the witnesses share.
  \<^item> \<open>Alert_Tables\<close> (locale \<open>alert_table\<close>, interpreted for locks and long queries), \<open>Delivery\<close> (window,
    webhooks), \<open>Monitor\<close> (one check), \<open>Monitor_Props\<close> and \<open>Monitor_Claims\<close>: the tables stay well
    formed, the open incidents are the observed PID pairs, history is kept, cards are truthful and
    are not repeated, storms.
  \<^item> \<open>Calendar\<close>, \<open>Cards\<close>, \<open>Csv_Report\<close>, \<open>Reports\<close>, \<open>Webhook\<close>, \<open>Notification_Claims\<close>: dates and ISO weeks,
    the texts and cards, the weekly CSV with a reader, the reports, and \<open>_post_webhook\<close> with its
    address checks; a card says what its summary says, a report file can be read back and is
    complete, a request leaves only for allowed public hosts.
  \<^item> \<open>Background\<close>, \<open>Background_Claims\<close>: lease, cycle, weekly schedule, cleanup and one turn of the loop;
    the lease excludes and is taken over, failures stay with their registration, one report a
    week, cleanup removes nothing recent.
  \<^item> \<open>Mfa\<close>, \<open>Auth\<close>, \<open>Auth_Claims\<close>: enrollment, codes, session flags, sign-in, the throttle and the gate
    over the sessions that can exist (\<open>issued\<close>, an inductive relation with replay).
  \<^item> \<open>Targets\<close>, \<open>Catalog\<close>, \<open>Terminate\<close>, \<open>Target_Claims\<close>: connections, the statement filter and the
    transaction of the query runner, the PostgreSQL catalog statements over snapshots, kills and
    slot actions. \<open>Engines\<close>: the catalog statements of SQL Server, MySQL and MariaDB, which fill the
    same rows.
  \<^item> \<open>Requests\<close> (guards, audit, MFA check; locale \<open>guarded_view\<close>), \<open>Request_Invariants\<close> (locale
    \<open>kept_by_views\<close>), \<open>Kills\<close>, \<open>Kill_Claims\<close>, \<open>Query_Runner\<close>, \<open>Runner_Claims\<close>, \<open>Users_Admin\<close>,
    \<open>Admin_Claims\<close>, \<open>Registry\<close>, \<open>Registry_Api\<close>, \<open>Registry_Claims\<close>, \<open>Settings_View\<close>,
    \<open>Settings_Claims\<close>, \<open>Pages\<close>, \<open>Pages_Claims\<close>: the views with their properties over arbitrary
    sequences of requests of arbitrary sessions (\<open>serve\<close>): nothing happens on a target without the
    right and the code, actions are audited, statements run at most once, restricted accounts stay
    restricted, the registry implements an abstract one (\<open>registry_change\<close>), settings stay valid,
    pages show only what the account may see and nothing stale.
  \<^item> \<open>Config\<close>, \<open>Config_Claims\<close>: the settings module as a function of the environment, response headers
    and start-up, composed with the webhook sender and the gate. \<open>Migrations\<close>: the data migrations;
    0012 establishes the invariant the monitor keeps.
  \<^item> \<open>Schema\<close> (the language of migrations and model declarations, and how a schema is taken apart along
    its models), \<open>Schema_History\<close> (all forty-two migrations and the declared models), \<open>Schema_Values\<close>
    (the cells a column admits), \<open>Schema_Claims\<close>: the migrations build exactly the declared schema, in
    one order only, and no upgrade invalidates a stored value. The history is evaluated model by model.
  \<^item> \<open>Routes\<close>, \<open>Routes_Claims\<close>: both URL tables and the way of a request through gate, table and
    decorators; names and paths correspond, every view but the public ones lies behind the gate, and
    the gate's redirects end. \<open>End_To_End\<close>: a target action on its whole way, from the path to the
    target. \<open>Admin_Site\<close>: what \<open>admin.py\<close> permits. \<open>Pwa\<close>: the manifest, the public files
    and the service worker. \<open>Loops\<close>: the loops around the checks, of which the command ends when asked
    and the thread does not.

  Parameters. Code that is not in the repository is an argument of the definitions that use it:
  password hashing, TOTP and token generation (\<open>mfa_env\<close>), the cipher (\<open>fernet\<close>), SHA-256, name
  resolution and HTTP (\<open>net_env\<close>), the database drivers and what the targets answer (\<open>server\<close>,
  \<open>control_server\<close>), Django's user manager, password and URL validators, column widths and signer.
  What the proofs need of them is stated as a hypothesis and shown to be satisfiable.

  Bounds. There is no fuel. Every recursion is structural except \<open>command_loop\<close>, which may run forever
  and is a partial function whose value None is not returning; the loop of the thread is given by
  what it has done after any number of rounds.
  Times and counters are unbounded, as in Python; a row that the database refuses (column widths,
  ranges) is a parameter of the view.

  Not modelled. The templates and the two entry points, which hand over to the framework. What the
  framework does with URL patterns, migration operations and admin permissions is written out as its
  documentation states it. The vitals columns of the
  activity page and the table sizes, QR images, logging and the argument parsing of the management
  command are left to the drivers and the framework. Requests are served
  one after another except where overlap is the point (\<open>Runner_Claims\<close>, the lease of \<open>Background\<close>).
  The order of text in a database is taken to be that of code points.
\<close>

end
